(* ===== verification/Bridge_Prelude.thy ===== *)
theory Bridge_Prelude
  imports Main "HOL-Library.Word"
begin

unbundle bit_operations_syntax

text \<open>
  Shared vocabulary of the development: the result type that models Go's
  \<open>(value, error)\<close> returns, bytes and Go strings, the big-endian codecs of
  \<open>encoding/binary\<close>, and the generic lemmas about them that the component
  theories rely on.  The collections \<open>result_simps\<close> and \<open>codec_simps\<close> gather
  the rewrite rules for the two layers.
\<close>

named_theorems result_simps "unfolding and inversion of results"
named_theorems codec_simps "lengths and round trips of the byte codecs"

type_synonym byte = "8 word"
type_synonym u16 = "16 word"
type_synonym u32 = "32 word"
type_synonym u64 = "64 word"

section \<open>Bounds of the machine words\<close>

lemma unat_byte_less [simp]: "unat (b :: byte) < 256"
  using unsigned_less [where 'a = nat, of b] by simp

lemma unat_word_less:
  "unat (v :: u16) < 65536" "unat (w :: u32) < 4294967296"
  "unat (x :: u64) < 18446744073709551616"
  using unsigned_less [where 'a = nat, of v] unsigned_less [where 'a = nat, of w]
    unsigned_less [where 'a = nat, of x]
  by simp_all

section \<open>Results\<close>

text \<open>
  \<open>'e + 'a\<close> is Go's \<open>(a, error)\<close>: \<open>Inl e\<close> is a return with a non-nil error and
  \<open>Inr x\<close> a return with a nil one.  \<open>rbind\<close> is the
  \<open>if err != nil { return ..., err }\<close> idiom, \<open>wrap_error\<close> its
  variant that wraps the error on the way out.
\<close>

definition rbind :: "'e + 'a \<Rightarrow> ('a \<Rightarrow> 'e + 'b) \<Rightarrow> 'e + 'b" where
  "rbind m f = (case m of Inl e \<Rightarrow> Inl e | Inr x \<Rightarrow> f x)"

definition wrap_error :: "('e \<Rightarrow> 'f) \<Rightarrow> 'e + 'a \<Rightarrow> 'f + 'a" where
  "wrap_error w m = (case m of Inl e \<Rightarrow> Inl (w e) | Inr x \<Rightarrow> Inr x)"

definition is_ok :: "'e + 'a \<Rightarrow> bool" where
  "is_ok m = (case m of Inl _ \<Rightarrow> False | Inr _ \<Rightarrow> True)"

lemma rbind_ok [simp]: "rbind (Inr x) f = f x"
  by (simp add: rbind_def)

lemma rbind_err [simp]: "rbind (Inl e) f = Inl e"
  by (simp add: rbind_def)

lemma rbind_eq_Inr [result_simps]:
  "rbind m f = Inr y \<longleftrightarrow> (\<exists>x. m = Inr x \<and> f x = Inr y)"
  by (cases m) auto

lemma rbind_eq_Inl [result_simps]:
  "rbind m f = Inl e \<longleftrightarrow> m = Inl e \<or> (\<exists>x. m = Inr x \<and> f x = Inl e)"
  by (cases m) auto

lemma rbind_cong [fundef_cong]:
  "m = m' \<Longrightarrow> (\<And>x. m' = Inr x \<Longrightarrow> f x = f' x) \<Longrightarrow> rbind m f = rbind m' f'"
  by (cases m') auto

lemma wrap_error_simps [simp]:
  "wrap_error w (Inl e) = Inl (w e)"
  "wrap_error w (Inr x) = Inr x"
  by (simp_all add: wrap_error_def)

lemma wrap_error_eq_Inr [simp]: "wrap_error w m = Inr x \<longleftrightarrow> m = Inr x"
  by (cases m) auto

lemma is_ok_simps [simp]: "is_ok (Inr x)" "\<not> is_ok (Inl e)"
  by (simp_all add: is_ok_def)

lemma is_ok_iff: "is_ok m \<longleftrightarrow> (\<exists>x. m = Inr x)"
  by (cases m) auto

lemma is_ok_wrap_error [simp]: "is_ok (wrap_error w m) = is_ok m"
  by (cases m) auto

text \<open>
  A computation that may also run out of fuel has type \<open>('e + 'a) option\<close>; \<open>None\<close> means
  that the fuel was too small.
\<close>

definition fbind :: "('e + 'a) option \<Rightarrow> ('a \<Rightarrow> ('e + 'b) option) \<Rightarrow> ('e + 'b) option" where
  "fbind m f = (case m of None \<Rightarrow> None | Some r \<Rightarrow> (case r of Inl e \<Rightarrow> Some (Inl e) | Inr x \<Rightarrow> f x))"

definition fwrap :: "('e \<Rightarrow> 'f) \<Rightarrow> ('e + 'a) option \<Rightarrow> ('f + 'a) option" where
  "fwrap w m = map_option (wrap_error w) m"

lemma fbind_simps [simp]:
  "fbind None f = None"
  "fbind (Some (Inl e)) f = Some (Inl e)"
  "fbind (Some (Inr x)) f = f x"
  by (simp_all add: fbind_def)

lemma fbind_eq_Inr [result_simps]:
  "fbind m f = Some (Inr y) \<longleftrightarrow> (\<exists>x. m = Some (Inr x) \<and> f x = Some (Inr y))"
  by (auto simp: fbind_def split: option.splits sum.splits)

lemma fbind_eq_None [result_simps]:
  "fbind m f = None \<longleftrightarrow> m = None \<or> (\<exists>x. m = Some (Inr x) \<and> f x = None)"
  by (auto simp: fbind_def split: option.splits sum.splits)

lemma fbind_cong [fundef_cong]:
  "m = m' \<Longrightarrow> (\<And>x. m' = Some (Inr x) \<Longrightarrow> f x = f' x) \<Longrightarrow> fbind m f = fbind m' f'"
  by (auto simp: fbind_def split: option.splits sum.splits)

lemma fwrap_simps [simp]:
  "fwrap w None = None"
  "fwrap w (Some r) = Some (wrap_error w r)"
  by (simp_all add: fwrap_def)

lemma fwrap_eq [simp]:
  "fwrap w m = Some (Inr x) \<longleftrightarrow> m = Some (Inr x)"
  "fwrap w m = None \<longleftrightarrow> m = None"
  by (cases m; simp)+

section \<open>Go strings and byte slices\<close>

text \<open>A Go string is a sequence of bytes, as is HOL's \<^typ>\<open>string\<close>; \<open>[]byte(s)\<close> and
  \<open>string(b)\<close> are the two conversions.\<close>

definition byte_of_char :: "char \<Rightarrow> byte" where
  "byte_of_char c = word_of_nat (of_char c)"

definition char_of_byte :: "byte \<Rightarrow> char" where
  "char_of_byte b = char_of (unat b)"

definition bytes_of_string :: "string \<Rightarrow> byte list" where
  "bytes_of_string s = map byte_of_char s"

definition string_of_bytes :: "byte list \<Rightarrow> string" where
  "string_of_bytes bs = map char_of_byte bs"

lemma char_of_byte_of_char [simp]: "char_of_byte (byte_of_char c) = c"
proof -
  have "of_char c < (256 :: nat)" by simp
  then have "unat (word_of_nat (of_char c) :: byte) = of_char c"
    by (simp add: unat_of_nat take_bit_eq_mod)
  then show ?thesis by (simp add: char_of_byte_def byte_of_char_def)
qed

lemma byte_of_char_of_byte [simp]: "byte_of_char (char_of_byte b) = b"
proof -
  have "unat b < 256" by simp
  then show ?thesis by (simp add: byte_of_char_def char_of_byte_def of_char_of)
qed

lemma string_of_bytes_of_string [simp, codec_simps]: "string_of_bytes (bytes_of_string s) = s"
  by (simp add: string_of_bytes_def bytes_of_string_def o_def)

lemma bytes_of_string_of_bytes [simp, codec_simps]: "bytes_of_string (string_of_bytes bs) = bs"
  by (simp add: string_of_bytes_def bytes_of_string_def o_def)

lemma length_bytes_of_string [simp, codec_simps]: "length (bytes_of_string s) = length s"
  by (simp add: bytes_of_string_def)

lemma length_string_of_bytes [simp, codec_simps]: "length (string_of_bytes bs) = length bs"
  by (simp add: string_of_bytes_def)

section \<open>Big-endian integers\<close>

text \<open>
  \<open>be_bytes n x\<close> is what \<open>binary.BigEndian.PutUintN\<close> stores for \<open>n\<close> bytes
  (the value modulo \<open>256 ^ n\<close>); \<open>be_value\<close> is the number
  \<open>binary.BigEndian.UintN\<close> and \<open>big.Int.SetBytes\<close> read.
\<close>

fun be_bytes :: "nat \<Rightarrow> nat \<Rightarrow> byte list" where
  "be_bytes 0 x = []"
| "be_bytes (Suc n) x = be_bytes n (x div 256) @ [word_of_nat x]"

definition be_value :: "byte list \<Rightarrow> nat" where
  "be_value bs = foldl (\<lambda>acc b. acc * 256 + unat b) 0 bs"

lemma length_be_bytes [simp, codec_simps]: "length (be_bytes n x) = n"
  by (induction n arbitrary: x) auto

lemma be_value_Nil [simp]: "be_value [] = 0"
  by (simp add: be_value_def)

lemma be_value_snoc [simp]: "be_value (bs @ [b]) = be_value bs * 256 + unat b"
  by (simp add: be_value_def)

lemma be_value_less: "be_value bs < 256 ^ length bs"
proof (induction bs rule: rev_induct)
  case Nil
  show ?case by simp
next
  case (snoc b bs)
  have "be_value bs * 256 + unat b < (be_value bs + 1) * 256" by simp
  also have "\<dots> \<le> 256 ^ length bs * 256"
    using snoc.IH by (intro mult_le_mono1) simp
  finally show ?case by (simp add: ac_simps)
qed

lemma be_value_be_bytes [codec_simps]: "be_value (be_bytes n x) = x mod 256 ^ n"
proof (induction n arbitrary: x)
  case 0
  show ?case by simp
next
  case (Suc n)
  have "unat (word_of_nat x :: byte) = x mod 256"
    by (simp add: unat_of_nat take_bit_eq_mod)
  then show ?case
    by (simp add: Suc.IH mod_mult2_eq)
qed

lemma be_bytes_be_value [codec_simps]: "be_bytes (length bs) (be_value bs) = bs"
proof (induction bs rule: rev_induct)
  case Nil
  show ?case by simp
next
  case (snoc b bs)
  have "(be_value bs * 256 + unat b) div 256 = be_value bs"
    by (simp add: div_add1_eq)
  moreover have "(word_of_nat (be_value bs * 256 + unat b) :: byte) = b"
  proof -
    have wrap: "(256 :: byte) = 0" by simp
    show ?thesis by (simp add: wrap)
  qed
  ultimately show ?case using snoc.IH by simp
qed

definition put_u16 :: "u16 \<Rightarrow> byte list" where
  "put_u16 w = be_bytes 2 (unat w)"

definition put_u32 :: "u32 \<Rightarrow> byte list" where
  "put_u32 w = be_bytes 4 (unat w)"

definition put_u64 :: "u64 \<Rightarrow> byte list" where
  "put_u64 w = be_bytes 8 (unat w)"

definition get_u16 :: "byte list \<Rightarrow> u16" where
  "get_u16 bs = word_of_nat (be_value bs)"

definition get_u32 :: "byte list \<Rightarrow> u32" where
  "get_u32 bs = word_of_nat (be_value bs)"

definition get_u64 :: "byte list \<Rightarrow> u64" where
  "get_u64 bs = word_of_nat (be_value bs)"

lemma length_put [simp, codec_simps]:
  "length (put_u16 v) = 2" "length (put_u32 w) = 4" "length (put_u64 x) = 8"
  by (simp_all add: put_u16_def put_u32_def put_u64_def)

lemma put_explicit:
  "put_u16 v = [word_of_nat (unat v div 256), word_of_nat (unat v)]"
  "put_u32 w = [word_of_nat (unat w div 16777216), word_of_nat (unat w div 65536),
     word_of_nat (unat w div 256), word_of_nat (unat w)]"
proof -
  have n: "(2 :: nat) = Suc (Suc 0)" "(4 :: nat) = Suc (Suc (Suc (Suc 0)))" by simp_all
  show "put_u16 v = [word_of_nat (unat v div 256), word_of_nat (unat v)]"
    unfolding put_u16_def n be_bytes.simps by simp
  show "put_u32 w = [word_of_nat (unat w div 16777216), word_of_nat (unat w div 65536),
     word_of_nat (unat w div 256), word_of_nat (unat w)]"
    unfolding put_u32_def n be_bytes.simps by (simp flip: div_mult2_eq)
qed

lemma get_put_u16 [simp, codec_simps]: "get_u16 (put_u16 w) = w"
  using unat_word_less
  by (simp add: get_u16_def put_u16_def be_value_be_bytes del: be_bytes.simps)

lemma get_put_u32 [simp, codec_simps]: "get_u32 (put_u32 w) = w"
  using unat_word_less
  by (simp add: get_u32_def put_u32_def be_value_be_bytes del: be_bytes.simps)

lemma get_put_u64 [simp, codec_simps]: "get_u64 (put_u64 w) = w"
  using unat_word_less
  by (simp add: get_u64_def put_u64_def be_value_be_bytes del: be_bytes.simps)

lemma unat_get_u16: "length bs = 2 \<Longrightarrow> unat (get_u16 bs) = be_value bs"
  using be_value_less [of bs] by (simp add: get_u16_def unat_of_nat take_bit_eq_mod)

lemma unat_get_u32: "length bs = 4 \<Longrightarrow> unat (get_u32 bs) = be_value bs"
  using be_value_less [of bs] by (simp add: get_u32_def unat_of_nat take_bit_eq_mod)

lemma put_get_u16 [codec_simps]: "length bs = 2 \<Longrightarrow> put_u16 (get_u16 bs) = bs"
  using be_bytes_be_value [of bs] by (simp add: put_u16_def unat_get_u16 del: be_bytes.simps)

lemma put_get_u32 [codec_simps]: "length bs = 4 \<Longrightarrow> put_u32 (get_u32 bs) = bs"
  using be_bytes_be_value [of bs] by (simp add: put_u32_def unat_get_u32 del: be_bytes.simps)

text \<open>Go's narrowing conversions \<open>byte(n)\<close>, \<open>uint16(n)\<close> and \<open>uint32(n)\<close> of a length.\<close>

definition u8_of_len :: "nat \<Rightarrow> byte" where "u8_of_len n = word_of_nat n"
definition u16_of_len :: "nat \<Rightarrow> u16" where "u16_of_len n = word_of_nat n"
definition u32_of_len :: "nat \<Rightarrow> u32" where "u32_of_len n = word_of_nat n"

lemma unat_of_len:
  "n < 256 \<Longrightarrow> unat (u8_of_len n) = n"
  "n < 65536 \<Longrightarrow> unat (u16_of_len n) = n"
  "n < 4294967296 \<Longrightarrow> unat (u32_of_len n) = n"
  by (simp_all add: u8_of_len_def u16_of_len_def u32_of_len_def unat_of_nat take_bit_eq_mod)

section \<open>Decimal rendering\<close>

text \<open>What \<open>%d\<close> prints for an integer.\<close>

definition digit_char :: "nat \<Rightarrow> char" where
  "digit_char d = char_of (48 + d)"

fun show_nat :: "nat \<Rightarrow> string" where
  "show_nat n = (if n < 10 then [digit_char n] else show_nat (n div 10) @ [digit_char (n mod 10)])"

declare show_nat.simps [simp del]

definition show_int :: "int \<Rightarrow> string" where
  "show_int i = (if i < 0 then CHR ''-'' # show_nat (nat (- i)) else show_nat (nat i))"

lemma show_nat_nonempty [simp]: "show_nat n \<noteq> []"
  by (subst show_nat.simps) simp

lemma show_nat_less_10 [simp]: "n < 10 \<Longrightarrow> show_nat n = [digit_char n]"
  by (subst show_nat.simps) simp

lemma of_char_digit_char [simp]: "d < 10 \<Longrightarrow> of_char (digit_char d) = 48 + d"
  by (simp add: digit_char_def)

end
