(* ===== verification/Bridge_Errors.thy ===== *)
theory Bridge_Errors
  imports Bridge_Prelude
begin

text \<open>
  The skip classification of \<open>errors/errors.go\<close>: the closed enumeration of refusal
  reasons, their stable tokens, and the \<open>SKIPPED.txt\<close> rendering of a report.
\<close>

datatype SkipReason =
    SkipUnknown | SkipAnyTerm | SkipBitstring | SkipCharlist | SkipComplexUnion | SkipEDoc
  | SkipFunArgNotInTable | SkipIodata | SkipNonOkErrorUnion | SkipNoSpec | SkipNoTypeinfo
  | SkipRecursiveType | SkipRemoteType | SkipTypedMap | SkipUntypedFun | SkipUntypedMap
  | SkipUntypedTuple | SkipElixirRuntime

fun SkipReason_String :: "SkipReason \<Rightarrow> string" where
  "SkipReason_String SkipAnyTerm = ''SkipAnyTerm''"
| "SkipReason_String SkipBitstring = ''SkipBitstring''"
| "SkipReason_String SkipCharlist = ''SkipCharlist''"
| "SkipReason_String SkipComplexUnion = ''SkipComplexUnion''"
| "SkipReason_String SkipEDoc = ''SkipEDoc''"
| "SkipReason_String SkipFunArgNotInTable = ''SkipFunArgNotInTable''"
| "SkipReason_String SkipIodata = ''SkipIodata''"
| "SkipReason_String SkipNonOkErrorUnion = ''SkipNonOkErrorUnion''"
| "SkipReason_String SkipNoSpec = ''SkipNoSpec''"
| "SkipReason_String SkipNoTypeinfo = ''SkipNoTypeinfo''"
| "SkipReason_String SkipRecursiveType = ''SkipRecursiveType''"
| "SkipReason_String SkipRemoteType = ''SkipRemoteType''"
| "SkipReason_String SkipTypedMap = ''SkipTypedMap''"
| "SkipReason_String SkipUntypedFun = ''SkipUntypedFun''"
| "SkipReason_String SkipUntypedMap = ''SkipUntypedMap''"
| "SkipReason_String SkipUntypedTuple = ''SkipUntypedTuple''"
| "SkipReason_String SkipElixirRuntime = ''SkipElixirRuntime''"
| "SkipReason_String SkipUnknown = ''SkipUnknown''"

record SkipReport =
  sr_Module :: string
  sr_Function :: string
  sr_Arity :: int
  sr_Position :: string
  sr_Reason :: SkipReason
  sr_Detail :: string

definition newline :: string where
  "newline = [CHR 0x0A]"

text \<open>The location part of a report, \<open>loc\<close> in the source.\<close>

definition SkipReport_loc :: "SkipReport \<Rightarrow> string" where
  "SkipReport_loc s =
     (if sr_Function s \<noteq> [] \<and> 0 \<le> sr_Arity s
      then sr_Module s @ '':'' @ sr_Function s @ ''/'' @ show_int (sr_Arity s) @ ''@'' @ sr_Position s
      else if sr_Function s \<noteq> [] then sr_Module s @ '':'' @ sr_Function s @ ''@'' @ sr_Position s
      else sr_Module s)"

definition SkipReport_String :: "SkipReport \<Rightarrow> string" where
  "SkipReport_String s =
     ''SKIPPED: '' @ SkipReport_loc s @ newline @
     ''  Reason: '' @ SkipReason_String (sr_Reason s) @ newline @
     ''  Detail: '' @ sr_Detail s @ newline"

lemma SkipReason_String_inj: "SkipReason_String r = SkipReason_String r' \<Longrightarrow> r = r'"
  by (cases r; cases r'; simp)

end
