(* ===== verification/Etf_Term.thy ===== *)
theory Etf_Term
  imports Bridge_Errors
begin

text \<open>
  The values and errors the bridge passes around.  \<open>eterm\<close> is the Go \<open>interface{}\<close> as
  the packages of the bridge inspect it: one constructor per dynamic type that
  some type switch of the source names, and \<open>TOther\<close> for every other type (its
  argument is what \<open>%T\<close> prints).  Machine integers keep their width; a
  \<open>float64\<close> is its bit pattern (\<open>math.Float64bits\<close>).

  \<open>go_error\<close> is the \<open>error\<close> interface: one constructor per error type of the
  bridge and \<open>Errorf\<close> for the values of \<open>fmt.Errorf\<close>, which
  keeps the format string and its arguments (a wrapped error is \<open>FErr\<close>).
\<close>

record Pid =
  pid_Node :: string
  pid_ID :: u32
  pid_Serial :: u32
  pid_Creation :: u32

record ErlPort =
  port_Node :: string
  port_ID :: u32
  port_Creation :: u32

record Reference =
  ref_Node :: string
  ref_Creation :: u32
  ref_IDs :: "u32 list"

datatype eterm =
    TBool bool
  | TInt u64              \<comment> \<open>Go \<open>int\<close>, two's complement\<close>
  | TInt64 u64            \<comment> \<open>Go \<open>int64\<close>, two's complement\<close>
  | TUint u64
  | TUint32 u32
  | TBig int              \<comment> \<open>\<open>*big.Int\<close>\<close>
  | TFloat u64            \<comment> \<open>bit pattern of a \<open>float64\<close>\<close>
  | TAtom string
  | TStr string
  | TBytes "byte list"
  | TTuple "eterm list"
  | TList "eterm list"
  | TPid Pid
  | TPort ErlPort
  | TRef Reference
  | TNil
  | TOther string

text \<open>What \<open>%T\<close> prints.\<close>

fun type_name :: "eterm \<Rightarrow> string" where
  "type_name (TBool _) = ''bool''"
| "type_name (TInt _) = ''int''"
| "type_name (TInt64 _) = ''int64''"
| "type_name (TUint _) = ''uint''"
| "type_name (TUint32 _) = ''uint32''"
| "type_name (TBig _) = ''*big.Int''"
| "type_name (TFloat _) = ''float64''"
| "type_name (TAtom _) = ''etf.Atom''"
| "type_name (TStr _) = ''string''"
| "type_name (TBytes _) = ''[]uint8''"
| "type_name (TTuple _) = ''etf.Tuple''"
| "type_name (TList _) = ''etf.List''"
| "type_name (TPid _) = ''etf.Pid''"
| "type_name (TPort _) = ''etf.ErlPort''"
| "type_name (TRef _) = ''etf.Reference''"
| "type_name TNil = ''<nil>''"
| "type_name (TOther t) = t"

datatype fmt_arg =
    FStr string
  | FInt int
  | FType string
  | FTerm eterm
  | FErr go_error
and go_error =
    Errorf string "fmt_arg list"
  | IoUnexpectedEOF
  | IoEOF
  | ErrUnsupportedTag byte int
  | SkipErr SkipReason string "fmt_arg list"
  | BridgeErr string string go_error
  | PublishErr string "fmt_arg list"
  | ExternalErr string    \<comment> \<open>an error value made outside the bridge\<close>

text \<open>\<open>errors.Unwrap\<close>: the error a value wraps with \<open>%w\<close>, or its \<open>Unwrap\<close> method.\<close>

definition errors_Wrap :: "string \<Rightarrow> string \<Rightarrow> go_error option \<Rightarrow> go_error option" where
  "errors_Wrap phase pkg cause =
     (case cause of None \<Rightarrow> None | Some c \<Rightarrow> Some (BridgeErr phase pkg c))"

fun BridgeError_Unwrap :: "go_error \<Rightarrow> go_error option" where
  "BridgeError_Unwrap (BridgeErr _ _ c) = Some c"
| "BridgeError_Unwrap _ = None"

text \<open>Type assertions on terms.\<close>

definition as_tuple :: "eterm \<Rightarrow> eterm list option" where
  "as_tuple v = (case v of TTuple xs \<Rightarrow> Some xs | _ \<Rightarrow> None)"

definition as_list :: "eterm \<Rightarrow> eterm list option" where
  "as_list v = (case v of TList xs \<Rightarrow> Some xs | _ \<Rightarrow> None)"

definition as_atom :: "eterm \<Rightarrow> string option" where
  "as_atom v = (case v of TAtom a \<Rightarrow> Some a | _ \<Rightarrow> None)"

definition as_pid :: "eterm \<Rightarrow> Pid option" where
  "as_pid v = (case v of TPid p \<Rightarrow> Some p | _ \<Rightarrow> None)"

definition as_ref :: "eterm \<Rightarrow> Reference option" where
  "as_ref v = (case v of TRef r \<Rightarrow> Some r | _ \<Rightarrow> None)"

lemma as_simps [simp]:
  "as_tuple (TTuple xs) = Some xs"
  "as_list (TList xs) = Some xs"
  "as_atom (TAtom a) = Some a"
  "as_pid (TPid p) = Some p"
  "as_ref (TRef r) = Some r"
  by (simp_all add: as_tuple_def as_list_def as_atom_def as_pid_def as_ref_def)

lemma as_eq_Some:
  "as_tuple v = Some xs \<longleftrightarrow> v = TTuple xs"
  "as_list v = Some xs \<longleftrightarrow> v = TList xs"
  "as_atom v = Some a \<longleftrightarrow> v = TAtom a"
  "as_pid v = Some p \<longleftrightarrow> v = TPid p"
  "as_ref v = Some r \<longleftrightarrow> v = TRef r"
  by (auto simp: as_tuple_def as_list_def as_atom_def as_pid_def as_ref_def split: eterm.splits)

end
