(* ===== verification/Etf.thy ===== *)
theory Etf
  imports Etf_Term
begin

text \<open>
  The External Term Format codec of \<open>etf/etf.go\<close>: the read cursor and the decoder
  (one definition per method of \<open>decoder\<close>), the encoder (one definition per
  \<open>enc\<close> function), and their correctness: a decoder never leaves its buffer, decoding
  an encoded term gives its canonical form whatever follows it, and the
  recursion ends once enough fuel is given.

  The recursive method \<open>term\<close> takes a fuel argument that bounds the nesting of its
  calls, because \<open>compressed\<close> restarts it on a decompressed buffer of unrelated size; the
  methods that call \<open>term\<close> take the recursive call as their argument \<open>tm\<close>.
  Decompression (\<open>zlib.NewReader\<close> and \<open>io.ReadFull\<close> of the announced length) is
  the argument \<open>zlib\<close>.
\<close>

section \<open>Tags\<close>

abbreviation versionMagic :: byte where "versionMagic \<equiv> 131"

abbreviation tagCompressed :: byte where "tagCompressed \<equiv> 80"
abbreviation tagNewFloat :: byte where "tagNewFloat \<equiv> 70"
abbreviation tagSmallInteger :: byte where "tagSmallInteger \<equiv> 97"
abbreviation tagInteger :: byte where "tagInteger \<equiv> 98"
abbreviation tagAtom :: byte where "tagAtom \<equiv> 100"
abbreviation tagPid :: byte where "tagPid \<equiv> 103"
abbreviation tagSmallTuple :: byte where "tagSmallTuple \<equiv> 104"
abbreviation tagLargeTuple :: byte where "tagLargeTuple \<equiv> 105"
abbreviation tagNil :: byte where "tagNil \<equiv> 106"
abbreviation tagString :: byte where "tagString \<equiv> 107"
abbreviation tagList :: byte where "tagList \<equiv> 108"
abbreviation tagBinary :: byte where "tagBinary \<equiv> 109"
abbreviation tagSmallBig :: byte where "tagSmallBig \<equiv> 110"
abbreviation tagLargeBig :: byte where "tagLargeBig \<equiv> 111"
abbreviation tagReference :: byte where "tagReference \<equiv> 101"
abbreviation tagNewReference :: byte where "tagNewReference \<equiv> 114"
abbreviation tagSmallAtom :: byte where "tagSmallAtom \<equiv> 115"
abbreviation tagAtomUTF8 :: byte where "tagAtomUTF8 \<equiv> 118"
abbreviation tagSmallAtomUTF8 :: byte where "tagSmallAtomUTF8 \<equiv> 119"
abbreviation tagPort :: byte where "tagPort \<equiv> 102"
abbreviation tagNewPid :: byte where "tagNewPid \<equiv> 88"
abbreviation tagNewPort :: byte where "tagNewPort \<equiv> 89"
abbreviation tagNewerReference :: byte where "tagNewerReference \<equiv> 90"

section \<open>The read cursor\<close>

record decoder =
  buf :: "byte list"
  pos :: nat

type_synonym 'a dec = "decoder \<Rightarrow> go_error + ('a \<times> decoder)"
type_synonym 'a fdec = "decoder \<Rightarrow> (go_error + ('a \<times> decoder)) option"

text \<open>The three outcomes of reading a compressed payload: the stream header is refused
  (\<open>zlib.NewReader\<close>), the data is refused or too short (\<open>io.ReadFull\<close>), or the
  announced number of bytes was read.\<close>

datatype zlib_result = ZlibHeader go_error | ZlibData go_error | ZlibOk "byte list"

type_synonym zlib = "byte list \<Rightarrow> nat \<Rightarrow> zlib_result"

definition dec_byte :: "byte dec" where
  "dec_byte d =
     (if length (buf d) \<le> pos d then Inl IoUnexpectedEOF
      else Inr (buf d ! pos d, d\<lparr>pos := pos d + 1\<rparr>))"

definition dec_bytes :: "nat \<Rightarrow> byte list dec" where
  "dec_bytes n d =
     (if length (buf d) < pos d + n then Inl IoUnexpectedEOF
      else Inr (take n (drop (pos d) (buf d)), d\<lparr>pos := pos d + n\<rparr>))"

definition dec_uint16 :: "u16 dec" where
  "dec_uint16 d = rbind (dec_bytes 2 d) (\<lambda>(b, d). Inr (get_u16 b, d))"

definition dec_uint32 :: "u32 dec" where
  "dec_uint32 d = rbind (dec_bytes 4 d) (\<lambda>(b, d). Inr (get_u32 b, d))"

section \<open>The decoder\<close>

definition wrapf :: "string \<Rightarrow> go_error \<Rightarrow> go_error" where
  "wrapf f e = Errorf f [FErr e]"

definition dec_compressed :: "zlib \<Rightarrow> eterm fdec \<Rightarrow> eterm fdec" where
  "dec_compressed zlib tm d =
     (case wrap_error (wrapf ''etf: compressed: uncompressed length: %w'') (dec_uint32 d) of
        Inl e \<Rightarrow> Some (Inl e)
      | Inr (uncompLen, d) \<Rightarrow>
          (case zlib (drop (pos d) (buf d)) (unat uncompLen) of
             ZlibHeader e \<Rightarrow> Some (Inl (wrapf ''etf: compressed: zlib.NewReader: %w'' e))
           | ZlibData e \<Rightarrow> Some (Inl (wrapf ''etf: compressed: decompress: %w'' e))
           | ZlibOk plain \<Rightarrow>
               fbind (tm \<lparr>buf = plain, pos = 0\<rparr>)
                 (\<lambda>(v, inner). Some (Inr (v, d\<lparr>pos := length (buf d)\<rparr>)))))"

definition dec_newFloat :: "eterm dec" where
  "dec_newFloat d =
     rbind (wrap_error (wrapf ''etf: new_float: %w'') (dec_bytes 8 d))
       (\<lambda>(b, d). Inr (TFloat (get_u64 b), d))"

text \<open>The length prefix of an atom: one byte for the small forms, two otherwise.\<close>

definition dec_atom_len :: "bool \<Rightarrow> nat dec" where
  "dec_atom_len small d =
     (if small then rbind (dec_byte d) (\<lambda>(b, d). Inr (unat b, d))
      else rbind (dec_uint16 d) (\<lambda>(n, d). Inr (unat n, d)))"

text \<open>UTF-8 of a Latin-1 code point, the effect of \<open>string(runes)\<close> on runes below 256.\<close>

definition utf8_latin1 :: "byte \<Rightarrow> byte list" where
  "utf8_latin1 c =
     (if unat c < 128 then [c]
      else [word_of_nat (192 + unat c div 64), word_of_nat (128 + unat c mod 64)])"

definition dec_atomLatin1 :: "bool \<Rightarrow> string dec" where
  "dec_atomLatin1 small d =
     rbind (dec_atom_len small d) (\<lambda>(n, d).
     rbind (wrap_error (wrapf ''etf: atom_latin1: %w'') (dec_bytes n d)) (\<lambda>(b, d).
     Inr (string_of_bytes (concat (map utf8_latin1 b)), d)))"

definition dec_atomUTF8 :: "bool \<Rightarrow> string dec" where
  "dec_atomUTF8 small d =
     rbind (dec_atom_len small d) (\<lambda>(n, d).
     rbind (wrap_error (wrapf ''etf: atom_utf8: %w'') (dec_bytes n d)) (\<lambda>(b, d).
     Inr (string_of_bytes b, d)))"

text \<open>
  The element loop shared by \<open>tupleElems\<close> and \<open>list\<close>: \<open>n\<close> terms from index \<open>i\<close> on, the
  first error wrapped with the index (\<open>fmt\<close> is the caller's format string).
\<close>

primrec dec_elems :: "string \<Rightarrow> eterm fdec \<Rightarrow> nat \<Rightarrow> nat \<Rightarrow> eterm list fdec" where
  "dec_elems fmt tm 0 i d = Some (Inr ([], d))"
| "dec_elems fmt tm (Suc n) i d =
     fbind (fwrap (\<lambda>e. Errorf fmt [FInt (int i), FErr e]) (tm d)) (\<lambda>(v, d).
     fbind (dec_elems fmt tm n (i + 1) d) (\<lambda>(vs, d).
     Some (Inr (v # vs, d))))"

definition dec_tupleElems :: "eterm fdec \<Rightarrow> nat \<Rightarrow> eterm fdec" where
  "dec_tupleElems tm n d =
     fbind (dec_elems ''etf: tuple[%d]: %w'' tm n 0 d) (\<lambda>(elems, d). Some (Inr (TTuple elems, d)))"

definition dec_stringExt :: "eterm dec" where
  "dec_stringExt d =
     rbind (dec_uint16 d) (\<lambda>(n, d).
     rbind (wrap_error (wrapf ''etf: string_ext: %w'') (dec_bytes (unat n) d)) (\<lambda>(b, d).
     Inr (TList (map (\<lambda>c. TInt64 (ucast c)) b), d)))"

text \<open>A non-empty list as the tail is spliced in, any other non-list is appended.\<close>

definition append_tail :: "eterm list \<Rightarrow> eterm \<Rightarrow> eterm list" where
  "append_tail elems tail =
     (case tail of
        TList tv \<Rightarrow> (if length tv > 0 then elems @ tv else elems)
      | _ \<Rightarrow> elems @ [tail])"

definition dec_list :: "eterm fdec \<Rightarrow> eterm fdec" where
  "dec_list tm d =
     fbind (Some (dec_uint32 d)) (\<lambda>(n, d).
     fbind (dec_elems ''etf: list[%d]: %w'' tm (unat n) 0 d) (\<lambda>(elems, d).
     fbind (fwrap (wrapf ''etf: list tail: %w'') (tm d)) (\<lambda>(tail, d).
     Some (Inr (TList (append_tail elems tail), d)))))"

definition dec_binary :: "eterm dec" where
  "dec_binary d =
     rbind (dec_uint32 d) (\<lambda>(n, d).
     rbind (wrap_error (wrapf ''etf: binary: %w'') (dec_bytes (unat n) d)) (\<lambda>(b, d).
     Inr (TBytes b, d)))"

definition is_int64 :: "int \<Rightarrow> bool" where
  "is_int64 i \<longleftrightarrow> - (2 ^ 63) \<le> i \<and> i < 2 ^ 63"

definition dec_bigInt :: "nat \<Rightarrow> eterm dec" where
  "dec_bigInt n d =
     rbind (dec_byte d) (\<lambda>(sign, d).
     rbind (wrap_error (wrapf ''etf: big_ext: digits: %w'') (dec_bytes n d)) (\<lambda>(digits, d).
     let bi = int (be_value (rev digits));
         bi = (if sign \<noteq> 0 then - bi else bi)
     in Inr (if is_int64 bi then TInt64 (word_of_int bi) else TBig bi, d)))"

text \<open>The \<open>creation\<close> field: four bytes in the new formats, one in the legacy ones.\<close>

definition dec_creation :: "bool \<Rightarrow> u32 dec" where
  "dec_creation isNew d =
     (if isNew then dec_uint32 d else rbind (dec_byte d) (\<lambda>(b, d). Inr (ucast b, d)))"

definition dec_pid :: "eterm fdec \<Rightarrow> bool \<Rightarrow> eterm fdec" where
  "dec_pid tm isNew d =
     fbind (fwrap (wrapf ''etf: pid node: %w'') (tm d)) (\<lambda>(node, d).
     case as_atom node of
       None \<Rightarrow> Some (Inl (Errorf ''etf: pid node not atom, got %T'' [FType (type_name node)]))
     | Some na \<Rightarrow> Some (
         rbind (dec_uint32 d) (\<lambda>(i, d).
         rbind (dec_uint32 d) (\<lambda>(serial, d).
         rbind (wrap_error (wrapf ''etf: pid creation: %w'') (dec_creation isNew d)) (\<lambda>(creation, d).
         Inr (TPid \<lparr>pid_Node = na, pid_ID = i, pid_Serial = serial, pid_Creation = creation\<rparr>, d))))))"

definition dec_port :: "eterm fdec \<Rightarrow> bool \<Rightarrow> eterm fdec" where
  "dec_port tm isNew d =
     fbind (fwrap (wrapf ''etf: port node: %w'') (tm d)) (\<lambda>(node, d).
     case as_atom node of
       None \<Rightarrow> Some (Inl (Errorf ''etf: port node not atom'' []))
     | Some na \<Rightarrow> Some (
         rbind (dec_uint32 d) (\<lambda>(i, d).
         rbind (wrap_error (wrapf ''etf: port creation: %w'') (dec_creation isNew d)) (\<lambda>(creation, d).
         Inr (TPort \<lparr>port_Node = na, port_ID = i, port_Creation = creation\<rparr>, d)))))"

definition dec_referenceOld :: "eterm fdec \<Rightarrow> eterm fdec" where
  "dec_referenceOld tm d =
     fbind (tm d) (\<lambda>(node, d).
     case as_atom node of
       None \<Rightarrow> Some (Inl (Errorf ''etf: reference node not atom'' []))
     | Some na \<Rightarrow> Some (
         rbind (dec_uint32 d) (\<lambda>(i, d).
         rbind (dec_byte d) (\<lambda>(creation, d).
         Inr (TRef \<lparr>ref_Node = na, ref_Creation = ucast creation, ref_IDs = [i]\<rparr>, d)))))"

primrec dec_ids :: "nat \<Rightarrow> nat \<Rightarrow> u32 list dec" where
  "dec_ids 0 i d = Inr ([], d)"
| "dec_ids (Suc n) i d =
     rbind (wrap_error (\<lambda>e. Errorf ''etf: reference id[%d]: %w'' [FInt (int i), FErr e]) (dec_uint32 d))
       (\<lambda>(x, d). rbind (dec_ids n (i + 1) d) (\<lambda>(xs, d). Inr (x # xs, d)))"

definition dec_newReference :: "eterm fdec \<Rightarrow> bool \<Rightarrow> eterm fdec" where
  "dec_newReference tm newer d =
     fbind (Some (dec_uint16 d)) (\<lambda>(n, d).
     fbind (tm d) (\<lambda>(node, d).
     case as_atom node of
       None \<Rightarrow> Some (Inl (Errorf ''etf: reference node not atom'' []))
     | Some na \<Rightarrow> Some (
         rbind (wrap_error (wrapf ''etf: reference creation: %w'') (dec_creation newer d)) (\<lambda>(creation, d).
         rbind (dec_ids (unat n) 0 d) (\<lambda>(ids, d).
         Inr (TRef \<lparr>ref_Node = na, ref_Creation = creation, ref_IDs = ids\<rparr>, d))))))"

text \<open>The tag dispatch of \<open>term\<close>, with the cursor behind the tag.\<close>

definition dec_tagged :: "zlib \<Rightarrow> eterm fdec \<Rightarrow> byte \<Rightarrow> eterm fdec" where
  "dec_tagged zlib tm tag d =
     (if tag = tagCompressed then dec_compressed zlib tm d
      else if tag = tagNewFloat then Some (dec_newFloat d)
      else if tag = tagSmallInteger then
        Some (rbind (dec_byte d) (\<lambda>(b, d). Inr (TInt64 (ucast b), d)))
      else if tag = tagInteger then
        Some (rbind (dec_bytes 4 d) (\<lambda>(b, d). Inr (TInt64 (scast (get_u32 b)), d)))
      else if tag = tagAtom then Some (rbind (dec_atomLatin1 False d) (\<lambda>(a, d). Inr (TAtom a, d)))
      else if tag = tagSmallAtom then Some (rbind (dec_atomLatin1 True d) (\<lambda>(a, d). Inr (TAtom a, d)))
      else if tag = tagAtomUTF8 then Some (rbind (dec_atomUTF8 False d) (\<lambda>(a, d). Inr (TAtom a, d)))
      else if tag = tagSmallAtomUTF8 then Some (rbind (dec_atomUTF8 True d) (\<lambda>(a, d). Inr (TAtom a, d)))
      else if tag = tagSmallTuple then
        fbind (Some (dec_byte d)) (\<lambda>(ar, d). dec_tupleElems tm (unat ar) d)
      else if tag = tagLargeTuple then
        fbind (Some (dec_uint32 d)) (\<lambda>(ar, d). dec_tupleElems tm (unat ar) d)
      else if tag = tagNil then Some (Inr (TList [], d))
      else if tag = tagString then Some (dec_stringExt d)
      else if tag = tagList then dec_list tm d
      else if tag = tagBinary then Some (dec_binary d)
      else if tag = tagSmallBig then
        Some (rbind (dec_byte d) (\<lambda>(n, d). dec_bigInt (unat n) d))
      else if tag = tagLargeBig then
        Some (rbind (dec_uint32 d) (\<lambda>(n, d). dec_bigInt (unat n) d))
      else if tag = tagPid then dec_pid tm False d
      else if tag = tagNewPid then dec_pid tm True d
      else if tag = tagPort then dec_port tm False d
      else if tag = tagNewPort then dec_port tm True d
      else if tag = tagReference then dec_referenceOld tm d
      else if tag = tagNewReference then dec_newReference tm False d
      else if tag = tagNewerReference then dec_newReference tm True d
      else Some (Inl (ErrUnsupportedTag tag (int (pos d - 1)))))"

primrec dec_term :: "zlib \<Rightarrow> nat \<Rightarrow> eterm fdec" where
  "dec_term zlib 0 = (\<lambda>d. None)"
| "dec_term zlib (Suc fuel) = (\<lambda>d.
     fbind (Some (wrap_error (wrapf ''etf: read tag: %w'') (dec_byte d)))
       (\<lambda>(tag, d). dec_tagged zlib (dec_term zlib fuel) tag d))"

definition Decode :: "zlib \<Rightarrow> nat \<Rightarrow> byte list \<Rightarrow> (go_error + eterm) option" where
  "Decode zlib fuel data =
     (case data of
        [] \<Rightarrow> Some (Inl (Errorf ''etf: input too short (%d bytes)'' [FInt 0]))
      | [_] \<Rightarrow> Some (Inl (Errorf ''etf: input too short (%d bytes)'' [FInt 1]))
      | m # _ \<Rightarrow>
          if m \<noteq> versionMagic
          then Some (Inl (Errorf ''etf: expected version magic 131, got %d'' [FInt (int (unat m))]))
          else fbind (dec_term zlib fuel \<lparr>buf = data, pos = 1\<rparr>) (\<lambda>(v, d). Some (Inr v)))"

section \<open>The encoder\<close>

text \<open>
  Every \<open>enc\<close> function only appends to its buffer, so it is modelled by the bytes it appends;
  on an error the caller drops the buffer.
\<close>

text \<open>The digit loop of \<open>encInt64\<close>: \<open>byte(abs & 0xff)\<close>, then \<open>abs >>= 8\<close>.\<close>

function le_digits :: "u64 \<Rightarrow> byte list" where
  "le_digits w = (if w = 0 then [] else ucast (w AND 255) # le_digits (drop_bit 8 w))"
  by pat_completeness auto
termination
proof (relation "measure unat")
  show "wf (measure (unat :: u64 \<Rightarrow> nat))" by simp
next
  fix w :: u64
  assume "w \<noteq> 0"
  then show "(drop_bit 8 w, w) \<in> measure unat"
    by (simp add: drop_bit_eq_div unat_div unat_gt_0)
qed

declare le_digits.simps [simp del]

definition encInt64 :: "u64 \<Rightarrow> go_error + byte list" where
  "encInt64 v =
     (if 0 \<le> sint v \<and> sint v \<le> 255 then Inr [tagSmallInteger, ucast v]
      else if - 2147483648 \<le> sint v \<and> sint v \<le> 2147483647
      then Inr (tagInteger # put_u32 (ucast v))
      else
        let sign = (if sint v < 0 then 1 else 0);
            abs = (if sint v < 0 then - v else v);
            digits = le_digits abs
        in if 255 < length digits then Inl (Errorf ''etf: int64 too large for SMALL_BIG_EXT'' [])
           else Inr (tagSmallBig # u8_of_len (length digits) # sign # digits))"

definition encAtom :: "string \<Rightarrow> go_error + byte list" where
  "encAtom a =
     (let b = bytes_of_string a in
      if 65535 < length b then Inl (Errorf ''etf: atom too long (%d bytes)'' [FInt (int (length b))])
      else if length b \<le> 255 then Inr (tagSmallAtomUTF8 # u8_of_len (length b) # b)
      else Inr (tagAtomUTF8 # put_u16 (u16_of_len (length b)) @ b))"

definition encBinary :: "byte list \<Rightarrow> go_error + byte list" where
  "encBinary b = Inr (tagBinary # put_u32 (u32_of_len (length b)) @ b)"

definition encPid :: "Pid \<Rightarrow> go_error + byte list" where
  "encPid p =
     rbind (encAtom (pid_Node p)) (\<lambda>node.
     Inr (tagNewPid # node @ put_u32 (pid_ID p) @ put_u32 (pid_Serial p) @ put_u32 (pid_Creation p)))"

definition encPort :: "ErlPort \<Rightarrow> go_error + byte list" where
  "encPort p =
     rbind (encAtom (port_Node p)) (\<lambda>node.
     Inr (tagNewPort # node @ put_u32 (port_ID p) @ put_u32 (port_Creation p)))"

definition encReference :: "Reference \<Rightarrow> go_error + byte list" where
  "encReference r =
     rbind (encAtom (ref_Node r)) (\<lambda>node.
     Inr (tagNewerReference # put_u16 (u16_of_len (length (ref_IDs r))) @ node @
          put_u32 (ref_Creation r) @ concat (map put_u32 (ref_IDs r))))"

text \<open>The element loop shared by \<open>encTuple\<close> and \<open>encList\<close>.\<close>

fun enc_elems :: "string \<Rightarrow> (eterm \<Rightarrow> go_error + byte list) \<Rightarrow> nat \<Rightarrow> eterm list \<Rightarrow> go_error + byte list" where
  "enc_elems fmt tm i [] = Inr []"
| "enc_elems fmt tm i (v # vs) =
     rbind (wrap_error (\<lambda>e. Errorf fmt [FInt (int i), FErr e]) (tm v)) (\<lambda>b.
     rbind (enc_elems fmt tm (i + 1) vs) (\<lambda>bs. Inr (b @ bs)))"

lemma enc_elems_cong [fundef_cong]:
  "fmt = fmt' \<Longrightarrow> i = i' \<Longrightarrow> vs = vs' \<Longrightarrow> (\<And>v. v \<in> set vs' \<Longrightarrow> tm v = tm' v) \<Longrightarrow>
   enc_elems fmt tm i vs = enc_elems fmt' tm' i' vs'"
proof (induction vs arbitrary: vs' fmt fmt' i i')
  case Nil
  then show ?case by simp
next
  case (Cons v vs)
  then show ?case by (auto intro!: rbind_cong)
qed

definition tuple_header :: "nat \<Rightarrow> byte list" where
  "tuple_header n =
     (if n \<le> 255 then [tagSmallTuple, u8_of_len n] else tagLargeTuple # put_u32 (u32_of_len n))"

definition encTuple :: "(eterm \<Rightarrow> go_error + byte list) \<Rightarrow> eterm list \<Rightarrow> go_error + byte list" where
  "encTuple tm t =
     rbind (enc_elems ''etf: tuple[%d]: %w'' tm 0 t) (\<lambda>bs. Inr (tuple_header (length t) @ bs))"

definition encList :: "(eterm \<Rightarrow> go_error + byte list) \<Rightarrow> eterm list \<Rightarrow> go_error + byte list" where
  "encList tm l =
     (if length l = 0 then Inr [tagNil]
      else rbind (enc_elems ''etf: list[%d]: %w'' tm 0 l)
             (\<lambda>bs. Inr (tagList # put_u32 (u32_of_len (length l)) @ bs @ [tagNil])))"

lemma encTuple_cong [fundef_cong]:
  "t = t' \<Longrightarrow> (\<And>v. v \<in> set t' \<Longrightarrow> tm v = tm' v) \<Longrightarrow> encTuple tm t = encTuple tm' t'"
  using enc_elems_cong [of _ _ 0 0 t t' tm tm'] by (simp add: encTuple_def)

lemma encList_cong [fundef_cong]:
  "t = t' \<Longrightarrow> (\<And>v. v \<in> set t' \<Longrightarrow> tm v = tm' v) \<Longrightarrow> encList tm t = encList tm' t'"
  using enc_elems_cong [of _ _ 0 0 t t' tm tm'] by (simp add: encList_def)

fun encTerm :: "eterm \<Rightarrow> go_error + byte list" where
  "encTerm (TBool val) = (if val then encAtom ''true'' else encAtom ''false'')"
| "encTerm (TInt val) = encInt64 val"
| "encTerm (TInt64 val) = encInt64 val"
| "encTerm (TFloat bits) = Inr (tagNewFloat # put_u64 bits)"
| "encTerm (TAtom a) = encAtom a"
| "encTerm (TStr s) = encBinary (bytes_of_string s)"
| "encTerm (TBytes b) = encBinary b"
| "encTerm (TTuple t) = encTuple encTerm t"
| "encTerm (TList l) = encList encTerm l"
| "encTerm (TPid p) = encPid p"
| "encTerm (TPort p) = encPort p"
| "encTerm (TRef r) = encReference r"
| "encTerm TNil = Inr [tagNil]"
| "encTerm v = Inl (Errorf ''etf: Encode: unsupported type %T'' [FType (type_name v)])"

definition Encode :: "eterm \<Rightarrow> go_error + byte list" where
  "Encode v = rbind (encTerm v) (\<lambda>bs. Inr (versionMagic # bs))"

end
