(* ===== verification/Etf_Roundtrip.thy ===== *)
theory Etf_Roundtrip
  imports Etf
begin

text \<open>
  Correctness of the term codec.  \<open>reads p bs x\<close> says that the decoder \<open>p\<close>, wherever it
  meets the bytes \<open>bs\<close>, returns \<open>x\<close> and moves the cursor exactly behind them;
  the lemmas about it follow the shape of the decoder's definitions.
\<close>

section \<open>Cursor lemmas\<close>

definition ahead :: "decoder \<Rightarrow> byte list \<Rightarrow> bool" where
  "ahead d bs \<longleftrightarrow> pos d \<le> length (buf d) \<and> drop (pos d) (buf d) = bs"

definition skip :: "nat \<Rightarrow> decoder \<Rightarrow> decoder" where
  "skip n d = d\<lparr>pos := pos d + n\<rparr>"

lemma skip_skip [simp]: "skip m (skip n d) = skip (n + m) d"
  by (simp add: skip_def)

lemma skip_0 [simp]: "skip 0 d = d"
  by (simp add: skip_def)

lemma buf_skip [simp]: "buf (skip n d) = buf d" and pos_skip [simp]: "pos (skip n d) = pos d + n"
  by (simp_all add: skip_def)

lemma ahead_length: "ahead d bs \<Longrightarrow> length (buf d) = pos d + length bs"
  by (auto simp: ahead_def)

lemma ahead_skip [intro]: "ahead d (bs @ r) \<Longrightarrow> ahead (skip (length bs) d) r"
proof -
  assume a: "ahead d (bs @ r)"
  then have "drop (length bs + pos d) (buf d) = r"
    by (metis ahead_def append_eq_conv_conj drop_drop)
  moreover from a have "pos d + length bs \<le> length (buf d)"
    using ahead_length by fastforce
  ultimately show ?thesis by (simp add: ahead_def add.commute)
qed

definition reads :: "'a dec \<Rightarrow> byte list \<Rightarrow> 'a \<Rightarrow> bool" where
  "reads p bs x \<longleftrightarrow> (\<forall>d r. ahead d (bs @ r) \<longrightarrow> p d = Inr (x, skip (length bs) d))"

definition freads :: "'a fdec \<Rightarrow> byte list \<Rightarrow> 'a \<Rightarrow> bool" where
  "freads p bs x \<longleftrightarrow> (\<forall>d r. ahead d (bs @ r) \<longrightarrow> p d = Some (Inr (x, skip (length bs) d)))"

lemma readsI [intro?]:
  "(\<And>d r. ahead d (bs @ r) \<Longrightarrow> p d = Inr (x, skip (length bs) d)) \<Longrightarrow> reads p bs x"
  by (simp add: reads_def)

lemma freadsI [intro?]:
  "(\<And>d r. ahead d (bs @ r) \<Longrightarrow> p d = Some (Inr (x, skip (length bs) d))) \<Longrightarrow> freads p bs x"
  by (simp add: freads_def)

lemma readsD: "reads p bs x \<Longrightarrow> ahead d (bs @ r) \<Longrightarrow> p d = Inr (x, skip (length bs) d)"
  by (auto simp: reads_def)

lemma freadsD: "freads p bs x \<Longrightarrow> ahead d (bs @ r) \<Longrightarrow> p d = Some (Inr (x, skip (length bs) d))"
  by (auto simp: freads_def)

named_theorems reads_intros "how the decoders read what the encoders write"

lemma reads_ret [reads_intros]: "reads (\<lambda>d. Inr (x, d)) [] x"
  by (simp add: reads_def)

lemma reads_bind:
  assumes "reads p bs x" and "reads (q x) cs y"
  shows "reads (\<lambda>d. rbind (p d) (\<lambda>(x, d). q x d)) (bs @ cs) y"
proof
  fix d r assume a: "ahead d ((bs @ cs) @ r)"
  then have "p d = Inr (x, skip (length bs) d)" using assms(1) by (auto dest: readsD)
  moreover have "q x (skip (length bs) d) = Inr (y, skip (length cs) (skip (length bs) d))"
    using assms(2) a by (intro readsD [where r = r]) auto
  ultimately show "rbind (p d) (\<lambda>(x, d). q x d) = Inr (y, skip (length (bs @ cs)) d)"
    by simp
qed

lemma reads_map:
  assumes "reads p bs x"
  shows "reads (\<lambda>d. rbind (p d) (\<lambda>(x, d). Inr (f x, d))) bs (f x)"
  using reads_bind [OF assms, of "\<lambda>x d. Inr (f x, d)" "[]"] by (auto simp: reads_def)

lemma reads_wrap: "reads p bs x \<Longrightarrow> reads (\<lambda>d. wrap_error w (p d)) bs x"
  by (auto simp: reads_def)

lemma freads_bind:
  assumes "freads p bs x" and "freads (q x) cs y"
  shows "freads (\<lambda>d. fbind (p d) (\<lambda>(x, d). q x d)) (bs @ cs) y"
proof
  fix d r assume a: "ahead d ((bs @ cs) @ r)"
  then have "p d = Some (Inr (x, skip (length bs) d))" using assms(1) by (auto dest: freadsD)
  moreover have "q x (skip (length bs) d) = Some (Inr (y, skip (length cs) (skip (length bs) d)))"
    using assms(2) a by (intro freadsD [where r = r]) auto
  ultimately show "fbind (p d) (\<lambda>(x, d). q x d) = Some (Inr (y, skip (length (bs @ cs)) d))"
    by simp
qed

lemma freads_map:
  assumes "freads p bs x"
  shows "freads (\<lambda>d. fbind (p d) (\<lambda>(x, d). Some (Inr (f x, d)))) bs (f x)"
  using assms by (auto simp: freads_def)

lemma freads_wrap: "freads p bs x \<Longrightarrow> freads (\<lambda>d. fwrap w (p d)) bs x"
  by (auto simp: freads_def)

lemma freads_Some: "reads p bs x \<Longrightarrow> freads (\<lambda>d. Some (p d)) bs x"
  by (auto simp: reads_def freads_def)

lemma drop_eq_Cons_nth: "drop i xs = x # ys \<Longrightarrow> i < length xs \<and> xs ! i = x"
proof -
  assume a: "drop i xs = x # ys"
  then have "i < length xs" by (cases "i < length xs") auto
  with a show ?thesis using Cons_nth_drop_Suc [of i xs] by simp
qed

lemma reads_byte [reads_intros]: "reads dec_byte [b] b"
  by (rule readsI) (auto simp: ahead_def dec_byte_def skip_def dest!: drop_eq_Cons_nth)

lemma reads_bytes [reads_intros]: "length bs = n \<Longrightarrow> reads (dec_bytes n) bs bs"
proof (rule readsI)
  fix d r assume n: "length bs = n" and a: "ahead d (bs @ r)"
  then have "length (buf d) = pos d + n + length r" using ahead_length [OF a] by simp
  with a n show "dec_bytes n d = Inr (bs, skip (length bs) d)"
    by (simp add: dec_bytes_def skip_def ahead_def)
qed

lemma reads_u16 [reads_intros]: "reads dec_uint16 (put_u16 w) w"
  using reads_map [OF reads_bytes [of "put_u16 w" 2], of get_u16] by (simp add: dec_uint16_def [abs_def])

lemma reads_u32 [reads_intros]: "reads dec_uint32 (put_u32 w) w"
  using reads_map [OF reads_bytes [of "put_u32 w" 4], of get_u32] by (simp add: dec_uint32_def [abs_def])

section \<open>Integers\<close>

lemma unat_low_byte: "unat (ucast (w AND 255) :: byte) = unat (w :: u64) mod 256"
proof -
  have m: "(255 :: u64) = mask 8" by (simp add: mask_eq_exp_minus_1)
  have "w AND 255 = take_bit 8 w" unfolding m by (simp add: take_bit_eq_mask)
  then show ?thesis by (simp add: unsigned_ucast_eq take_bit_eq_mod unat_mod)
qed

lemma le_digits_value: "be_value (rev (le_digits w)) = unat w"
proof (induction w rule: le_digits.induct)
  case (1 w)
  show ?case
  proof (cases "w = 0")
    case True
    then show ?thesis by (simp add: le_digits.simps)
  next
    case False
    have "unat (drop_bit 8 w) = unat w div 256"
      by (simp add: drop_bit_eq_div unat_div)
    then show ?thesis
      using 1 False by (simp add: le_digits.simps [of w] unat_low_byte)
  qed
qed

lemma le_digits_length: "unat w < 256 ^ n \<Longrightarrow> length (le_digits w) \<le> n"
proof (induction n arbitrary: w)
  case 0
  then show ?case by (simp add: unat_eq_0 le_digits.simps)
next
  case (Suc n)
  have "unat (drop_bit 8 w) = unat w div 256"
    by (simp add: drop_bit_eq_div unat_div)
  also have "\<dots> < 256 ^ n"
    using Suc.prems by (simp add: less_mult_imp_div_less mult.commute)
  finally have "length (le_digits (drop_bit 8 w)) \<le> n" by (rule Suc.IH)
  then show ?case by (simp add: le_digits.simps [of w])
qed

lemma le_digits_length_8: "length (le_digits w) \<le> 8"
  using unat_word_less(3) [of w] by (intro le_digits_length) simp

lemma ucast_of_int:
  "(ucast (word_of_int k :: u64) :: byte) = word_of_int k"
  "(ucast (word_of_int k :: u64) :: u32) = word_of_int k"
  by (simp_all add: unsigned_of_int word_of_int_eq_iff)

lemma sint_of_int_small:
  "is_int64 k \<Longrightarrow> sint (word_of_int k :: u64) = k"
  "- 2147483648 \<le> k \<Longrightarrow> k \<le> 2147483647 \<Longrightarrow> sint (word_of_int k :: u32) = k"
  by (auto simp: is_int64_def sint_sbintrunc' signed_take_bit_int_eq_self_iff)

lemma is_int64_sint [simp]: "is_int64 (sint (v :: u64))"
  using sint_ge [of v] sint_lt [of v] by (simp add: is_int64_def)

lemma ucast_byte_small:
  assumes "0 \<le> sint v" and "sint v \<le> 255"
  shows "(ucast (ucast (v :: u64) :: byte) :: u64) = v"
proof -
  have "(ucast (word_of_int (sint v) :: byte) :: u64) = word_of_int (sint v)"
    using assms by (simp add: unsigned_of_int take_bit_int_eq_self del: of_int_sint)
  then show ?thesis using ucast_of_int(1) [of "sint v"] by simp
qed

lemma scast_u32_small:
  assumes "- 2147483648 \<le> sint v" and "sint v \<le> 2147483647"
  shows "(scast (ucast (v :: u64) :: u32) :: u64) = v"
proof -
  have "sint (word_of_int (sint v) :: u32) = sint v"
    using assms by (rule sint_of_int_small)
  then have "(scast (word_of_int (sint v) :: u32) :: u64) = word_of_int (sint v)"
    by (metis scast_eq)
  then show ?thesis using ucast_of_int(2) [of "sint v"] by simp
qed

lemma unat_word_of_int: "0 \<le> k \<Longrightarrow> k < 2 ^ 64 \<Longrightarrow> int (unat (word_of_int k :: u64)) = k"
  by (simp add: unsigned_of_int take_bit_int_eq_self)

lemma uint_nonneg_sint: "0 \<le> sint v \<Longrightarrow> uint (v :: u64) = sint v"
  using unat_word_of_int [of "sint v"] is_int64_sint [of v] by (simp add: is_int64_def)

lemma uint_neg_sint: "sint v < 0 \<Longrightarrow> uint (- (v :: u64)) = - sint v"
  using unat_word_of_int [of "- sint v"] is_int64_sint [of v] by (simp add: is_int64_def)

section \<open>What each decoder method reads\<close>

lemma reads_bind':
  "reads p bs x \<Longrightarrow> zs = bs @ cs \<Longrightarrow> reads (q x) cs y \<Longrightarrow>
   reads (\<lambda>d. rbind (p d) (\<lambda>(x, d). q x d)) zs y"
  by (simp add: reads_bind)

lemma freads_bind':
  "freads p bs x \<Longrightarrow> zs = bs @ cs \<Longrightarrow> freads (q x) cs y \<Longrightarrow>
   freads (\<lambda>d. fbind (p d) (\<lambda>(x, d). q x d)) zs y"
  by (simp add: freads_bind)

lemma reads_last:
  "reads p bs x \<Longrightarrow> y = f x \<Longrightarrow> reads (\<lambda>d. rbind (p d) (\<lambda>(x, d). Inr (f x, d))) bs y"
  by (simp add: reads_map)

lemma freads_last:
  "freads p bs x \<Longrightarrow> y = f x \<Longrightarrow> freads (\<lambda>d. fbind (p d) (\<lambda>(x, d). Some (Inr (f x, d)))) bs y"
  by (simp add: freads_map)

lemma freads_term:
  assumes "freads (dec_tagged zlib (dec_term zlib fuel) tag) bs v"
  shows "freads (dec_term zlib (Suc fuel)) (tag # bs) v"
  unfolding dec_term.simps
  by (rule freads_bind' [OF freads_Some [OF reads_wrap [OF reads_byte]]]) (simp, rule assms)

declare dec_term.simps [simp del]

lemma dec_tagged_simps:
  "dec_tagged zlib tm tagNewFloat = (\<lambda>d. Some (dec_newFloat d))"
  "dec_tagged zlib tm tagSmallInteger =
     (\<lambda>d. Some (rbind (dec_byte d) (\<lambda>(b, d). Inr (TInt64 (ucast b), d))))"
  "dec_tagged zlib tm tagInteger =
     (\<lambda>d. Some (rbind (dec_bytes 4 d) (\<lambda>(b, d). Inr (TInt64 (scast (get_u32 b)), d))))"
  "dec_tagged zlib tm tagAtomUTF8 =
     (\<lambda>d. Some (rbind (dec_atomUTF8 False d) (\<lambda>(a, d). Inr (TAtom a, d))))"
  "dec_tagged zlib tm tagSmallAtomUTF8 =
     (\<lambda>d. Some (rbind (dec_atomUTF8 True d) (\<lambda>(a, d). Inr (TAtom a, d))))"
  "dec_tagged zlib tm tagSmallTuple =
     (\<lambda>d. fbind (Some (dec_byte d)) (\<lambda>(ar, d). dec_tupleElems tm (unat ar) d))"
  "dec_tagged zlib tm tagLargeTuple =
     (\<lambda>d. fbind (Some (dec_uint32 d)) (\<lambda>(ar, d). dec_tupleElems tm (unat ar) d))"
  "dec_tagged zlib tm tagNil = (\<lambda>d. Some (Inr (TList [], d)))"
  "dec_tagged zlib tm tagList = dec_list tm"
  "dec_tagged zlib tm tagBinary = (\<lambda>d. Some (dec_binary d))"
  "dec_tagged zlib tm tagSmallBig =
     (\<lambda>d. Some (rbind (dec_byte d) (\<lambda>(n, d). dec_bigInt (unat n) d)))"
  "dec_tagged zlib tm tagNewPid = dec_pid tm True"
  "dec_tagged zlib tm tagNewPort = dec_port tm True"
  "dec_tagged zlib tm tagNewerReference = dec_newReference tm True"
  "dec_tagged zlib tm tagCompressed = dec_compressed zlib tm"
  by (rule ext, simp add: dec_tagged_def)+

lemma reads_bigInt:
  assumes "length digits = n"
  shows "reads (dec_bigInt n) (sign # digits)
    (let bi = (if sign \<noteq> 0 then - int (be_value (rev digits)) else int (be_value (rev digits)))
     in if is_int64 bi then TInt64 (word_of_int bi) else TBig bi)"
  unfolding dec_bigInt_def [abs_def]
  by (rule reads_bind' [OF reads_byte], simp)
    (rule reads_bind' [OF reads_wrap [OF reads_bytes [OF assms]]], simp, simp add: Let_def reads_def)

lemma reads_atom_len:
  "n < 256 \<Longrightarrow> reads (dec_atom_len True) [u8_of_len n] n"
  "n < 65536 \<Longrightarrow> reads (dec_atom_len False) (put_u16 (u16_of_len n)) n"
proof -
  assume "n < 256"
  then show "reads (dec_atom_len True) [u8_of_len n] n"
    using reads_map [OF reads_byte [of "u8_of_len n"], of unat]
    by (simp add: dec_atom_len_def [abs_def] unat_of_len)
next
  assume "n < 65536"
  then show "reads (dec_atom_len False) (put_u16 (u16_of_len n)) n"
    using reads_map [OF reads_u16 [of "u16_of_len n"], of unat]
    by (simp add: dec_atom_len_def [abs_def] unat_of_len)
qed

lemma reads_atomUTF8:
  assumes "reads (dec_atom_len small) ls (length a)"
  shows "reads (dec_atomUTF8 small) (ls @ bytes_of_string a) a"
  unfolding dec_atomUTF8_def [abs_def]
  by (rule reads_bind [OF assms])
    (rule reads_last [OF reads_wrap [OF reads_bytes]], simp_all)

lemma freads_atom:
  assumes "encAtom a = Inr bs"
  shows "freads (dec_term zlib (Suc fuel)) bs (TAtom a)"
proof (cases "length a \<le> 255")
  case True
  with assms have "bs = tagSmallAtomUTF8 # [u8_of_len (length a)] @ bytes_of_string a"
    by (simp add: encAtom_def Let_def)
  moreover have "reads (dec_atomUTF8 True) ([u8_of_len (length a)] @ bytes_of_string a) a"
    using True by (intro reads_atomUTF8 reads_atom_len) simp
  ultimately show ?thesis
    by (auto intro!: freads_term freads_Some reads_map simp: dec_tagged_simps)
next
  case False
  with assms have "bs = tagAtomUTF8 # put_u16 (u16_of_len (length a)) @ bytes_of_string a"
    and "length a < 65536"
    by (auto simp: encAtom_def Let_def split: if_splits)
  moreover from this have
    "reads (dec_atomUTF8 False) (put_u16 (u16_of_len (length a)) @ bytes_of_string a) a"
    by (intro reads_atomUTF8 reads_atom_len) simp
  ultimately show ?thesis
    by (auto intro!: freads_term freads_Some reads_map simp: dec_tagged_simps)
qed

lemma freads_int64:
  assumes "encInt64 v = Inr bs"
  shows "freads (dec_term zlib (Suc fuel)) bs (TInt64 v)"
proof -
  let ?digits = "le_digits (if sint v < 0 then - v else v)"
  let ?sign = "if sint v < 0 then 1 else 0 :: byte"
  consider (small) "0 \<le> sint v" "sint v \<le> 255" "bs = [tagSmallInteger, ucast v]"
    | (int32) "- 2147483648 \<le> sint v" "sint v \<le> 2147483647" "bs = tagInteger # put_u32 (ucast v)"
    | (big) "bs = tagSmallBig # u8_of_len (length ?digits) # ?sign # ?digits"
    using assms by (auto simp: encInt64_def Let_def split: if_splits)
  then show ?thesis
  proof cases
    case small
    then show ?thesis
      using reads_map [OF reads_byte [of "ucast v"], of "\<lambda>b. TInt64 (ucast b)"]
      by (auto intro!: freads_term freads_Some simp: dec_tagged_simps ucast_byte_small)
  next
    case int32
    then show ?thesis
      using reads_map [OF reads_bytes [of "put_u32 (ucast v)" 4], of "\<lambda>b. TInt64 (scast (get_u32 b))"]
      by (auto intro!: freads_term freads_Some simp: dec_tagged_simps scast_u32_small)
  next
    case big
    have len: "unat (u8_of_len (length ?digits)) = length ?digits"
      using le_digits_length_8 [of "if sint v < 0 then - v else v"] by (intro unat_of_len) simp
    have "reads (dec_bigInt (length ?digits)) (?sign # ?digits) (TInt64 v)"
      using reads_bigInt [OF refl, of ?digits ?sign]
      by (auto simp: Let_def le_digits_value uint_nonneg_sint uint_neg_sint split: if_splits)
    then have "reads (\<lambda>d. rbind (dec_byte d) (\<lambda>(n, d). dec_bigInt (unat n) d))
        (u8_of_len (length ?digits) # ?sign # ?digits) (TInt64 v)"
      by (intro reads_bind' [OF reads_byte]) (simp, simp only: len)
    then show ?thesis
      unfolding big by (intro freads_term) (simp add: dec_tagged_simps freads_Some)
  qed
qed

lemma reads_binary:
  assumes "length b < 4294967296"
  shows "reads dec_binary (put_u32 (u32_of_len (length b)) @ b) (TBytes b)"
  unfolding dec_binary_def [abs_def]
  by (rule reads_bind [OF reads_u32])
    (rule reads_last [OF reads_wrap [OF reads_bytes]], simp_all add: unat_of_len assms)

lemma reads_creation: "reads (dec_creation True) (put_u32 w) w"
  using reads_u32 by (simp add: dec_creation_def [abs_def])

lemma reads_ids: "reads (dec_ids (length ids) i) (concat (map put_u32 ids)) ids"
proof (induction ids arbitrary: i)
  case Nil
  show ?case by (simp add: reads_def)
next
  case (Cons w ids)
  have "reads (\<lambda>d. rbind (dec_ids (length ids) (i + 1) d) (\<lambda>(xs, d). Inr (w # xs, d)))
      (concat (map put_u32 ids)) (w # ids)"
    by (rule reads_map [OF Cons.IH])
  then show ?case
    by (simp, intro reads_bind [OF reads_wrap [OF reads_u32]]) simp
qed

lemma freads_pid:
  assumes "encPid p = Inr bs"
  shows "freads (dec_term zlib (Suc (Suc fuel))) bs (TPid p)"
proof -
  from assms obtain node where node: "encAtom (pid_Node p) = Inr node"
    and bs: "bs = tagNewPid # node @ put_u32 (pid_ID p) @ put_u32 (pid_Serial p) @ put_u32 (pid_Creation p)"
    by (auto simp: encPid_def result_simps)
  show ?thesis
    unfolding bs
    by (rule freads_term, simp only: dec_tagged_simps dec_pid_def [abs_def])
      (rule freads_bind [OF freads_wrap [OF freads_atom [OF node]]], simp,
       intro freads_Some reads_bind [OF reads_u32],
       rule reads_last [OF reads_wrap [OF reads_creation]], simp)
qed

lemma freads_port:
  assumes "encPort p = Inr bs"
  shows "freads (dec_term zlib (Suc (Suc fuel))) bs (TPort p)"
proof -
  from assms obtain node where node: "encAtom (port_Node p) = Inr node"
    and bs: "bs = tagNewPort # node @ put_u32 (port_ID p) @ put_u32 (port_Creation p)"
    by (auto simp: encPort_def result_simps)
  show ?thesis
    unfolding bs
    by (rule freads_term, simp only: dec_tagged_simps dec_port_def [abs_def])
      (rule freads_bind [OF freads_wrap [OF freads_atom [OF node]]], simp,
       intro freads_Some reads_bind [OF reads_u32],
       rule reads_last [OF reads_wrap [OF reads_creation]], simp)
qed

lemma freads_reference:
  assumes "encReference r = Inr bs" and "length (ref_IDs r) < 65536"
  shows "freads (dec_term zlib (Suc (Suc fuel))) bs (TRef r)"
proof -
  from assms obtain node where node: "encAtom (ref_Node r) = Inr node"
    and bs: "bs = tagNewerReference # put_u16 (u16_of_len (length (ref_IDs r))) @ node @
        put_u32 (ref_Creation r) @ concat (map put_u32 (ref_IDs r))"
    by (auto simp: encReference_def result_simps)
  show ?thesis
    unfolding bs
    by (rule freads_term, simp only: dec_tagged_simps dec_newReference_def [abs_def])
      (rule freads_bind [OF freads_Some [OF reads_u16]],
       rule freads_bind [OF freads_atom [OF node]],
       simp add: unat_of_len assms,
       intro freads_Some reads_bind [OF reads_wrap [OF reads_creation]],
       rule reads_last [OF reads_ids], simp)
qed

section \<open>Round trip\<close>

text \<open>
  The canonical form of a Go value: what the receiver of its encoding sees.  Booleans become
  atoms, \<open>int\<close> becomes \<open>int64\<close>, \<open>string\<close> becomes \<open>[]byte\<close>, \<open>nil\<close> the empty list.
\<close>

fun canon :: "eterm \<Rightarrow> eterm" where
  "canon (TBool b) = TAtom (if b then ''true'' else ''false'')"
| "canon (TInt v) = TInt64 v"
| "canon (TStr s) = TBytes (bytes_of_string s)"
| "canon (TTuple t) = TTuple (map canon t)"
| "canon (TList l) = TList (map canon l)"
| "canon TNil = TList []"
| "canon v = v"

text \<open>
  The sizes the format can carry: 32-bit counts for binaries, tuples and lists, a 16-bit
  count for the words of a reference.
\<close>

fun sizes_ok :: "eterm \<Rightarrow> bool" where
  "sizes_ok (TStr s) \<longleftrightarrow> length s < 2 ^ 32"
| "sizes_ok (TBytes b) \<longleftrightarrow> length b < 2 ^ 32"
| "sizes_ok (TTuple t) \<longleftrightarrow> length t < 2 ^ 32 \<and> list_all sizes_ok t"
| "sizes_ok (TList l) \<longleftrightarrow> length l < 2 ^ 32 \<and> list_all sizes_ok l"
| "sizes_ok (TRef r) \<longleftrightarrow> length (ref_IDs r) < 2 ^ 16"
| "sizes_ok _ \<longleftrightarrow> True"

text \<open>The nesting of \<open>term\<close> calls that decoding the value needs.\<close>

fun term_depth :: "eterm \<Rightarrow> nat" where
  "term_depth (TTuple t) = Suc (foldr max (map term_depth t) 0)"
| "term_depth (TList l) = Suc (foldr max (map term_depth l) 1)"
| "term_depth (TPid _) = 2"
| "term_depth (TPort _) = 2"
| "term_depth (TRef _) = 2"
| "term_depth _ = 1"

lemma foldr_max_ge: "x \<in> set xs \<Longrightarrow> f x \<le> foldr max (map f xs) (k :: nat)"
  by (induction xs) auto

lemma foldr_max_ge_init: "k \<le> foldr max xs (k :: nat)"
  by (induction xs) auto

lemma freads_elems:
  assumes "enc_elems fmt' tm' j vs = Inr bs"
    and "\<And>v b. v \<in> set vs \<Longrightarrow> tm' v = Inr b \<Longrightarrow> freads tm b (f v)"
  shows "freads (dec_elems fmt tm (length vs) i) bs (map f vs)"
  using assms
proof (induction vs arbitrary: i j bs)
  case Nil
  then show ?case by (simp add: freads_def)
next
  case (Cons v vs)
  then obtain b bs' where b: "tm' v = Inr b" and bs': "enc_elems fmt' tm' (j + 1) vs = Inr bs'"
    and bs: "bs = b @ bs'"
    by (auto simp: result_simps)
  have "freads (\<lambda>d. fbind (dec_elems fmt tm (length vs) (i + 1) d) (\<lambda>(ws, d). Some (Inr (f v # ws, d))))
      bs' (f v # map f vs)"
    using Cons.IH [OF bs'] Cons.prems(2) by (intro freads_last) auto
  moreover have "freads tm b (f v)" using Cons.prems(2) b by simp
  ultimately show ?case
    unfolding bs list.map length_Cons dec_elems.simps
    by (intro freads_bind [OF freads_wrap])
qed

lemma freads_nil: "freads (dec_term zlib (Suc fuel)) [tagNil] (TList [])"
  by (rule freads_term) (simp add: dec_tagged_simps freads_def)

lemma freads_tuple:
  assumes "encTuple tm' t = Inr bs" and "length t < 2 ^ 32"
    and "\<And>v b. v \<in> set t \<Longrightarrow> tm' v = Inr b \<Longrightarrow> freads (dec_term zlib fuel) b (canon v)"
  shows "freads (dec_term zlib (Suc fuel)) bs (canon (TTuple t))"
proof -
  from assms(1) obtain es where es: "enc_elems ''etf: tuple[%d]: %w'' tm' 0 t = Inr es"
    and bs: "bs = tuple_header (length t) @ es"
    by (auto simp: encTuple_def result_simps)
  have "freads (dec_tupleElems (dec_term zlib fuel) (length t)) es (TTuple (map canon t))"
    unfolding dec_tupleElems_def [abs_def]
    by (rule freads_last [OF freads_elems [where f = canon, OF es]]) (simp_all add: assms(3))
  then show ?thesis
    using assms(2) unfolding bs tuple_header_def
    by (auto simp: dec_tagged_simps unat_of_len
        intro!: freads_term freads_bind' [OF freads_Some [OF reads_byte]]
          freads_bind [OF freads_Some [OF reads_u32]])
qed

lemma freads_list:
  assumes "encList tm' l = Inr bs" and "length l < 2 ^ 32" and "1 \<le> fuel"
    and "\<And>v b. v \<in> set l \<Longrightarrow> tm' v = Inr b \<Longrightarrow> freads (dec_term zlib fuel) b (canon v)"
  shows "freads (dec_term zlib (Suc fuel)) bs (canon (TList l))"
proof (cases "l = []")
  case True
  then show ?thesis using assms(1) freads_nil by (auto simp: encList_def)
next
  case False
  with assms(1) obtain es where es: "enc_elems ''etf: list[%d]: %w'' tm' 0 l = Inr es"
    and bs: "bs = tagList # put_u32 (u32_of_len (length l)) @ es @ [tagNil]"
    by (auto simp: encList_def result_simps)
  have nil: "freads (dec_term zlib fuel) [tagNil] (TList [])"
    using assms(3) freads_nil [of zlib "fuel - 1"] by simp
  have len: "unat (u32_of_len (length l)) = length l"
    using assms(2) by (simp add: unat_of_len)
  show ?thesis
    unfolding bs
    by (rule freads_term, simp only: dec_tagged_simps dec_list_def [abs_def])
      (rule freads_bind [OF freads_Some [OF reads_u32]], simp only: len,
       rule freads_bind [OF freads_elems [where f = canon, OF es]], simp add: assms(4),
       rule freads_last [OF freads_wrap [OF nil]], simp add: append_tail_def)
qed

lemma freads_encTerm:
  "encTerm v = Inr bs \<Longrightarrow> sizes_ok v \<Longrightarrow> term_depth v \<le> fuel \<Longrightarrow>
   freads (dec_term zlib fuel) bs (canon v)"
proof (induction v arbitrary: bs fuel rule: encTerm.induct)
  case (8 t)
  then obtain f where f: "fuel = Suc f" by (cases fuel) auto
  have "freads (dec_term zlib f) b (canon v)" if "v \<in> set t" "encTerm v = Inr b" for v b
    using 8 that foldr_max_ge [of v t term_depth 0] by (auto simp: f list_all_iff)
  then show ?case
    unfolding f using 8 by (intro freads_tuple [where tm' = encTerm]) auto
next
  case (9 l)
  then obtain f where f: "fuel = Suc f" by (cases fuel) auto
  have "freads (dec_term zlib f) b (canon v)" if "v \<in> set l" "encTerm v = Inr b" for v b
    using 9 that foldr_max_ge [of v l term_depth 1] by (auto simp: f list_all_iff)
  moreover have "1 \<le> f"
    using 9 foldr_max_ge_init [of 1 "map term_depth l"] by (simp add: f)
  ultimately show ?case
    unfolding f using 9 by (intro freads_list [where tm' = encTerm]) auto
next
  case (10 p)
  then obtain f where "fuel = Suc (Suc f)"
    by (metis Suc_le_D numeral_2_eq_2 term_depth.simps(3) Suc_le_mono)
  with 10 show ?case by (simp add: freads_pid)
next
  case (11 p)
  then obtain f where "fuel = Suc (Suc f)"
    by (metis Suc_le_D numeral_2_eq_2 term_depth.simps(4) Suc_le_mono)
  with 11 show ?case by (simp add: freads_port)
next
  case (12 r)
  then obtain f where "fuel = Suc (Suc f)"
    by (metis Suc_le_D numeral_2_eq_2 term_depth.simps(5) Suc_le_mono)
  with 12 show ?case by (simp add: freads_reference)
next
  case (4 bits)
  then obtain f where "fuel = Suc f" by (cases fuel) auto
  moreover have "reads dec_newFloat (put_u64 bits) (TFloat bits)"
    unfolding dec_newFloat_def [abs_def]
    by (rule reads_last [OF reads_wrap [OF reads_bytes]]) simp_all
  ultimately show ?case
    using 4 by (auto intro!: freads_term freads_Some simp: dec_tagged_simps)
qed (auto simp: encBinary_def dec_tagged_simps Suc_le_eq gr0_conv_Suc
    split: if_splits intro!: freads_atom freads_int64 freads_nil freads_term freads_Some reads_binary
    intro: reads_binary [of "bytes_of_string s" for s, simplified])

end
