(* ===== verification/Etf_Safety.thy ===== *)
theory Etf_Safety
  imports Etf_Roundtrip
begin

text \<open>
  What holds of the decoder on every input, well formed or not: the cursor stays inside the
  buffer and moves forward, the result is a term in canonical form, more fuel never
  changes a result, and enough fuel always gives one.
\<close>

section \<open>Wire terms\<close>

text \<open>The terms a decoder can return: no Go-only scalar, a \<open>*big.Int\<close> only outside \<open>int64\<close>.\<close>

fun wire_term :: "eterm \<Rightarrow> bool" where
  "wire_term (TInt64 _) \<longleftrightarrow> True"
| "wire_term (TBig i) \<longleftrightarrow> \<not> is_int64 i"
| "wire_term (TFloat _) \<longleftrightarrow> True"
| "wire_term (TAtom _) \<longleftrightarrow> True"
| "wire_term (TBytes _) \<longleftrightarrow> True"
| "wire_term (TTuple t) \<longleftrightarrow> list_all wire_term t"
| "wire_term (TList l) \<longleftrightarrow> list_all wire_term l"
| "wire_term (TPid _) \<longleftrightarrow> True"
| "wire_term (TPort _) \<longleftrightarrow> True"
| "wire_term (TRef _) \<longleftrightarrow> True"
| "wire_term _ \<longleftrightarrow> False"

lemma wire_term_canon: "wire_term v \<Longrightarrow> canon v = v"
  by (induction v rule: wire_term.induct) (auto simp: list_all_iff intro!: map_idI)

section \<open>Sound decoders\<close>

definition in_buf :: "decoder \<Rightarrow> bool" where
  "in_buf d \<longleftrightarrow> pos d \<le> length (buf d)"

definition advances :: "decoder \<Rightarrow> decoder \<Rightarrow> bool" where
  "advances d d' \<longleftrightarrow> buf d' = buf d \<and> pos d \<le> pos d' \<and> in_buf d'"

lemma advances_refl: "in_buf d \<Longrightarrow> advances d d"
  by (simp add: advances_def)

lemma advances_trans: "advances d e \<Longrightarrow> advances e f \<Longrightarrow> advances d f"
  by (auto simp: advances_def)

lemma advances_in_buf: "advances d d' \<Longrightarrow> in_buf d'"
  by (simp add: advances_def)

definition sound :: "('a \<Rightarrow> bool) \<Rightarrow> 'a dec \<Rightarrow> bool" where
  "sound P p \<longleftrightarrow> (\<forall>d v d'. in_buf d \<longrightarrow> p d = Inr (v, d') \<longrightarrow> P v \<and> advances d d')"

definition fsound :: "('a \<Rightarrow> bool) \<Rightarrow> 'a fdec \<Rightarrow> bool" where
  "fsound P p \<longleftrightarrow> (\<forall>d v d'. in_buf d \<longrightarrow> p d = Some (Inr (v, d')) \<longrightarrow> P v \<and> advances d d')"

lemma soundI: "(\<And>d v d'. in_buf d \<Longrightarrow> p d = Inr (v, d') \<Longrightarrow> P v \<and> advances d d') \<Longrightarrow> sound P p"
  unfolding sound_def by blast

lemma soundD: "sound P p \<Longrightarrow> in_buf d \<Longrightarrow> p d = Inr (v, d') \<Longrightarrow> P v \<and> advances d d'"
  unfolding sound_def by blast

lemma fsoundI:
  "(\<And>d v d'. in_buf d \<Longrightarrow> p d = Some (Inr (v, d')) \<Longrightarrow> P v \<and> advances d d') \<Longrightarrow> fsound P p"
  unfolding fsound_def by blast

lemma fsoundD: "fsound P p \<Longrightarrow> in_buf d \<Longrightarrow> p d = Some (Inr (v, d')) \<Longrightarrow> P v \<and> advances d d'"
  unfolding fsound_def by blast

named_theorems sound_intros "soundness of the decoder's building blocks"

lemma sound_ret [sound_intros]: "P x \<Longrightarrow> sound P (\<lambda>d. Inr (x, d))"
  by (rule soundI) (auto intro: advances_refl)

lemma sound_err [sound_intros]: "sound P (\<lambda>d. Inl (e d))"
  by (rule soundI) simp

lemma sound_bind:
  assumes p: "sound Q p" and q: "\<And>x. Q x \<Longrightarrow> sound P (q x)"
  shows "sound P (\<lambda>d. rbind (p d) (\<lambda>(x, d). q x d))"
proof (rule soundI)
  fix d v d' assume d: "in_buf d" and r: "rbind (p d) (\<lambda>(x, d). q x d) = Inr (v, d')"
  then obtain x e where x: "p d = Inr (x, e)" and v: "q x e = Inr (v, d')"
    by (auto simp: result_simps)
  from soundD [OF p d x] have "Q x" and e: "advances d e" by auto
  from soundD [OF q [OF \<open>Q x\<close>] advances_in_buf [OF e] v] e
  show "P v \<and> advances d d'" by (auto intro: advances_trans)
qed

lemmas sound_bind_any [sound_intros] = sound_bind [where Q = "\<lambda>_. True"]

lemma sound_wrap [sound_intros]: "sound P p \<Longrightarrow> sound P (\<lambda>d. wrap_error w (p d))"
  by (simp add: sound_def)

lemma fsound_Some [sound_intros]: "sound P p \<Longrightarrow> fsound P (\<lambda>d. Some (p d))"
  by (simp add: sound_def fsound_def)

lemma fsound_None [sound_intros]: "fsound P (\<lambda>d. None)"
  by (rule fsoundI) simp

lemma fsound_bind:
  assumes p: "fsound Q p" and q: "\<And>x. Q x \<Longrightarrow> fsound P (q x)"
  shows "fsound P (\<lambda>d. fbind (p d) (\<lambda>(x, d). q x d))"
proof (rule fsoundI)
  fix d v d' assume d: "in_buf d" and r: "fbind (p d) (\<lambda>(x, d). q x d) = Some (Inr (v, d'))"
  then obtain x e where x: "p d = Some (Inr (x, e))" and v: "q x e = Some (Inr (v, d'))"
    by (auto simp: result_simps)
  from fsoundD [OF p d x] have "Q x" and e: "advances d e" by auto
  from fsoundD [OF q [OF \<open>Q x\<close>] advances_in_buf [OF e] v] e
  show "P v \<and> advances d d'" by (auto intro: advances_trans)
qed

lemmas fsound_bind_any = fsound_bind [where Q = "\<lambda>_. True"]
lemmas fsound_bind_wire = fsound_bind [where Q = wire_term]
lemmas fsound_bind_wires = fsound_bind [where Q = "list_all wire_term"]

lemma fsound_wrap [sound_intros]: "fsound P p \<Longrightarrow> fsound P (\<lambda>d. fwrap w (p d))"
  by (simp add: fsound_def)

lemma fsound_case_option [sound_intros]:
  "fsound P n \<Longrightarrow> (\<And>y. fsound P (s y)) \<Longrightarrow> fsound P (\<lambda>d. case x of None \<Rightarrow> n d | Some y \<Rightarrow> s y d)"
  by (cases x) auto

lemma fsound_if: "fsound P f \<Longrightarrow> fsound P g \<Longrightarrow> fsound P (\<lambda>d. if c then f d else g d)"
  by (cases c) simp_all

lemma sound_byte [sound_intros]: "sound (\<lambda>_. True) dec_byte"
  by (rule soundI) (auto simp: dec_byte_def advances_def in_buf_def split: if_splits)

lemma sound_bytes [sound_intros]: "sound (\<lambda>_. True) (dec_bytes n)"
  by (rule soundI) (auto simp: dec_bytes_def advances_def in_buf_def split: if_splits)

lemma sound_u16 [sound_intros]: "sound (\<lambda>_. True) dec_uint16"
  unfolding dec_uint16_def [abs_def] by (intro sound_intros) simp

lemma sound_u32 [sound_intros]: "sound (\<lambda>_. True) dec_uint32"
  unfolding dec_uint32_def [abs_def] by (intro sound_intros) simp

lemma sound_creation [sound_intros]: "sound (\<lambda>_. True) (dec_creation n)"
  unfolding dec_creation_def [abs_def]
  by (cases n) (simp_all add: sound_u32, intro sound_intros, simp)

lemma sound_atom_len [sound_intros]: "sound (\<lambda>_. True) (dec_atom_len small)"
  unfolding dec_atom_len_def [abs_def]
  by (cases small) (simp_all, (intro sound_intros, simp)+)

lemma sound_atoms [sound_intros]:
  "sound (\<lambda>_. True) (dec_atomUTF8 small)" "sound (\<lambda>_. True) (dec_atomLatin1 small)"
  unfolding dec_atomUTF8_def [abs_def] dec_atomLatin1_def [abs_def] by (rule sound_bind_any, (intro sound_intros; simp)+)+

lemma sound_bigInt [sound_intros]: "sound wire_term (dec_bigInt n)"
  unfolding dec_bigInt_def [abs_def] Let_def by (intro sound_intros) auto

lemma sound_scalars [sound_intros]:
  "sound wire_term dec_newFloat" "sound wire_term dec_stringExt" "sound wire_term dec_binary"
  unfolding dec_newFloat_def [abs_def] dec_stringExt_def [abs_def] dec_binary_def [abs_def]
  by (rule sound_bind_any, (intro sound_intros; simp add: list_all_iff)+)+

lemma sound_ids [sound_intros]: "sound (\<lambda>_. True) (dec_ids n i)"
proof (induction n arbitrary: i)
  case 0
  then show ?case by (simp add: sound_ret)
next
  case (Suc n)
  show ?case unfolding dec_ids.simps by (intro sound_intros Suc.IH) simp
qed

lemma fsound_elems:
  assumes "fsound wire_term tm"
  shows "fsound (list_all wire_term) (dec_elems fmt tm n i)"
proof (induction n arbitrary: i)
  case 0
  then show ?case by (simp add: fsound_Some sound_ret)
next
  case (Suc n)
  show ?case
    unfolding dec_elems.simps
    by (rule fsound_bind_wire [OF fsound_wrap [OF assms]], rule fsound_bind_wires [OF Suc.IH])
      (simp add: fsound_Some sound_ret)
qed

lemma wire_append_tail:
  "list_all wire_term elems \<Longrightarrow> wire_term tail \<Longrightarrow> list_all wire_term (append_tail elems tail)"
  by (auto simp: append_tail_def split: eterm.splits)

lemma fsound_compressed:
  assumes "fsound wire_term tm"
  shows "fsound wire_term (dec_compressed zlib tm)"
proof (rule fsoundI)
  fix d v d'
  assume d: "in_buf d" and r: "dec_compressed zlib tm d = Some (Inr (v, d'))"
  from r obtain n d1 plain inner where
    u: "dec_uint32 d = Inr (n, d1)" and t: "tm \<lparr>buf = plain, pos = 0\<rparr> = Some (Inr (v, inner))"
    and d': "d' = d1\<lparr>pos := length (buf d1)\<rparr>"
    by (auto simp: dec_compressed_def result_simps split: sum.splits zlib_result.splits prod.splits)
  from soundD [OF sound_u32 d u] have "buf d1 = buf d" by (simp add: advances_def)
  moreover from fsoundD [OF assms _ t] have "wire_term v" by (simp add: in_buf_def)
  ultimately show "wire_term v \<and> advances d d'" using d' d by (simp add: advances_def in_buf_def)
qed

lemma fsound_tupleElems: "fsound wire_term tm \<Longrightarrow> fsound wire_term (dec_tupleElems tm n)"
  unfolding dec_tupleElems_def [abs_def]
  by (rule fsound_bind_wires [OF fsound_elems]) (simp_all add: fsound_Some sound_ret)

lemma fsound_list: "fsound wire_term tm \<Longrightarrow> fsound wire_term (dec_list tm)"
  unfolding dec_list_def [abs_def]
  by (rule fsound_bind_any [OF fsound_Some [OF sound_u32]], rule fsound_bind_wires [OF fsound_elems],
      simp, rule fsound_bind_wire [OF fsound_wrap])
    (simp_all add: fsound_Some sound_ret wire_append_tail)

lemma fsound_handles:
  assumes "fsound wire_term tm"
  shows "fsound wire_term (dec_pid tm b)" and "fsound wire_term (dec_port tm b)"
    and "fsound wire_term (dec_referenceOld tm)" and "fsound wire_term (dec_newReference tm b)"
  unfolding dec_pid_def [abs_def] dec_port_def [abs_def] dec_referenceOld_def [abs_def]
    dec_newReference_def [abs_def]
  subgoal by (rule fsound_bind_wire [OF fsound_wrap [OF assms]]) (intro sound_intros, simp)
  subgoal by (rule fsound_bind_wire [OF fsound_wrap [OF assms]]) (intro sound_intros, simp)
  subgoal by (rule fsound_bind_wire [OF assms]) (intro sound_intros, simp)
  subgoal
    by (rule fsound_bind_any [OF fsound_Some [OF sound_u16]], rule fsound_bind_wire [OF assms])
      (intro sound_intros, simp)
  done

lemma fsound_tagged:
  assumes tm: "fsound wire_term tm"
  shows "fsound wire_term (dec_tagged zlib tm tag)"
proof -
  have atoms: "fsound wire_term (\<lambda>d. Some (rbind (dec_atomLatin1 small d) (\<lambda>(a, d). Inr (TAtom a, d))))"
    "fsound wire_term (\<lambda>d. Some (rbind (dec_atomUTF8 small d) (\<lambda>(a, d). Inr (TAtom a, d))))" for small
    by (rule fsound_Some, intro sound_intros, simp)+
  have ints: "fsound wire_term (\<lambda>d. Some (rbind (dec_byte d) (\<lambda>(b, d). Inr (TInt64 (ucast b), d))))"
    "fsound wire_term (\<lambda>d. Some (rbind (dec_bytes 4 d) (\<lambda>(b, d). Inr (TInt64 (scast (get_u32 b)), d))))"
    "fsound wire_term (\<lambda>d. Some (rbind (dec_byte d) (\<lambda>(n, d). dec_bigInt (unat n) d)))"
    "fsound wire_term (\<lambda>d. Some (rbind (dec_uint32 d) (\<lambda>(n, d). dec_bigInt (unat n) d)))"
    by (intro sound_intros; simp)+
  have tuples: "fsound wire_term (\<lambda>d. fbind (Some (dec_byte d)) (\<lambda>(ar, d). dec_tupleElems tm (unat ar) d))"
    "fsound wire_term (\<lambda>d. fbind (Some (dec_uint32 d)) (\<lambda>(ar, d). dec_tupleElems tm (unat ar) d))"
    by (rule fsound_bind_any, (intro sound_intros fsound_tupleElems tm)+)+
  have rets: "fsound wire_term (\<lambda>d. Some (Inr (TList [], d)))"
    "fsound wire_term (\<lambda>d. Some (Inl (ErrUnsupportedTag tag (int (pos d - 1)))))"
    by (intro sound_intros; simp)+
  note parts = atoms ints tuples rets fsound_compressed [OF tm] fsound_list [OF tm]
    fsound_handles [OF tm] sound_scalars [THEN fsound_Some]
  show ?thesis
    unfolding dec_tagged_def [abs_def] by (intro fsound_if parts)
qed

lemma fsound_term: "fsound wire_term (dec_term zlib fuel)"
proof (induction fuel)
  case 0
  then show ?case unfolding dec_term.simps by (rule fsound_None)
next
  case (Suc fuel)
  show ?case
    unfolding dec_term.simps
    by (rule fsound_bind_any) (intro sound_intros, rule fsound_tagged [OF Suc.IH])
qed

section \<open>Fuel\<close>

text \<open>\<open>fle p q\<close>: wherever \<open>p\<close> returns, \<open>q\<close> returns the same.\<close>

definition fle :: "('s \<Rightarrow> 'b option) \<Rightarrow> ('s \<Rightarrow> 'b option) \<Rightarrow> bool" where
  "fle p q \<longleftrightarrow> (\<forall>d r. p d = Some r \<longrightarrow> q d = Some r)"

lemma fleD: "fle p q \<Longrightarrow> p d = Some r \<Longrightarrow> q d = Some r"
  unfolding fle_def by blast

lemma fle_refl: "fle p p"
  by (simp add: fle_def)

lemma fle_None: "fle (\<lambda>d. None) p"
  by (simp add: fle_def)

lemma fle_bind:
  assumes "fle p q" and "\<And>x. fle (\<lambda>d. f (x, d)) (\<lambda>d. g (x, d))"
  shows "fle (\<lambda>d. fbind (p d) f) (\<lambda>d. fbind (q d) g)"
  unfolding fle_def
proof (intro allI impI)
  fix d r assume r: "fbind (p d) f = Some r"
  then obtain s where s: "p d = Some s" by (cases "p d") auto
  with assms(1) have q: "q d = Some s" by (rule fleD)
  show "fbind (q d) g = Some r"
  proof (cases s)
    case (Inr y)
    obtain x e where y: "y = (x, e)" by (cases y)
    from r s Inr y have "f (x, e) = Some r" by simp
    from fleD [OF assms(2), OF this] show ?thesis by (simp add: q Inr y)
  qed (use r s q in simp)
qed

lemma fle_wrap: "fle p q \<Longrightarrow> fle (\<lambda>d. fwrap w (p d)) (\<lambda>d. fwrap w (q d))"
  by (simp add: fle_def fwrap_def) blast

lemma fle_if:
  "fle p q \<Longrightarrow> fle p' q' \<Longrightarrow> fle (\<lambda>d. if c then p d else p' d) (\<lambda>d. if c then q d else q' d)"
  by (cases c) simp_all

lemma fle_elems: "fle tm tm' \<Longrightarrow> fle (dec_elems fmt tm n i) (dec_elems fmt tm' n i)"
proof (induction n arbitrary: i)
  case 0
  then show ?case by (simp add: fle_def)
next
  case (Suc n)
  show ?case
    unfolding dec_elems.simps
    by (rule fle_bind [OF fle_wrap [OF Suc.prems]], simp)
      (rule fle_bind [OF Suc.IH [OF Suc.prems]], rule fle_refl)
qed

lemma fle_methods:
  assumes "fle tm tm'"
  shows "fle (dec_tupleElems tm n) (dec_tupleElems tm' n)" and "fle (dec_list tm) (dec_list tm')"
    and "fle (dec_pid tm b) (dec_pid tm' b)" and "fle (dec_port tm b) (dec_port tm' b)"
    and "fle (dec_referenceOld tm) (dec_referenceOld tm')"
    and "fle (dec_newReference tm b) (dec_newReference tm' b)"
  unfolding dec_tupleElems_def [abs_def] dec_list_def [abs_def] dec_pid_def [abs_def]
    dec_port_def [abs_def] dec_referenceOld_def [abs_def] dec_newReference_def [abs_def]
  by (simp_all add: fle_bind fle_elems fle_wrap fle_refl assms)

lemma fle_compressed:
  assumes "fle tm tm'"
  shows "fle (dec_compressed zlib tm) (dec_compressed zlib tm')"
  using fleD [OF assms]
  by (auto simp: fle_def dec_compressed_def fbind_def split: sum.splits zlib_result.splits option.splits)

lemma fle_tagged:
  assumes "fle tm tm'"
  shows "fle (dec_tagged zlib tm tag) (dec_tagged zlib tm' tag)"
  unfolding dec_tagged_def [abs_def]
  by (intro fle_if fle_refl fle_compressed fle_methods assms)
    (rule fle_bind [OF fle_refl], simp add: fle_methods assms)+

lemma fle_term: "fuel \<le> fuel' \<Longrightarrow> fle (dec_term zlib fuel) (dec_term zlib fuel')"
proof (induction fuel arbitrary: fuel')
  case 0
  show ?case unfolding dec_term.simps by (rule fle_None)
next
  case (Suc fuel)
  then obtain k where k: "fuel' = Suc k" and le: "fuel \<le> k" by (cases fuel') auto
  show ?case
    unfolding k dec_term.simps
    by (rule fle_bind [OF fle_refl]) (simp add: fle_tagged [OF Suc.IH [OF le]])
qed

section \<open>Termination\<close>

text \<open>
  \<open>zdepth zlib k b\<close>: payloads compressed inside \<open>b\<close> are nested at most \<open>k\<close> deep, and a
  decompressed payload has the announced length (\<open>io.ReadFull\<close>).
\<close>

primrec zdepth :: "zlib \<Rightarrow> nat \<Rightarrow> byte list \<Rightarrow> bool" where
  "zdepth zlib 0 b \<longleftrightarrow> (\<forall>i n p. zlib (drop i b) n \<noteq> ZlibOk p)"
| "zdepth zlib (Suc k) b \<longleftrightarrow>
     (\<forall>i n p. zlib (drop i b) n = ZlibOk p \<longrightarrow> length p = n \<and> zdepth zlib k p)"

text \<open>\<open>rets b k p\<close>: on the buffer \<open>b\<close>, from position \<open>k\<close> on, \<open>p\<close> returns (a value or an error).\<close>

definition rets :: "byte list \<Rightarrow> nat \<Rightarrow> 'a fdec \<Rightarrow> bool" where
  "rets b k p \<longleftrightarrow> (\<forall>d. buf d = b \<longrightarrow> k \<le> pos d \<longrightarrow> in_buf d \<longrightarrow> p d \<noteq> None)"

lemma retsI: "(\<And>d. buf d = b \<Longrightarrow> k \<le> pos d \<Longrightarrow> in_buf d \<Longrightarrow> p d \<noteq> None) \<Longrightarrow> rets b k p"
  unfolding rets_def by blast

lemma retsD: "rets b k p \<Longrightarrow> buf d = b \<Longrightarrow> k \<le> pos d \<Longrightarrow> in_buf d \<Longrightarrow> p d \<noteq> None"
  unfolding rets_def by blast

lemma rets_Some: "rets b k (\<lambda>d. Some (p d))"
  by (rule retsI) simp

lemma rets_wrap: "rets b k p \<Longrightarrow> rets b k (\<lambda>d. fwrap w (p d))"
  by (rule retsI) (simp add: retsD del: not_None_eq)

lemma rets_if: "rets b k p \<Longrightarrow> rets b k q \<Longrightarrow> rets b k (\<lambda>d. if c then p d else q d)"
  by (cases c) simp_all

lemma rets_bind:
  assumes p: "rets b k p" and s: "fsound Q p" and q: "\<And>x. rets b k (\<lambda>d. q (x, d))"
  shows "rets b k (\<lambda>d. fbind (p d) q)"
proof (rule retsI)
  fix d assume d: "buf d = b" "k \<le> pos d" "in_buf d"
  show "fbind (p d) q \<noteq> None"
  proof
    assume "fbind (p d) q = None"
    with retsD [OF p d] obtain x e where x: "p d = Some (Inr (x, e))" and n: "q (x, e) = None"
      by (auto simp: result_simps)
    from fsoundD [OF s d(3) x] have "advances d e" by simp
    with d have "buf e = b" "k \<le> pos e" "in_buf e" by (auto simp: advances_def)
    from retsD [OF q [of x] this] n show False by simp
  qed
qed

lemma rets_elems:
  assumes "rets b k tm" and "fsound wire_term tm"
  shows "rets b k (dec_elems fmt tm n i)"
proof (induction n arbitrary: i)
  case 0
  show ?case unfolding dec_elems.simps by (rule rets_Some)
next
  case (Suc n)
  show ?case
    unfolding dec_elems.simps
    by (rule rets_bind [OF rets_wrap [OF assms(1)] fsound_wrap [OF assms(2)]], simp)
      (rule rets_bind [OF Suc.IH fsound_elems [OF assms(2)]], simp add: rets_Some)
qed

lemma rets_case_option:
  "rets b k n \<Longrightarrow> (\<And>y. rets b k (s y)) \<Longrightarrow> rets b k (\<lambda>d. case x of None \<Rightarrow> n d | Some y \<Rightarrow> s y d)"
  by (cases x) auto

lemma rets_methods:
  assumes t: "rets b k tm" and s: "fsound wire_term tm"
  shows "rets b k (dec_tupleElems tm n)" and "rets b k (dec_list tm)"
    and "rets b k (dec_pid tm c)" and "rets b k (dec_port tm c)"
    and "rets b k (dec_referenceOld tm)" and "rets b k (dec_newReference tm c)"
  unfolding dec_tupleElems_def [abs_def] dec_list_def [abs_def] dec_pid_def [abs_def]
    dec_port_def [abs_def] dec_referenceOld_def [abs_def] dec_newReference_def [abs_def]
  by (simp_all add: rets_bind [OF rets_Some fsound_Some [OF sound_u32]]
      rets_bind [OF rets_Some fsound_Some [OF sound_u16]]
      rets_bind [OF rets_elems [OF t s] fsound_elems [OF s]]
      rets_bind [OF rets_wrap [OF t] fsound_wrap [OF s]] rets_bind [OF t s] rets_Some
      rets_case_option)

lemma rets_compressed:
  assumes z: "zdepth zlib k b"
    and inner: "\<And>j p. k = Suc j \<Longrightarrow> zdepth zlib j p \<Longrightarrow> length p < 2 ^ 32 \<Longrightarrow> tm \<lparr>buf = p, pos = 0\<rparr> \<noteq> None"
  shows "rets b m (dec_compressed zlib tm)"
proof (rule retsI)
  fix d :: decoder assume d: "buf d = b" "in_buf d"
  show "dec_compressed zlib tm d \<noteq> None"
  proof
    assume "dec_compressed zlib tm d = None"
    then obtain n e p where u: "dec_uint32 d = Inr (n, e)"
      and p: "zlib (drop (pos e) (buf e)) (unat n) = ZlibOk p" and n: "tm \<lparr>buf = p, pos = 0\<rparr> = None"
      by (auto simp: dec_compressed_def result_simps split: sum.splits zlib_result.splits prod.splits)
    from soundD [OF sound_u32 d(2) u] d have "buf e = b" by (simp add: advances_def)
    with z p obtain j where "k = Suc j" "zdepth zlib j p" "length p = unat n" by (cases k) auto
    with inner [of j p] n unat_word_less(2) [of n] show False by simp
  qed
qed

lemma rets_tagged:
  assumes t: "rets b k tm" and s: "fsound wire_term tm" and c: "rets b k (dec_compressed zlib tm)"
  shows "rets b k (dec_tagged zlib tm tag)"
  unfolding dec_tagged_def [abs_def]
  by (intro rets_if rets_Some c rets_methods [OF t s])
    (rule rets_bind [OF rets_Some fsound_Some], (rule sound_byte sound_u32), simp add: rets_methods [OF t s])+

lemma dec_term_returns:
  "zdepth zlib k (buf d) \<Longrightarrow> in_buf d \<Longrightarrow> k * 2 ^ 32 + (length (buf d) - pos d) < fuel \<Longrightarrow>
   dec_term zlib fuel d \<noteq> None"
proof (induction fuel arbitrary: k d)
  case 0
  then show ?case by simp
next
  case (Suc fuel)
  show ?case
  proof
    assume "dec_term zlib (Suc fuel) d = None"
    then obtain tag e where t: "dec_byte d = Inr (tag, e)"
      and n: "dec_tagged zlib (dec_term zlib fuel) tag e = None"
      by (auto simp: dec_term.simps result_simps)
    from t have e: "buf e = buf d" "pos e = pos d + 1" "pos d < length (buf d)" "in_buf e"
      by (auto simp: dec_byte_def in_buf_def split: if_splits)
    have "rets (buf d) (pos e) (dec_term zlib fuel)"
    proof (rule retsI)
      fix d' assume "buf d' = buf d" "pos e \<le> pos d'" "in_buf d'"
      with Suc.prems e show "dec_term zlib fuel d' \<noteq> None" by (intro Suc.IH [of k]) auto
    qed
    moreover have "rets (buf d) (pos e) (dec_compressed zlib (dec_term zlib fuel))"
    proof (rule rets_compressed [OF Suc.prems(1)])
      fix j p assume "k = Suc j" "zdepth zlib j p" "length p < 2 ^ 32"
      with Suc.prems e show "dec_term zlib fuel \<lparr>buf = p, pos = 0\<rparr> \<noteq> None"
        by (intro Suc.IH [of j]) (auto simp: in_buf_def)
    qed
    ultimately have "rets (buf d) (pos e) (dec_tagged zlib (dec_term zlib fuel) tag)"
      using fsound_term by (intro rets_tagged)
    from retsD [OF this e(1) order_refl e(4)] n show False by simp
  qed
qed

end
