(* ===== verification/Etf_Correct.thy ===== *)
theory Etf_Correct
  imports Etf_Safety
begin

text \<open>
  The contract of the External Term Format codec, over \<open>Encode\<close> and \<open>Decode\<close>: which
  values can be encoded, that a decoder gives back the canonical form of what was encoded, that
  whatever it returns is canonical, and when it returns.
\<close>

section \<open>Shared facts\<close>

lemma Decode_reads:
  assumes "freads (dec_term zlib fuel) bs v" and "bs \<noteq> []"
  shows "Decode zlib fuel (versionMagic # bs @ rest) = Some (Inr v)"
proof -
  have "ahead \<lparr>buf = versionMagic # bs @ rest, pos = 1\<rparr> (bs @ rest)" by (simp add: ahead_def)
  from freadsD [OF assms(1) this]
  have "dec_term zlib fuel \<lparr>buf = versionMagic # bs @ rest, pos = 1\<rparr> =
      Some (Inr (v, skip (length bs) \<lparr>buf = versionMagic # bs @ rest, pos = 1\<rparr>))" .
  moreover obtain b bs' where "bs = b # bs'" using assms(2) by (cases bs) auto
  ultimately show ?thesis by (simp add: Decode_def)
qed

lemma encAtom_nonempty: "encAtom a = Inr bs \<Longrightarrow> bs \<noteq> []"
  by (auto simp: encAtom_def Let_def split: if_splits)

lemma encInt64_nonempty: "encInt64 v = Inr bs \<Longrightarrow> bs \<noteq> []"
  by (auto simp: encInt64_def Let_def split: if_splits)

lemma encTerm_nonempty: "encTerm v = Inr bs \<Longrightarrow> bs \<noteq> []"
  by (cases v)
    (auto simp: encBinary_def encTuple_def tuple_header_def encList_def encPid_def encPort_def
      encReference_def result_simps dest: encAtom_nonempty encInt64_nonempty split: if_splits)

lemma Encode_eq_Inr: "Encode v = Inr bs \<longleftrightarrow> (\<exists>b. encTerm v = Inr b \<and> bs = versionMagic # b)"
  by (auto simp: Encode_def result_simps)

lemma Decode_Encode_rest:
  assumes "Encode v = Inr bs" and "sizes_ok v" and "term_depth v \<le> fuel"
  shows "Decode zlib fuel (bs @ rest) = Some (Inr (canon v))"
proof -
  from assms(1) obtain b where b: "encTerm v = Inr b" and bs: "bs = versionMagic # b"
    by (auto simp: Encode_eq_Inr)
  from Decode_reads [OF freads_encTerm [OF b assms(2,3)] encTerm_nonempty [OF b]]
  show ?thesis by (simp add: bs)
qed

lemma Decode_wire_term:
  assumes "Decode zlib fuel data = Some (Inr v)"
  shows "wire_term v"
proof -
  from assms obtain d' where r: "dec_term zlib fuel \<lparr>buf = data, pos = 1\<rparr> = Some (Inr (v, d'))"
    and "1 \<le> length data"
    by (auto simp: Decode_def result_simps split: list.splits if_splits)
  then have "in_buf \<lparr>buf = data, pos = 1\<rparr>" by (simp add: in_buf_def)
  from fsoundD [OF fsound_term this r] show ?thesis by simp
qed


text \<open>The values \<open>Encode\<close> accepts.\<close>

fun encodable :: "eterm \<Rightarrow> bool" where
  "encodable (TUint _) \<longleftrightarrow> False"
| "encodable (TUint32 _) \<longleftrightarrow> False"
| "encodable (TBig _) \<longleftrightarrow> False"
| "encodable (TOther _) \<longleftrightarrow> False"
| "encodable (TAtom a) \<longleftrightarrow> length a \<le> 65535"
| "encodable (TPid p) \<longleftrightarrow> length (pid_Node p) \<le> 65535"
| "encodable (TPort p) \<longleftrightarrow> length (port_Node p) \<le> 65535"
| "encodable (TRef r) \<longleftrightarrow> length (ref_Node r) \<le> 65535"
| "encodable (TTuple t) \<longleftrightarrow> list_all encodable t"
| "encodable (TList l) \<longleftrightarrow> list_all encodable l"
| "encodable _ \<longleftrightarrow> True"

lemma is_ok_rbind_total: "(\<And>x. is_ok (f x)) \<Longrightarrow> is_ok (rbind m f) = is_ok m"
  by (cases m) auto

lemma is_ok_encAtom: "is_ok (encAtom a) \<longleftrightarrow> length a \<le> 65535"
  by (auto simp: encAtom_def Let_def)

lemma is_ok_encInt64: "is_ok (encInt64 v)"
  using le_digits_length_8 [of v] le_digits_length_8 [of "- v"] by (simp add: encInt64_def Let_def)

lemma is_ok_enc_elems: "is_ok (enc_elems fmt tm i vs) \<longleftrightarrow> (\<forall>v \<in> set vs. is_ok (tm v))"
proof (induction vs arbitrary: i)
  case (Cons v vs)
  show ?case
    using Cons.IH [of "i + 1"]
    by (cases "tm v"; cases "enc_elems fmt tm (i + 1) vs") auto
qed simp

lemma is_ok_encTerm: "is_ok (encTerm v) \<longleftrightarrow> encodable v"
  by (induction v rule: encTerm.induct)
    (auto simp: is_ok_encAtom is_ok_encInt64 encBinary_def encTuple_def encList_def encPid_def
      encPort_def encReference_def is_ok_rbind_total is_ok_enc_elems list_all_iff)

section \<open>Properties\<close>



text \<open>
  C2: \<open>Encode\<close> succeeds exactly on the values built from the supported dynamic types whose
  atoms, node names included, are at most 65535 bytes; in particular its
  "int64 too large" branch is dead.
\<close>

theorem encode_succeeds_iff: "is_ok (Encode v) \<longleftrightarrow> encodable v"
  by (simp add: Encode_def is_ok_rbind_total is_ok_encTerm)



text \<open>
  C4: \<open>Decode\<close> returns, with a value or an error, on every input whose compressed payloads are
  nested at most \<open>k\<close> deep; the fuel \<open>k * 2 ^ 32 + length data + 1\<close> is enough, and more fuel
  changes nothing.
\<close>

theorem decode_returns:
  assumes "zdepth zlib k data" and "k * 2 ^ 32 + length data < fuel"
  shows "\<exists>r. \<forall>fuel' \<ge> fuel. Decode zlib fuel' data = Some r"
proof -
  have d: "dec_term zlib fuel \<lparr>buf = data, pos = 1\<rparr> \<noteq> None" if "2 \<le> length data"
    using that assms by (intro dec_term_returns [of zlib k]) (simp_all add: in_buf_def)
  have "Decode zlib fuel data \<noteq> None"
    using d by (auto simp: Decode_def fbind_def split: list.splits sum.splits)
  then obtain r where r: "Decode zlib fuel data = Some r" by blast
  have "Decode zlib fuel' data = Some r" if "fuel \<le> fuel'" for fuel'
  proof -
    have "fle (\<lambda>d. fbind (dec_term zlib fuel d) (\<lambda>(v, d). Some (Inr v)))
        (\<lambda>d. fbind (dec_term zlib fuel' d) (\<lambda>(v, d). Some (Inr v)))"
      by (rule fle_bind [OF fle_term [OF that] fle_refl])
    from fleD [OF this] r show ?thesis by (auto simp: Decode_def split: list.splits if_splits)
  qed
  then show ?thesis by blast
qed

text \<open>A decompressor that knows one stream, the byte 1, for the payload \<open>[97, 5]\<close>.\<close>

definition one_stream :: zlib where
  "one_stream c n = (if c = [1] \<and> n = 2 then ZlibOk [97, 5] else ZlibData IoUnexpectedEOF)"

theorem decode_returns_witness:
  "\<exists>r. \<forall>fuel \<ge> 2 ^ 32 + 8. Decode one_stream fuel [131, 80, 0, 0, 0, 2, 1] = Some r"
proof -
  have "\<not> (drop i [97, 5 :: byte] = [1])" for i
    by (cases i; cases "i - 1"; cases "i - 2") auto
  then have "zdepth one_stream 1 [131, 80, 0, 0, 0, 2, 1]"
    by (auto simp: one_stream_def split: if_splits)
  from decode_returns [OF this, of "2 ^ 32 + 8"] show ?thesis by simp
qed

text \<open>
  C5: a decoded value that can be encoded again survives the second trip unchanged.
\<close>

theorem decode_encode_stable:
  assumes "Decode zlib fuel data = Some (Inr v)" and "Encode v = Inr bs"
    and "sizes_ok v" and "term_depth v \<le> fuel'"
  shows "Decode zlib' fuel' bs = Some (Inr v)"
  using Decode_Encode_rest [OF assms(2-4), of zlib' "[]"] wire_term_canon [OF Decode_wire_term [OF assms(1)]]
  by simp

theorem decode_encode_stable_witness:
  "Decode one_stream 1 [131, 97, 5] = Some (Inr (TInt64 5))"
proof (rule decode_encode_stable)
  show "Decode one_stream 2 [131, 80, 0, 0, 0, 2, 1] = Some (Inr (TInt64 5))"
    by code_simp
  show "Encode (TInt64 5) = Inr [131, 97, 5]" by (simp add: Encode_def encInt64_def)
qed simp_all

text \<open>
  C6: the element count of a reference is truncated to 16 bits: whatever the number of id
  words, the receiver sees only the first \<open>length mod 65536\<close> of them (none, when there are 65536).
\<close>

theorem reference_ids_truncated:
  assumes "Encode (TRef r) = Inr bs" and "2 \<le> fuel"
  shows "Decode zlib fuel bs =
    Some (Inr (TRef (r\<lparr>ref_IDs := take (length (ref_IDs r) mod 65536) (ref_IDs r)\<rparr>)))"
proof -
  let ?n = "length (ref_IDs r) mod 65536"
  let ?r = "r\<lparr>ref_IDs := take ?n (ref_IDs r)\<rparr>"
  have n: "?n \<le> length (ref_IDs r)" and "?n < 65536" by simp_all
  have len: "u16_of_len (length (ref_IDs r)) = u16_of_len ?n"
    by (simp add: u16_of_len_def word_unat_eq_iff unat_of_nat take_bit_eq_mod)
  from assms(1) obtain b where b: "encReference r = Inr b" and bs: "bs = versionMagic # b"
    by (auto simp: Encode_eq_Inr)
  from b obtain b' where b': "encReference ?r = Inr b'"
    and bb: "b = b' @ concat (map put_u32 (drop ?n (ref_IDs r)))"
    using n by (auto simp: encReference_def result_simps len min_absorb2 simp flip: concat_append map_append)
  have "Encode (TRef ?r) = Inr (versionMagic # b')" using b' by (simp add: Encode_def)
  from Decode_Encode_rest [OF this, of fuel zlib "concat (map put_u32 (drop ?n (ref_IDs r)))"]
  show ?thesis using assms(2) \<open>?n < 65536\<close> n by (simp add: bs bb)
qed

theorem reference_ids_truncated_witness:
  "\<exists>bs. Encode (TRef \<lparr>ref_Node = ''a'', ref_Creation = 0, ref_IDs = replicate 65536 1\<rparr>) = Inr bs \<and>
     Decode one_stream 2 bs = Some (Inr (TRef \<lparr>ref_Node = ''a'', ref_Creation = 0, ref_IDs = []\<rparr>))"
proof -
  let ?r = "\<lparr>ref_Node = ''a'', ref_Creation = 0, ref_IDs = replicate 65536 1\<rparr>"
  have "is_ok (Encode (TRef ?r))"
    by (simp add: Encode_def is_ok_rbind_total is_ok_encTerm del: encTerm.simps)
  then obtain bs where bs: "Encode (TRef ?r) = Inr bs" by (auto simp: is_ok_iff)
  with reference_ids_truncated [OF bs, of 2 one_stream] show ?thesis by simp
qed

text \<open>
  \<open>Decode\<close> does not bound the nesting of compressed payloads: where a compressed stream expands to a
  term that starts with that very stream, no amount of fuel gives a result.
\<close>

theorem decode_self_reproducing_diverges:
  assumes "zlib c (unat n) = ZlibOk (tagCompressed # put_u32 n @ c)"
  shows "Decode zlib fuel (versionMagic # tagCompressed # put_u32 n @ c) = None"
proof -
  let ?q = "[tagCompressed] @ put_u32 n @ c"
  have run: "dec_term zlib fuel d = None" if "ahead d ?q" for d fuel
    using that
  proof (induction fuel arbitrary: d)
    case (Suc fuel)
    have tag: "dec_byte d = Inr (tagCompressed, skip 1 d)"
      using readsD [OF reads_byte Suc.prems] by simp
    have rest: "ahead (skip 1 d) (put_u32 n @ c)" using ahead_skip [OF Suc.prems] by simp
    have len: "dec_uint32 (skip 1 d) = Inr (n, skip 5 d)"
      using readsD [OF reads_u32 rest] by simp
    have "drop (pos (skip 5 d)) (buf (skip 5 d)) = c"
      using ahead_skip [OF rest] by (simp add: ahead_def)
    moreover have "dec_term zlib fuel \<lparr>buf = ?q, pos = 0\<rparr> = None"
      by (rule Suc.IH) (simp add: ahead_def)
    ultimately show ?case
      using len by (simp add: dec_term.simps tag dec_tagged_simps dec_compressed_def assms)
  qed (simp add: dec_term.simps)
  have "ahead \<lparr>buf = versionMagic # ?q, pos = 1\<rparr> ?q" by (simp add: ahead_def)
  from run [OF this] show ?thesis by (simp add: Decode_def)
qed

theorem decode_self_reproducing_diverges_witness:
  "Decode (\<lambda>c n. if c = [1] then ZlibOk [80, 0, 0, 0, 6, 1] else ZlibHeader IoEOF) 1000
     [131, 80, 0, 0, 0, 6, 1] = None"
proof -
  have n: "put_u32 6 = [0, 0, 0, 6]" by (simp add: put_explicit)
  show ?thesis
    using decode_self_reproducing_diverges [of "\<lambda>c n. if c = [1] then ZlibOk [80, 0, 0, 0, 6, 1] else ZlibHeader IoEOF"
        "[1]" 6 1000]
    by (simp add: n)
qed

end
