(* ===== verification/Go_Strings.thy ===== *)
theory Go_Strings
  imports Etf_Term "HOL-Library.Sublist"
begin

text \<open>
  The functions of Go's \<open>strings\<close> and \<open>strconv\<close> packages that the bridge calls, on byte strings:
  splitting, trimming, prefix tests, comparison and \<open>Atoi\<close>, with the lemmas
  that connect them to the renderings of \<open>fmt\<close>.
\<close>

section \<open>Searching and splitting\<close>

text \<open>\<open>strings.IndexByte\<close> with the two slices its callers take.\<close>

fun cut_at :: "char \<Rightarrow> string \<Rightarrow> (string \<times> string) option" where
  "cut_at c [] = None"
| "cut_at c (x # xs) =
     (if x = c then Some ([], xs)
      else case cut_at c xs of None \<Rightarrow> None | Some (a, b) \<Rightarrow> Some (x # a, b))"

lemma cut_at_eq_None: "cut_at c s = None \<longleftrightarrow> c \<notin> set s"
  by (induction s) (auto split: option.splits)

lemma cut_at_eq_Some: "cut_at c s = Some (a, b) \<longleftrightarrow> s = a @ c # b \<and> c \<notin> set a"
proof (induction s arbitrary: a)
  case (Cons x xs)
  show ?case
  proof (cases a)
    case Nil
    then show ?thesis by (auto split: option.splits)
  next
    case (Cons y ys)
    then show ?thesis using Cons.IH [of ys] by (cases "cut_at c xs") auto
  qed
qed simp

lemma cut_at_append: "c \<notin> set a \<Longrightarrow> cut_at c (a @ c # b) = Some (a, b)"
  by (simp add: cut_at_eq_Some)

lemma cut_at_none: "c \<notin> set s \<Longrightarrow> cut_at c s = None"
  by (simp add: cut_at_eq_None)

text \<open>\<open>strings.Split\<close> with a one-byte separator.\<close>

fun split_on :: "char \<Rightarrow> string \<Rightarrow> string list" where
  "split_on c [] = [[]]"
| "split_on c (x # xs) =
     (if x = c then [] # split_on c xs
      else case split_on c xs of [] \<Rightarrow> [[x]] | y # ys \<Rightarrow> (x # y) # ys)"

fun join :: "string \<Rightarrow> string list \<Rightarrow> string" where
  "join sep [] = []"
| "join sep [x] = x"
| "join sep (x # y # ys) = x @ sep @ join sep (y # ys)"

lemma split_on_nonempty [simp]: "split_on c s \<noteq> []"
  by (cases s) (auto split: list.splits)

lemma split_on_none: "c \<notin> set s \<Longrightarrow> split_on c s = [s]"
  by (induction s) auto

lemma split_on_append: "c \<notin> set a \<Longrightarrow> split_on c (a @ c # b) = a # split_on c b"
  by (induction a) auto

lemma split_on_join:
  "ps \<noteq> [] \<Longrightarrow> \<forall>p \<in> set ps. c \<notin> set p \<Longrightarrow> split_on c (join [c] ps) = ps"
  by (induction "[c]" ps rule: join.induct) (auto simp: split_on_none split_on_append)

lemma join_split_on: "join [c] (split_on c s) = s"
proof (induction s)
  case (Cons x xs)
  then show ?case
    by (cases "split_on c xs"; cases "tl (split_on c xs)") auto
qed simp

lemma split_on_free: "p \<in> set (split_on c s) \<Longrightarrow> c \<notin> set p"
  by (induction s arbitrary: p) (auto split: list.splits if_splits)

lemma split_on_subset: "p \<in> set (split_on c s) \<Longrightarrow> set p \<subseteq> set s"
proof (induction s arbitrary: p)
  case (Cons x xs)
  then show ?case by (auto split: list.splits if_splits) blast+
qed simp

text \<open>\<open>strings.Count\<close> of a one-byte substring, \<open>strings.HasPrefix\<close>, \<open>strings.Contains\<close>.\<close>

definition count_char :: "char \<Rightarrow> string \<Rightarrow> nat" where
  "count_char c s = length (filter ((=) c) s)"

lemma length_split_on: "length (split_on c s) = Suc (count_char c s)"
  by (induction s) (auto simp: count_char_def split: list.splits)

definition has_prefix :: "string \<Rightarrow> string \<Rightarrow> bool" where
  "has_prefix s p \<longleftrightarrow> take (length p) s = p"

lemma has_prefix_iff: "has_prefix s p \<longleftrightarrow> prefix p s"
  by (metis has_prefix_def append_eq_conv_conj prefix_def)

definition has_suffix :: "string \<Rightarrow> string \<Rightarrow> bool" where
  "has_suffix s p \<longleftrightarrow> has_prefix (rev s) (rev p)"

fun contains :: "string \<Rightarrow> string \<Rightarrow> bool" where
  "contains [] sub \<longleftrightarrow> sub = []"
| "contains (x # xs) sub \<longleftrightarrow> has_prefix (x # xs) sub \<or> contains xs sub"

lemma contains_iff: "contains s sub \<longleftrightarrow> sublist sub s"
  by (induction s) (auto simp: has_prefix_iff sublist_Cons_right)

section \<open>Trimming\<close>

text \<open>The UTF-8 encodings of the code points of \<open>unicode.IsSpace\<close>.\<close>

definition space_runes :: "string list" where
  "space_runes =
     [[CHR 0x09], [CHR 0x0A], [CHR 0x0B], [CHR 0x0C], [CHR 0x0D], [CHR 0x20],
      [CHR 0xC2, CHR 0x85], [CHR 0xC2, CHR 0xA0], [CHR 0xE1, CHR 0x9A, CHR 0x80]]
     @ map (\<lambda>c. [CHR 0xE2, CHR 0x80, c])
         [CHR 0x80, CHR 0x81, CHR 0x82, CHR 0x83, CHR 0x84, CHR 0x85, CHR 0x86, CHR 0x87,
          CHR 0x88, CHR 0x89, CHR 0x8A, CHR 0xA8, CHR 0xA9, CHR 0xAF]
     @ [[CHR 0xE2, CHR 0x81, CHR 0x9F], [CHR 0xE3, CHR 0x80, CHR 0x80]]"

function trim_with :: "string list \<Rightarrow> string \<Rightarrow> string" where
  "trim_with ps s =
     (case find (\<lambda>p. p \<noteq> [] \<and> has_prefix s p) ps of
        None \<Rightarrow> s
      | Some p \<Rightarrow> trim_with ps (drop (length p) s))"
  by pat_completeness auto
termination
proof (relation "measure (\<lambda>(ps, s). length s)")
  fix ps :: "string list" and s p
  assume "find (\<lambda>p. p \<noteq> [] \<and> has_prefix s p) ps = Some p"
  then have "p \<noteq> []" and "has_prefix s p" by (auto simp: find_Some_iff)
  then have "length p \<le> length s" and "0 < length p" and "0 < length s"
    by (auto simp: has_prefix_iff prefix_length_le)
  then show "((ps, drop (length p) s), ps, s) \<in> measure (\<lambda>(ps, s). length s)" by simp
qed simp

declare trim_with.simps [simp del]

definition TrimSpace :: "string \<Rightarrow> string" where
  "TrimSpace s = rev (trim_with (map rev space_runes) (rev (trim_with space_runes s)))"

text \<open>No space rune at either end.\<close>

definition trimmed :: "string \<Rightarrow> bool" where
  "trimmed s \<longleftrightarrow> (\<forall>p \<in> set space_runes. \<not> prefix p s \<and> \<not> suffix p s)"

lemma trim_with_id: "\<forall>p \<in> set ps. p \<noteq> [] \<longrightarrow> \<not> prefix p s \<Longrightarrow> trim_with ps s = s"
  by (subst trim_with.simps)
    (auto simp: has_prefix_iff find_None_iff find_Some_iff split: option.splits)

lemma trim_with_stable: "p \<in> set ps \<Longrightarrow> p \<noteq> [] \<Longrightarrow> \<not> prefix p (trim_with ps s)"
proof (induction ps s rule: trim_with.induct)
  case (1 ps s)
  then show ?case
    by (subst trim_with.simps) (auto simp: has_prefix_iff find_None_iff split: option.splits)
qed

lemma trim_with_suffix: "suffix (trim_with ps s) s"
proof (induction ps s rule: trim_with.induct)
  case (1 ps s)
  show ?case
  proof (cases "find (\<lambda>p. p \<noteq> [] \<and> has_prefix s p) ps")
    case None
    then show ?thesis by (subst trim_with.simps) simp
  next
    case (Some p)
    from 1 [OF Some] have "suffix (trim_with ps (drop (length p) s)) s"
      by (meson suffix_drop suffix_order.trans)
    then show ?thesis by (subst trim_with.simps) (simp add: Some)
  qed
qed

lemma space_runes_nonempty: "p \<in> set space_runes \<Longrightarrow> p \<noteq> []"
  by (auto simp: space_runes_def)

lemma trimmed_TrimSpace: "trimmed (TrimSpace s)"
proof -
  let ?l = "trim_with space_runes s"
  have pre: "prefix (TrimSpace s) ?l"
    using trim_with_suffix [of "map rev space_runes" "rev ?l"]
    by (simp add: TrimSpace_def suffix_to_prefix)
  show ?thesis
    unfolding trimmed_def
  proof (intro ballI conjI notI)
    fix p assume p: "p \<in> set space_runes"
    { assume "prefix p (TrimSpace s)"
      from prefix_order.trans [OF this pre] have "prefix p ?l" .
      with trim_with_stable [OF p space_runes_nonempty [OF p]] show False by simp }
    { assume "suffix p (TrimSpace s)"
      then have "prefix (rev p) (trim_with (map rev space_runes) (rev ?l))"
        by (simp add: TrimSpace_def suffix_to_prefix)
      with trim_with_stable [of "rev p" "map rev space_runes"] p space_runes_nonempty [OF p]
      show False by simp }
  qed
qed

lemma TrimSpace_id: "trimmed s \<Longrightarrow> TrimSpace s = s"
proof -
  assume t: "trimmed s"
  then have "trim_with space_runes s = s" by (intro trim_with_id) (simp add: trimmed_def)
  moreover have "trim_with (map rev space_runes) (rev s) = rev s"
    using t by (intro trim_with_id) (auto simp: trimmed_def suffix_to_prefix)
  ultimately show ?thesis by (simp add: TrimSpace_def)
qed

lemma TrimSpace_idem [simp]: "TrimSpace (TrimSpace s) = TrimSpace s"
  by (rule TrimSpace_id [OF trimmed_TrimSpace])

text \<open>Printable ASCII except the blank never starts or ends a space rune.\<close>

definition solid :: "char \<Rightarrow> bool" where
  "solid c \<longleftrightarrow> 33 \<le> (of_char c :: nat) \<and> (of_char c :: nat) < 127"

lemma solid_space_rune: "p \<in> set space_runes \<Longrightarrow> c \<in> set p \<Longrightarrow> \<not> solid c"
  by (auto simp: space_runes_def solid_def)

lemma trimmed_ends:
  assumes "s \<noteq> []" and "solid (hd s)" and "solid (last s)"
  shows "trimmed s"
  unfolding trimmed_def
proof (intro ballI conjI notI)
  fix p assume p: "p \<in> set space_runes"
  note n = space_runes_nonempty [OF p]
  { assume "prefix p s"
    with n have "hd s = hd p" by (auto simp: prefix_def)
    with assms(2) solid_space_rune [OF p, of "hd p"] n show False by simp }
  { assume "suffix p s"
    with n have "last s = last p" by (auto simp: suffix_def)
    with assms(3) solid_space_rune [OF p, of "last p"] n show False by simp }
qed

lemma trimmed_sep:
  assumes "a \<noteq> []" and "solid (hd a)" and "solid c" and b: "\<forall>p \<in> set space_runes. \<not> suffix p b"
  shows "trimmed (a @ c # b)"
  unfolding trimmed_def
proof (intro ballI conjI notI)
  fix p assume p: "p \<in> set space_runes"
  note n = space_runes_nonempty [OF p]
  { assume "prefix p (a @ c # b)"
    with n assms(1) have "hd a = hd p" by (cases a; cases p) auto
    with assms(2) solid_space_rune [OF p, of "hd p"] n show False by simp }
  { assume s: "suffix p (a @ c # b)"
    have "c \<notin> set p" using solid_space_rune [OF p] assms(3) by blast
    with s have "suffix p b" by (auto simp: suffix_append suffix_Cons)
    with b p show False by blast }
qed

lemma space_runes_length: "p \<in> set space_runes \<Longrightarrow> length p \<le> 3"
  by (auto simp: space_runes_def)

lemma trimmed_front:
  assumes "a \<noteq> []" and "solid (hd a)" and "trimmed b" and "3 \<le> length b"
  shows "trimmed (a @ b)"
  unfolding trimmed_def
proof (intro ballI conjI notI)
  fix p assume p: "p \<in> set space_runes"
  note n = space_runes_nonempty [OF p]
  { assume "prefix p (a @ b)"
    with n assms(1) have "hd a = hd p" by (cases a; cases p) auto
    with assms(2) solid_space_rune [OF p, of "hd p"] n show False by simp }
  { assume "suffix p (a @ b)"
    moreover have "suffix b (a @ b)" by (simp add: suffix_def)
    ultimately have "suffix p b"
      using suffix_length_suffix assms(4) space_runes_length [OF p] by (metis order.trans)
    with assms(3) p show False by (simp add: trimmed_def) }
qed

lemma TrimSpace_blank: "trimmed s \<Longrightarrow> TrimSpace (CHR '' '' # s) = s"
proof -
  assume t: "trimmed s"
  have "find (\<lambda>p. p \<noteq> [] \<and> has_prefix (CHR '' '' # s) p) space_runes = Some '' ''"
    by (simp add: space_runes_def has_prefix_def)
  then have "trim_with space_runes (CHR '' '' # s) = trim_with space_runes s"
    by (subst trim_with.simps) simp
  then show ?thesis using TrimSpace_id [OF t] by (simp add: TrimSpace_def)
qed

section \<open>Comparison\<close>

text \<open>\<open>strings.Compare\<close>: lexicographic on the bytes.\<close>

fun str_compare :: "string \<Rightarrow> string \<Rightarrow> int" where
  "str_compare [] [] = 0"
| "str_compare [] (y # ys) = -1"
| "str_compare (x # xs) [] = 1"
| "str_compare (x # xs) (y # ys) =
     (if (of_char x :: nat) < of_char y then -1
      else if (of_char y :: nat) < of_char x then 1
      else str_compare xs ys)"

text \<open>\<open>sort.Strings\<close>.\<close>

definition str_le :: "string \<Rightarrow> string \<Rightarrow> bool" where
  "str_le s t \<longleftrightarrow> str_compare s t \<le> 0"

fun insert_by :: "('a \<Rightarrow> string) \<Rightarrow> 'a \<Rightarrow> 'a list \<Rightarrow> 'a list" where
  "insert_by key x [] = [x]"
| "insert_by key x (y # ys) = (if str_le (key x) (key y) then x # y # ys else y # insert_by key x ys)"

definition sort_by_key :: "('a \<Rightarrow> string) \<Rightarrow> 'a list \<Rightarrow> 'a list" where
  "sort_by_key key xs = foldr (insert_by key) xs []"

lemma set_insert_by [simp]: "set (insert_by key x ys) = insert x (set ys)"
  by (induction ys) auto

lemma set_sort_by_key [simp]: "set (sort_by_key key xs) = set xs"
  by (induction xs) (auto simp: sort_by_key_def)

lemma length_sort_by_key [simp]: "length (sort_by_key key xs) = length xs"
proof -
  have "length (insert_by key x ys) = Suc (length ys)" for x ys by (induction ys) auto
  then show ?thesis by (induction xs) (auto simp: sort_by_key_def)
qed

lemma distinct_sort_by_key [simp]: "distinct (sort_by_key key xs) = distinct xs"
proof -
  have "distinct (insert_by key x ys) \<longleftrightarrow> x \<notin> set ys \<and> distinct ys" for x ys by (induction ys) auto
  then show ?thesis
    using set_sort_by_key [of key] by (induction xs) (auto simp: sort_by_key_def)
qed

section \<open>Integers\<close>

definition is_digit :: "char \<Rightarrow> bool" where
  "is_digit c \<longleftrightarrow> 48 \<le> (of_char c :: nat) \<and> (of_char c :: nat) \<le> 57"

definition digit_val :: "char \<Rightarrow> nat" where
  "digit_val c = of_char c - 48"

datatype num_error = ErrSyntax | ErrRange

text \<open>\<open>strconv.ParseUint\<close> in base 10 and 64 bits, without its empty-string test.\<close>

fun parse_digits :: "nat \<Rightarrow> string \<Rightarrow> num_error + nat" where
  "parse_digits acc [] = Inr acc"
| "parse_digits acc (c # cs) =
     (if \<not> is_digit c then Inl ErrSyntax
      else if 2 ^ 64 \<le> acc * 10 + digit_val c then Inl ErrRange
      else parse_digits (acc * 10 + digit_val c) cs)"

definition num_error :: "string \<Rightarrow> num_error \<Rightarrow> go_error" where
  "num_error s e =
     Errorf (case e of ErrSyntax \<Rightarrow> ''strconv.Atoi: parsing %q: invalid syntax''
                     | ErrRange \<Rightarrow> ''strconv.Atoi: parsing %q: value out of range'') [FStr s]"

definition Atoi_core :: "string \<Rightarrow> num_error + int" where
  "Atoi_core s =
     (let neg = (s \<noteq> [] \<and> hd s = CHR ''-'');
          t = (if s \<noteq> [] \<and> (hd s = CHR ''-'' \<or> hd s = CHR ''+'') then tl s else s)
      in if t = [] then Inl ErrSyntax
         else rbind (parse_digits 0 t) (\<lambda>un.
           if \<not> neg \<and> 2 ^ 63 \<le> un then Inl ErrRange
           else if neg \<and> 2 ^ 63 < un then Inl ErrRange
           else Inr (if neg then - int un else int un)))"

definition Atoi :: "string \<Rightarrow> go_error + int" where
  "Atoi s = wrap_error (num_error s) (Atoi_core s)"

lemma digit_char_props [simp]:
  assumes "d < 10"
  shows "is_digit (digit_char d)" and "digit_val (digit_char d) = d" and "solid (digit_char d)"
  using assms by (simp_all add: is_digit_def digit_val_def solid_def)

lemma parse_digits_snoc:
  "parse_digits acc (xs @ [c]) = rbind (parse_digits acc xs) (\<lambda>n. parse_digits n [c])"
  by (induction xs arbitrary: acc) auto

lemma parse_digits_show_nat: "n < 2 ^ 64 \<Longrightarrow> parse_digits 0 (show_nat n) = Inr n"
proof (induction n rule: show_nat.induct)
  case (1 n)
  show ?case
  proof (cases "n < 10")
    case False
    with 1 have "parse_digits 0 (show_nat (n div 10)) = Inr (n div 10)" by simp
    with False 1 show ?thesis
      by (subst show_nat.simps) (simp add: parse_digits_snoc)
  qed simp
qed

lemma show_nat_digits: "c \<in> set (show_nat n) \<Longrightarrow> is_digit c"
proof (induction n rule: show_nat.induct)
  case (1 n)
  then show ?case
    by (cases "n < 10") (auto simp: show_nat.simps [of n])
qed

lemma is_digit_solid: "is_digit c \<Longrightarrow> solid c"
  by (simp add: is_digit_def solid_def)

lemma is_digit_neq: "is_digit c \<Longrightarrow> c \<noteq> CHR ''-'' \<and> c \<noteq> CHR ''+'' \<and> c \<noteq> CHR ''.''"
  by (auto simp: is_digit_def)

lemma show_nat_free:
  "CHR ''-'' \<notin> set (show_nat n)" "CHR ''+'' \<notin> set (show_nat n)" "CHR ''.'' \<notin> set (show_nat n)"
  using show_nat_digits is_digit_neq by blast+

lemma Atoi_show_nat: "n < 2 ^ 63 \<Longrightarrow> Atoi (show_nat n) = Inr (int n)"
proof -
  assume n: "n < 2 ^ 63"
  have "is_digit (hd (show_nat n))" by (rule show_nat_digits [of _ n]) simp
  from is_digit_neq [OF this] n show ?thesis
    by (simp add: Atoi_def Atoi_core_def Let_def parse_digits_show_nat)
qed

lemma Atoi_core_bounds: "Atoi_core s = Inr i \<Longrightarrow> - (2 ^ 63) \<le> i \<and> i < 2 ^ 63"
  by (auto simp: Atoi_core_def Let_def result_simps split: if_splits)

lemma Atoi_bounds: "Atoi s = Inr i \<Longrightarrow> - (2 ^ 63) \<le> i \<and> i < 2 ^ 63"
  using Atoi_core_bounds by (simp add: Atoi_def)

lemma Atoi_nonneg: "Atoi s = Inr i \<Longrightarrow> CHR ''-'' \<notin> set s \<Longrightarrow> 0 \<le> i"
  by (cases s) (auto simp: Atoi_def Atoi_core_def Let_def result_simps split: if_splits)

section \<open>Formatting terms\<close>

text \<open>
  \<open>%v\<close> of a term; \<open>ff\<close> formats a float.  (Only the dynamic types a decoder returns matter here.)
\<close>

fun sprint_v :: "(u64 \<Rightarrow> string) \<Rightarrow> eterm \<Rightarrow> string" where
  "sprint_v ff (TBool b) = (if b then ''true'' else ''false'')"
| "sprint_v ff (TInt i) = show_int (sint i)"
| "sprint_v ff (TInt64 i) = show_int (sint i)"
| "sprint_v ff (TUint i) = show_int (uint i)"
| "sprint_v ff (TUint32 i) = show_int (uint i)"
| "sprint_v ff (TBig i) = show_int i"
| "sprint_v ff (TFloat f) = ff f"
| "sprint_v ff (TAtom a) = a"
| "sprint_v ff (TStr s) = s"
| "sprint_v ff (TBytes b) = ''['' @ join '' '' (map (show_nat \<circ> unat) b) @ '']''"
| "sprint_v ff (TTuple t) = ''['' @ join '' '' (map (sprint_v ff) t) @ '']''"
| "sprint_v ff (TList l) = ''['' @ join '' '' (map (sprint_v ff) l) @ '']''"
| "sprint_v ff (TPid p) =
     ''{'' @ join '' '' (pid_Node p # map (show_nat \<circ> unat) [pid_ID p, pid_Serial p, pid_Creation p]) @ ''}''"
| "sprint_v ff (TPort p) =
     ''{'' @ join '' '' (port_Node p # map (show_nat \<circ> unat) [port_ID p, port_Creation p]) @ ''}''"
| "sprint_v ff (TRef r) =
     ''{'' @ join '' '' [ref_Node r, show_nat (unat (ref_Creation r)),
       ''['' @ join '' '' (map (show_nat \<circ> unat) (ref_IDs r)) @ '']''] @ ''}''"
| "sprint_v ff TNil = ''<nil>''"
| "sprint_v ff (TOther t) = t"

end
