(* ===== verification/Hexsemver.thy ===== *)
theory Hexsemver
  imports Go_Strings
begin

text \<open>
  The Hex.pm version language of \<open>hexsemver/hexsemver.go\<close>: versions, their total order,
  constraints, requirement lists and the choice of the best candidate.  The order is
  specified by the locale \<open>comparison\<close>, which the model's \<open>cmpInt\<close>,
  \<open>strings.Compare\<close> and \<open>Version.Compare\<close> interpret; the selection
  loop of \<open>BestMatch\<close> is reasoned about once, inside it.
\<close>

section \<open>Three-way comparison\<close>

locale comparison =
  fixes cmp :: "'a \<Rightarrow> 'a \<Rightarrow> int"
  assumes cmp_eq: "cmp x y = 0 \<longleftrightarrow> x = y"
    and cmp_swap: "cmp y x = - cmp x y"
    and cmp_trans: "cmp x y \<le> 0 \<Longrightarrow> cmp y z \<le> 0 \<Longrightarrow> cmp x z \<le> 0"
begin

lemma cmp_refl [simp]: "cmp x x = 0"
  by (simp add: cmp_eq)

lemma cmp_ge: "0 \<le> cmp x y \<longleftrightarrow> cmp y x \<le> 0"
  using cmp_swap [of x y] by linarith

lemma cmp_less_trans: "cmp x y < 0 \<Longrightarrow> cmp y z \<le> 0 \<Longrightarrow> cmp x z < 0"
  using cmp_trans [of x y z] cmp_trans [of y z x] cmp_swap [of x z] cmp_eq [of x z] cmp_eq [of y x]
    cmp_swap [of x y]
  by linarith

text \<open>The running maximum of a selection loop.\<close>

definition pick :: "('a \<Rightarrow> bool) \<Rightarrow> 'a option \<Rightarrow> 'a \<Rightarrow> 'a option" where
  "pick ok best v =
     (if ok v then (case best of None \<Rightarrow> Some v | Some b \<Rightarrow> if 0 < cmp v b then Some v else best)
      else best)"

lemma pick_fold:
  "foldl (pick ok) best vs = Some b \<Longrightarrow>
     (b \<in> set vs \<and> ok b \<or> best = Some b) \<and>
     (\<forall>v \<in> set vs. ok v \<longrightarrow> cmp v b \<le> 0) \<and> (\<forall>v. best = Some v \<longrightarrow> cmp v b \<le> 0)"
proof (induction vs arbitrary: best)
  case Nil
  then show ?case by simp
next
  case (Cons v vs)
  then have IH: "(b \<in> set vs \<and> ok b \<or> pick ok best v = Some b)"
    "\<forall>w \<in> set vs. ok w \<longrightarrow> cmp w b \<le> 0" "\<And>w. pick ok best v = Some w \<Longrightarrow> cmp w b \<le> 0"
    by auto
  have v: "cmp v b \<le> 0" if "ok v"
  proof (cases best)
    case None
    then show ?thesis using IH(3) that by (simp add: pick_def)
  next
    case (Some w)
    then show ?thesis
      using IH(3) [of v] IH(3) [of w] that cmp_trans [of v w b] by (cases "0 < cmp v w") (auto simp: pick_def)
  qed
  moreover have "cmp w b \<le> 0" if "best = Some w" for w
    using IH(3) [of v] IH(3) [of w] that cmp_trans [of w v b] cmp_swap [of v w]
    by (cases "ok v \<and> 0 < cmp v w") (auto simp: pick_def)
  ultimately show ?case using IH(1,2) by (auto simp: pick_def split: if_splits option.splits)
qed

lemma pick_fold_None:
  "foldl (pick ok) best vs = None \<longleftrightarrow> best = None \<and> (\<forall>v \<in> set vs. \<not> ok v)"
proof (induction vs arbitrary: best)
  case (Cons v vs)
  then show ?case by (auto simp: pick_def split: option.splits)
qed simp

end

text \<open>Lexicographic combination of a key order and the order of the rest.\<close>

definition lex_cmp :: "int \<Rightarrow> int \<Rightarrow> int" where
  "lex_cmp a b = (if a \<noteq> 0 then a else b)"

section \<open>Versions\<close>

record Version =
  v_Major :: int
  v_Minor :: int
  v_Patch :: int
  v_Pre :: string

definition ParseVersion :: "string \<Rightarrow> go_error + Version" where
  "ParseVersion s0 =
     (let s1 = TrimSpace s0;
          (s, pre) = (case cut_at (CHR ''-'') s1 of None \<Rightarrow> (s1, []) | Some (a, b) \<Rightarrow> (a, b));
          parts = split_on (CHR ''.'') s
      in if length parts < 2 \<or> 3 < length parts
         then Inl (Errorf ''hexsemver: invalid version %q'' [FStr s])
         else
           rbind (wrap_error (\<lambda>e. Errorf ''hexsemver: invalid major in %q: %w'' [FStr s, FErr e])
                    (Atoi (parts ! 0))) (\<lambda>major.
           rbind (wrap_error (\<lambda>e. Errorf ''hexsemver: invalid minor in %q: %w'' [FStr s, FErr e])
                    (Atoi (parts ! 1))) (\<lambda>minor.
           rbind (if length parts = 3
                  then wrap_error (\<lambda>e. Errorf ''hexsemver: invalid patch in %q: %w'' [FStr s, FErr e])
                         (Atoi (parts ! 2))
                  else Inr 0) (\<lambda>patch.
           Inr \<lparr>v_Major = major, v_Minor = minor, v_Patch = patch, v_Pre = pre\<rparr>))))"

definition Version_String :: "Version \<Rightarrow> string" where
  "Version_String v =
     (let base = show_int (v_Major v) @ ''.'' @ show_int (v_Minor v) @ ''.'' @ show_int (v_Patch v)
      in if v_Pre v \<noteq> [] then base @ ''-'' @ v_Pre v else base)"

definition cmpInt :: "int \<Rightarrow> int \<Rightarrow> int" where
  "cmpInt a b = (if a < b then -1 else if b < a then 1 else 0)"

definition Version_Compare :: "Version \<Rightarrow> Version \<Rightarrow> int" where
  "Version_Compare v other =
     (if v_Major v \<noteq> v_Major other then cmpInt (v_Major v) (v_Major other)
      else if v_Minor v \<noteq> v_Minor other then cmpInt (v_Minor v) (v_Minor other)
      else if v_Patch v \<noteq> v_Patch other then cmpInt (v_Patch v) (v_Patch other)
      else if v_Pre v = [] \<and> v_Pre other = [] then 0
      else if v_Pre v \<noteq> [] \<and> v_Pre other = [] then -1
      else if v_Pre v = [] \<and> v_Pre other \<noteq> [] then 1
      else str_compare (v_Pre v) (v_Pre other))"

section \<open>Constraints\<close>

record Constraint =
  c_op :: string
  c_version :: Version
  c_hasPatch :: bool

definition constraint_ops :: "string list" where
  "constraint_ops = [''~>'', ''>='', ''<='', ''>'', ''<'', ''=='']"

definition ParseConstraint :: "string \<Rightarrow> go_error + Constraint" where
  "ParseConstraint s0 =
     (let s = TrimSpace s0;
          (oper, verStr) =
            (case find (has_prefix s) constraint_ops of
               None \<Rightarrow> (''=='', s)
             | Some candidate \<Rightarrow> (candidate, TrimSpace (drop (length candidate) s)));
          rawVer = (case cut_at (CHR ''-'') verStr of None \<Rightarrow> verStr | Some (a, b) \<Rightarrow> a);
          hasPatch = (2 \<le> count_char (CHR ''.'') rawVer)
      in rbind (wrap_error (\<lambda>e. Errorf ''hexsemver: parse constraint %q: %w'' [FStr s, FErr e])
                  (ParseVersion verStr)) (\<lambda>ver.
         Inr \<lparr>c_op = oper, c_version = ver, c_hasPatch = hasPatch\<rparr>))"

definition Constraint_Matches :: "Constraint \<Rightarrow> Version \<Rightarrow> bool" where
  "Constraint_Matches c v =
     (if v_Pre v \<noteq> [] \<and> c_op c \<noteq> ''=='' \<and> v_Pre (c_version c) = [] then False
      else
        let cmp = Version_Compare v (c_version c) in
        if c_op c = ''=='' then cmp = 0
        else if c_op c = ''>'' then cmp > 0
        else if c_op c = ''>='' then cmp \<ge> 0
        else if c_op c = ''<'' then cmp < 0
        else if c_op c = ''<='' then cmp \<le> 0
        else if c_op c = ''~>'' then
          (if cmp < 0 then False
           else if \<not> c_hasPatch c then v_Major v = v_Major (c_version c)
           else v_Major v = v_Major (c_version c) \<and> v_Minor v = v_Minor (c_version c))
        else False)"

definition Constraint_String :: "Constraint \<Rightarrow> string" where
  "Constraint_String c = c_op c @ '' '' @ Version_String (c_version c)"

text \<open>The loop of \<open>ParseRequirements\<close> over the comma-separated parts.\<close>

fun parse_parts :: "string list \<Rightarrow> go_error + Constraint list" where
  "parse_parts [] = Inr []"
| "parse_parts (p # ps) =
     (let p = TrimSpace p in
      if p = [] then parse_parts ps
      else rbind (ParseConstraint p) (\<lambda>c. rbind (parse_parts ps) (\<lambda>cs. Inr (c # cs))))"

definition ParseRequirements :: "string \<Rightarrow> go_error + Constraint list" where
  "ParseRequirements s = parse_parts (split_on (CHR '','') s)"

fun Satisfies :: "Constraint list \<Rightarrow> Version \<Rightarrow> bool" where
  "Satisfies [] v \<longleftrightarrow> True"
| "Satisfies (c # r) v \<longleftrightarrow> (if \<not> Constraint_Matches c v then False else Satisfies r v)"

text \<open>One iteration of \<open>BestMatch\<close>; the option is \<open>(best, found)\<close>.\<close>

definition best_step :: "Constraint list \<Rightarrow> Version option \<Rightarrow> Version \<Rightarrow> Version option" where
  "best_step r best v =
     (if Satisfies r v then
        (if best = None \<or> 0 < Version_Compare v (the best) then Some v else best)
      else best)"

definition BestMatch :: "Constraint list \<Rightarrow> Version list \<Rightarrow> Version option" where
  "BestMatch r candidates = foldl (best_step r) None candidates"

section \<open>The order of versions\<close>

lemma cmpInt_sgn: "cmpInt a b = sgn (a - b)"
  by (simp add: cmpInt_def sgn_if)

interpretation int_cmp: comparison cmpInt
  by unfold_locales (auto simp: cmpInt_def split: if_splits)

lemma of_char_nat_inj: "(of_char c :: nat) = of_char d \<longleftrightarrow> c = d"
  by simp

interpretation str_cmp: comparison str_compare
proof
  show "str_compare x y = 0 \<longleftrightarrow> x = y" for x y
    by (induction x y rule: str_compare.induct) (auto simp: not_less_iff_gr_or_eq)
  show "str_compare y x = - str_compare x y" for x y
    by (induction x y rule: str_compare.induct) auto
  show "str_compare x z \<le> 0" if "str_compare x y \<le> 0" "str_compare y z \<le> 0" for x y z
    using that
  proof (induction x y arbitrary: z rule: str_compare.induct)
    case (1 z)
    then show ?case by simp
  next
    case (2 y ys)
    then show ?case by (cases z) auto
  next
    case (3 x xs)
    then show ?case by simp
  next
    case (4 x xs y ys)
    then obtain w ws where z: "z = w # ws" by (cases z) auto
    have "str_compare xs ws \<le> 0" if "x = y" "y = w"
      using 4 that by (simp add: z)
    then show ?case using 4(2,3) unfolding z by (simp split: if_splits) auto
  qed
qed

text \<open>The pre-release part: a release is above every pre-release.\<close>

definition pre_compare :: "string \<Rightarrow> string \<Rightarrow> int" where
  "pre_compare p q =
     (if p = [] \<and> q = [] then 0 else if q = [] then -1 else if p = [] then 1 else str_compare p q)"

interpretation pre_cmp: comparison pre_compare
proof
  show "pre_compare x y = 0 \<longleftrightarrow> x = y" for x y
    by (auto simp: pre_compare_def str_cmp.cmp_eq)
  show "pre_compare y x = - pre_compare x y" for x y
    using str_cmp.cmp_swap [of x y] by (auto simp: pre_compare_def)
  show "pre_compare x z \<le> 0" if "pre_compare x y \<le> 0" "pre_compare y z \<le> 0" for x y z
    using that str_cmp.cmp_trans [of x y z] by (auto simp: pre_compare_def split: if_splits)
qed

lemma Version_Compare_lex:
  "Version_Compare v w =
     lex_cmp (cmpInt (v_Major v) (v_Major w)) (lex_cmp (cmpInt (v_Minor v) (v_Minor w))
       (lex_cmp (cmpInt (v_Patch v) (v_Patch w)) (pre_compare (v_Pre v) (v_Pre w))))"
  by (simp add: Version_Compare_def lex_cmp_def int_cmp.cmp_eq pre_compare_def)

lemma lex_trans:
  assumes "comparison f" and "lex_cmp (f a b) i \<le> 0" and "lex_cmp (f b c) j \<le> 0"
    and "i \<le> 0 \<Longrightarrow> j \<le> 0 \<Longrightarrow> k \<le> 0"
  shows "lex_cmp (f a c) k \<le> 0"
proof -
  have "f a b \<le> 0" "f b c \<le> 0" using assms(2,3) by (auto simp: lex_cmp_def split: if_splits)
  then have ac: "f a c \<le> 0" using comparison.cmp_trans [OF assms(1)] by blast
  show ?thesis
  proof (cases "f a c = 0")
    case True
    then have "a = c" using comparison.cmp_eq [OF assms(1)] by blast
    then have "f a b = - f b c" using comparison.cmp_swap [OF assms(1)] by blast
    then have "f a b = 0" "f b c = 0" using \<open>f a b \<le> 0\<close> \<open>f b c \<le> 0\<close> by linarith+
    then show ?thesis using assms(2-4) True by (simp add: lex_cmp_def)
  qed (simp add: lex_cmp_def ac)
qed

lemma lex_neg: "lex_cmp (- a) (- b) = - lex_cmp a b"
  by (simp add: lex_cmp_def)

interpretation version_cmp: comparison Version_Compare
proof
  show "Version_Compare x y = 0 \<longleftrightarrow> x = y" for x y
    by (auto simp: Version_Compare_lex lex_cmp_def int_cmp.cmp_eq pre_cmp.cmp_eq split: if_splits)
  show "Version_Compare y x = - Version_Compare x y" for x y
    unfolding Version_Compare_lex lex_neg [symmetric]
    by (simp only: int_cmp.cmp_swap [of "v_Major x" "v_Major y"] int_cmp.cmp_swap [of "v_Minor x" "v_Minor y"]
        int_cmp.cmp_swap [of "v_Patch x" "v_Patch y"] pre_cmp.cmp_swap [of "v_Pre x" "v_Pre y"] minus_minus)
  show "Version_Compare x z \<le> 0" if "Version_Compare x y \<le> 0" "Version_Compare y z \<le> 0" for x y z
    using that unfolding Version_Compare_lex
    by - ((erule (1) lex_trans [OF int_cmp.comparison_axioms])+, erule (1) pre_cmp.cmp_trans)
qed

lemma BestMatch_pick: "BestMatch r = foldl (version_cmp.pick (Satisfies r)) None"
proof -
  have "best_step r = version_cmp.pick (Satisfies r)"
    by (intro ext) (auto simp: best_step_def version_cmp.pick_def split: option.splits)
  then show ?thesis by (intro ext) (simp add: BestMatch_def)
qed

section \<open>Parsing and printing\<close>

text \<open>The versions the parser can return.\<close>

definition unspaced_end :: "string \<Rightarrow> bool" where
  "unspaced_end s \<longleftrightarrow> (\<forall>p \<in> set space_runes. \<not> suffix p s)"

definition wf_version :: "Version \<Rightarrow> bool" where
  "wf_version v \<longleftrightarrow>
     (\<forall>i \<in> {v_Major v, v_Minor v, v_Patch v}. 0 \<le> i \<and> i < 2 ^ 63) \<and> unspaced_end (v_Pre v)"

definition version_base :: "Version \<Rightarrow> string" where
  "version_base v = join ''.'' (map (show_nat \<circ> nat) [v_Major v, v_Minor v, v_Patch v])"

lemma set_show_nat_solid: "c \<in> set (show_nat n) \<Longrightarrow> solid c"
  by (rule is_digit_solid [OF show_nat_digits])

lemma version_base_props:
  "version_base v \<noteq> []" "solid (hd (version_base v))" "CHR ''-'' \<notin> set (version_base v)"
  "solid (last (version_base v))" "count_char (CHR ''.'') (version_base v) = 2"
  "5 \<le> length (version_base v)"
proof -
  have c: "count_char (CHR ''.'') (show_nat n) = 0" for n
    using show_nat_free(3) [of n] by (auto simp: count_char_def filter_empty_conv)
  then show "count_char (CHR ''.'') (version_base v) = 2"
    by (simp add: version_base_def count_char_def)
  have "1 \<le> length (show_nat n)" for n by (cases "show_nat n") auto
  from this [of "nat (v_Major v)"] this [of "nat (v_Minor v)"] this [of "nat (v_Patch v)"]
  show "5 \<le> length (version_base v)" by (simp add: version_base_def)
qed (simp_all add: version_base_def show_nat_free
    set_show_nat_solid [OF hd_in_set [OF show_nat_nonempty]]
    set_show_nat_solid [OF last_in_set [OF show_nat_nonempty]])

lemma Version_String_base:
  "wf_version v \<Longrightarrow>
   Version_String v = (if v_Pre v \<noteq> [] then version_base v @ CHR ''-'' # v_Pre v else version_base v)"
  by (simp add: Version_String_def wf_version_def show_int_def version_base_def Let_def)

lemma trimmed_Version_String: "wf_version v \<Longrightarrow> trimmed (Version_String v)"
  using version_base_props [of v] trimmed_sep [of "version_base v" "CHR ''-''" "v_Pre v"]
    trimmed_ends [of "version_base v"]
  by (simp add: Version_String_base) (simp add: wf_version_def unspaced_end_def solid_def)

lemma cut_Version_String:
  "wf_version v \<Longrightarrow>
   (case cut_at (CHR ''-'') (Version_String v) of None \<Rightarrow> (Version_String v, []) | Some (a, b) \<Rightarrow> (a, b)) =
   (version_base v, v_Pre v)"
  using version_base_props(3) [of v]
  by (simp add: Version_String_base cut_at_none cut_at_append)

lemma split_version_base:
  "split_on (CHR ''.'') (version_base v) = map (show_nat \<circ> nat) [v_Major v, v_Minor v, v_Patch v]"
  unfolding version_base_def by (rule split_on_join) (auto simp: show_nat_free)

lemma wf_version_Atoi:
  "wf_version v \<Longrightarrow> Atoi (show_nat (nat (v_Major v))) = Inr (v_Major v)"
  "wf_version v \<Longrightarrow> Atoi (show_nat (nat (v_Minor v))) = Inr (v_Minor v)"
  "wf_version v \<Longrightarrow> Atoi (show_nat (nat (v_Patch v))) = Inr (v_Patch v)"
  by (simp_all add: wf_version_def Atoi_show_nat nat_less_iff)

lemma ParseVersion_String: "wf_version v \<Longrightarrow> ParseVersion (Version_String v) = Inr v"
  by (simp add: ParseVersion_def TrimSpace_id [OF trimmed_Version_String] cut_Version_String
      split_version_base Let_def wf_version_Atoi)

lemma unspaced_end_suffix: "suffix b s \<Longrightarrow> trimmed s \<Longrightarrow> unspaced_end b"
  by (meson suffix_order.trans trimmed_def unspaced_end_def)

lemma wf_ParseVersion:
  assumes "ParseVersion s = Inr v"
  shows "wf_version v"
proof -
  obtain a b where ab: "(case cut_at (CHR ''-'') (TrimSpace s) of
      None \<Rightarrow> (TrimSpace s, []) | Some (a, b) \<Rightarrow> (a, b)) = (a, b)"
    by fastforce
  have suf: "suffix b (TrimSpace s)" and free: "CHR ''-'' \<notin> set a"
    using ab by (auto simp: cut_at_eq_None cut_at_eq_Some suffix_def split: option.splits)
  let ?ps = "split_on (CHR ''.'') a"
  have bounds: "0 \<le> i \<and> i < 2 ^ 63" if "Atoi p = Inr i" "p \<in> set ?ps" for p i
    using Atoi_bounds [OF that(1)] Atoi_nonneg [OF that(1)] free split_on_subset [OF that(2)] by blast
  from assms ab have "v_Pre v = b" "2 \<le> length ?ps" "Atoi (?ps ! 0) = Inr (v_Major v)"
    "Atoi (?ps ! 1) = Inr (v_Minor v)"
    "length ?ps = 3 \<and> Atoi (?ps ! 2) = Inr (v_Patch v) \<or> v_Patch v = 0"
    by (auto simp: ParseVersion_def Let_def result_simps split: prod.splits if_splits)
  then show ?thesis
    using bounds [of "?ps ! 0"] bounds [of "?ps ! 1"] bounds [of "?ps ! 2"]
      unspaced_end_suffix [OF suf trimmed_TrimSpace]
    by (auto simp: wf_version_def)
qed

section \<open>Constraints parsed and printed\<close>

lemma constraint_op_found:
  "op \<in> set constraint_ops \<Longrightarrow> find (has_prefix (op @ CHR '' '' # s)) constraint_ops = Some op"
  by (auto simp: constraint_ops_def has_prefix_def)

lemma constraint_op_solid: "op \<in> set constraint_ops \<Longrightarrow> op \<noteq> [] \<and> solid (hd op)"
  by (auto simp: constraint_ops_def solid_def)

lemma length_Version_String: "wf_version v \<Longrightarrow> 3 \<le> length (Version_String v)"
  using version_base_props(6) [of v] by (auto simp: Version_String_base)

lemma trimmed_Constraint_String:
  assumes "op \<in> set constraint_ops" and "wf_version v"
  shows "trimmed (op @ CHR '' '' # Version_String v)"
proof -
  have "trimmed ((op @ '' '') @ Version_String v)"
    using constraint_op_solid [OF assms(1)] trimmed_Version_String [OF assms(2)]
      length_Version_String [OF assms(2)]
    by (intro trimmed_front) auto
  then show ?thesis by simp
qed

definition wf_constraint :: "Constraint \<Rightarrow> bool" where
  "wf_constraint c \<longleftrightarrow> c_op c \<in> set constraint_ops \<and> wf_version (c_version c)"

lemma default_op: "''=='' \<in> set constraint_ops"
  by (simp add: constraint_ops_def)

lemma wf_ParseConstraint: "ParseConstraint s = Inr c \<Longrightarrow> wf_constraint c"
  by (auto simp: ParseConstraint_def Let_def result_simps wf_constraint_def find_Some_iff
      default_op wf_ParseVersion split: prod.splits option.splits)

lemma ParseConstraint_String:
  assumes "wf_constraint c"
  shows "ParseConstraint (Constraint_String c) = Inr (c\<lparr>c_hasPatch := True\<rparr>)"
proof -
  let ?v = "c_version c"
  have wf: "c_op c \<in> set constraint_ops" "wf_version ?v"
    using assms by (simp_all add: wf_constraint_def)
  have raw: "(case cut_at (CHR ''-'') (Version_String ?v) of
      None \<Rightarrow> Version_String ?v | Some (a, b) \<Rightarrow> a) = version_base ?v"
    using cut_Version_String [OF wf(2)] by (auto split: option.splits)
  have op: "find (has_prefix (c_op c @ CHR '' '' # Version_String ?v)) constraint_ops = Some (c_op c)"
    by (rule constraint_op_found [OF wf(1)])
  have trim: "TrimSpace (c_op c @ CHR '' '' # Version_String ?v) = c_op c @ CHR '' '' # Version_String ?v"
    "TrimSpace (CHR '' '' # Version_String ?v) = Version_String ?v"
    using TrimSpace_id [OF trimmed_Constraint_String [OF wf]]
      TrimSpace_blank [OF trimmed_Version_String [OF wf(2)]] by simp_all
  show ?thesis
    by (simp add: ParseConstraint_def Constraint_String_def trim op raw
        ParseVersion_String [OF wf(2)] version_base_props(5) Let_def)
qed

section \<open>Properties\<close>

text \<open>
  C7: what \<open>ParseVersion\<close> accepts, \<open>String\<close> renders to a text that parses to the same
  version again.
\<close>

theorem version_roundtrip:
  assumes "ParseVersion s = Inr v"
  shows "ParseVersion (Version_String v) = Inr v"
  by (rule ParseVersion_String [OF wf_ParseVersion [OF assms]])

theorem version_roundtrip_witness:
  "ParseVersion ''3.0.0-rc.2'' = Inr \<lparr>v_Major = 3, v_Minor = 0, v_Patch = 0, v_Pre = ''rc.2''\<rparr>"
proof -
  let ?v = "\<lparr>v_Major = 3, v_Minor = 0, v_Patch = 0, v_Pre = ''rc.2''\<rparr>"
  have "wf_version ?v"
    by (simp add: wf_version_def unspaced_end_def space_runes_def suffix_def
        Cons_eq_append_conv append_eq_Cons_conv)
  have s: "Version_String ?v = ''3.0.0-rc.2''"
    by code_simp
  from version_roundtrip [OF ParseVersion_String [OF \<open>wf_version ?v\<close>]]
  show ?thesis by (simp add: s)
qed

text \<open>
  C8: \<open>Compare\<close> is a total order on versions: it is antisymmetric in the sense of three-way
  comparison, is zero only on equal versions, and is transitive.
\<close>

theorem version_order_total:
  "Version_Compare w v = - Version_Compare v w \<and>
   (Version_Compare v w = 0 \<longleftrightarrow> v = w) \<and>
   (Version_Compare u v \<le> 0 \<and> Version_Compare v w \<le> 0 \<longrightarrow> Version_Compare u w \<le> 0)"
  by (intro conjI impI version_cmp.cmp_swap version_cmp.cmp_eq)
    (elim conjE, erule (1) version_cmp.cmp_trans)

theorem version_order_total_witness:
  "Version_Compare \<lparr>v_Major = 2, v_Minor = 1, v_Patch = 0, v_Pre = ''rc.1''\<rparr>
     \<lparr>v_Major = 2, v_Minor = 1, v_Patch = 1, v_Pre = []\<rparr> \<le> 0"
  using version_order_total [of "\<lparr>v_Major = 2, v_Minor = 1, v_Patch = 1, v_Pre = []\<rparr>"
      "\<lparr>v_Major = 2, v_Minor = 1, v_Patch = 0, v_Pre = []\<rparr>"
      "\<lparr>v_Major = 2, v_Minor = 1, v_Patch = 0, v_Pre = ''rc.1''\<rparr>"]
  by (simp add: Version_Compare_def cmpInt_def)

text \<open>
  \<open>BestMatch\<close> reports nothing exactly when no candidate satisfies the requirements, and
  otherwise a satisfying candidate that no satisfying candidate exceeds.
\<close>

theorem best_match_is_maximum:
  "(BestMatch r vs = None \<longleftrightarrow> filter (Satisfies r) vs = []) \<and>
   (BestMatch r vs = Some b \<longrightarrow>
      b \<in> set vs \<and> Satisfies r b \<and> (\<forall>v \<in> set vs. Satisfies r v \<longrightarrow> Version_Compare v b \<le> 0))"
  using version_cmp.pick_fold_None [of "Satisfies r" None vs] version_cmp.pick_fold [of "Satisfies r" None vs b]
  by (auto simp: BestMatch_pick filter_empty_conv)

theorem best_match_is_maximum_witness:
  "\<exists>b. BestMatch [\<lparr>c_op = ''~>'', c_version = \<lparr>v_Major = 2, v_Minor = 1, v_Patch = 0, v_Pre = []\<rparr>, c_hasPatch = False\<rparr>]
     [\<lparr>v_Major = 2, v_Minor = 1, v_Patch = 0, v_Pre = []\<rparr>, \<lparr>v_Major = 2, v_Minor = 3, v_Patch = 5, v_Pre = []\<rparr>,
      \<lparr>v_Major = 3, v_Minor = 0, v_Patch = 0, v_Pre = []\<rparr>] = Some b \<and> v_Minor b = 3 \<and>
   Version_Compare \<lparr>v_Major = 2, v_Minor = 1, v_Patch = 0, v_Pre = []\<rparr> b \<le> 0"
proof -
  let ?r = "[\<lparr>c_op = ''~>'', c_version = \<lparr>v_Major = 2, v_Minor = 1, v_Patch = 0, v_Pre = []\<rparr>, c_hasPatch = False\<rparr>]"
  let ?a = "\<lparr>v_Major = 2, v_Minor = 1, v_Patch = 0, v_Pre = []\<rparr>"
  let ?b = "\<lparr>v_Major = 2, v_Minor = 3, v_Patch = 5, v_Pre = []\<rparr>"
  let ?c = "\<lparr>v_Major = 3, v_Minor = 0, v_Patch = 0, v_Pre = []\<rparr>"
  have b: "BestMatch ?r [?a, ?b, ?c] = Some ?b" and a: "Satisfies ?r ?a"
    by (simp_all add: BestMatch_def best_step_def Constraint_Matches_def Version_Compare_def cmpInt_def)
  from best_match_is_maximum [of ?r "[?a, ?b, ?c]" ?b] b a
  have "Version_Compare ?a ?b \<le> 0" by auto
  with b show ?thesis by auto
qed

text \<open>
  C9: the pessimistic operator means what the package documentation says for release versions: at
  least the given version, and below the next major version, or below the next minor version when
  the constraint names a patch.
\<close>

theorem pessimistic_range:
  assumes "c_op c = ''~>''" and "wf_version v" and "v_Pre v = []"
  shows "Constraint_Matches c v \<longleftrightarrow>
    0 \<le> Version_Compare v (c_version c) \<and>
    Version_Compare v
      (if c_hasPatch c
       then \<lparr>v_Major = v_Major (c_version c), v_Minor = v_Minor (c_version c) + 1, v_Patch = 0, v_Pre = []\<rparr>
       else \<lparr>v_Major = v_Major (c_version c) + 1, v_Minor = 0, v_Patch = 0, v_Pre = []\<rparr>) < 0"
  using assms by (auto simp: Constraint_Matches_def Version_Compare_def cmpInt_def wf_version_def)

theorem pessimistic_range_witness:
  "Constraint_Matches \<lparr>c_op = ''~>'', c_version = \<lparr>v_Major = 2, v_Minor = 1, v_Patch = 3, v_Pre = []\<rparr>,
     c_hasPatch = True\<rparr> \<lparr>v_Major = 2, v_Minor = 1, v_Patch = 9, v_Pre = []\<rparr>"
proof -
  have "unspaced_end []" by (auto simp: unspaced_end_def dest: space_runes_nonempty)
  then show ?thesis
    using pessimistic_range [of "\<lparr>c_op = ''~>'', c_version = \<lparr>v_Major = 2, v_Minor = 1, v_Patch = 3, v_Pre = []\<rparr>,
        c_hasPatch = True\<rparr>" "\<lparr>v_Major = 2, v_Minor = 1, v_Patch = 9, v_Pre = []\<rparr>"]
    by (simp add: wf_version_def Version_Compare_def cmpInt_def)
qed

text \<open>
  Printing a parsed constraint and parsing it again keeps the operator and the version but always sets
  \<open>hasPatch\<close>: the rendering of \<open>~> 2.1\<close> is \<open>~> 2.1.0\<close>, which means a narrower range.
\<close>

theorem constraint_reparse_sets_patch:
  assumes "ParseConstraint s = Inr c"
  shows "ParseConstraint (Constraint_String c) = Inr (c\<lparr>c_hasPatch := True\<rparr>)"
  by (rule ParseConstraint_String [OF wf_ParseConstraint [OF assms]])

theorem constraint_reparse_sets_patch_witness:
  "\<exists>c. ParseConstraint ''~> 2.1'' = Inr c \<and> \<not> c_hasPatch c \<and>
     ParseConstraint (Constraint_String c) = Inr (c\<lparr>c_hasPatch := True\<rparr>)"
proof -
  have v: "trimmed ''2.1''" by (rule trimmed_ends) (simp_all add: solid_def)
  have trim: "TrimSpace ''~> 2.1'' = ''~> 2.1''" "TrimSpace '' 2.1'' = ''2.1''" "TrimSpace ''2.1'' = ''2.1''"
    by (rule TrimSpace_id trimmed_ends TrimSpace_blank v | simp add: solid_def)+
  have "ParseConstraint ''~> 2.1'' =
      Inr \<lparr>c_op = ''~>'', c_version = \<lparr>v_Major = 2, v_Minor = 1, v_Patch = 0, v_Pre = []\<rparr>, c_hasPatch = False\<rparr>"
    by (simp add: ParseConstraint_def trim constraint_ops_def has_prefix_def count_char_def
        ParseVersion_def Atoi_def Atoi_core_def is_digit_def digit_val_def)
  from constraint_reparse_sets_patch [OF this] this show ?thesis by simp
qed

text \<open>The narrower range loses versions, and pre-releases are compared as byte strings.\<close>

lemma reparse_loses_versions:
  "Constraint_Matches \<lparr>c_op = ''~>'', c_version = \<lparr>v_Major = 2, v_Minor = 1, v_Patch = 0, v_Pre = []\<rparr>, c_hasPatch = False\<rparr>
     \<lparr>v_Major = 2, v_Minor = 9, v_Patch = 9, v_Pre = []\<rparr> \<and>
   \<not> Constraint_Matches \<lparr>c_op = ''~>'', c_version = \<lparr>v_Major = 2, v_Minor = 1, v_Patch = 0, v_Pre = []\<rparr>, c_hasPatch = True\<rparr>
     \<lparr>v_Major = 2, v_Minor = 9, v_Patch = 9, v_Pre = []\<rparr>"
  by (simp add: Constraint_Matches_def Version_Compare_def cmpInt_def)

lemma prerelease_order_is_bytewise:
  "Version_Compare \<lparr>v_Major = 2, v_Minor = 0, v_Patch = 0, v_Pre = ''rc.10''\<rparr>
     \<lparr>v_Major = 2, v_Minor = 0, v_Patch = 0, v_Pre = ''rc.9''\<rparr> = -1"
  by (simp add: Version_Compare_def)

lemma prerelease_of_other_version_matches:
  "Constraint_Matches \<lparr>c_op = ''>='', c_version = \<lparr>v_Major = 2, v_Minor = 0, v_Patch = 0, v_Pre = ''rc.1''\<rparr>, c_hasPatch = True\<rparr>
     \<lparr>v_Major = 3, v_Minor = 0, v_Patch = 0, v_Pre = ''alpha.1''\<rparr>"
  by (simp add: Constraint_Matches_def Version_Compare_def cmpInt_def)

end
