(* ===== verification/Port.thy ===== *)
theory Port
  imports Etf_Correct
begin

text \<open>
  The port manager of \<open>port/port.go\<close>: framing with a four-byte length (\<open>writePacket\<close> and the
  reads of \<open>readLoop\<close>), reply dispatch, and the concurrent behaviour of \<open>Call\<close>, \<open>Stop\<close> and
  the read loop as a labelled transition function on the state of a \<open>Manager\<close>.

  Every critical section of the source is one action, as are the operations on channels; the
  goroutines interleave between actions.  The channels of the calls, the bytes
  that went to the standard input of the port and the bytes that arrived from it are part of
  the state.
\<close>

section \<open>Length-prefixed framing\<close>

text \<open>
  The contract of a self-delimiting codec: decoding the encoding of a value gives the value back and
  leaves what follows.
\<close>

locale prefix_codec =
  fixes enc :: "'a \<Rightarrow> byte list" and dec :: "byte list \<Rightarrow> ('a \<times> byte list) option" and ok :: "'a \<Rightarrow> bool"
  assumes dec_enc: "ok x \<Longrightarrow> dec (enc x @ r) = Some (x, r)"
    and dec_shorter: "dec bs = Some (x, r) \<Longrightarrow> length r < length bs"
begin

text \<open>Decode as many values as the input holds.\<close>

function decode_all :: "byte list \<Rightarrow> 'a list \<times> byte list" where
  "decode_all bs =
     (case dec bs of None \<Rightarrow> ([], bs) | Some (x, r) \<Rightarrow> (let (xs, t) = decode_all r in (x # xs, t)))"
  by pat_completeness auto
termination
  by (relation "measure length") (auto dest: dec_shorter)

declare decode_all.simps [simp del]

lemma decode_all_encs:
  "\<forall>x \<in> set xs. ok x \<Longrightarrow> decode_all (concat (map enc xs) @ r) = (xs @ fst (decode_all r), snd (decode_all r))"
proof (induction xs)
  case (Cons x xs)
  then show ?case
    by (subst decode_all.simps) (simp add: dec_enc Let_def split: prod.splits)
qed simp

lemma concat_inj:
  "\<forall>x \<in> set xs. ok x \<Longrightarrow> \<forall>y \<in> set ys. ok y \<Longrightarrow>
   concat (map enc xs) = concat (map enc ys) \<Longrightarrow> dec [] = None \<Longrightarrow> xs = ys"
  using decode_all_encs [of xs "[]"] decode_all_encs [of ys "[]"] decode_all.simps [of "[]"] by simp

end

text \<open>\<open>{packet,4}\<close> framing: \<open>uint32(len(data))\<close>, then the data.\<close>

definition packet4 :: "byte list \<Rightarrow> byte list" where
  "packet4 data = put_u32 (u32_of_len (length data)) @ data"

definition maxMessageBytes :: nat where
  "maxMessageBytes = 64 * 1024 * 1024"

text \<open>One round of \<open>readLoop\<close> on the bytes that will ever arrive: the end of the input, an
  oversized announcement, or a payload and what follows it.\<close>

datatype packet = PktEof | PktOversize u32 | Pkt "byte list" "byte list"

definition read_packet :: "byte list \<Rightarrow> packet" where
  "read_packet r =
     (if length r < 4 then PktEof
      else let n = get_u32 (take 4 r); rest = drop 4 r in
        if maxMessageBytes < unat n then PktOversize n
        else if length rest < unat n then PktEof
        else Pkt (take (unat n) rest) (drop (unat n) rest))"

definition take_packet :: "byte list \<Rightarrow> (byte list \<times> byte list) option" where
  "take_packet r = (case read_packet r of Pkt p rest \<Rightarrow> Some (p, rest) | _ \<Rightarrow> None)"

lemma read_packet_packet4:
  assumes "length data \<le> maxMessageBytes"
  shows "read_packet (packet4 data @ r) = Pkt data r"
proof -
  have "unat (u32_of_len (length data)) = length data"
    using assms by (intro unat_of_len) (simp add: maxMessageBytes_def)
  then show ?thesis using assms by (simp add: read_packet_def packet4_def)
qed

interpretation packet4: prefix_codec packet4 take_packet "\<lambda>data. length data \<le> maxMessageBytes"
proof
  show "take_packet (packet4 x @ r) = Some (x, r)" if "length x \<le> maxMessageBytes" for x r
    using read_packet_packet4 [OF that] by (simp add: take_packet_def)
  show "length r < length bs" if "take_packet bs = Some (x, r)" for bs x r
    using that by (auto simp: take_packet_def read_packet_def Let_def split: if_splits)
qed

section \<open>State\<close>

text \<open>A \<open>callResult\<close> is a value or an error.\<close>

type_synonym callResult = "go_error + eterm"

text \<open>Where a goroutine that runs \<open>Call\<close> stands.\<close>

datatype call_pc =
    CIdle                                     \<comment> \<open>no such goroutine yet\<close>
  | CSeq string "eterm list"                  \<comment> \<open>sequence number and channel made\<close>
  | CReg string "eterm list"                  \<comment> \<open>registered in \<open>pending\<close>\<close>
  | CLock string "byte list"                  \<comment> \<open>encoded, before \<open>writeMu.Lock\<close>\<close>
  | CHdr string "byte list"                   \<comment> \<open>holds \<open>writeMu\<close>, before the header\<close>
  | CBody string "byte list"                  \<comment> \<open>holds \<open>writeMu\<close>, before the payload\<close>
  | CFail string go_error                     \<comment> \<open>\<open>writePacket\<close> failed\<close>
  | CWait string                              \<comment> \<open>in the \<open>select\<close>\<close>
  | CTimedOut string                          \<comment> \<open>the timer was chosen\<close>
  | CRet callResult                           \<comment> \<open>returned\<close>

text \<open>Where the goroutine of \<open>readLoop\<close> stands; \<open>RSend\<close> is the channel send of \<open>dispatch\<close>.\<close>

datatype reader_pc = RLoop | RSend nat callResult | RDone

datatype stop_pc = SRunning | SClosing | SStopped

text \<open>
  A \<open>Manager\<close> with its goroutines.  A call and its channel have the same number;
  \<open>seqOf\<close> is the local variable \<open>seq\<close> of a call.  \<open>m_torn\<close> records that a write failed.
\<close>

record Manager =
  m_pending :: "u32 \<rightharpoonup> nat"
  m_nextSeq :: u32
  m_writeMu :: "nat option"
  m_timeout :: nat
  m_stop :: stop_pc
  m_stdin :: "byte list"
  m_torn :: bool
  m_stdout :: "byte list"
  m_eof :: bool
  m_reader :: reader_pc
  m_chans :: "nat \<Rightarrow> callResult list"
  m_calls :: "nat \<Rightarrow> call_pc"
  m_seqOf :: "nat \<Rightarrow> u32"
  m_started :: nat

abbreviation defaultTimeout :: nat where "defaultTimeout \<equiv> 30000000000"

definition StartWithPipes :: "int \<Rightarrow> Manager" where
  "StartWithPipes timeout =
     \<lparr>m_pending = Map.empty, m_nextSeq = 0, m_writeMu = None,
      m_timeout = (if timeout \<le> 0 then defaultTimeout else nat timeout),
      m_stop = SRunning, m_stdin = [], m_torn = False, m_stdout = [], m_eof = False,
      m_reader = RLoop, m_chans = (\<lambda>_. []), m_calls = (\<lambda>_. CIdle), m_seqOf = (\<lambda>_. 0),
      m_started = 0\<rparr>"

record Options =
  o_ErlBin :: string
  o_BeamDirs :: "string list"
  o_RunnerModule :: string
  o_Cookie :: string
  o_Timeout :: int
  o_ExtraEnv :: "string list"

text \<open>The command line \<open>Start\<close> runs, and the manager it returns; creating the two pipes and starting the
  process may fail.\<close>

definition Start_args :: "Options \<Rightarrow> string list" where
  "Start_args opts =
     [''-noshell'']
     @ concat (map (\<lambda>dir. [''-pa'', dir]) (o_BeamDirs opts))
     @ (if o_Cookie opts \<noteq> [] then [''-setcookie'', o_Cookie opts] else [])
     @ [''-run'', if o_RunnerModule opts = [] then ''mochi_port_runner'' else o_RunnerModule opts, ''main'']"

definition Start ::
  "go_error option \<Rightarrow> go_error option \<Rightarrow> (string \<Rightarrow> string list \<Rightarrow> string list \<Rightarrow> go_error option) \<Rightarrow>
   Options \<Rightarrow> go_error + Manager" where
  "Start stdinPipe stdoutPipe start opts =
     (let erlBin = (if o_ErlBin opts = [] then ''erl'' else o_ErlBin opts) in
      case stdinPipe of Some e \<Rightarrow> Inl (wrapf ''port: stdin pipe: %w'' e) | None \<Rightarrow>
      (case stdoutPipe of Some e \<Rightarrow> Inl (wrapf ''port: stdout pipe: %w'' e) | None \<Rightarrow>
      (case start erlBin (Start_args opts) (o_ExtraEnv opts) of
         Some e \<Rightarrow> Inl (Errorf ''port: start %q: %w'' [FStr erlBin, FErr e])
       | None \<Rightarrow> Inr (StartWithPipes (o_Timeout opts)))))"

section \<open>Dispatch\<close>

definition termToUint32 :: "eterm \<Rightarrow> u32 option" where
  "termToUint32 v =
     (case v of TInt n \<Rightarrow> Some (ucast n) | TInt64 n \<Rightarrow> Some (ucast n) | TUint32 n \<Rightarrow> Some n | _ \<Rightarrow> None)"

text \<open>The result \<open>dispatch\<close> sends for a reply tuple.\<close>

definition reply_result :: "eterm list \<Rightarrow> callResult" where
  "reply_result tup =
     (let tag = (case as_atom (tup ! 0) of Some a \<Rightarrow> a | None \<Rightarrow> []);
          third = (if 3 \<le> length tup then tup ! 2 else TNil)
      in if tag = ''reply'' then Inr third
         else if tag = ''error'' then Inl (Errorf ''port: erlang error: %v'' [FTerm third])
         else Inl (Errorf ''port: unexpected reply tag %q'' [FStr tag]))"

text \<open>The tuple and sequence number of a well-shaped reply.\<close>

definition reply_target :: "eterm \<Rightarrow> (u32 \<times> eterm list) option" where
  "reply_target trm =
     (case as_tuple trm of
        None \<Rightarrow> None
      | Some tup \<Rightarrow>
          if length tup < 2 then None
          else map_option (\<lambda>seq. (seq, tup)) (termToUint32 (tup ! 1)))"

definition dispatch :: "eterm \<Rightarrow> Manager \<Rightarrow> Manager" where
  "dispatch trm m =
     (case reply_target trm of
        None \<Rightarrow> m
      | Some (seq, tup) \<Rightarrow>
          (case m_pending m seq of
             None \<Rightarrow> m
           | Some ch \<Rightarrow> m\<lparr>m_pending := (m_pending m)(seq := None), m_reader := RSend ch (reply_result tup)\<rparr>))"

text \<open>\<open>drainPending\<close>: one result to every pending channel.\<close>

definition drainPending :: "go_error \<Rightarrow> Manager \<Rightarrow> Manager" where
  "drainPending err m =
     m\<lparr>m_chans := (\<lambda>ch. if ch \<in> ran (m_pending m) then m_chans m ch @ [Inl err] else m_chans m ch),
       m_pending := Map.empty\<rparr>"

text \<open>The deferred call at the end of \<open>readLoop\<close>.\<close>

definition readLoop_return :: "Manager \<Rightarrow> Manager" where
  "readLoop_return m = (drainPending (Errorf ''port: connection closed'' []) m)\<lparr>m_reader := RDone\<rparr>"

text \<open>
  One iteration of \<open>readLoop\<close>; \<open>None\<close> while it is blocked in \<open>io.ReadFull\<close> (or in a
  \<open>Decode\<close> that does not return).
\<close>

definition readLoop_iter :: "zlib \<Rightarrow> nat \<Rightarrow> Manager \<Rightarrow> Manager option" where
  "readLoop_iter zlib fuel m =
     (case read_packet (m_stdout m) of
        PktEof \<Rightarrow> if m_eof m then Some (readLoop_return m) else None
      | PktOversize n \<Rightarrow>
          Some (readLoop_return
            (drainPending (Errorf ''port: oversized message (%d bytes)'' [FInt (int (unat n))]) m))
      | Pkt payload rest \<Rightarrow>
          (case Decode zlib fuel payload of
             None \<Rightarrow> None
           | Some (Inl e) \<Rightarrow> Some (m\<lparr>m_stdout := rest\<rparr>)
           | Some (Inr trm) \<Rightarrow> Some (dispatch trm (m\<lparr>m_stdout := rest\<rparr>))))"

section \<open>Actions\<close>

definition call_msg :: "u32 \<Rightarrow> string \<Rightarrow> eterm list \<Rightarrow> eterm" where
  "call_msg seq fun args = TTuple [TAtom ''call'', TInt64 (ucast seq), TAtom fun, TList args]"

definition set_call :: "nat \<Rightarrow> call_pc \<Rightarrow> Manager \<Rightarrow> Manager" where
  "set_call i c m = m\<lparr>m_calls := (m_calls m)(i := c)\<rparr>"

text \<open>
  \<open>AWriteErr i k e\<close> is a \<open>Write\<close> that takes \<open>k\<close> bytes and fails; \<open>AFeed\<close> and \<open>AFeedEof\<close> are the
  port's output.
\<close>

datatype action =
    ACall string "eterm list" | ARegister nat | AEncode nat | ALock nat
  | AWriteHdr nat | AWriteBody nat | AWriteErr nat nat go_error
  | AUnregister nat | ARecv nat | ATimer nat | ADone nat
  | AFeed "byte list" | AFeedEof | ARead | ASend
  | AStopClose | AStopDone

fun act :: "zlib \<Rightarrow> nat \<Rightarrow> action \<Rightarrow> Manager \<Rightarrow> Manager option" where
  "act zlib fuel (ACall fun args) m =
     (let seq = m_nextSeq m + 1; i = m_started m in
      Some (set_call i (CSeq fun args)
        (m\<lparr>m_nextSeq := seq, m_seqOf := (m_seqOf m)(i := seq), m_started := i + 1\<rparr>)))"
| "act zlib fuel (ARegister i) m =
     (case m_calls m i of
        CSeq fun args \<Rightarrow>
          Some (set_call i (CReg fun args) (m\<lparr>m_pending := (m_pending m)(m_seqOf m i \<mapsto> i)\<rparr>))
      | _ \<Rightarrow> None)"
| "act zlib fuel (AEncode i) m =
     (case m_calls m i of
        CReg fun args \<Rightarrow>
          (case Encode (call_msg (m_seqOf m i) fun args) of
             Inl e \<Rightarrow> Some (set_call i (CFail fun (wrapf ''etf encode: %w'' e)) m)
           | Inr data \<Rightarrow> Some (set_call i (CLock fun data) m))
      | _ \<Rightarrow> None)"
| "act zlib fuel (ALock i) m =
     (case m_calls m i of
        CLock fun data \<Rightarrow>
          if m_writeMu m = None then Some (set_call i (CHdr fun data) (m\<lparr>m_writeMu := Some i\<rparr>)) else None
      | _ \<Rightarrow> None)"
| "act zlib fuel (AWriteHdr i) m =
     (case m_calls m i of
        CHdr fun data \<Rightarrow>
          if m_stop m = SRunning
          then Some (set_call i (CBody fun data)
                 (m\<lparr>m_stdin := m_stdin m @ put_u32 (u32_of_len (length data))\<rparr>))
          else None
      | _ \<Rightarrow> None)"
| "act zlib fuel (AWriteBody i) m =
     (case m_calls m i of
        CBody fun data \<Rightarrow>
          if m_stop m = SRunning
          then Some (set_call i (CWait fun) (m\<lparr>m_stdin := m_stdin m @ data, m_writeMu := None\<rparr>))
          else None
      | _ \<Rightarrow> None)"
| "act zlib fuel (AWriteErr i k e) m =
     (case m_calls m i of
        CHdr fun data \<Rightarrow>
          Some (set_call i (CFail fun e)
            (m\<lparr>m_stdin := m_stdin m @ (if m_stop m = SRunning then take k (put_u32 (u32_of_len (length data))) else []),
               m_torn := True, m_writeMu := None\<rparr>))
      | CBody fun data \<Rightarrow>
          Some (set_call i (CFail fun e)
            (m\<lparr>m_stdin := m_stdin m @ (if m_stop m = SRunning then take k data else []),
               m_torn := True, m_writeMu := None\<rparr>))
      | _ \<Rightarrow> None)"
| "act zlib fuel (AUnregister i) m =
     (case m_calls m i of
        CFail fun e \<Rightarrow>
          Some (set_call i (CRet (Inl (Errorf ''port: send call %q: %w'' [FStr fun, FErr e])))
            (m\<lparr>m_pending := (m_pending m)(m_seqOf m i := None)\<rparr>))
      | CTimedOut fun \<Rightarrow>
          Some (set_call i
            (CRet (Inl (Errorf ''port: call %q timed out after %s'' [FStr fun, FInt (int (m_timeout m))])))
            (m\<lparr>m_pending := (m_pending m)(m_seqOf m i := None)\<rparr>))
      | _ \<Rightarrow> None)"
| "act zlib fuel (ARecv i) m =
     (case (m_calls m i, m_chans m i) of
        (CWait fun, r # rs) \<Rightarrow> Some (set_call i (CRet r) (m\<lparr>m_chans := (m_chans m)(i := rs)\<rparr>))
      | _ \<Rightarrow> None)"
| "act zlib fuel (ATimer i) m =
     (case m_calls m i of CWait fun \<Rightarrow> Some (set_call i (CTimedOut fun) m) | _ \<Rightarrow> None)"
| "act zlib fuel (ADone i) m =
     (case m_calls m i of
        CWait fun \<Rightarrow>
          if m_stop m = SStopped
          then Some (set_call i (CRet (Inl (Errorf ''port: manager stopped'' []))) m) else None
      | _ \<Rightarrow> None)"
| "act zlib fuel (AFeed bs) m = (if m_eof m then None else Some (m\<lparr>m_stdout := m_stdout m @ bs\<rparr>))"
| "act zlib fuel AFeedEof m = Some (m\<lparr>m_eof := True\<rparr>)"
| "act zlib fuel ARead m = (case m_reader m of RLoop \<Rightarrow> readLoop_iter zlib fuel m | _ \<Rightarrow> None)"
| "act zlib fuel ASend m =
     (case m_reader m of
        RSend ch r \<Rightarrow>
          if m_chans m ch = []
          then Some (m\<lparr>m_chans := (m_chans m)(ch := [r]), m_reader := RLoop\<rparr>) else None
      | _ \<Rightarrow> None)"
| "act zlib fuel AStopClose m = (if m_stop m = SRunning then Some (m\<lparr>m_stop := SClosing\<rparr>) else None)"
| "act zlib fuel AStopDone m = (if m_stop m = SClosing then Some (m\<lparr>m_stop := SStopped\<rparr>) else None)"

text \<open>The states reachable from a fresh manager.\<close>

inductive reach :: "zlib \<Rightarrow> nat \<Rightarrow> Manager \<Rightarrow> bool" for zlib fuel where
  reach_init: "reach zlib fuel (StartWithPipes timeout)"
| reach_act: "reach zlib fuel m \<Longrightarrow> act zlib fuel a m = Some m' \<Longrightarrow> reach zlib fuel m'"

end
