(* ===== verification/Port_Correct.thy ===== *)
theory Port_Correct
  imports Port
begin

text \<open>
  Invariants of the port manager under every interleaving, and what they give a caller: sends on
  a call's channel never block, replies reach the call with their sequence number, messages to the port are
  never interleaved, and an answered call returns the answer.
\<close>

section \<open>Sequences of actions\<close>

fun run :: "zlib \<Rightarrow> nat \<Rightarrow> action list \<Rightarrow> Manager \<Rightarrow> Manager option" where
  "run zlib fuel [] m = Some m"
| "run zlib fuel (a # as) m = (case act zlib fuel a m of None \<Rightarrow> None | Some m' \<Rightarrow> run zlib fuel as m')"

lemma run_invariant:
  assumes "\<And>a m m'. P m \<Longrightarrow> act zlib fuel a m = Some m' \<Longrightarrow> P m'"
    and "run zlib fuel as m = Some m'" and "P m"
  shows "P m'"
  using assms(2,3)
proof (induction as arbitrary: m)
  case (Cons a as)
  then show ?case using assms(1) by (auto split: option.splits)
qed simp

lemma run_append: "run zlib fuel (as @ bs) m = (case run zlib fuel as m of None \<Rightarrow> None | Some m' \<Rightarrow> run zlib fuel bs m')"
  by (induction as arbitrary: m) (auto split: option.splits)

lemma reach_run: "reach zlib fuel m \<Longrightarrow> run zlib fuel as m = Some m' \<Longrightarrow> reach zlib fuel m'"
  by (rule run_invariant [of "reach zlib fuel"]) (auto intro: reach_act)

lemma set_call_simps [simp]:
  "m_calls (set_call i c m) = (m_calls m)(i := c)"
  "m_pending (set_call i c m) = m_pending m" "m_nextSeq (set_call i c m) = m_nextSeq m"
  "m_writeMu (set_call i c m) = m_writeMu m" "m_timeout (set_call i c m) = m_timeout m"
  "m_stop (set_call i c m) = m_stop m" "m_stdin (set_call i c m) = m_stdin m"
  "m_torn (set_call i c m) = m_torn m" "m_stdout (set_call i c m) = m_stdout m"
  "m_eof (set_call i c m) = m_eof m" "m_reader (set_call i c m) = m_reader m"
  "m_chans (set_call i c m) = m_chans m" "m_seqOf (set_call i c m) = m_seqOf m"
  "m_started (set_call i c m) = m_started m"
  by (simp_all add: set_call_def)

section \<open>Channels\<close>

text \<open>A goroutine that has not yet registered its channel.\<close>

definition unregistered :: "call_pc \<Rightarrow> bool" where
  "unregistered c \<longleftrightarrow> (case c of CIdle \<Rightarrow> True | CSeq _ _ \<Rightarrow> True | _ \<Rightarrow> False)"

lemma unregistered_simps [simp]:
  "unregistered CIdle" "unregistered (CSeq f a)" "\<not> unregistered (CReg f a)" "\<not> unregistered (CLock f d)"
  "\<not> unregistered (CHdr f d)" "\<not> unregistered (CBody f d)" "\<not> unregistered (CFail f e)"
  "\<not> unregistered (CWait f)" "\<not> unregistered (CTimedOut f)" "\<not> unregistered (CRet r)"
  by (simp_all add: unregistered_def)

definition pending_inv :: "Manager \<Rightarrow> bool" where
  "pending_inv m \<longleftrightarrow> (\<forall>s c. m_pending m s = Some c \<longrightarrow>
     m_seqOf m c = s \<and> m_chans m c = [] \<and> \<not> unregistered (m_calls m c))"

definition sending_inv :: "Manager \<Rightarrow> bool" where
  "sending_inv m \<longleftrightarrow> (\<forall>c r. m_reader m = RSend c r \<longrightarrow>
     m_chans m c = [] \<and> \<not> unregistered (m_calls m c) \<and> c \<notin> ran (m_pending m))"

definition chan_inv :: "Manager \<Rightarrow> bool" where
  "chan_inv m \<longleftrightarrow> (\<forall>c. length (m_chans m c) \<le> 1 \<and> (unregistered (m_calls m c) \<longrightarrow> m_chans m c = []))"

definition seq_inv :: "Manager \<Rightarrow> bool" where
  "seq_inv m \<longleftrightarrow> m_nextSeq m = of_nat (m_started m) \<and>
     (\<forall>c. if c < m_started m then m_seqOf m c = of_nat (c + 1) \<and> m_calls m c \<noteq> CIdle
          else m_calls m c = CIdle)"

lemmas inv_defs = pending_inv_def sending_inv_def chan_inv_def

definition Inv :: "Manager \<Rightarrow> bool" where
  "Inv m \<longleftrightarrow> pending_inv m \<and> sending_inv m \<and> chan_inv m \<and> seq_inv m"

lemma Inv_init: "Inv (StartWithPipes timeout)"
  by (simp add: Inv_def inv_defs seq_inv_def StartWithPipes_def)

lemma dispatch_fields [simp]:
  "m_calls (dispatch t m) = m_calls m" "m_seqOf (dispatch t m) = m_seqOf m"
  "m_started (dispatch t m) = m_started m" "m_nextSeq (dispatch t m) = m_nextSeq m"
  "m_chans (dispatch t m) = m_chans m" "m_stdin (dispatch t m) = m_stdin m"
  "m_torn (dispatch t m) = m_torn m" "m_writeMu (dispatch t m) = m_writeMu m"
  by (auto simp: dispatch_def split: option.splits)

lemma drain_fields [simp]:
  "m_calls (drainPending e m) = m_calls m" "m_seqOf (drainPending e m) = m_seqOf m"
  "m_started (drainPending e m) = m_started m" "m_nextSeq (drainPending e m) = m_nextSeq m"
  "m_pending (drainPending e m) = Map.empty" "m_reader (drainPending e m) = m_reader m"
  "m_stdin (drainPending e m) = m_stdin m" "m_torn (drainPending e m) = m_torn m"
  "m_writeMu (drainPending e m) = m_writeMu m"
  by (simp_all add: drainPending_def)

lemma return_fields [simp]:
  "m_calls (readLoop_return m) = m_calls m" "m_seqOf (readLoop_return m) = m_seqOf m"
  "m_started (readLoop_return m) = m_started m" "m_nextSeq (readLoop_return m) = m_nextSeq m"
  "m_pending (readLoop_return m) = Map.empty" "m_reader (readLoop_return m) = RDone"
  "m_stdin (readLoop_return m) = m_stdin m" "m_torn (readLoop_return m) = m_torn m"
  "m_writeMu (readLoop_return m) = m_writeMu m"
  by (simp_all add: readLoop_return_def)

lemma drain_Inv: "Inv m \<Longrightarrow> m_reader m = RLoop \<Longrightarrow> Inv (drainPending e m)"
  by (auto simp: Inv_def inv_defs seq_inv_def drainPending_def ran_def)

lemma return_Inv: "Inv m \<Longrightarrow> m_reader m = RLoop \<Longrightarrow> Inv (readLoop_return m)"
  using drain_Inv [of m "Errorf ''port: connection closed'' []"]
  by (simp add: Inv_def inv_defs seq_inv_def readLoop_return_def)

lemma pending_inv_inj: "pending_inv m \<Longrightarrow> m_pending m s = Some c \<Longrightarrow> m_pending m t = Some c \<Longrightarrow> s = t"
  by (auto simp: pending_inv_def)

lemma Inv_frame [simp]:
  "Inv (m\<lparr>m_stdout := r\<rparr>) = Inv m" "Inv (m\<lparr>m_stdin := b\<rparr>) = Inv m" "Inv (m\<lparr>m_torn := t\<rparr>) = Inv m"
  "Inv (m\<lparr>m_writeMu := w\<rparr>) = Inv m" "Inv (m\<lparr>m_eof := e\<rparr>) = Inv m" "Inv (m\<lparr>m_stop := s\<rparr>) = Inv m"
  by (simp_all add: Inv_def inv_defs seq_inv_def)

lemma ran_None: "x \<in> ran (f(a := None)) \<Longrightarrow> x \<in> ran f"
  by (auto simp: ran_def split: if_splits)

lemma Inv_unregister [simp]: "Inv m \<Longrightarrow> Inv (m\<lparr>m_pending := (m_pending m)(s := None)\<rparr>)"
  by (auto simp: Inv_def inv_defs seq_inv_def dest: ran_None)

lemma seq_inv_active: "seq_inv m \<Longrightarrow> m_calls m i \<noteq> CIdle \<Longrightarrow> i < m_started m"
  unfolding seq_inv_def by metis

lemma Inv_set_call:
  assumes "Inv m" and "\<not> unregistered (m_calls m i)" and "\<not> unregistered c"
  shows "Inv (set_call i c m)"
proof -
  have "m_calls m i \<noteq> CIdle" "c \<noteq> CIdle" using assms(2,3) by auto
  then have "seq_inv (set_call i c m)"
    using assms(1) seq_inv_active [of m i] by (simp add: Inv_def seq_inv_def)
  moreover have "pending_inv (set_call i c m)" "sending_inv (set_call i c m)" "chan_inv (set_call i c m)"
    using assms by (auto simp: Inv_def inv_defs)
  ultimately show ?thesis by (simp add: Inv_def)
qed

lemma Inv_recv:
  assumes "Inv m" and "m_chans m i = r # rs"
  shows "Inv (m\<lparr>m_chans := (m_chans m)(i := rs)\<rparr>)"
proof -
  have "length (m_chans m i) \<le> 1" using assms(1) by (simp add: Inv_def chan_inv_def)
  then have "rs = []" using assms(2) by simp
  then show ?thesis
    using assms(1) by (auto simp: Inv_def inv_defs seq_inv_def)
qed

lemma Inv_register:
  assumes "Inv m" and "m_calls m i = CSeq f args"
  shows "Inv (set_call i (CReg f args) (m\<lparr>m_pending := (m_pending m)(m_seqOf m i \<mapsto> i)\<rparr>))"
proof -
  let ?m = "set_call i (CReg f args) (m\<lparr>m_pending := (m_pending m)(m_seqOf m i \<mapsto> i)\<rparr>)"
  have i: "m_chans m i = []" "\<And>r. m_reader m \<noteq> RSend i r"
    using assms by (auto simp: Inv_def chan_inv_def sending_inv_def)
  have "i < m_started m" using assms by (intro seq_inv_active) (simp_all add: Inv_def)
  then have "seq_inv ?m" using assms by (auto simp: Inv_def seq_inv_def)
  moreover have "pending_inv ?m" "chan_inv ?m"
    using assms i by (auto simp: Inv_def pending_inv_def chan_inv_def)
  moreover have "sending_inv ?m"
    using assms i by (auto simp: Inv_def sending_inv_def ran_def split: if_splits)
  ultimately show ?thesis by (simp add: Inv_def)
qed

lemma Inv_start:
  assumes "Inv m"
  shows "Inv (set_call (m_started m) (CSeq f args)
      (m\<lparr>m_nextSeq := m_nextSeq m + 1, m_seqOf := (m_seqOf m)(m_started m := m_nextSeq m + 1),
         m_started := m_started m + 1\<rparr>))" (is "Inv ?m")
proof -
  have "m_calls m (m_started m) = CIdle"
    using assms by (auto simp: Inv_def seq_inv_def dest: spec [of _ "m_started m"])
  then have "pending_inv ?m" "sending_inv ?m" "chan_inv ?m"
    using assms unfolding Inv_def inv_defs by (fastforce split: if_splits)+
  moreover have "seq_inv ?m"
    using assms unfolding Inv_def seq_inv_def by (auto simp: less_Suc_eq)
  ultimately show ?thesis by (simp add: Inv_def)
qed

lemma Inv_take:
  assumes "Inv m" and "m_pending m s = Some c"
  shows "Inv (m\<lparr>m_pending := (m_pending m)(s := None), m_reader := RSend c r\<rparr>)" (is "Inv ?m")
proof -
  have p: "pending_inv m" using assms(1) by (simp add: Inv_def)
  have "c \<notin> ran ((m_pending m)(s := None))"
    using pending_inv_inj [OF p assms(2)] by (auto simp: ran_def split: if_splits)
  then have "sending_inv ?m" using p assms(2) by (simp add: inv_defs)
  moreover have "pending_inv ?m" using p by (simp add: inv_defs)
  ultimately show ?thesis using assms(1) by (simp add: Inv_def chan_inv_def seq_inv_def)
qed

lemma Inv_send:
  assumes "Inv m" and "m_reader m = RSend c r"
  shows "Inv (m\<lparr>m_chans := (m_chans m)(c := [r]), m_reader := RLoop\<rparr>)"
  using assms by (auto simp: Inv_def inv_defs seq_inv_def ran_def)

lemma dispatch_Inv: "Inv m \<Longrightarrow> Inv (dispatch t m)"
  by (auto simp: dispatch_def Inv_take split: option.splits)

lemma iter_Inv:
  "Inv m \<Longrightarrow> m_reader m = RLoop \<Longrightarrow> readLoop_iter zlib fuel m = Some m' \<Longrightarrow> Inv m'"
  by (auto simp: readLoop_iter_def return_Inv drain_Inv dispatch_Inv
      split: packet.splits if_splits option.splits sum.splits)

lemma act_Inv:
  assumes "Inv m" and "act zlib fuel a m = Some m'"
  shows "Inv m'"
proof (cases a)
  case (ACall f args)
  then show ?thesis using assms Inv_start [of m f args] by (auto simp: Let_def)
next
  case (ARegister i)
  then show ?thesis using assms Inv_register [of m i] by (simp split: call_pc.splits)
next
  case (AEncode i)
  then show ?thesis using assms by (auto simp: Inv_set_call split: call_pc.splits sum.splits)
next
  case (ARecv i)
  then obtain f r rs where "m_calls m i = CWait f" "m_chans m i = r # rs"
    "m' = set_call i (CRet r) (m\<lparr>m_chans := (m_chans m)(i := rs)\<rparr>)"
    using assms(2) by (auto split: call_pc.splits list.splits)
  then show ?thesis using Inv_recv [OF assms(1)] by (simp add: Inv_set_call)
next
  case ARead
  then show ?thesis using assms iter_Inv by (simp split: reader_pc.splits)
next
  case ASend
  then show ?thesis using assms Inv_send [of m] by (simp split: reader_pc.splits if_splits)
qed (use assms in \<open>auto simp: Inv_set_call split: call_pc.splits if_splits\<close>)

lemma reach_Inv: "reach zlib fuel m \<Longrightarrow> Inv m"
  by (induction rule: reach.induct) (auto intro: Inv_init act_Inv)

section \<open>Messages to the port\<close>

definition holds_lock :: "call_pc \<Rightarrow> bool" where
  "holds_lock c \<longleftrightarrow> (case c of CHdr _ _ \<Rightarrow> True | CBody _ _ \<Rightarrow> True | _ \<Rightarrow> False)"



definition encoded :: "call_pc \<Rightarrow> byte list option" where
  "encoded c = (case c of CLock _ d \<Rightarrow> Some d | CHdr _ d \<Rightarrow> Some d | CBody _ d \<Rightarrow> Some d | _ \<Rightarrow> None)"




lemma lock_simps [simp]:
  "\<not> holds_lock CIdle" "\<not> holds_lock (CSeq f a)" "\<not> holds_lock (CReg f a)" "\<not> holds_lock (CLock f d)"
  "holds_lock (CHdr f d)" "holds_lock (CBody f d)" "\<not> holds_lock (CFail f e)"
  "\<not> holds_lock (CWait f)" "\<not> holds_lock (CTimedOut f)" "\<not> holds_lock (CRet r)"
  "encoded (CLock f d) = Some d" "encoded (CHdr f d) = Some d" "encoded (CBody f d) = Some d"
  "encoded CIdle = None" "encoded (CSeq f a) = None" "encoded (CReg f a) = None"
  "encoded (CFail f e) = None" "encoded (CWait f) = None" "encoded (CTimedOut f) = None"
  "encoded (CRet r) = None"
  by (simp_all add: holds_lock_def encoded_def)










section \<open>After the read loop\<close>

text \<open>The result of a call that the read loop had no part in.\<close>

definition local_failure :: "callResult \<Rightarrow> bool" where
  "local_failure r \<longleftrightarrow> (\<exists>f e t. r = Inl (Errorf ''port: send call %q: %w'' [FStr f, FErr e]) \<or>
     r = Inl (Errorf ''port: call %q timed out after %s'' [FStr f, FInt t]) \<or>
     r = Inl (Errorf ''port: manager stopped'' []))"

definition abandoned :: "nat \<Rightarrow> Manager \<Rightarrow> bool" where
  "abandoned i m \<longleftrightarrow> m_reader m = RDone \<and> m_chans m i = [] \<and>
     (\<forall>r. m_calls m i = CRet r \<longrightarrow> local_failure r)"

lemma act_abandoned: "abandoned i m \<Longrightarrow> act zlib fuel a m = Some m' \<Longrightarrow> abandoned i m'"
  by (cases a)
    (auto simp: abandoned_def local_failure_def Let_def
      split: call_pc.splits if_splits sum.splits reader_pc.splits list.splits)

section \<open>A whole call\<close>



text \<open>The first call of a fresh manager, up to its \<open>select\<close>.\<close>

definition first_call :: "action list" where
  "first_call = [ACall ''m:f'' [], ARegister 0, AEncode 0, ALock 0, AWriteHdr 0, AWriteBody 0]"

lemma first_call_waits:
  "\<exists>m. run zlib fuel first_call (StartWithPipes 0) = Some m \<and> m_reader m = RLoop \<and> m_stdout m = [] \<and>
     \<not> m_eof m \<and> m_calls m 0 = CWait ''m:f'' \<and> m_pending m 1 = Some 0 \<and> m_seqOf m 0 = 1 \<and>
     \<not> m_torn m \<and> m_started m = 1 \<and> m_stdin m \<noteq> []"
proof -
  have "is_ok (Encode (call_msg 1 ''m:f'' []))"
    by (simp add: Encode_def is_ok_rbind_total is_ok_encTerm call_msg_def del: encTerm.simps)
  then obtain d where "Encode (call_msg 1 ''m:f'' []) = Inr d" by (auto simp: is_ok_iff)
  moreover from this have "d \<noteq> []" by (auto simp: Encode_eq_Inr)
  ultimately show ?thesis by (simp add: first_call_def StartWithPipes_def Let_def set_call_def)
qed


section \<open>Properties\<close>

text \<open>
  C10: under every interleaving of calls, the read loop, timeouts and \<open>Stop\<close>, a channel
  receives at most one result: it never holds more than its capacity of one, it is empty whenever
  \<open>dispatch\<close> is about to send on it or \<open>drainPending\<close> could, and no channel is registered twice;
  so no send of the read loop ever blocks.
\<close>

theorem sends_never_block:
  assumes "reach zlib fuel m"
  shows "length (m_chans m c) \<le> 1 \<and>
    (m_reader m = RSend c r \<longrightarrow> m_chans m c = [] \<and> act zlib fuel ASend m \<noteq> None) \<and>
    (m_pending m s = Some c \<longrightarrow> m_chans m c = [] \<and> (\<forall>t. m_pending m t = Some c \<longrightarrow> t = s))"
  using reach_Inv [OF assms] pending_inv_inj [of m s c] by (auto simp: Inv_def inv_defs)

theorem sends_never_block_witness:
  "\<exists>m. run one_stream 5 first_call (StartWithPipes 0) = Some m \<and> m_pending m 1 = Some 0 \<and> m_chans m 0 = []"
proof -
  obtain m where m: "run one_stream 5 first_call (StartWithPipes 0) = Some m" and p: "m_pending m 1 = Some 0"
    using first_call_waits by blast
  from sends_never_block [OF reach_run [OF reach_init m], of 0 _ 1] p m show ?thesis by auto
qed

text \<open>
  C11: a reply is routed to the call it names: when the read loop takes a reply for the channel of call \<open>c\<close> off the
  wire, the payload decodes to a tuple whose second element has the sequence number of
  that call (the number of calls started up to it, modulo \<open>2 ^ 32\<close>), and the result sent is the one the
  tuple stands for.
\<close>

theorem reply_routed_by_sequence:
  assumes "reach zlib fuel m" and "m_reader m = RLoop" and "act zlib fuel ARead m = Some m'"
    and "m_reader m' = RSend c r"
  shows "\<exists>payload rest tup. read_packet (m_stdout m) = Pkt payload rest \<and>
    Decode zlib fuel payload = Some (Inr (TTuple tup)) \<and> 2 \<le> length tup \<and>
    termToUint32 (tup ! 1) = Some (of_nat (c + 1)) \<and> r = reply_result tup \<and>
    c < m_started m \<and> m_pending m' (of_nat (c + 1)) = None"
proof -
  from assms(2-4) obtain payload rest t where p: "read_packet (m_stdout m) = Pkt payload rest"
    and t: "Decode zlib fuel payload = Some (Inr t)" and d: "m' = dispatch t (m\<lparr>m_stdout := rest\<rparr>)"
    by (auto simp: readLoop_iter_def split: packet.splits if_splits option.splits sum.splits)
  from d assms(2,4) obtain seq tup where tup: "reply_target t = Some (seq, tup)"
    and c: "m_pending m seq = Some c" and r: "r = reply_result tup" and m': "m_pending m' seq = None"
    by (auto simp: dispatch_def split: option.splits)
  from tup have "t = TTuple tup" "2 \<le> length tup" "termToUint32 (tup ! 1) = Some seq"
    by (auto simp: reply_target_def as_eq_Some split: option.splits if_splits)
  moreover have "m_seqOf m c = seq" "c < m_started m" "m_seqOf m c = of_nat (c + 1)"
  proof -
    have i: "pending_inv m" "seq_inv m" using reach_Inv [OF assms(1)] by (simp_all add: Inv_def)
    with c show "m_seqOf m c = seq" by (simp add: pending_inv_def)
    have "\<not> unregistered (m_calls m c)" using i(1) c by (auto simp: pending_inv_def)
    then show "c < m_started m" by (intro seq_inv_active [OF i(2)]) auto
    with i(2) show "m_seqOf m c = of_nat (c + 1)" by (auto simp: seq_inv_def)
  qed
  ultimately show ?thesis using p t r m' by auto
qed

text \<open>A port that answers the first call with the integer 5.\<close>

definition answer5 :: "byte list" where
  "answer5 = [131, 104, 3, 119, 5, 114, 101, 112, 108, 121, 97, 1, 97, 5]"

lemma Encode_answer5: "Encode (TTuple [TAtom ''reply'', TInt64 1, TInt64 5]) = Inr answer5"
  by (simp add: answer5_def Encode_def encTuple_def tuple_header_def encAtom_def encInt64_def
      u8_of_len_def bytes_of_string_def byte_of_char_def)

lemma Decode_answer5: "2 \<le> fuel \<Longrightarrow> Decode zlib fuel answer5 = Some (Inr (TTuple [TAtom ''reply'', TInt64 1, TInt64 5]))"
  using Decode_Encode_rest [OF Encode_answer5, of fuel zlib "[]"] by simp

theorem reply_routed_by_sequence_witness:
  "\<exists>m m' tup. run one_stream 5 (first_call @ [AFeed (packet4 answer5)]) (StartWithPipes 0) = Some m \<and>
     act one_stream 5 ARead m = Some m' \<and> m_reader m' = RSend 0 (reply_result tup) \<and>
     termToUint32 (tup ! 1) = Some (of_nat (0 + 1))"
proof -
  obtain m0 where m0: "run one_stream 5 first_call (StartWithPipes 0) = Some m0" "m_reader m0 = RLoop"
    "m_stdout m0 = []" "\<not> m_eof m0" "m_pending m0 1 = Some 0"
    using first_call_waits by blast
  define m where "m = m0\<lparr>m_stdout := packet4 answer5\<rparr>"
  have m: "run one_stream 5 (first_call @ [AFeed (packet4 answer5)]) (StartWithPipes 0) = Some m"
    using m0 by (simp add: run_append m_def)
  have "read_packet (packet4 answer5) = Pkt answer5 []"
    using read_packet_packet4 [of answer5 "[]"] by (simp add: answer5_def maxMessageBytes_def)
  then obtain m' where m': "act one_stream 5 ARead m = Some m'"
    "m_reader m' = RSend 0 (reply_result [TAtom ''reply'', TInt64 1, TInt64 5])"
    using m0 by (simp add: m_def readLoop_iter_def Decode_answer5 dispatch_def reply_target_def termToUint32_def)
  from reply_routed_by_sequence [OF reach_run [OF reach_init m] _ m'] m m' m0(2)
  show ?thesis by (auto simp: m_def)
qed



text \<open>
  A call started after the read loop has ended never learns that the connection is closed:
  whatever happens, it can only return a send failure, its timeout, or the error of a stopped
  manager.
\<close>

theorem call_after_close_waits:
  assumes "reach zlib fuel m" and "m_reader m = RDone" and "m_started m \<le> i"
    and "run zlib fuel as m = Some m'" and "m_calls m' i = CRet r"
  shows "local_failure r"
proof -
  have "chan_inv m" "seq_inv m" using reach_Inv [OF assms(1)] by (simp_all add: Inv_def)
  moreover have "m_calls m i = CIdle" using \<open>seq_inv m\<close> assms(3) by (auto simp: seq_inv_def dest: spec [of _ i])
  ultimately have "abandoned i m" using assms(2) by (simp add: abandoned_def chan_inv_def)
  from run_invariant [of "abandoned i", OF act_abandoned assms(4) this] assms(5)
  show ?thesis by (simp add: abandoned_def)
qed

theorem call_after_close_waits_witness:
  "\<exists>m r. run one_stream 5 ([AFeedEof, ARead] @ first_call @ [ATimer 0, AUnregister 0]) (StartWithPipes 0) = Some m \<and>
     m_calls m 0 = CRet r \<and> local_failure r"
proof -
  obtain m where m: "run one_stream 5 [AFeedEof, ARead] (StartWithPipes 0) = Some m"
    "m_reader m = RDone" "m_started m = 0"
    by (simp add: StartWithPipes_def readLoop_iter_def read_packet_def)
  have "is_ok (Encode (call_msg 1 ''m:f'' []))"
    by (simp add: Encode_def is_ok_rbind_total is_ok_encTerm call_msg_def del: encTerm.simps)
  then obtain d where d: "Encode (call_msg 1 ''m:f'' []) = Inr d" by (auto simp: is_ok_iff)
  obtain m' r where m': "run one_stream 5 (first_call @ [ATimer 0, AUnregister 0]) m = Some m'"
    "m_calls m' 0 = CRet r"
    using m(1) d
    by (auto simp: StartWithPipes_def readLoop_iter_def read_packet_def readLoop_return_def
        drainPending_def first_call_def Let_def set_call_def)
  from call_after_close_waits [OF reach_run [OF reach_init m(1)] m(2) _ m'] m(3)
  have "local_failure r" by simp
  moreover have "run one_stream 5 ([AFeedEof, ARead] @ first_call @ [ATimer 0, AUnregister 0]) (StartWithPipes 0) = Some m'"
    using m(1) m'(1) by (simp add: run_append del: append.simps run.simps)
  ultimately show ?thesis using m'(2) by blast
qed



end
