(* ===== verification/Cnode.thy ===== *)
theory Cnode
  imports Port Go_Strings
begin

text \<open>
  The C-node of \<open>cnode/cnode.go\<close>: node names, the port mapper query, the distribution handshake
  with its two-byte frames, and message sending.  A connection is the bytes the peer sends and the bytes
  written to it; a write fails once a budget of bytes is used up.  The digest \<open>md5\<close>, the random
  challenge and the dialer are arguments.

  A runtime panic (an index out of range) is the outcome \<open>None\<close>; errors and values are
  \<open>Some (Inl e)\<close> and \<open>Some (Inr x)\<close>.
\<close>

section \<open>Node names\<close>

record NodeName =
  n_Name :: string
  n_Host :: string

definition ParseNodeName :: "string \<Rightarrow> go_error + NodeName" where
  "ParseNodeName full =
     (case cut_at (CHR ''@'') (rev full) of
        None \<Rightarrow> Inl (Errorf ''cnode: invalid node name %q (expected name@host)'' [FStr full])
      | Some (rhost, rname) \<Rightarrow>
          if rname = [] \<or> rhost = []
          then Inl (Errorf ''cnode: invalid node name %q (expected name@host)'' [FStr full])
          else Inr \<lparr>n_Name = rev rname, n_Host = rev rhost\<rparr>)"

definition NodeName_String :: "NodeName \<Rightarrow> string" where
  "NodeName_String n = n_Name n @ ''@'' @ n_Host n"

section \<open>Connections\<close>

record conn =
  c_in :: "byte list"
  c_out :: "byte list"
  c_budget :: "nat option"

type_synonym dialer = "string \<Rightarrow> string \<Rightarrow> go_error + conn"

definition conn_Write :: "byte list \<Rightarrow> conn \<Rightarrow> go_error + conn" where
  "conn_Write bs c =
     (case c_budget c of
        None \<Rightarrow> Inr (c\<lparr>c_out := c_out c @ bs\<rparr>)
      | Some k \<Rightarrow> if length bs \<le> k then Inr (c\<lparr>c_out := c_out c @ bs, c_budget := Some (k - length bs)\<rparr>)
                  else Inl (ExternalErr ''write''))"

definition ReadFull :: "nat \<Rightarrow> conn \<Rightarrow> go_error + (byte list \<times> conn)" where
  "ReadFull n c =
     (if n \<le> length (c_in c) then Inr (take n (c_in c), c\<lparr>c_in := drop n (c_in c)\<rparr>)
      else Inl (if c_in c = [] then IoEOF else IoUnexpectedEOF))"

section \<open>The port mapper\<close>

abbreviation epmdPort :: nat where "epmdPort \<equiv> 4369"

text \<open>The \<open>PORT_PLEASE2\<close> request.\<close>

definition epmd_request :: "string \<Rightarrow> byte list" where
  "epmd_request nodeName =
     put_u16 (u16_of_len (1 + length nodeName)) @ [0x7A] @ bytes_of_string nodeName"

definition LookupNode :: "dialer \<Rightarrow> string \<Rightarrow> string \<Rightarrow> go_error + nat" where
  "LookupNode dial host nodeName =
     rbind (wrap_error (wrapf ''cnode: EPMD connect: %w'')
              (dial ''tcp'' (host @ '':'' @ show_nat epmdPort))) (\<lambda>c.
     rbind (wrap_error (wrapf ''cnode: EPMD write: %w'') (conn_Write (epmd_request nodeName) c)) (\<lambda>c.
     rbind (wrap_error (wrapf ''cnode: EPMD read hdr: %w'') (ReadFull 2 c)) (\<lambda>(hdr, c).
     if hdr ! 0 \<noteq> 0x77 then
       Inl (Errorf ''cnode: EPMD unexpected response tag: 0x%02x'' [FInt (int (unat (hdr ! 0)))])
     else if hdr ! 1 \<noteq> 0 then
       Inl (Errorf ''cnode: EPMD node %q not found (result=%d)'' [FStr nodeName, FInt (int (unat (hdr ! 1)))])
     else
       rbind (wrap_error (wrapf ''cnode: EPMD read port: %w'') (ReadFull 2 c)) (\<lambda>(portBytes, c).
       Inr (unat (get_u16 portBytes))))))"

section \<open>Handshake frames\<close>

definition frame2 :: "byte list \<Rightarrow> byte list" where
  "frame2 body = put_u16 (u16_of_len (length body)) @ body"

definition writeFrame :: "byte list \<Rightarrow> conn \<Rightarrow> go_error + conn" where
  "writeFrame body c =
     rbind (conn_Write (put_u16 (u16_of_len (length body))) c) (\<lambda>c. conn_Write body c)"

definition readFrame :: "conn \<Rightarrow> go_error + (byte list \<times> conn)" where
  "readFrame c =
     rbind (wrap_error (wrapf ''read frame header: %w'') (ReadFull 2 c)) (\<lambda>(hdr, c).
     wrap_error (wrapf ''read frame body: %w'') (ReadFull (unat (get_u16 hdr)) c))"

section \<open>Handshake messages\<close>

type_synonym md5 = "byte list \<Rightarrow> byte list"

definition computeDigest :: "md5 \<Rightarrow> string \<Rightarrow> u32 \<Rightarrow> byte list" where
  "computeDigest md5 cookie challenge = md5 (bytes_of_string cookie @ put_u32 challenge)"

definition name_msg :: "string \<Rightarrow> byte list" where
  "name_msg name =
     [byte_of_char (CHR ''N'')] @ put_u64 0x40000000 @ put_u32 1 @ put_u16 (u16_of_len (length name)) @
     bytes_of_string name"

definition sendName :: "string \<Rightarrow> conn \<Rightarrow> go_error + conn" where
  "sendName name c = writeFrame (name_msg name) c"

text \<open>The error branch formats \<open>body[0]\<close>, which panics on an empty frame.\<close>

definition recvStatus :: "conn \<Rightarrow> (go_error + (string \<times> conn)) option" where
  "recvStatus c =
     fbind (Some (readFrame c)) (\<lambda>(body, c).
     if length body < 2 \<or> body ! 0 \<noteq> byte_of_char (CHR ''s'') then
       (if body = [] then None
        else Some (Inl (Errorf ''expected 's' tag, got 0x%02x'' [FInt (int (unat (body ! 0)))])))
     else Some (Inr (string_of_bytes (drop 1 body), c)))"

text \<open>The body of \<open>recvChallenge\<close> behind the frame read.\<close>

definition parse_challenge :: "byte list \<Rightarrow> (go_error + (u32 \<times> string)) option" where
  "parse_challenge body =
     (if length body < 1 then Some (Inl (Errorf ''empty challenge message'' []))
      else if body ! 0 = byte_of_char (CHR ''N'') then
        (if length body < 19
         then Some (Inl (Errorf (CHR 0x27 # ''N' challenge too short: %d'') [FInt (int (length body))]))
         else
           let challenge = get_u32 (take 4 (drop 9 body)); nameLen = get_u16 (take 2 (drop 17 body)) in
           if length body < 19 + unat nameLen
           then Some (Inl (Errorf (CHR 0x27 # ''N' challenge name truncated'') []))
           else
             \<comment> \<open>\<open>body[19 : 19+nameLen]\<close>; the bound is computed in \<open>uint16\<close>\<close>
             let hi = unat (19 + nameLen) in
             if hi < 19 \<or> length body < hi then None
             else Some (Inr (challenge, string_of_bytes (take (hi - 19) (drop 19 body)))))
      else if body ! 0 = byte_of_char (CHR ''n'') then
        (if length body < 11
         then Some (Inl (Errorf (CHR 0x27 # ''n' challenge too short: %d'') [FInt (int (length body))]))
         else Some (Inr (get_u32 (take 4 (drop 7 body)), string_of_bytes (drop 11 body))))
      else Some (Inl (Errorf ''unexpected challenge tag: 0x%02x'' [FInt (int (unat (body ! 0)))])))"

definition recvChallenge :: "conn \<Rightarrow> (go_error + ((u32 \<times> string) \<times> conn)) option" where
  "recvChallenge c =
     fbind (Some (readFrame c)) (\<lambda>(body, c). fbind (parse_challenge body) (\<lambda>r. Some (Inr (r, c))))"

definition reply_msg :: "u32 \<Rightarrow> byte list \<Rightarrow> byte list" where
  "reply_msg ourChallenge digest = [byte_of_char (CHR ''r'')] @ put_u32 ourChallenge @ digest"

definition sendChallengeReply :: "u32 \<Rightarrow> byte list \<Rightarrow> conn \<Rightarrow> go_error + conn" where
  "sendChallengeReply ourChallenge digest c = writeFrame (reply_msg ourChallenge digest) c"

definition recvChallengeAck :: "byte list \<Rightarrow> conn \<Rightarrow> (go_error + conn) option" where
  "recvChallengeAck expected c =
     fbind (Some (readFrame c)) (\<lambda>(body, c).
     if length body < 17 \<or> body ! 0 \<noteq> byte_of_char (CHR ''a'') then
       (if body = [] then None
        else Some (Inl (Errorf ''expected 'a' tag, got 0x%02x (len=%d)''
               [FInt (int (unat (body ! 0))), FInt (int (length body))])))
     else if take 16 (drop 1 body) \<noteq> expected then Some (Inl (Errorf ''challenge_ack digest mismatch'' []))
     else Some (Inr c))"

record DistConn =
  d_conn :: conn
  d_ourNode :: string
  d_peerNode :: string

definition Handshake :: "md5 \<Rightarrow> u32 \<Rightarrow> conn \<Rightarrow> string \<Rightarrow> string \<Rightarrow> (go_error + DistConn) option" where
  "Handshake md5 ourChallenge c ourName cookie =
     fbind (Some (wrap_error (wrapf ''send_name: %w'') (sendName ourName c))) (\<lambda>c.
     fbind (fwrap (wrapf ''recv_status: %w'') (recvStatus c)) (\<lambda>(status, c).
     if status \<noteq> ''ok'' \<and> status \<noteq> ''ok_simultaneous'' then
       Some (Inl (Errorf ''recv_status: unexpected status %q'' [FStr status]))
     else
     fbind (fwrap (wrapf ''recv_challenge: %w'') (recvChallenge c)) (\<lambda>((theirChallenge, peerName), c).
     let digest = computeDigest md5 cookie theirChallenge in
     fbind (Some (wrap_error (wrapf ''send_challenge_reply: %w'') (sendChallengeReply ourChallenge digest c))) (\<lambda>c.
     let expectedAck = computeDigest md5 cookie ourChallenge in
     fbind (fwrap (wrapf ''recv_challenge_ack: %w'') (recvChallengeAck expectedAck c)) (\<lambda>c.
     Some (Inr \<lparr>d_conn = c, d_ourNode = ourName, d_peerNode = peerName\<rparr>))))))"

section \<open>Messages\<close>

abbreviation passThroughTag :: byte where "passThroughTag \<equiv> 0x70"

definition dist_payload :: "eterm \<Rightarrow> eterm \<Rightarrow> go_error + byte list" where
  "dist_payload control msg =
     rbind (wrap_error (wrapf ''cnode: encode control: %w'') (Encode control)) (\<lambda>ctlBytes.
     rbind (wrap_error (wrapf ''cnode: encode message: %w'') (Encode msg)) (\<lambda>msgBytes.
     Inr (passThroughTag # ctlBytes @ msgBytes)))"

definition sendMsg :: "DistConn \<Rightarrow> eterm \<Rightarrow> eterm \<Rightarrow> go_error + DistConn" where
  "sendMsg d control msg =
     rbind (dist_payload control msg) (\<lambda>payload.
     rbind (conn_Write (put_u32 (u32_of_len (length payload))) (d_conn d)) (\<lambda>c.
     rbind (conn_Write payload c) (\<lambda>c. Inr (d\<lparr>d_conn := c\<rparr>))))"

definition reg_send_control :: "Pid \<Rightarrow> string \<Rightarrow> eterm" where
  "reg_send_control fromPid toName = TTuple [TInt64 6, TPid fromPid, TAtom [], TAtom toName]"

definition SendRegSend :: "DistConn \<Rightarrow> Pid \<Rightarrow> string \<Rightarrow> eterm \<Rightarrow> go_error + DistConn" where
  "SendRegSend d fromPid toName msg = sendMsg d (reg_send_control fromPid toName) msg"

section \<open>The node\<close>

record CNode =
  cn_Name :: string
  cn_Cookie :: string
  cn_conns :: "string \<rightharpoonup> DistConn"

definition NewCNode :: "string \<Rightarrow> string \<Rightarrow> CNode" where
  "NewCNode name cookie = \<lparr>cn_Name = name, cn_Cookie = cookie, cn_conns = Map.empty\<rparr>"

text \<open>The address \<open>Connect\<close> dials: the given one, or the one the port mapper knows.\<close>

definition connect_addr :: "dialer \<Rightarrow> string \<Rightarrow> string \<Rightarrow> go_error + string" where
  "connect_addr dial remoteName addr =
     (if addr = [] then
        rbind (ParseNodeName remoteName) (\<lambda>nn.
        rbind (LookupNode dial (n_Host nn) (n_Name nn)) (\<lambda>port.
        Inr (n_Host nn @ '':'' @ show_nat port)))
      else Inr addr)"

definition Connect ::
  "md5 \<Rightarrow> u32 \<Rightarrow> dialer \<Rightarrow> CNode \<Rightarrow> string \<Rightarrow> string \<Rightarrow> (go_error + (DistConn \<times> CNode)) option" where
  "Connect md5 rand dial cn remoteName addr =
     fbind (Some (connect_addr dial remoteName addr)) (\<lambda>addr.
     fbind (Some (wrap_error (\<lambda>e. Errorf ''cnode: connect %s: %w'' [FStr addr, FErr e]) (dial ''tcp'' addr))) (\<lambda>c.
     fbind (fwrap (\<lambda>e. Errorf ''cnode: handshake with %s: %w'' [FStr remoteName, FErr e])
              (Handshake md5 rand c (cn_Name cn) (cn_Cookie cn))) (\<lambda>dc.
     let dc = dc\<lparr>d_peerNode := remoteName\<rparr> in
     Some (Inr (dc, cn\<lparr>cn_conns := (cn_conns cn)(remoteName \<mapsto> dc)\<rparr>)))))"

text \<open>
  Closing every connection; \<open>order\<close> is the order the map iteration visits them in and \<open>closeErr\<close> what
  closing one returns.  The last error wins.
\<close>

definition CNode_Close :: "(DistConn \<Rightarrow> go_error option) \<Rightarrow> DistConn list \<Rightarrow> CNode \<Rightarrow> go_error option \<times> CNode" where
  "CNode_Close closeErr order cn =
     (fold (\<lambda>dc last. case closeErr dc of None \<Rightarrow> last | Some e \<Rightarrow> Some e) order None,
      cn\<lparr>cn_conns := Map.empty\<rparr>)"

section \<open>Reading and writing frames\<close>

text \<open>A frame read from a connection, as a codec on the bytes that arrive.\<close>

definition take_frame2 :: "byte list \<Rightarrow> (byte list \<times> byte list) option" where
  "take_frame2 bs =
     (case readFrame \<lparr>c_in = bs, c_out = [], c_budget = None\<rparr> of Inl _ \<Rightarrow> None | Inr (b, c) \<Rightarrow> Some (b, c_in c))"

lemma readFrame_frame2:
  assumes "length body < 65536"
  shows "readFrame (c\<lparr>c_in := frame2 body @ r\<rparr>) = Inr (body, c\<lparr>c_in := r\<rparr>)"
  using assms by (simp add: readFrame_def ReadFull_def frame2_def unat_of_len)

lemma readFrame_eq:
  "readFrame c = Inr (body, c') \<longleftrightarrow>
     length body < 65536 \<and> c_in c = frame2 body @ c_in c' \<and> c_out c' = c_out c \<and> c_budget c' = c_budget c"
proof
  assume r: "readFrame c = Inr (body, c')"
  define n where "n = unat (get_u16 (take 2 (c_in c)))"
  from r have l: "2 + n \<le> length (c_in c)" and b: "body = take n (drop 2 (c_in c))"
    and c': "c' = c\<lparr>c_in := drop (n + 2) (c_in c)\<rparr>"
    by (auto simp: readFrame_def ReadFull_def result_simps n_def split: if_splits)
  have n: "n < 65536" unfolding n_def by (rule unat_word_less(1))
  have len: "length body = n" using l b by simp
  have "put_u16 (u16_of_len n) = take 2 (c_in c)"
    using l put_get_u16 [of "take 2 (c_in c)"] unfolding n_def u16_of_len_def by simp
  moreover have "c_in c = take 2 (c_in c) @ take n (drop 2 (c_in c)) @ drop (n + 2) (c_in c)"
    by (metis append_take_drop_id drop_drop)
  ultimately have "c_in c = frame2 body @ c_in c'"
    using b c' len by (simp add: frame2_def)
  moreover have "c_out c' = c_out c" "c_budget c' = c_budget c" using c' by simp_all
  ultimately show "length body < 65536 \<and> c_in c = frame2 body @ c_in c' \<and> c_out c' = c_out c \<and> c_budget c' = c_budget c"
    using n len by simp
next
  assume a: "length body < 65536 \<and> c_in c = frame2 body @ c_in c' \<and> c_out c' = c_out c \<and> c_budget c' = c_budget c"
  then have "c = c\<lparr>c_in := frame2 body @ c_in c'\<rparr>" and "c' = c\<lparr>c_in := c_in c'\<rparr>" by simp_all
  with readFrame_frame2 a show "readFrame c = Inr (body, c')" by metis
qed

interpretation frame2: prefix_codec frame2 take_frame2 "\<lambda>body. length body < 65536"
proof
  show "take_frame2 (frame2 x @ r) = Some (x, r)" if "length x < 65536" for x r
    using readFrame_frame2 [OF that, where c = "\<lparr>c_in = [], c_out = [], c_budget = None\<rparr>" and r = r]
    by (simp add: take_frame2_def)
  show "length r < length bs" if "take_frame2 bs = Some (x, r)" for bs x r
    using that by (auto simp: take_frame2_def readFrame_eq frame2_def split: sum.splits)
qed

lemma writeFrame_ok:
  "c_budget c = None \<Longrightarrow> writeFrame body c = Inr (c\<lparr>c_out := c_out c @ frame2 body\<rparr>)"
  by (simp add: writeFrame_def conn_Write_def frame2_def)

lemma conn_Write_in: "conn_Write bs c = Inr c' \<Longrightarrow> c_in c' = c_in c \<and> c_out c' = c_out c @ bs"
  by (auto simp: conn_Write_def split: option.splits if_splits)

lemma writeFrame_in: "writeFrame body c = Inr c' \<Longrightarrow> c_in c' = c_in c \<and> c_out c' = c_out c @ frame2 body"
  by (auto simp: writeFrame_def frame2_def result_simps) (metis conn_Write_in append.assoc)+

end
