(* ===== verification/Cnode_Correct.thy ===== *)
theory Cnode_Correct
  imports Cnode
begin

text \<open>
  What the C-node guarantees: names round-trip, an accepted handshake is an authenticated one, a peer
  that follows the protocol is accepted, the cases in which the handshake panics, and that the
  two terms of a distribution message can be recovered from its payload.
\<close>

section \<open>Challenge messages\<close>

lemma challenge_bound_no_overflow:
  assumes "length body < 65536" and "19 + unat (nameLen :: u16) \<le> length body"
  shows "unat (19 + nameLen) = 19 + unat nameLen"
proof -
  have "19 + unat nameLen < 65536" using assms by linarith
  then show ?thesis by (simp add: unat_word_ariths)
qed

lemma parse_challenge_returns: "length body < 65536 \<Longrightarrow> parse_challenge body \<noteq> None"
  using challenge_bound_no_overflow [of body "get_u16 (take 2 (drop 17 body))"]
  by (auto simp: parse_challenge_def Let_def not_less)

text \<open>The 'N' challenge a peer sends.\<close>

definition challenge_msg :: "u64 \<Rightarrow> u32 \<Rightarrow> u32 \<Rightarrow> string \<Rightarrow> byte list" where
  "challenge_msg flags challenge creation peer =
     [byte_of_char (CHR ''N'')] @ put_u64 flags @ put_u32 challenge @ put_u32 creation @
     put_u16 (u16_of_len (length peer)) @ bytes_of_string peer"

lemma length_challenge_msg [simp]: "length (challenge_msg f ch cr peer) = 19 + length peer"
  by (simp add: challenge_msg_def)

lemma parse_challenge_msg:
  assumes "length peer \<le> 65516"
  shows "parse_challenge (challenge_msg f ch cr peer) = Some (Inr (ch, peer))"
proof -
  have len: "unat (u16_of_len (length peer)) = length peer" using assms by (simp add: unat_of_len)
  have tag: "challenge_msg f ch cr peer ! 0 = byte_of_char (CHR ''N'')" by (simp add: challenge_msg_def)
  have d9: "take 4 (drop 9 (challenge_msg f ch cr peer)) = put_u32 ch"
    and d17: "take 2 (drop 17 (challenge_msg f ch cr peer)) = put_u16 (u16_of_len (length peer))"
    and d19: "drop 19 (challenge_msg f ch cr peer) = bytes_of_string peer"
    by (simp_all add: challenge_msg_def)
  have hi: "unat (19 + u16_of_len (length peer)) = 19 + length peer"
    using challenge_bound_no_overflow [of "challenge_msg f ch cr peer" "u16_of_len (length peer)"] assms len
    by simp
  show ?thesis
    by (simp add: parse_challenge_def tag d9 d17 d19 len hi Let_def)
qed

section \<open>Steps of the handshake\<close>

lemma readFrame_ex:
  "(\<exists>c'. readFrame c = Inr (body, c')) \<longleftrightarrow> length body < 65536 \<and> (\<exists>r. c_in c = frame2 body @ r)"
proof
  assume "length body < 65536 \<and> (\<exists>r. c_in c = frame2 body @ r)"
  then obtain r where "length body < 65536" "c_in c = frame2 body @ r" by blast
  then have "readFrame c = Inr (body, c\<lparr>c_in := r\<rparr>)" by (simp add: readFrame_eq)
  then show "\<exists>c'. readFrame c = Inr (body, c')" by blast
qed (auto simp: readFrame_eq)

lemma recvStatus_eq:
  "recvStatus c = Some (Inr (status, c')) \<longleftrightarrow>
     (\<exists>body. readFrame c = Inr (body, c') \<and> 2 \<le> length body \<and> body = bytes_of_string (CHR ''s'' # status))"
proof
  assume "recvStatus c = Some (Inr (status, c'))"
  then obtain body where b: "readFrame c = Inr (body, c')" "2 \<le> length body"
    "body ! 0 = byte_of_char (CHR ''s'')" "status = string_of_bytes (drop 1 body)"
    by (auto simp: recvStatus_def result_simps split: if_splits)
  then have "body = bytes_of_string (CHR ''s'' # status)"
    by (cases body) (auto simp: bytes_of_string_def string_of_bytes_def o_def)
  with b show "\<exists>body. readFrame c = Inr (body, c') \<and> 2 \<le> length body \<and> body = bytes_of_string (CHR ''s'' # status)"
    by blast
next
  assume "\<exists>body. readFrame c = Inr (body, c') \<and> 2 \<le> length body \<and> body = bytes_of_string (CHR ''s'' # status)"
  then show "recvStatus c = Some (Inr (status, c'))"
    by (auto simp: recvStatus_def bytes_of_string_def string_of_bytes_def o_def)
qed

lemma recvChallengeAck_eq:
  "recvChallengeAck expected c = Some (Inr c') \<longleftrightarrow>
     (\<exists>body. readFrame c = Inr (body, c') \<and> 17 \<le> length body \<and> body ! 0 = byte_of_char (CHR ''a'') \<and>
        take 16 (drop 1 body) = expected)"
  by (cases "readFrame c") (auto simp: recvChallengeAck_def not_less split: if_split_asm)

lemma recvChallenge_eq:
  "recvChallenge c = Some (Inr (r, c')) \<longleftrightarrow>
     (\<exists>body. readFrame c = Inr (body, c') \<and> parse_challenge body = Some (Inr r))"
  by (cases r) (auto simp: recvChallenge_def result_simps)

lemma recv_panics:
  "recvStatus c = None \<longleftrightarrow> (\<exists>c'. readFrame c = Inr ([], c'))"
  "recvChallenge c \<noteq> None"
  "recvChallengeAck expected c = None \<longleftrightarrow> (\<exists>c'. readFrame c = Inr ([], c'))"
proof -
  show "recvStatus c = None \<longleftrightarrow> (\<exists>c'. readFrame c = Inr ([], c'))"
    by (auto simp: recvStatus_def result_simps split: if_splits)
  show "recvChallenge c \<noteq> None"
    using parse_challenge_returns by (auto simp: recvChallenge_def fbind_eq_None readFrame_eq)
  show "recvChallengeAck expected c = None \<longleftrightarrow> (\<exists>c'. readFrame c = Inr ([], c'))"
    by (auto simp: recvChallengeAck_def result_simps split: if_splits)
qed

text \<open>An accepted handshake, spelled out.\<close>

lemma Handshake_eq:
  "Handshake md5 our c name cookie = Some (Inr d) \<longleftrightarrow>
     (\<exists>c1 c2 c3 c4 c5 status their peer.
        sendName name c = Inr c1 \<and> recvStatus c1 = Some (Inr (status, c2)) \<and>
        status \<in> {''ok'', ''ok_simultaneous''} \<and> recvChallenge c2 = Some (Inr ((their, peer), c3)) \<and>
        sendChallengeReply our (computeDigest md5 cookie their) c3 = Inr c4 \<and>
        recvChallengeAck (computeDigest md5 cookie our) c4 = Some (Inr c5) \<and>
        d = \<lparr>d_conn = c5, d_ourNode = name, d_peerNode = peer\<rparr>)"
  by (auto simp: Handshake_def Let_def result_simps split: if_splits)

text \<open>A handshake that panics, on a connection whose writes succeed.\<close>

lemma Handshake_None:
  assumes "c_budget c = None"
  shows "Handshake md5 our c name cookie = None \<longleftrightarrow>
    (let c1 = c\<lparr>c_out := c_out c @ frame2 (name_msg name)\<rparr> in
     recvStatus c1 = None \<or>
     (\<exists>status c2 r c3 e. recvStatus c1 = Some (Inr (status, c2)) \<and> status \<in> {''ok'', ''ok_simultaneous''} \<and>
        recvChallenge c2 = Some (Inr (r, c3)) \<and>
        recvChallengeAck e (c3\<lparr>c_out := c_out c3 @ frame2 (reply_msg our (computeDigest md5 cookie (fst r)))\<rparr>) = None))"
proof -
  have out: "c_budget c3 = None" if "recvStatus (c\<lparr>c_out := b\<rparr>) = Some (Inr (status, c2))"
    "recvChallenge c2 = Some (Inr (r, c3))" for b status c2 r c3
    using that assms by (auto simp: recvStatus_eq recvChallenge_eq readFrame_eq)
  have some: "(recvChallenge x = None) = False" for x using recv_panics(2) by blast
  show ?thesis
    unfolding Handshake_def Let_def sendName_def sendChallengeReply_def writeFrame_ok [OF assms]
    by (auto simp: fbind_eq_None some writeFrame_ok out recv_panics(3) split: if_splits)
qed

lemma Handshake_follows:
  assumes "c_budget c = None" and "length peer \<le> 65516" and "\<And>x. length (md5 x) = 16"
    and "c_in c = frame2 (bytes_of_string ''sok'') @ frame2 (challenge_msg flags their creation peer) @
      frame2 (byte_of_char (CHR ''a'') # computeDigest md5 cookie our) @ rest"
  shows "Handshake md5 our c name cookie = Some (Inr
    \<lparr>d_conn = c\<lparr>c_in := rest,
       c_out := c_out c @ frame2 (name_msg name) @ frame2 (reply_msg our (computeDigest md5 cookie their))\<rparr>,
     d_ourNode = name, d_peerNode = peer\<rparr>)"
proof -
  have dig: "length (computeDigest md5 cookie x) = 16" for x using assms(3) by (simp add: computeDigest_def)
  let ?c1 = "c\<lparr>c_out := c_out c @ frame2 (name_msg name)\<rparr>"
  let ?c2 = "?c1\<lparr>c_in := frame2 (challenge_msg flags their creation peer) @
      frame2 (byte_of_char (CHR ''a'') # computeDigest md5 cookie our) @ rest\<rparr>"
  let ?c3 = "?c1\<lparr>c_in := frame2 (byte_of_char (CHR ''a'') # computeDigest md5 cookie our) @ rest\<rparr>"
  let ?c4 = "?c3\<lparr>c_out := c_out ?c3 @ frame2 (reply_msg our (computeDigest md5 cookie their))\<rparr>"
  let ?c5 = "?c4\<lparr>c_in := rest\<rparr>"
  have "sendName name c = Inr ?c1" using assms(1) by (simp add: sendName_def writeFrame_ok)
  moreover have "recvStatus ?c1 = Some (Inr (''ok'', ?c2))"
    unfolding recvStatus_eq by (rule exI [of _ "bytes_of_string ''sok''"]) (simp add: readFrame_eq assms(4))
  moreover have "recvChallenge ?c2 = Some (Inr ((their, peer), ?c3))"
    unfolding recvChallenge_eq
    by (rule exI [of _ "challenge_msg flags their creation peer"])
      (use assms(2) parse_challenge_msg [OF assms(2)] in \<open>simp add: readFrame_eq\<close>)
  moreover have "sendChallengeReply our (computeDigest md5 cookie their) ?c3 = Inr ?c4"
    using assms(1) by (simp add: sendChallengeReply_def writeFrame_ok)
  moreover have "recvChallengeAck (computeDigest md5 cookie our) ?c4 = Some (Inr ?c5)"
    unfolding recvChallengeAck_eq
    by (rule exI [of _ "byte_of_char (CHR ''a'') # computeDigest md5 cookie our"])
      (simp add: readFrame_eq dig)
  ultimately show ?thesis unfolding Handshake_eq by simp
qed

section \<open>Properties\<close>

text \<open>
  Node names: what \<open>ParseNodeName\<close> accepts prints back to the same text, and it accepts exactly the printed names
  with a non-empty name and a non-empty host without an at-sign.
\<close>

theorem node_name_roundtrip:
  "ParseNodeName s = Inr n \<longleftrightarrow>
     s = NodeName_String n \<and> n_Name n \<noteq> [] \<and> n_Host n \<noteq> [] \<and> CHR ''@'' \<notin> set (n_Host n)"
proof
  assume "ParseNodeName s = Inr n"
  then obtain h m where "cut_at (CHR ''@'') (rev s) = Some (h, m)" "m \<noteq> []" "h \<noteq> []"
    "n = \<lparr>n_Name = rev m, n_Host = rev h\<rparr>"
    by (auto simp: ParseNodeName_def split: option.splits if_splits)
  moreover from this have "s = rev m @ CHR ''@'' # rev h" "CHR ''@'' \<notin> set h"
    by (auto simp: cut_at_eq_Some rev_eq_append_conv)
  ultimately show "s = NodeName_String n \<and> n_Name n \<noteq> [] \<and> n_Host n \<noteq> [] \<and> CHR ''@'' \<notin> set (n_Host n)"
    by (simp add: NodeName_String_def)
next
  assume "s = NodeName_String n \<and> n_Name n \<noteq> [] \<and> n_Host n \<noteq> [] \<and> CHR ''@'' \<notin> set (n_Host n)"
  then show "ParseNodeName s = Inr n"
    by (simp add: ParseNodeName_def NodeName_String_def cut_at_append)
qed

text \<open>
  C14: authentication: a handshake that succeeds has read three frames, a positive status, a well-formed challenge
  and an acknowledgement that carries the digest of the cookie and of our own challenge, and has written
  exactly our name and the digest of the cookie and of the peer's challenge.
\<close>

theorem handshake_authenticates:
  assumes "Handshake md5 our c name cookie = Some (Inr d)"
  shows "\<exists>status chal ack their.
    c_in c = frame2 (bytes_of_string (CHR ''s'' # status)) @ frame2 chal @ frame2 ack @ c_in (d_conn d) \<and>
    status \<in> {''ok'', ''ok_simultaneous''} \<and>
    parse_challenge chal = Some (Inr (their, d_peerNode d)) \<and>
    ack ! 0 = byte_of_char (CHR ''a'') \<and> take 16 (drop 1 ack) = computeDigest md5 cookie our \<and>
    c_out (d_conn d) = c_out c @ frame2 (name_msg name) @ frame2 (reply_msg our (computeDigest md5 cookie their))"
proof -
  from assms obtain c1 c2 c3 c4 c5 status their peer chal ack where
    "sendName name c = Inr c1" "readFrame c1 = Inr (bytes_of_string (CHR ''s'' # status), c2)"
    "status \<in> {''ok'', ''ok_simultaneous''}" "readFrame c2 = Inr (chal, c3)"
    "parse_challenge chal = Some (Inr (their, peer))"
    "sendChallengeReply our (computeDigest md5 cookie their) c3 = Inr c4"
    "readFrame c4 = Inr (ack, c5)" "ack ! 0 = byte_of_char (CHR ''a'')"
    "take 16 (drop 1 ack) = computeDigest md5 cookie our"
    "d = \<lparr>d_conn = c5, d_ourNode = name, d_peerNode = peer\<rparr>"
    unfolding Handshake_eq recvStatus_eq recvChallenge_eq recvChallengeAck_eq by blast
  moreover from this have "c_in c1 = c_in c \<and> c_out c1 = c_out c @ frame2 (name_msg name)"
    "c_in c4 = c_in c3 \<and> c_out c4 = c_out c3 @ frame2 (reply_msg our (computeDigest md5 cookie their))"
    unfolding sendName_def sendChallengeReply_def by (blast dest: writeFrame_in)+
  ultimately show ?thesis
    by (intro exI [of _ status] exI [of _ chal] exI [of _ ack] exI [of _ their]) (simp add: readFrame_eq)
qed

text \<open>A peer for the cookie \<open>secret\<close>, with a digest that ignores its input.\<close>

definition demo_conn :: conn where
  "demo_conn = \<lparr>c_in = frame2 (bytes_of_string ''sok'') @ frame2 (challenge_msg 0 7 1 ''b@h'') @
     frame2 (byte_of_char (CHR ''a'') # replicate 16 0) @ [9], c_out = [], c_budget = None\<rparr>"

theorem handshake_authenticates_witness:
  "\<exists>d status chal ack. Handshake (\<lambda>_. replicate 16 0) 5 demo_conn ''a@h'' ''secret'' = Some (Inr d) \<and>
     c_in demo_conn = frame2 (bytes_of_string (CHR ''s'' # status)) @ frame2 chal @ frame2 ack @ c_in (d_conn d)"
proof -
  have ex: "\<exists>d. Handshake (\<lambda>_. replicate 16 0) 5 demo_conn ''a@h'' ''secret'' = Some (Inr d)"
    using Handshake_follows [of demo_conn "''b@h''" "\<lambda>_. replicate 16 0" 0 7 1 "''secret''" 5 "[9]" "''a@h''"]
    by (simp add: demo_conn_def computeDigest_def)
  then obtain d where d: "Handshake (\<lambda>_. replicate 16 0) 5 demo_conn ''a@h'' ''secret'' = Some (Inr d)" by blast
  from handshake_authenticates [OF d] d show ?thesis by blast
qed

text \<open>
  C15: a peer that knows the cookie and follows the protocol is accepted, on a connection whose writes succeed, and the
  bytes behind its acknowledgement are left for the message stream.
\<close>

theorem handshake_completes:
  assumes "c_budget c = None" and "length peer \<le> 65516" and "\<And>x. length (md5 x) = 16"
    and "c_in c = frame2 (bytes_of_string ''sok'') @ frame2 (challenge_msg flags their creation peer) @
      frame2 (byte_of_char (CHR ''a'') # computeDigest md5 cookie our) @ rest"
  shows "Handshake md5 our c name cookie = Some (Inr
    \<lparr>d_conn = c\<lparr>c_in := rest,
       c_out := c_out c @ frame2 (name_msg name) @ frame2 (reply_msg our (computeDigest md5 cookie their))\<rparr>,
     d_ourNode = name, d_peerNode = peer\<rparr>)"
  by (rule Handshake_follows [OF assms])

theorem handshake_completes_witness:
  "Handshake (\<lambda>_. replicate 16 0) 5 demo_conn ''a@h'' ''secret'' = Some (Inr
    \<lparr>d_conn = demo_conn\<lparr>c_in := [9], c_out := c_out demo_conn @ frame2 (name_msg ''a@h'') @
        frame2 (reply_msg 5 (computeDigest (\<lambda>_. replicate 16 0) ''secret'' 7))\<rparr>,
     d_ourNode = ''a@h'', d_peerNode = ''b@h''\<rparr>)"
  using handshake_completes [of demo_conn "''b@h''" "\<lambda>_. replicate 16 0" 0 7 1 "''secret''" 5 "[9]" "''a@h''"]
  by (simp add: demo_conn_def computeDigest_def)

text \<open>
  C16: the handshake panics exactly when the peer sends an empty status frame, or, after an accepted status and
  challenge, an empty acknowledgement frame; the two error messages index the first byte of the frame. (The
  16-bit bound of the challenge's name never overflows.)
\<close>

theorem handshake_panics_iff:
  assumes "c_budget c = None"
  shows "Handshake md5 our c name cookie = None \<longleftrightarrow>
    (\<exists>r. c_in c = frame2 [] @ r) \<or>
    (\<exists>status chal their peer r.
       c_in c = frame2 (bytes_of_string (CHR ''s'' # status)) @ frame2 chal @ frame2 [] @ r \<and>
       status \<in> {''ok'', ''ok_simultaneous''} \<and> length chal < 65536 \<and>
       parse_challenge chal = Some (Inr (their, peer)))"
proof -
  let ?c1 = "c\<lparr>c_out := c_out c @ frame2 (name_msg name)\<rparr>"
  have one: "recvStatus ?c1 = None \<longleftrightarrow> (\<exists>r. c_in c = frame2 [] @ r)"
    by (simp add: recv_panics(1) readFrame_ex)
  have ack: "(\<exists>r. recvChallengeAck e c' = None) \<longleftrightarrow> (\<exists>r. c_in c' = frame2 [] @ r)" for e c'
    by (simp add: recv_panics(3) readFrame_ex)
  let ?L = "\<exists>status c2 r c3 e. recvStatus ?c1 = Some (Inr (status, c2)) \<and> status \<in> {''ok'', ''ok_simultaneous''} \<and>
        recvChallenge c2 = Some (Inr (r, c3)) \<and>
        recvChallengeAck e (c3\<lparr>c_out := c_out c3 @ frame2 (reply_msg our (computeDigest md5 cookie (fst r)))\<rparr>) = None"
  let ?R = "\<exists>status chal their peer r.
       c_in c = frame2 (bytes_of_string (CHR ''s'' # status)) @ frame2 chal @ frame2 [] @ r \<and>
       status \<in> {''ok'', ''ok_simultaneous''} \<and> length chal < 65536 \<and>
       parse_challenge chal = Some (Inr (their, peer))"
  have "?L = ?R"
  proof
    assume ?L
    then show ?R
      by (auto simp: recvStatus_eq recvChallenge_eq readFrame_eq recv_panics(3) readFrame_ex) blast+
  next
    assume ?R
    then obtain status chal their peer r where
      i: "c_in c = frame2 (bytes_of_string (CHR ''s'' # status)) @ frame2 chal @ frame2 [] @ r"
      and s: "status \<in> {''ok'', ''ok_simultaneous''}" and ch: "length chal < 65536"
        "parse_challenge chal = Some (Inr (their, peer))"
      by blast
    let ?c2 = "?c1\<lparr>c_in := frame2 chal @ frame2 [] @ r\<rparr>"
    let ?c3 = "?c1\<lparr>c_in := frame2 [] @ r\<rparr>"
    have "recvStatus ?c1 = Some (Inr (status, ?c2))"
      using i s by (auto simp: recvStatus_eq readFrame_eq)
    moreover have "recvChallenge ?c2 = Some (Inr ((their, peer), ?c3))"
      unfolding recvChallenge_eq by (rule exI [of _ chal]) (simp add: ch readFrame_eq)
    moreover have "recvChallengeAck e (?c3\<lparr>c_out := x\<rparr>) = None" for e x
      by (simp add: recv_panics(3) readFrame_ex)
    ultimately show ?L using s by blast
  qed
  then show ?thesis unfolding Handshake_None [OF assms] Let_def one by simp
qed

theorem handshake_panics_iff_witness:
  "Handshake (\<lambda>_. []) 5 \<lparr>c_in = frame2 [], c_out = [], c_budget = None\<rparr> ''a@h'' ''secret'' = None"
  using handshake_panics_iff [of "\<lparr>c_in = frame2 [], c_out = [], c_budget = None\<rparr>" "\<lambda>_. []" 5 "''a@h''" "''secret''"]
  by auto

text \<open>
  C17: a distribution message is decodable: behind the pass-through tag the payload holds the
  control tuple, which decodes by itself although the message follows, and then the message.
\<close>

theorem dist_message_decodes:
  assumes "SendRegSend d pid to msg = Inr d'" and "sizes_ok msg" and "term_depth msg \<le> fuel" and "3 \<le> fuel"
  shows "\<exists>ctl body. c_out (d_conn d') = c_out (d_conn d) @ packet4 (passThroughTag # ctl @ body) \<and>
    Decode zlib fuel (ctl @ body) = Some (Inr (reg_send_control pid to)) \<and>
    Decode zlib fuel body = Some (Inr (canon msg))"
proof -
  from assms(1) obtain ctl body c where e: "Encode (reg_send_control pid to) = Inr ctl" "Encode msg = Inr body"
    and c: "conn_Write (put_u32 (u32_of_len (length (passThroughTag # ctl @ body)))) (d_conn d) = Inr c"
      "conn_Write (passThroughTag # ctl @ body) c = Inr (d_conn d')"
    by (auto simp: SendRegSend_def sendMsg_def dist_payload_def result_simps)
  from Decode_Encode_rest [OF e(1), of fuel zlib body] assms(4)
  have "Decode zlib fuel (ctl @ body) = Some (Inr (reg_send_control pid to))"
    by (simp add: reg_send_control_def)
  moreover from Decode_Encode_rest [OF e(2) assms(2,3), of zlib "[]"]
  have "Decode zlib fuel body = Some (Inr (canon msg))" by simp
  moreover have "c_out (d_conn d') = c_out (d_conn d) @ packet4 (passThroughTag # ctl @ body)"
    using conn_Write_in [OF c(1)] conn_Write_in [OF c(2)] by (simp add: packet4_def)
  ultimately show ?thesis by blast
qed

theorem dist_message_decodes_witness:
  "\<exists>d' ctl body. SendRegSend \<lparr>d_conn = \<lparr>c_in = [], c_out = [], c_budget = None\<rparr>, d_ourNode = ''a@h'', d_peerNode = ''b@h''\<rparr>
       \<lparr>pid_Node = ''a@h'', pid_ID = 1, pid_Serial = 0, pid_Creation = 1\<rparr> ''srv'' (TInt64 5) = Inr d' \<and>
     Decode one_stream 3 (ctl @ body) = Some (Inr (reg_send_control \<lparr>pid_Node = ''a@h'', pid_ID = 1, pid_Serial = 0, pid_Creation = 1\<rparr> ''srv'')) \<and>
     Decode one_stream 3 body = Some (Inr (TInt64 5))"
proof -
  let ?d = "\<lparr>d_conn = \<lparr>c_in = [], c_out = [], c_budget = None\<rparr>, d_ourNode = ''a@h'', d_peerNode = ''b@h''\<rparr>"
  let ?p = "\<lparr>pid_Node = ''a@h'', pid_ID = 1, pid_Serial = 0, pid_Creation = 1\<rparr>"
  have "is_ok (Encode (reg_send_control ?p ''srv''))" "is_ok (Encode (TInt64 5))"
    by (simp_all add: Encode_def is_ok_rbind_total is_ok_encTerm reg_send_control_def del: encTerm.simps)
  then have "\<exists>d'. SendRegSend ?d ?p ''srv'' (TInt64 5) = Inr d'"
    by (auto simp: is_ok_iff SendRegSend_def sendMsg_def dist_payload_def conn_Write_def)
  then obtain d' where d': "SendRegSend ?d ?p ''srv'' (TInt64 5) = Inr d'" by blast
  from dist_message_decodes [OF d', of 3 one_stream] d' show ?thesis by auto
qed

text \<open>A name too long for the 16-bit length of a frame desynchronises the stream.\<close>

lemma long_name_frame_truncated:
  "length name = 65536 - 15 \<Longrightarrow> frame2 (name_msg name) = [0, 0] @ name_msg name"
  by (simp add: frame2_def name_msg_def u16_of_len_def put_explicit)

end
