(* ===== verification/Beamingest.thy ===== *)
theory Beamingest
  imports Etf_Correct Go_Strings
begin

text \<open>
  The BEAM file reader of \<open>beamingest/beamingest.go\<close>: the chunk table, the two abstract-code chunks,
  and the walk over the attribute forms that collects specs and types.
\<close>

section \<open>Data\<close>

record SpecForm =
  sf_Module :: string
  sf_Function :: string
  sf_Arity :: int
  sf_Clauses :: "eterm list"

record TypeForm =
  tf_Module :: string
  tf_Name :: string
  tf_Arity :: nat
  tf_Opaque :: bool
  tf_Body :: eterm

record Module =
  mod_Name :: string
  mod_Specs :: "SpecForm list"
  mod_Types :: "TypeForm list"
  mod_HasAbstractCode :: bool

definition empty_module :: Module where
  "empty_module = \<lparr>mod_Name = [], mod_Specs = [], mod_Types = [], mod_HasAbstractCode = False\<rparr>"

section \<open>Chunks\<close>

text \<open>\<open>(size + 3) &^ 3\<close>\<close>

definition align4 :: "nat \<Rightarrow> nat" where
  "align4 n = (n + 3) div 4 * 4"

function parse_chunks_from :: "byte list \<Rightarrow> nat \<Rightarrow> (string \<rightharpoonup> byte list) \<Rightarrow> go_error + (string \<rightharpoonup> byte list)" where
  "parse_chunks_from body at chunks =
     (if at + 8 \<le> length body then
        let cid = string_of_bytes (take 4 (drop at body));
            sz = unat (get_u32 (take 4 (drop (at + 4) body)));
            at = at + 8
        in if length body < at + sz
           then Inl (Errorf ''beamingest: chunk %q claims %d bytes but only %d remain''
                  [FStr cid, FInt (int sz), FInt (int (length body - at))])
           else parse_chunks_from body (at + align4 sz) (chunks(cid \<mapsto> take sz (drop at body)))
      else Inr chunks)"
  by pat_completeness auto
termination
  by (relation "measure (\<lambda>(body, at, _). length body - at)") auto

declare parse_chunks_from.simps [simp del]

definition parseChunks :: "byte list \<Rightarrow> go_error + (string \<rightharpoonup> byte list)" where
  "parseChunks body = parse_chunks_from body 0 Map.empty"

section \<open>Forms\<close>

definition atomOrString :: "(u64 \<Rightarrow> string) \<Rightarrow> eterm \<Rightarrow> string" where
  "atomOrString ff v =
     (case v of TAtom a \<Rightarrow> a | TStr s \<Rightarrow> s | TBytes b \<Rightarrow> string_of_bytes b | _ \<Rightarrow> sprint_v ff v)"

text \<open>\<open>int(t)\<close> of a \<open>uint\<close> wraps into the signed range.\<close>

definition toInt :: "eterm \<Rightarrow> int" where
  "toInt v = (case v of TInt i \<Rightarrow> sint i | TInt64 i \<Rightarrow> sint i | TUint i \<Rightarrow> sint i | _ \<Rightarrow> 0)"

definition lenTuple :: "eterm \<Rightarrow> nat" where
  "lenTuple v = (case as_tuple v of Some t \<Rightarrow> length t | None \<Rightarrow> 0)"

definition parseSpec :: "(u64 \<Rightarrow> string) \<Rightarrow> eterm \<Rightarrow> string \<Rightarrow> go_error + SpecForm" where
  "parseSpec ff val moduleName =
     (case as_tuple val of
        Some [sig_term, clauses_term] \<Rightarrow>
          (case as_tuple sig_term of
             None \<Rightarrow> Inl (Errorf ''spec sig not tuple: %T'' [FType (type_name sig_term)])
           | Some sig \<Rightarrow>
               (case as_list clauses_term of
                  None \<Rightarrow> Inl (Errorf ''spec clauses not list: %T'' [FType (type_name clauses_term)])
                | Some clauses \<Rightarrow>
                    (case sig of
                       [f, a] \<Rightarrow>
                         Inr \<lparr>sf_Module = moduleName, sf_Function = atomOrString ff f, sf_Arity = toInt a,
                              sf_Clauses = clauses\<rparr>
                     | [m, f, a] \<Rightarrow>
                         Inr \<lparr>sf_Module = atomOrString ff m, sf_Function = atomOrString ff f, sf_Arity = toInt a,
                              sf_Clauses = clauses\<rparr>
                     | _ \<Rightarrow> Inl (Errorf ''spec sig has %d elements'' [FInt (int (length sig))]))))
      | _ \<Rightarrow> Inl (Errorf ''spec val not 2-tuple: %T'' [FType (type_name val)]))"

definition parseType :: "(u64 \<Rightarrow> string) \<Rightarrow> eterm \<Rightarrow> string \<Rightarrow> bool \<Rightarrow> go_error + TypeForm" where
  "parseType ff val moduleName opaque =
     (case as_tuple val of
        Some (n # body # params # _) \<Rightarrow>
          Inr \<lparr>tf_Module = moduleName, tf_Name = atomOrString ff n,
               tf_Arity = (case as_list params of Some ps \<Rightarrow> length ps | None \<Rightarrow> 0),
               tf_Opaque = opaque, tf_Body = body\<rparr>
      | _ \<Rightarrow> Inl (Errorf ''type val not 3-tuple: %T len=%d''
               [FType (type_name val), FInt (int (lenTuple val))]))"

text \<open>One iteration of \<open>walkForms\<close>.\<close>

definition walk_form :: "(u64 \<Rightarrow> string) \<Rightarrow> eterm \<Rightarrow> Module \<Rightarrow> Module" where
  "walk_form ff raw md =
     (case as_tuple raw of
        Some (kind # line # attr # vals) \<Rightarrow>
          if as_atom kind \<noteq> Some ''attribute'' then md
          else
            (case (as_atom attr, vals) of
               (Some a, val # _) \<Rightarrow>
                 if a = ''module'' then md\<lparr>mod_Name := atomOrString ff val\<rparr>
                 else if a = ''spec'' then
                   (case parseSpec ff val (mod_Name md) of
                      Inr spec \<Rightarrow> md\<lparr>mod_Specs := mod_Specs md @ [spec]\<rparr>
                    | Inl _ \<Rightarrow> md)
                 else if a = ''type'' then
                   (case parseType ff val (mod_Name md) False of
                      Inr typ \<Rightarrow> md\<lparr>mod_Types := mod_Types md @ [typ]\<rparr>
                    | Inl _ \<Rightarrow> md)
                 else if a = ''opaque'' then
                   (case parseType ff val (mod_Name md) True of
                      Inr typ \<Rightarrow> md\<lparr>mod_Types := mod_Types md @ [typ]\<rparr>
                    | Inl _ \<Rightarrow> md)
                 else md
             | _ \<Rightarrow> md)
      | _ \<Rightarrow> md)"

definition walkForms :: "(u64 \<Rightarrow> string) \<Rightarrow> eterm list \<Rightarrow> Module \<Rightarrow> Module" where
  "walkForms ff forms md = fold (walk_form ff) forms md"

section \<open>Abstract code\<close>

text \<open>The decoder carries its fuel; \<open>None\<close> means that it did not return.\<close>

definition extractDbgi :: "zlib \<Rightarrow> nat \<Rightarrow> (u64 \<Rightarrow> string) \<Rightarrow> byte list \<Rightarrow> Module \<Rightarrow> (go_error + Module) option" where
  "extractDbgi zlib fuel ff data md =
     fbind (fwrap (wrapf ''ETF decode: %w'') (Decode zlib fuel data)) (\<lambda>trm.
     case as_tuple trm of
       Some (_ # _ # inner # _) \<Rightarrow>
         if as_atom inner = Some ''none'' then Some (Inr md)
         else
           (case as_tuple inner of
              Some (f # _) \<Rightarrow>
                (case as_list f of
                   Some forms \<Rightarrow> Some (Inr (walkForms ff forms md))
                 | None \<Rightarrow> Some (Inl (Errorf ''Dbgi forms is not a list: %T'' [FType (type_name f)])))
            | _ \<Rightarrow> Some (Inl (Errorf ''unexpected Dbgi inner shape: %T'' [FType (type_name inner)])))
     | _ \<Rightarrow> Some (Inl (Errorf ''unexpected Dbgi shape: %T'' [FType (type_name trm)])))"

definition extractAbst :: "zlib \<Rightarrow> nat \<Rightarrow> (u64 \<Rightarrow> string) \<Rightarrow> byte list \<Rightarrow> Module \<Rightarrow> (go_error + Module) option" where
  "extractAbst zlib fuel ff data md =
     fbind (fwrap (wrapf ''ETF decode: %w'') (Decode zlib fuel data)) (\<lambda>trm.
     case as_list trm of
       Some forms \<Rightarrow> Some (Inr (walkForms ff forms md))
     | None \<Rightarrow> Some (Inl (Errorf ''Abst is not a list: %T'' [FType (type_name trm)])))"

definition ParseBeam :: "zlib \<Rightarrow> nat \<Rightarrow> (u64 \<Rightarrow> string) \<Rightarrow> byte list \<Rightarrow> (go_error + Module) option" where
  "ParseBeam zlib fuel ff data =
     (if length data < 12
      then Some (Inl (Errorf ''beamingest: file too short (%d bytes)'' [FInt (int (length data))]))
      else if string_of_bytes (take 4 data) \<noteq> ''FOR1''
      then Some (Inl (Errorf ''beamingest: not a BEAM file (missing FOR1 magic)'' []))
      else if string_of_bytes (take 4 (drop 8 data)) \<noteq> ''BEAM''
      then Some (Inl (Errorf ''beamingest: not a BEAM file (missing BEAM marker)'' []))
      else
        fbind (Some (wrap_error (wrapf ''beamingest: parse chunks: %w'') (parseChunks (drop 12 data)))) (\<lambda>chunks.
        case chunks ''Dbgi'' of
          Some dbgi \<Rightarrow>
            fwrap (wrapf ''beamingest: extract Dbgi: %w'')
              (extractDbgi zlib fuel ff dbgi (empty_module\<lparr>mod_HasAbstractCode := True\<rparr>))
        | None \<Rightarrow>
            (case chunks ''Abst'' of
               Some abst \<Rightarrow>
                 fwrap (wrapf ''beamingest: extract Abst: %w'')
                   (extractAbst zlib fuel ff abst (empty_module\<lparr>mod_HasAbstractCode := True\<rparr>))
             | None \<Rightarrow> Some (Inr empty_module))))"

text \<open>\<open>readAll\<close> is what \<open>io.ReadAll\<close> of the file gives.\<close>

definition ReadBeam :: "zlib \<Rightarrow> nat \<Rightarrow> (u64 \<Rightarrow> string) \<Rightarrow> go_error + byte list \<Rightarrow> (go_error + Module) option" where
  "ReadBeam zlib fuel ff readAll =
     fbind (Some (wrap_error (wrapf ''beamingest: read: %w'') readAll)) (\<lambda>data. ParseBeam zlib fuel ff data)"

section \<open>The chunk format\<close>

text \<open>A chunk as a BEAM file stores it: cid, length, data, padding to a multiple of four.\<close>

definition chunk :: "string \<Rightarrow> byte list \<Rightarrow> byte list" where
  "chunk cid data =
     bytes_of_string cid @ put_u32 (u32_of_len (length data)) @ data @
     replicate (align4 (length data) - length data) 0"

lemma align4_ge: "n \<le> align4 n" and align4_bound: "align4 n \<le> n + 3"
  by (simp_all add: align4_def)

lemma length_chunk: "length cid = 4 \<Longrightarrow> length (chunk cid data) = 8 + align4 (length data)"
  using align4_ge [of "length data"] by (simp add: chunk_def)

lemma parse_chunks_step:
  assumes cid: "length cid = 4" and len: "length data < 2 ^ 32"
  shows "parse_chunks_from (pre @ chunk cid data @ rest) (length pre) m =
    parse_chunks_from (pre @ chunk cid data @ rest) (length (pre @ chunk cid data)) (m(cid \<mapsto> data))"
proof -
  let ?b = "pre @ chunk cid data @ rest"
  have u: "unat (u32_of_len (length data)) = length data" using len by (simp add: unat_of_len)
  have "take 4 (drop (length pre) ?b) = bytes_of_string cid"
    and "take 4 (drop (length pre + 4) ?b) = put_u32 (u32_of_len (length data))"
    and "take (length data) (drop (length pre + 8) ?b) = data"
    using cid by (simp_all add: chunk_def)
  moreover have "length pre + 8 + length data \<le> length ?b"
    using length_chunk [OF cid] align4_ge [of "length data"] by simp
  ultimately show ?thesis
    by (subst parse_chunks_from.simps) (simp add: u length_chunk [OF cid] Let_def add.assoc)
qed

lemma parse_chunks_all:
  "\<forall>(cid, data) \<in> set cs. length cid = 4 \<and> length data < 2 ^ 32 \<Longrightarrow> length tail < 8 \<Longrightarrow>
   parse_chunks_from (pre @ concat (map (\<lambda>(cid, data). chunk cid data) cs) @ tail) (length pre) m =
   Inr (m ++ map_of (rev cs))"
proof (induction cs arbitrary: pre m)
  case Nil
  then show ?case by (subst parse_chunks_from.simps) simp
next
  case (Cons c cs)
  obtain cid data where c: "c = (cid, data)" by (cases c)
  let ?r = "concat (map (\<lambda>(cid, data). chunk cid data) cs) @ tail"
  have "parse_chunks_from (pre @ chunk cid data @ ?r) (length pre) m =
      parse_chunks_from ((pre @ chunk cid data) @ ?r) (length (pre @ chunk cid data)) (m(cid \<mapsto> data))"
    using parse_chunks_step [of cid data pre ?r m] Cons.prems c by simp
  also have "\<dots> = Inr (m(cid \<mapsto> data) ++ map_of (rev cs))"
    by (rule Cons.IH) (use Cons.prems in simp_all)
  also have "m(cid \<mapsto> data) ++ map_of (rev cs) = m ++ map_of (rev (c # cs))"
    by (auto simp: c map_add_def fun_eq_iff split: option.splits)
  finally show ?case by (simp add: c)
qed

section \<open>A declarative reading of the form walk\<close>

text \<open>The value of an attribute form with the given name.\<close>

definition attribute :: "string \<Rightarrow> eterm \<Rightarrow> eterm option" where
  "attribute name raw =
     (case as_tuple raw of
        Some (kind # line # attr # val # _) \<Rightarrow>
          if as_atom kind = Some ''attribute'' \<and> as_atom attr = Some name then Some val else None
      | _ \<Rightarrow> None)"

definition ok_list :: "'e + 'a \<Rightarrow> 'a list" where
  "ok_list r = (case r of Inl _ \<Rightarrow> [] | Inr x \<Rightarrow> [x])"

definition opt_list :: "'a option \<Rightarrow> 'a list" where
  "opt_list x = (case x of None \<Rightarrow> [] | Some y \<Rightarrow> [y])"

text \<open>The module name in force after the given forms.\<close>

definition name_after :: "(u64 \<Rightarrow> string) \<Rightarrow> string \<Rightarrow> eterm list \<Rightarrow> string" where
  "name_after ff name forms =
     last (name # concat (map (\<lambda>f. map (atomOrString ff) (opt_list (attribute ''module'' f))) forms))"

definition form_specs :: "(u64 \<Rightarrow> string) \<Rightarrow> string \<Rightarrow> eterm \<Rightarrow> SpecForm list" where
  "form_specs ff name f = concat (map (\<lambda>v. ok_list (parseSpec ff v name)) (opt_list (attribute ''spec'' f)))"

definition form_types :: "(u64 \<Rightarrow> string) \<Rightarrow> string \<Rightarrow> eterm \<Rightarrow> TypeForm list" where
  "form_types ff name f =
     concat (map (\<lambda>v. ok_list (parseType ff v name False)) (opt_list (attribute ''type'' f))) @
     concat (map (\<lambda>v. ok_list (parseType ff v name True)) (opt_list (attribute ''opaque'' f)))"

lemma walk_form_eq:
  "walk_form ff f md = md\<lparr>mod_Name := name_after ff (mod_Name md) [f],
     mod_Specs := mod_Specs md @ form_specs ff (mod_Name md) f,
     mod_Types := mod_Types md @ form_types ff (mod_Name md) f\<rparr>"
  by (auto simp: walk_form_def attribute_def name_after_def form_specs_def form_types_def opt_list_def ok_list_def
      split: option.splits list.splits sum.splits)

lemma name_after_Cons: "name_after ff name (f # fs) = name_after ff (name_after ff name [f]) fs"
  by (auto simp: name_after_def opt_list_def split: option.splits)

lemma name_after_Nil: "name_after ff name [] = name"
  by (simp add: name_after_def)

lemma concat_upt_Suc: "concat (map g [0..<Suc n]) = g 0 @ concat (map (\<lambda>i. g (Suc i)) [0..<n])"
proof -
  have "[0..<Suc n] = 0 # map Suc [0..<n]" by (simp add: map_Suc_upt upt_conv_Cons del: upt_Suc)
  then show ?thesis by (simp add: o_def del: upt_Suc)
qed

lemma walkForms_eq:
  "walkForms ff forms md = md\<lparr>mod_Name := name_after ff (mod_Name md) forms,
     mod_Specs := mod_Specs md @ concat (map (\<lambda>i. form_specs ff (name_after ff (mod_Name md) (take i forms)) (forms ! i)) [0..<length forms]),
     mod_Types := mod_Types md @ concat (map (\<lambda>i. form_types ff (name_after ff (mod_Name md) (take i forms)) (forms ! i)) [0..<length forms])\<rparr>"
proof (induction forms arbitrary: md)
  case Nil
  then show ?case by (simp add: walkForms_def name_after_def)
next
  case (Cons f fs)
  have "walkForms ff (f # fs) md = walkForms ff fs (walk_form ff f md)" by (simp add: walkForms_def)
  also have "\<dots> = md\<lparr>mod_Name := name_after ff (mod_Name md) (f # fs),
     mod_Specs := mod_Specs md @ concat (map (\<lambda>i. form_specs ff (name_after ff (mod_Name md) (take i (f # fs))) ((f # fs) ! i)) [0..<length (f # fs)]),
     mod_Types := mod_Types md @ concat (map (\<lambda>i. form_types ff (name_after ff (mod_Name md) (take i (f # fs))) ((f # fs) ! i)) [0..<length (f # fs)])\<rparr>"
    unfolding Cons.IH walk_form_eq
    by (simp add: concat_upt_Suc name_after_Cons [of _ _ f "take _ fs"] name_after_Cons [of _ _ f fs]
        name_after_Nil del: upt_Suc)
  finally show ?case .
qed

section \<open>Properties\<close>

text \<open>
  C18: the chunk table of a file is the table of the chunks stored in it: reading the concatenation of padded chunks,
  followed by fewer than eight stray bytes, gives the map from ids to data, the last chunk of an id winning.
\<close>

theorem chunk_table_roundtrip:
  assumes "\<forall>(cid, data) \<in> set cs. length cid = 4 \<and> length data < 2 ^ 32" and "length tail < 8"
  shows "parseChunks (concat (map (\<lambda>(cid, data). chunk cid data) cs) @ tail) = Inr (map_of (rev cs))"
  using parse_chunks_all [OF assms, of "[]" Map.empty] by (simp add: parseChunks_def)

theorem chunk_table_roundtrip_witness:
  "parseChunks (chunk ''Atom'' [1, 2, 3, 4, 5] @ chunk ''Dbgi'' [131, 106]) =
     Inr [''Atom'' \<mapsto> [1, 2, 3, 4, 5], ''Dbgi'' \<mapsto> [131, 106]]"
  using chunk_table_roundtrip [of "[(''Atom'', [1, 2, 3, 4, 5]), (''Dbgi'', [131, 106])]" "[]"]
  by (simp add: fun_upd_twist)

text \<open>
  C19: the walk over the forms collects, in order, every well-shaped spec and type attribute and nothing else, each
  with the module name given by the last module attribute before it.
\<close>

theorem walk_forms_collects:
  "walkForms ff forms empty_module = \<lparr>mod_Name = name_after ff [] forms,
     mod_Specs = concat (map (\<lambda>i. form_specs ff (name_after ff [] (take i forms)) (forms ! i)) [0..<length forms]),
     mod_Types = concat (map (\<lambda>i. form_types ff (name_after ff [] (take i forms)) (forms ! i)) [0..<length forms]),
     mod_HasAbstractCode = False\<rparr>"
  unfolding walkForms_eq by (simp add: empty_module_def)



end
