(* ===== verification/Typemap.thy ===== *)
theory Typemap
  imports Etf_Term Go_Strings
begin

text \<open>
  The Erlang-to-Mochi type table of \<open>typemap/typemap.go\<close>.  The helpers that call \<open>translateType\<close> take the recursive
  call as the argument \<open>tr\<close>; the recursion is on strict subterms, which the congruence rules
  below tell the function package.
\<close>

section \<open>Mochi types\<close>

type_synonym MochiType = string

definition MochiBool :: MochiType where "MochiBool = ''bool''"
definition MochiInt :: MochiType where "MochiInt = ''int''"
definition MochiFloat :: MochiType where "MochiFloat = ''float''"
definition MochiString :: MochiType where "MochiString = ''string''"
definition MochiBytes :: MochiType where "MochiBytes = ''bytes''"
definition MochiPid :: MochiType where "MochiPid = ''extern '' @ [CHR 0x22] @ ''erlang.Pid'' @ [CHR 0x22]"
definition MochiPort :: MochiType where "MochiPort = ''extern '' @ [CHR 0x22] @ ''erlang.Port'' @ [CHR 0x22]"
definition MochiReference :: MochiType where "MochiReference = ''extern '' @ [CHR 0x22] @ ''erlang.Reference'' @ [CHR 0x22]"
definition MochiUnit :: MochiType where "MochiUnit = ''unit''"

datatype TranslateResult =
    Scalar MochiType
  | ResultT MochiType MochiType
  | ListT MochiType
  | TupleT "MochiType list"
  | FnT "MochiType list" MochiType

definition Result_String :: "MochiType \<Rightarrow> MochiType \<Rightarrow> string" where
  "Result_String a e = ''result<'' @ a @ '', '' @ e @ ''>''"

definition List_String :: "MochiType \<Rightarrow> string" where
  "List_String e = ''[]'' @ e"

definition Tuple_String :: "MochiType list \<Rightarrow> string" where
  "Tuple_String es = (if es = [] then ''tuple[]'' else ''tuple['' @ join '', '' es @ '']'')"

definition Fn_String :: "MochiType list \<Rightarrow> MochiType \<Rightarrow> string" where
  "Fn_String args ret = (if args = [] then ''fn() '' @ ret else ''fn('' @ join '', '' args @ '') '' @ ret)"

fun TranslateResult_String :: "TranslateResult \<Rightarrow> string" where
  "TranslateResult_String (ResultT a e) = Result_String a e"
| "TranslateResult_String (ListT e) = List_String e"
| "TranslateResult_String (TupleT es) = Tuple_String es"
| "TranslateResult_String (FnT args ret) = Fn_String args ret"
| "TranslateResult_String (Scalar s) = s"

section \<open>Translation\<close>

type_synonym trans = "eterm \<Rightarrow> nat \<Rightarrow> go_error + TranslateResult"

abbreviation skip :: "SkipReason \<Rightarrow> string \<Rightarrow> go_error + TranslateResult" where
  "skip r detail \<equiv> Inl (SkipErr r detail [])"

definition isAtomLiteral :: "eterm \<Rightarrow> string \<Rightarrow> bool" where
  "isAtomLiteral trm want =
     (case as_tuple trm of
        Some (tag # _ # a # _) \<Rightarrow>
          (if as_atom tag \<noteq> Some ''atom'' then False
           else (case as_atom a of Some x \<Rightarrow> x = want | None \<Rightarrow> want = []))
      | _ \<Rightarrow> (case as_atom trm of Some a \<Rightarrow> a = want | None \<Rightarrow> False))"

text \<open>The elements of a \<open>{type, _, tuple, Elems}\<close> form.\<close>

definition tuple_form :: "eterm \<Rightarrow> eterm list option" where
  "tuple_form trm =
     (case as_tuple trm of
        Some (tag # _ # name # elems # _) \<Rightarrow>
          if as_atom tag \<noteq> Some ''type'' \<or> as_atom name \<noteq> Some ''tuple'' then None
          else Some (case as_list elems of Some es \<Rightarrow> es | None \<Rightarrow> [])
      | _ \<Rightarrow> None)"

definition matchOkTuple :: "trans \<Rightarrow> eterm \<Rightarrow> TranslateResult option" where
  "matchOkTuple tr trm =
     (case tuple_form trm of
        Some [h, v] \<Rightarrow>
          if \<not> isAtomLiteral h ''ok'' then None
          else (case tr v 1 of Inl _ \<Rightarrow> None | Inr r \<Rightarrow> Some r)
      | _ \<Rightarrow> None)"

definition matchErrorTuple :: "eterm \<Rightarrow> bool" where
  "matchErrorTuple trm = (case tuple_form trm of Some (h # _) \<Rightarrow> isAtomLiteral h ''error'' | _ \<Rightarrow> False)"

definition result_of :: "TranslateResult \<Rightarrow> go_error + TranslateResult" where
  "result_of okType = Inr (ResultT (TranslateResult_String okType) MochiString)"

definition translateUnion :: "trans \<Rightarrow> eterm list \<Rightarrow> nat \<Rightarrow> go_error + TranslateResult" where
  "translateUnion tr args depth =
     (case args of
        [] \<Rightarrow> Inl (Errorf ''typemap: empty union'' [])
      | [a] \<Rightarrow> tr a (depth + 1)
      | [a, b] \<Rightarrow>
          if matchOkTuple tr a \<noteq> None \<and> matchErrorTuple b then result_of (the (matchOkTuple tr a))
          else if matchOkTuple tr b \<noteq> None \<and> matchErrorTuple a then result_of (the (matchOkTuple tr b))
          else skip SkipNonOkErrorUnion ''2-branch union does not match {ok,T}|{error,Reason}''
      | _ \<Rightarrow> Inl (SkipErr SkipComplexUnion ''union has %d branches'' [FInt (int (length args))]))"

text \<open>The loop that translates a list of element types; \<open>w\<close> is what the caller does to an error.\<close>

fun translate_elems :: "(go_error \<Rightarrow> go_error) \<Rightarrow> trans \<Rightarrow> eterm list \<Rightarrow> nat \<Rightarrow> go_error + MochiType list" where
  "translate_elems w tr [] depth = Inr []"
| "translate_elems w tr (a # as) depth =
     rbind (wrap_error w (tr a depth)) (\<lambda>r.
     rbind (translate_elems w tr as depth) (\<lambda>rs. Inr (TranslateResult_String r # rs)))"

definition fun_arg_skip :: "string \<Rightarrow> go_error \<Rightarrow> go_error" where
  "fun_arg_skip fmt e = SkipErr SkipFunArgNotInTable fmt [FErr e]"

definition translateFun :: "trans \<Rightarrow> eterm list \<Rightarrow> nat \<Rightarrow> go_error + TranslateResult" where
  "translateFun tr args depth =
     (case args of
        [] \<Rightarrow> skip SkipUntypedFun ''fun() (no type annotation)''
      | [_] \<Rightarrow> skip SkipUntypedFun ''fun() (incomplete)''
      | product # retTerm # _ \<Rightarrow>
          (case as_tuple product of
             Some (_ # _ # productName # argTerms # _) \<Rightarrow>
               if as_atom productName \<noteq> Some ''product''
               then skip SkipUntypedFun ''fun() (unexpected product shape)''
               else
                 rbind (translate_elems (fun_arg_skip ''fun arg: %v'') tr
                          (case as_list argTerms of Some ts \<Rightarrow> ts | None \<Rightarrow> []) (depth + 1)) (\<lambda>argTypes.
                 rbind (wrap_error (fun_arg_skip ''fun return: %v'') (tr retTerm (depth + 1))) (\<lambda>ret.
                 Inr (FnT argTypes (TranslateResult_String ret))))
           | _ \<Rightarrow> skip SkipUntypedFun ''fun() (no product type)''))"

definition translateList :: "trans \<Rightarrow> string \<Rightarrow> eterm list \<Rightarrow> nat \<Rightarrow> go_error + TranslateResult" where
  "translateList tr detail args depth =
     (case args of
        [] \<Rightarrow> skip SkipAnyTerm detail
      | a # _ \<Rightarrow> rbind (tr a (depth + 1)) (\<lambda>r. Inr (ListT (TranslateResult_String r))))"

definition translateBuiltinType :: "trans \<Rightarrow> eterm list \<Rightarrow> nat \<Rightarrow> go_error + TranslateResult" where
  "translateBuiltinType tr t depth =
     (case t of
        _ # _ # name_term # vals \<Rightarrow>
          (case as_atom name_term of
             None \<Rightarrow> Inl (Errorf ''typemap: type name not atom: %T'' [FType (type_name name_term)])
           | Some name \<Rightarrow>
               let args = (case vals of v # _ \<Rightarrow> (case as_list v of Some l \<Rightarrow> l | None \<Rightarrow> []) | [] \<Rightarrow> []) in
               if name = ''boolean'' then Inr (Scalar MochiBool)
               else if name \<in> {''integer'', ''non_neg_integer'', ''pos_integer'', ''neg_integer''}
               then Inr (Scalar MochiInt)
               else if name = ''float'' then Inr (Scalar MochiFloat)
               else if name = ''atom'' then Inr (Scalar MochiString)
               else if name = ''binary'' then Inr (Scalar MochiBytes)
               else if name = ''pid'' then Inr (Scalar MochiPid)
               else if name = ''port'' then Inr (Scalar MochiPort)
               else if name = ''reference'' then Inr (Scalar MochiReference)
               else if name \<in> {''any'', ''term''} then skip SkipAnyTerm (name @ ''()'')
               else if name \<in> {''iodata'', ''iolist''} then skip SkipIodata (name @ ''()'')
               else if name = ''bitstring'' then skip SkipBitstring ''bitstring()''
               else if name = ''string'' then skip SkipCharlist ''string() is charlist in Erlang''
               else if name = ''tuple'' then
                 (if args = [] then skip SkipUntypedTuple ''tuple()''
                  else rbind (translate_elems (\<lambda>e. e) tr args (depth + 1)) (\<lambda>elems. Inr (TupleT elems)))
               else if name = ''map'' then
                 (if args = [] then skip SkipUntypedMap ''map()'' else skip SkipTypedMap ''typed map #{...}'')
               else if name = ''fun'' then translateFun tr args depth
               else if name = ''list'' then translateList tr ''list() (untyped)'' args depth
               else if name = ''nil'' then Inr (ListT MochiUnit)
               else if name = ''union'' then translateUnion tr args depth
               else if name = ''ok'' then Inr (Scalar MochiUnit)
               else if name = ''nonempty_list'' then translateList tr ''nonempty_list() (untyped)'' args depth
               else if name \<in> {''maybe_improper_list'', ''nonempty_improper_list'', ''nonempty_maybe_improper_list''}
               then skip SkipIodata (name @ ''()'')
               else skip SkipAnyTerm (''unknown built-in type: '' @ name))
      | _ \<Rightarrow> Inl (Errorf ''typemap: type tuple too short'' []))"

definition translateTuple :: "trans \<Rightarrow> eterm list \<Rightarrow> nat \<Rightarrow> go_error + TranslateResult" where
  "translateTuple tr t depth =
     (case t of
        [] \<Rightarrow> Inl (Errorf ''typemap: empty tuple term'' [])
      | tag_term # _ \<Rightarrow>
          (case as_atom tag_term of
             None \<Rightarrow> Inl (Errorf ''typemap: tuple tag is not atom: %T'' [FType (type_name tag_term)])
           | Some tag \<Rightarrow>
               if tag = ''type'' then translateBuiltinType tr t depth
               else if tag = ''ann_type'' then
                 (case t of
                    _ # _ # l # _ \<Rightarrow>
                      (case as_list l of
                         Some (_ # actual # _) \<Rightarrow> tr actual (depth + 1)
                       | _ \<Rightarrow> Inl (Errorf ''typemap: malformed ann_type'' []))
                  | _ \<Rightarrow> Inl (Errorf ''typemap: malformed ann_type'' []))
               else if tag = ''atom'' then
                 (case t of
                    _ # _ # a # _ \<Rightarrow> (if as_atom a = None then Inr (Scalar MochiString) else tr a (depth + 1))
                  | _ \<Rightarrow> Inr (Scalar MochiString))
               else if tag = ''integer'' then Inr (Scalar MochiInt)
               else if tag = ''var'' then skip SkipAnyTerm ''type variable''
               else if tag = ''remote_type'' then skip SkipRemoteType ''remote type reference''
               else if tag = ''user_type'' then skip SkipRemoteType ''user type alias (not expanded)''
               else Inl (Errorf ''typemap: unknown tuple tag %q'' [FStr tag])))"

abbreviation maxDepth :: nat where "maxDepth \<equiv> 16"

definition depth_error :: go_error where
  "depth_error = BridgeErr ''typemap'' [] (Errorf ''type recursion depth exceeded'' [])"

definition translateAtom :: "string \<Rightarrow> go_error + TranslateResult" where
  "translateAtom t =
     (if t \<in> {''true'', ''false''} then Inr (Scalar MochiBool)
      else if t = ''ok'' then Inr (Scalar MochiUnit)
      else if t = ''undefined'' then Inr (Scalar MochiUnit)
      else Inr (Scalar MochiString))"

text \<open>Subterms are smaller.\<close>

lemma size_nth: "x \<in> set xs \<Longrightarrow> size x < Suc (size_list size xs)"
  using size_list_estimation' [of x xs "size x" size] by simp

lemma size_sub_list: "as_list l = Some ys \<Longrightarrow> y \<in> set ys \<Longrightarrow> size y < size l"
  by (auto simp: as_eq_Some dest: size_nth)

lemma size_sub_tuple: "as_tuple l = Some ys \<Longrightarrow> y \<in> set ys \<Longrightarrow> size y < size l"
  by (auto simp: as_eq_Some dest: size_nth)

text \<open>\<open>agree n tr tr'\<close>: the two translators agree on terms smaller than \<open>n\<close>.\<close>

definition agree :: "nat \<Rightarrow> trans \<Rightarrow> trans \<Rightarrow> bool" where
  "agree n tr tr' \<longleftrightarrow> (\<forall>v d. size v < n \<longrightarrow> tr v d = tr' v d)"

lemma agreeD: "agree n tr tr' \<Longrightarrow> size v < n \<Longrightarrow> tr v d = tr' v d"
  unfolding agree_def by blast

lemma agree_mono: "agree n tr tr' \<Longrightarrow> m \<le> n \<Longrightarrow> agree m tr tr'"
  unfolding agree_def by (meson less_le_trans)

lemma size_sub_form: "tuple_form trm = Some es \<Longrightarrow> v \<in> set es \<Longrightarrow> size v < size trm"
proof -
  assume f: "tuple_form trm = Some es" and v: "v \<in> set es"
  then obtain t nm elems r l where t: "as_tuple trm = Some (t # l # nm # elems # r)" and es: "as_list elems = Some es"
    by (auto simp: tuple_form_def split: option.splits list.splits if_splits)
  from size_sub_list [OF es v] size_sub_tuple [OF t, of elems] show ?thesis by simp
qed

lemma agree_ok: "agree (size trm) tr tr' \<Longrightarrow> matchOkTuple tr trm = matchOkTuple tr' trm"
  by (auto simp: matchOkTuple_def agreeD size_sub_form split: option.splits list.splits)

lemma agree_elems:
  "(\<And>a. a \<in> set as \<Longrightarrow> size a < n) \<Longrightarrow> agree n tr tr' \<Longrightarrow> translate_elems w tr as d = translate_elems w tr' as d"
  by (induction as) (simp_all add: agreeD)

lemma agree_union:
  assumes "\<And>a. a \<in> set args \<Longrightarrow> size a < n" and "agree n tr tr'"
  shows "translateUnion tr args d = translateUnion tr' args d"
proof -
  have "matchOkTuple tr a = matchOkTuple tr' a" if "a \<in> set args" for a
    using agree_ok [OF agree_mono [OF assms(2)], of a] assms(1) [OF that] by simp
  moreover have "tr a k = tr' a k" if "a \<in> set args" for a k
    using agreeD [OF assms(2) assms(1) [OF that]] .
  ultimately have "matchOkTuple tr a = matchOkTuple tr' a \<and> tr a k = tr' a k" if "a \<in> set args" for a k
    using that by blast
  then show ?thesis
    unfolding translateUnion_def by (auto split: list.split)
qed

lemma agree_list:
  "(\<And>a. a \<in> set args \<Longrightarrow> size a < n) \<Longrightarrow> agree n tr tr' \<Longrightarrow> translateList tr m args d = translateList tr' m args d"
  by (auto simp: translateList_def agreeD split: list.splits)

lemma agree_fun:
  assumes "\<And>a. a \<in> set args \<Longrightarrow> size a < n" and "agree n tr tr'"
  shows "translateFun tr args d = translateFun tr' args d"
proof -
  have elems: "translate_elems w tr ts k = translate_elems w tr' ts k"
    if "as_tuple p = Some (x # y # z # l # r)" "as_list l = Some ts" "p \<in> set args" for w ts k p x y z l r
  proof (rule agree_elems [OF _ assms(2)])
    fix a assume "a \<in> set ts"
    with size_sub_list [OF that(2)] size_sub_tuple [OF that(1), of l] assms(1) [OF that(3)]
    show "size a < n" by fastforce
  qed
  have "tr a k = tr' a k" if "a \<in> set args" for a k
    using agreeD [OF assms(2) assms(1) [OF that]] .
  then show ?thesis
    using elems by (auto simp: translateFun_def split: list.splits option.splits)
qed

lemma builtin_args_size:
  assumes "t = x # y # z # vals"
    and "a \<in> set (case vals of v # _ \<Rightarrow> (case as_list v of Some l \<Rightarrow> l | None \<Rightarrow> []) | [] \<Rightarrow> [])"
  shows "size a < size (TTuple t)"
proof -
  from assms(2) obtain v w l where v: "vals = v # w" and l: "as_list v = Some l" "a \<in> set l"
    by (cases vals; cases "as_list (hd vals)") auto
  have "size v < size (TTuple t)" using assms(1) v by simp
  with size_sub_list [OF l] show ?thesis by simp
qed

lemma agree_builtin:
  assumes "agree (size (TTuple t)) tr tr'"
  shows "translateBuiltinType tr t d = translateBuiltinType tr' t d"
proof (cases "\<exists>x y z vals. t = x # y # z # vals")
  case True
  then obtain x y z vals where t: "t = x # y # z # vals" by blast
  let ?args = "case vals of v # _ \<Rightarrow> (case as_list v of Some l \<Rightarrow> l | None \<Rightarrow> []) | [] \<Rightarrow> []"
  note sz = builtin_args_size [OF t]
  have "translateFun tr ?args d = translateFun tr' ?args d"
    "translateUnion tr ?args d = translateUnion tr' ?args d"
    "translate_elems w tr ?args k = translate_elems w tr' ?args k"
    "translateList tr m ?args d = translateList tr' m ?args d" for w m k
    using agree_fun [OF sz assms] agree_union [OF sz assms] agree_elems [OF sz assms] agree_list [OF sz assms]
    by blast+
  then show ?thesis unfolding t translateBuiltinType_def Let_def list.case by (simp only:)
next
  case False
  then show ?thesis by (cases t; cases "tl t"; cases "tl (tl t)") (auto simp: translateBuiltinType_def)
qed

lemma translateTuple_cong [fundef_cong]:
  assumes "t = t'" and "d = d'" and "\<And>v k. size v < size (TTuple t') \<Longrightarrow> tr v k = tr' v k"
  shows "translateTuple tr t d = translateTuple tr' t' d'"
proof -
  have a: "agree (size (TTuple t')) tr tr'" using assms(3) by (simp add: agree_def)
  have ann: "tr v k = tr' v k" if "l \<in> set t'" "as_list l = Some ys" "v \<in> set ys" for l ys v k
    using size_sub_list [OF that(2,3)] size_nth [OF that(1)] by (intro assms(3)) simp
  have atm: "tr v k = tr' v k" if "v \<in> set t'" for v k
    using size_nth [OF that] by (intro assms(3)) simp
  show ?thesis
    unfolding assms(1,2) translateTuple_def agree_builtin [OF a]
    by (auto split: list.splits option.splits intro: ann atm)
qed

function translateType :: trans where
  "translateType trm depth =
     (if maxDepth < depth then Inl depth_error
      else
        (case trm of
           TTuple t \<Rightarrow> translateTuple (\<lambda>v k. translateType v k) t depth
         | TAtom a \<Rightarrow> translateAtom a
         | TList [] \<Rightarrow> Inr (ListT MochiUnit)
         | _ \<Rightarrow> Inl (Errorf ''typemap: unhandled term type %T'' [FType (type_name trm)])))"
  by pat_completeness auto
termination
  by (relation "measure (\<lambda>(trm, _). size trm)") auto

declare translateType.simps [simp del]

definition TranslateType :: "eterm \<Rightarrow> go_error + TranslateResult" where
  "TranslateType trm = translateType trm 0"

definition IsSkip :: "go_error \<Rightarrow> (SkipReason \<times> string \<times> fmt_arg list) option" where
  "IsSkip err = (case err of SkipErr r detail args \<Rightarrow> Some (r, detail, args) | _ \<Rightarrow> None)"

end
