(* ===== verification/Otp.thy ===== *)
theory Otp
  imports Port Go_Strings
begin

text \<open>
  The OTP bindings of \<open>otp/\<close>: reply conventions (\<open>otp.go\<close>), generic servers (\<open>genserver.go\<close>), supervisors
  (\<open>supervisor.go\<close>) and applications (\<open>application.go\<close>).  The \<open>Caller\<close> interface is a function from the
  called function and its arguments to a reply; every binding makes exactly one call.
\<close>

type_synonym caller = "string \<Rightarrow> eterm list \<Rightarrow> go_error + eterm"

section \<open>Reply conventions\<close>

definition isAtom :: "eterm \<Rightarrow> string \<Rightarrow> bool" where
  "isAtom v a \<longleftrightarrow> as_atom v = Some a"

text \<open>\<open>{error, Reason}\<close>, a tuple of exactly two elements.\<close>

definition error_reason :: "eterm \<Rightarrow> eterm option" where
  "error_reason v =
     (case as_tuple v of Some [t, reason] \<Rightarrow> (if isAtom t ''error'' then Some reason else None) | _ \<Rightarrow> None)"

text \<open>A function that returns only an error returns \<open>Inr ()\<close> for nil.  \<open>pkg\<close> is the message prefix of the package.\<close>

definition expectOK :: "string \<Rightarrow> eterm \<Rightarrow> go_error + unit" where
  "expectOK pkg v =
     (if isAtom v ''ok'' then Inr ()
      else (case error_reason v of
              Some reason \<Rightarrow> Inl (Errorf (pkg @ '': erlang error: %v'') [FTerm reason])
            | None \<Rightarrow> Inl (Errorf (pkg @ '': unexpected reply: %v'') [FTerm v])))"

definition unwrapOKValue :: "(u64 \<Rightarrow> string) \<Rightarrow> eterm \<Rightarrow> go_error + eterm" where
  "unwrapOKValue ff v =
     (case as_tuple v of
        Some (t # x # _) \<Rightarrow>
          if sprint_v ff t = ''ok'' then Inr x
          else if sprint_v ff t = ''error'' then Inl (Errorf ''otp: erlang error: %v'' [FTerm x])
          else Inl (Errorf ''otp: unexpected reply tag: %v'' [FTerm t])
      | _ \<Rightarrow> Inl (Errorf ''otp: unexpected reply shape: %v'' [FTerm v]))"

definition termToString :: "(u64 \<Rightarrow> string) \<Rightarrow> eterm \<Rightarrow> string" where
  "termToString ff v = (case v of TAtom a \<Rightarrow> a | TStr s \<Rightarrow> s | _ \<Rightarrow> sprint_v ff v)"

definition termToInt64 :: "eterm \<Rightarrow> u64 option" where
  "termToInt64 v = (case v of TInt n \<Rightarrow> Some n | TInt64 n \<Rightarrow> Some n | TUint32 n \<Rightarrow> Some (ucast n) | _ \<Rightarrow> None)"

section \<open>Generic servers\<close>

record GenServer =
  gs_caller :: caller
  gs_name :: string

definition NewGenServer :: "caller \<Rightarrow> string \<Rightarrow> GenServer" where
  "NewGenServer c name = \<lparr>gs_caller = c, gs_name = name\<rparr>"

definition GenServer_Call :: "GenServer \<Rightarrow> eterm \<Rightarrow> go_error + eterm" where
  "GenServer_Call g request = gs_caller g ''gen_server:call'' [TAtom (gs_name g), request]"

definition GenServer_CallTimeout :: "GenServer \<Rightarrow> eterm \<Rightarrow> u64 \<Rightarrow> go_error + eterm" where
  "GenServer_CallTimeout g request timeoutMs =
     gs_caller g ''gen_server:call'' [TAtom (gs_name g), request, TInt64 timeoutMs]"

definition GenServer_Cast :: "GenServer \<Rightarrow> eterm \<Rightarrow> go_error + unit" where
  "GenServer_Cast g message = rbind (gs_caller g ''gen_server:cast'' [TAtom (gs_name g), message]) (expectOK ''otp'')"

definition GenServer_Stop :: "GenServer \<Rightarrow> go_error + unit" where
  "GenServer_Stop g = rbind (gs_caller g ''gen_server:stop'' [TAtom (gs_name g)]) (expectOK ''otp'')"

definition StartLink :: "(u64 \<Rightarrow> string) \<Rightarrow> caller \<Rightarrow> string \<Rightarrow> string \<Rightarrow> eterm list \<Rightarrow> go_error + Pid" where
  "StartLink ff c module name initArgs =
     rbind (c ''gen_server:start_link''
              [TTuple [TAtom ''local'', TAtom name], TAtom module, TList initArgs, TList []]) (\<lambda>v.
     rbind (unwrapOKValue ff v) (\<lambda>val.
     case as_pid val of
       Some pid \<Rightarrow> Inr pid
     | None \<Rightarrow> Inl (Errorf ''otp: gen_server:start_link returned non-pid: %T'' [FType (type_name val)])))"

section \<open>Supervisors\<close>

record Supervisor =
  sup_caller :: caller
  sup_name :: string

definition NewSupervisor :: "caller \<Rightarrow> string \<Rightarrow> Supervisor" where
  "NewSupervisor c name = \<lparr>sup_caller = c, sup_name = name\<rparr>"

record ChildInfo =
  ci_ID :: eterm
  ci_PID :: "Pid option"
  ci_Type :: string
  ci_Modules :: "string list"

text \<open>One iteration of the loop of \<open>WhichChildren\<close>; ill-shaped items are skipped.\<close>

definition child_of :: "(u64 \<Rightarrow> string) \<Rightarrow> eterm \<Rightarrow> ChildInfo option" where
  "child_of ff item =
     (case as_tuple item of
        Some (i # child # typ # mods # _) \<Rightarrow>
          Some \<lparr>ci_ID = i, ci_PID = as_pid child, ci_Type = termToString ff typ,
                ci_Modules = (case as_list mods of Some ms \<Rightarrow> map (termToString ff) ms | None \<Rightarrow> [])\<rparr>
      | _ \<Rightarrow> None)"

definition WhichChildren :: "(u64 \<Rightarrow> string) \<Rightarrow> Supervisor \<Rightarrow> go_error + ChildInfo list" where
  "WhichChildren ff s =
     rbind (sup_caller s ''supervisor:which_children'' [TAtom (sup_name s)]) (\<lambda>v.
     case as_list v of
       Some l \<Rightarrow> Inr (List.map_filter (child_of ff) l)
     | None \<Rightarrow> Inl (Errorf ''otp: supervisor:which_children expected list, got %T'' [FType (type_name v)]))"

record ChildCounts =
  cc_Specs :: int
  cc_Active :: int
  cc_Supervisors :: int
  cc_Workers :: int

definition count_item :: "(u64 \<Rightarrow> string) \<Rightarrow> eterm \<Rightarrow> ChildCounts \<Rightarrow> ChildCounts" where
  "count_item ff item cc =
     (case as_tuple item of
        Some [k, v] \<Rightarrow>
          (let key = termToString ff k;
               n = (case termToInt64 v of Some w \<Rightarrow> sint w | None \<Rightarrow> 0)
           in if key = ''specs'' then cc\<lparr>cc_Specs := n\<rparr>
              else if key = ''active'' then cc\<lparr>cc_Active := n\<rparr>
              else if key = ''supervisors'' then cc\<lparr>cc_Supervisors := n\<rparr>
              else if key = ''workers'' then cc\<lparr>cc_Workers := n\<rparr>
              else cc)
      | _ \<Rightarrow> cc)"

definition CountChildren :: "(u64 \<Rightarrow> string) \<Rightarrow> Supervisor \<Rightarrow> go_error + ChildCounts" where
  "CountChildren ff s =
     rbind (sup_caller s ''supervisor:count_children'' [TAtom (sup_name s)]) (\<lambda>v.
     case as_list v of
       Some l \<Rightarrow> Inr (fold (count_item ff) l \<lparr>cc_Specs = 0, cc_Active = 0, cc_Supervisors = 0, cc_Workers = 0\<rparr>)
     | None \<Rightarrow> Inl (Errorf ''otp: supervisor:count_children expected list, got %T'' [FType (type_name v)]))"

definition TerminateChild :: "Supervisor \<Rightarrow> eterm \<Rightarrow> go_error + unit" where
  "TerminateChild s childID =
     rbind (sup_caller s ''supervisor:terminate_child'' [TAtom (sup_name s), childID]) (expectOK ''otp'')"

definition RestartChild :: "(u64 \<Rightarrow> string) \<Rightarrow> Supervisor \<Rightarrow> eterm \<Rightarrow> go_error + Pid" where
  "RestartChild ff s childID =
     rbind (sup_caller s ''supervisor:restart_child'' [TAtom (sup_name s), childID]) (\<lambda>v.
     rbind (unwrapOKValue ff v) (\<lambda>val.
     case as_pid val of
       Some pid \<Rightarrow> Inr pid
     | None \<Rightarrow>
         (case as_tuple val of
            Some (x # _) \<Rightarrow>
              (case as_pid x of
                 Some pid \<Rightarrow> Inr pid
               | None \<Rightarrow> Inl (Errorf ''otp: supervisor:restart_child returned unexpected child term: %v'' [FTerm val]))
          | _ \<Rightarrow> Inl (Errorf ''otp: supervisor:restart_child returned unexpected child term: %v'' [FTerm val]))))"

definition DeleteChild :: "Supervisor \<Rightarrow> eterm \<Rightarrow> go_error + unit" where
  "DeleteChild s childID =
     rbind (sup_caller s ''supervisor:delete_child'' [TAtom (sup_name s), childID]) (expectOK ''otp'')"

section \<open>Applications\<close>

record Application =
  app_caller :: caller
  app_name :: string

definition NewApplication :: "caller \<Rightarrow> string \<Rightarrow> Application" where
  "NewApplication c name = \<lparr>app_caller = c, app_name = name\<rparr>"

text \<open>The reply handling of \<open>Start\<close> and \<open>StartPermanent\<close>, which differ in the call and in the message texts.\<close>

definition start_reply :: "string \<Rightarrow> string \<Rightarrow> string \<Rightarrow> eterm \<Rightarrow> go_error + unit" where
  "start_reply efmt ufmt name v =
     (if isAtom v ''ok'' then Inr ()
      else
        (case error_reason v of
           Some reason \<Rightarrow>
             (case as_tuple reason of
                Some [k, _] \<Rightarrow>
                  if isAtom k ''already_started'' then Inr () else Inl (Errorf efmt [FStr name, FTerm reason])
              | _ \<Rightarrow> Inl (Errorf efmt [FStr name, FTerm reason]))
         | None \<Rightarrow> Inl (Errorf ufmt [FStr name, FTerm v])))"

definition Application_Start :: "Application \<Rightarrow> go_error + unit" where
  "Application_Start a =
     rbind (app_caller a ''application:start'' [TAtom (app_name a)])
       (start_reply ''otp: application:start(%s): %v'' ''otp: application:start(%s): unexpected reply: %v'' (app_name a))"

definition Application_StartPermanent :: "Application \<Rightarrow> go_error + unit" where
  "Application_StartPermanent a =
     rbind (app_caller a ''application:start'' [TAtom (app_name a), TAtom ''permanent''])
       (start_reply ''otp: application:start(%s, permanent): %v''
          ''otp: application:start(%s, permanent): unexpected reply: %v'' (app_name a))"

definition Application_Stop :: "Application \<Rightarrow> go_error + unit" where
  "Application_Stop a = rbind (app_caller a ''application:stop'' [TAtom (app_name a)]) (expectOK ''otp'')"

definition EnsureAllStarted :: "(u64 \<Rightarrow> string) \<Rightarrow> Application \<Rightarrow> go_error + string list" where
  "EnsureAllStarted ff a =
     rbind (app_caller a ''application:ensure_all_started'' [TAtom (app_name a)]) (\<lambda>v.
     rbind (unwrapOKValue ff v) (\<lambda>val.
     case as_list val of
       Some l \<Rightarrow> Inr (map (termToString ff) l)
     | None \<Rightarrow> Inl (Errorf ''otp: application:ensure_all_started: expected list, got %T'' [FType (type_name val)])))"

text \<open>\<open>(value, true)\<close> is \<open>Some value\<close>.\<close>

definition GetEnv :: "Application \<Rightarrow> string \<Rightarrow> go_error + eterm option" where
  "GetEnv a key =
     rbind (app_caller a ''application:get_env'' [TAtom (app_name a), TAtom key]) (\<lambda>v.
     if isAtom v ''undefined'' then Inr None
     else
       (case as_tuple v of
          Some [t, x] \<Rightarrow>
            if isAtom t ''ok'' then Inr (Some x)
            else Inl (Errorf ''otp: application:get_env unexpected reply: %v'' [FTerm v])
        | _ \<Rightarrow> Inl (Errorf ''otp: application:get_env unexpected reply: %v'' [FTerm v])))"

definition SetEnv :: "Application \<Rightarrow> string \<Rightarrow> eterm \<Rightarrow> go_error + unit" where
  "SetEnv a key value =
     rbind (app_caller a ''application:set_env'' [TAtom (app_name a), TAtom key, value]) (expectOK ''otp'')"

definition parseApplicationList :: "(u64 \<Rightarrow> string) \<Rightarrow> eterm \<Rightarrow> go_error + string list" where
  "parseApplicationList ff v =
     (case as_list v of
        Some l \<Rightarrow>
          Inr (List.map_filter (\<lambda>item. case as_tuple item of Some (x # _) \<Rightarrow> Some (termToString ff x) | _ \<Rightarrow> None) l)
      | None \<Rightarrow> Inl (Errorf ''otp: expected application list, got %T'' [FType (type_name v)]))"

definition LoadedApplications :: "(u64 \<Rightarrow> string) \<Rightarrow> caller \<Rightarrow> go_error + string list" where
  "LoadedApplications ff c = rbind (c ''application:loaded_applications'' []) (parseApplicationList ff)"

definition WhichApplications :: "(u64 \<Rightarrow> string) \<Rightarrow> caller \<Rightarrow> go_error + string list" where
  "WhichApplications ff c = rbind (c ''application:which_applications'' []) (parseApplicationList ff)"

section \<open>The caller contract\<close>

text \<open>
  A caller whose replies come off the wire: canonical terms, or nil for a reply without a value.
\<close>

locale wire_caller =
  fixes call :: caller and ff :: "u64 \<Rightarrow> string"
  assumes call_wire: "call f args = Inr v \<Longrightarrow> wire_term v \<or> v = TNil"
    and float_text: "ff x \<notin> {''ok'', ''error''}"
begin

lemma tag_text_is_atom:
  assumes "wire_term t" and "sprint_v ff t = s" and "s = ''ok'' \<or> s = ''error''"
  shows "t = TAtom s"
proof -
  have num: "show_int i \<noteq> s" for i
    using assms(3) show_nat_digits [of "hd (show_nat (nat i))" "nat i"]
    by (auto simp: show_int_def is_digit_def)
  show ?thesis
    using assms float_text num by (cases t) auto
qed

text \<open>Only the atoms \<open>ok\<close> and \<open>error\<close> are taken for reply tags.\<close>

lemma unwrap_ok:
  assumes "call f args = Inr v" and "unwrapOKValue ff v = Inr x"
  shows "\<exists>r. v = TTuple (TAtom ''ok'' # x # r)"
proof -
  from assms(2) obtain t r where v: "v = TTuple (t # x # r)" and t: "sprint_v ff t = ''ok''"
    by (auto simp: unwrapOKValue_def as_eq_Some split: option.splits list.splits if_splits)
  with call_wire [OF assms(1)] have "wire_term t" by simp
  from tag_text_is_atom [OF this t] v show ?thesis by simp
qed

end

text \<open>
  The port as a caller: the Erlang side is a function from calls to reply payloads, which the manager decodes and
  dispatches.
\<close>

definition port_caller :: "zlib \<Rightarrow> nat \<Rightarrow> (string \<Rightarrow> eterm list \<Rightarrow> byte list) \<Rightarrow> caller" where
  "port_caller zlib fuel erl f args =
     (case Decode zlib fuel (erl f args) of
        Some (Inr (TTuple tup)) \<Rightarrow> if 2 \<le> length tup then reply_result tup else Inl (ExternalErr ''timeout'')
      | _ \<Rightarrow> Inl (ExternalErr ''timeout''))"

lemma port_caller_wire: "port_caller zlib fuel erl f args = Inr v \<Longrightarrow> wire_term v \<or> v = TNil"
  by (auto simp: port_caller_def reply_result_def Let_def list_all_length
      dest!: Decode_wire_term split: option.splits sum.splits eterm.splits if_splits)

text \<open>With floats printed by any function of digits and a sign.\<close>

interpretation port_wire: wire_caller "port_caller zlib fuel erl" "\<lambda>w. show_int (sint w)" for zlib fuel erl
proof
  show "wire_term v \<or> v = TNil" if "port_caller zlib fuel erl f args = Inr v" for f args v
    using port_caller_wire [OF that] .
  show "show_int (sint x) \<notin> {''ok'', ''error''}" for x :: u64
    using show_nat_digits [of "hd (show_nat (nat (sint x)))" "nat (sint x)"]
    by (auto simp: show_int_def is_digit_def)
qed

lemma port_wire_caller:
  "(\<And>x. ff x \<notin> {''ok'', ''error''}) \<Longrightarrow> wire_caller (port_caller zlib fuel erl) ff"
  by (rule wire_caller.intro) (rule port_caller_wire)

lemma port_caller_reply:
  assumes "port_caller zlib fuel erl f args = Inr v" and "v \<noteq> TNil"
  shows "\<exists>seq r. Decode zlib fuel (erl f args) = Some (Inr (TTuple (TAtom ''reply'' # seq # v # r)))"
proof -
  from assms(1) obtain tup where d: "Decode zlib fuel (erl f args) = Some (Inr (TTuple tup))" "2 \<le> length tup"
    and r: "reply_result tup = Inr v"
    by (auto simp: port_caller_def split: option.splits sum.splits eterm.splits if_splits)
  from r assms(2) have "as_atom (tup ! 0) = Some ''reply''" and "3 \<le> length tup" and "v = tup ! 2"
    by (auto simp: reply_result_def Let_def split: if_splits option.splits)
  then have "tup = TAtom ''reply'' # tup ! 1 # v # drop 3 tup"
    by (cases tup; cases "tl tup"; cases "tl (tl tup)") (auto simp: as_eq_Some)
  with d show ?thesis by metis
qed

section \<open>Proplists\<close>

text \<open>The values a proplist gives a key, in order.\<close>

definition prop_values :: "(u64 \<Rightarrow> string) \<Rightarrow> string \<Rightarrow> eterm list \<Rightarrow> int list" where
  "prop_values ff key l =
     List.map_filter (\<lambda>item. case as_tuple item of
       Some [k, v] \<Rightarrow> if termToString ff k = key
         then Some (case termToInt64 v of Some w \<Rightarrow> sint w | None \<Rightarrow> 0) else None
     | _ \<Rightarrow> None) l"

lemma prop_values_Cons: "prop_values ff key (item # l) = prop_values ff key [item] @ prop_values ff key l"
  by (simp add: prop_values_def List.map_filter_def)

lemma last_append_Cons: "last (x # xs @ ys) = last (last (x # xs) # ys)"
  by (simp add: last_append)

lemma count_item_eq:
  "count_item ff item cc =
     \<lparr>cc_Specs = last (cc_Specs cc # prop_values ff ''specs'' [item]),
      cc_Active = last (cc_Active cc # prop_values ff ''active'' [item]),
      cc_Supervisors = last (cc_Supervisors cc # prop_values ff ''supervisors'' [item]),
      cc_Workers = last (cc_Workers cc # prop_values ff ''workers'' [item])\<rparr>"
proof (cases "\<exists>k v. as_tuple item = Some [k, v]")
  case True
  then show ?thesis by (auto simp: count_item_def prop_values_def List.map_filter_def Let_def)
next
  case False
  then have "count_item ff item cc = cc" and "prop_values ff key [item] = []" for key
    unfolding count_item_def prop_values_def List.map_filter_def
    by (simp_all split: option.split list.split)
  then show ?thesis by simp
qed

lemma count_items:
  "fold (count_item ff) l cc =
     \<lparr>cc_Specs = last (cc_Specs cc # prop_values ff ''specs'' l),
      cc_Active = last (cc_Active cc # prop_values ff ''active'' l),
      cc_Supervisors = last (cc_Supervisors cc # prop_values ff ''supervisors'' l),
      cc_Workers = last (cc_Workers cc # prop_values ff ''workers'' l)\<rparr>"
proof (induction l arbitrary: cc)
  case (Cons item l)
  show ?case
    by (simp only: fold_Cons comp_apply Cons.IH count_item_eq [of ff item cc] ChildCounts.simps
        prop_values_Cons [of ff _ item l] last_append_Cons [of _ "prop_values ff _ [item]"])
qed (simp add: prop_values_def List.map_filter_def)

lemma error_reason_eq: "error_reason v = Some r \<longleftrightarrow> v = TTuple [TAtom ''error'', r]"
  by (cases v) (auto simp: error_reason_def isAtom_def as_tuple_def as_eq_Some split: list.split_asm if_split_asm)

lemma start_reply_ok:
  "start_reply e u n v = Inr () \<longleftrightarrow>
     v = TAtom ''ok'' \<or> (\<exists>app. v = TTuple [TAtom ''error'', TTuple [TAtom ''already_started'', app]])"
proof (cases "error_reason v")
  case None
  then show ?thesis
    using error_reason_eq [of v] by (auto simp: start_reply_def isAtom_def as_eq_Some)
next
  case (Some r)
  then have v: "v = TTuple [TAtom ''error'', r]" by (simp add: error_reason_eq)
  show ?thesis
    unfolding v by (cases r)
      (auto simp: start_reply_def error_reason_def isAtom_def as_atom_def as_tuple_def split: list.split_asm if_split_asm eterm.split_asm)
qed

section \<open>Properties\<close>

text \<open>
  \<open>StartLink\<close> over the port returns a pid only when the Erlang side answered its one call with a reply
  whose value is \<open>{ok, Pid, ...}\<close>; no other reply is mistaken for success, whatever the tag prints as.
\<close>

theorem start_link_needs_ok_reply:
  assumes "\<And>x. ff x \<notin> {''ok'', ''error''}"
    and "StartLink ff (port_caller zlib fuel erl) module name initArgs = Inr pid"
  shows "\<exists>seq r r'. Decode zlib fuel (erl ''gen_server:start_link''
      [TTuple [TAtom ''local'', TAtom name], TAtom module, TList initArgs, TList []]) =
    Some (Inr (TTuple (TAtom ''reply'' # seq # TTuple (TAtom ''ok'' # TPid pid # r) # r')))"
proof -
  from assms(2) obtain v where c: "port_caller zlib fuel erl ''gen_server:start_link''
      [TTuple [TAtom ''local'', TAtom name], TAtom module, TList initArgs, TList []] = Inr v"
    and u: "unwrapOKValue ff v = Inr (TPid pid)"
    by (auto simp: StartLink_def result_simps as_eq_Some split: option.splits)
  from wire_caller.unwrap_ok [OF port_wire_caller [OF assms(1)] c u]
  obtain r where v: "v = TTuple (TAtom ''ok'' # TPid pid # r)" by blast
  from port_caller_reply [OF c] v show ?thesis by blast
qed

theorem start_link_needs_ok_reply_witness:
  "\<exists>r r' seq. Decode (\<lambda>_ _. ZlibHeader IoEOF) 4
     ([131, 104, 3, 119, 5] @ bytes_of_string ''reply'' @ [97, 1, 104, 2, 119, 2, 111, 107, 88, 119, 1, 110] @
      put_u32 1 @ put_u32 2 @ put_u32 3) =
     Some (Inr (TTuple (TAtom ''reply'' # seq # TTuple (TAtom ''ok'' #
       TPid \<lparr>pid_Node = ''n'', pid_ID = 1, pid_Serial = 2, pid_Creation = 3\<rparr> # r) # r')))"
proof -
  let ?p = "\<lparr>pid_Node = ''n'', pid_ID = 1, pid_Serial = 2, pid_Creation = 3\<rparr>"
  let ?v = "TTuple [TAtom ''reply'', TInt64 1, TTuple [TAtom ''ok'', TPid ?p]]"
  let ?bs = "[131, 104, 3, 119, 5] @ bytes_of_string ''reply'' @ [97, 1, 104, 2, 119, 2, 111, 107, 88, 119, 1, 110] @
      put_u32 1 @ put_u32 2 @ put_u32 3"
  have e: "Encode ?v = Inr ?bs"
    by (simp add: Encode_def encTuple_def tuple_header_def encAtom_def encInt64_def encPid_def u8_of_len_def
        bytes_of_string_def byte_of_char_def)
  have d: "Decode (\<lambda>_ _. ZlibHeader IoEOF) 4 ?bs = Some (Inr ?v)"
    using Decode_Encode_rest [OF e, of 4 "\<lambda>_ _. ZlibHeader IoEOF" "[]"] by simp
  have "StartLink (\<lambda>_. ''0'') (port_caller (\<lambda>_ _. ZlibHeader IoEOF) 4 (\<lambda>_ _. ?bs)) ''m'' ''n'' [] = Inr ?p"
    unfolding StartLink_def port_caller_def d by (simp add: reply_result_def unwrapOKValue_def)
  from start_link_needs_ok_reply [OF _ this] show ?thesis by simp blast
qed

text \<open>
  \<open>CountChildren\<close> reads the proplist in any order: each count is the last integer the list gives its key, or zero, and
  everything else in the list is ignored.
\<close>

theorem count_children_proplist:
  "CountChildren ff s = Inr cc \<longleftrightarrow>
     (\<exists>l. sup_caller s ''supervisor:count_children'' [TAtom (sup_name s)] = Inr (TList l) \<and>
        cc = \<lparr>cc_Specs = last (0 # prop_values ff ''specs'' l), cc_Active = last (0 # prop_values ff ''active'' l),
              cc_Supervisors = last (0 # prop_values ff ''supervisors'' l),
              cc_Workers = last (0 # prop_values ff ''workers'' l)\<rparr>)"
proof (cases "sup_caller s ''supervisor:count_children'' [TAtom (sup_name s)]")
  case (Inr v)
  show ?thesis unfolding CountChildren_def Inr count_items by (cases v) (auto simp: as_list_def)
qed (simp add: CountChildren_def)

lemma application_start_iff:
  "Application_Start a = Inr () \<longleftrightarrow>
     (\<exists>v. app_caller a ''application:start'' [TAtom (app_name a)] = Inr v \<and>
        (v = TAtom ''ok'' \<or> (\<exists>app. v = TTuple [TAtom ''error'', TTuple [TAtom ''already_started'', app]])))"
  by (simp add: Application_Start_def rbind_eq_Inr start_reply_ok)

end
