(* ===== verification/Async.thy ===== *)
theory Async
  imports Otp
begin

text \<open>
  Process operations and the mailbox of \<open>async/\<close>: the wrappers around the BIFs (\<open>process.go\<close>, \<open>monitor.go\<close>) over the caller of
  \<open>Otp\<close>, and the \<open>Mailbox\<close> of \<open>async.go\<close> with its poller as a labelled transition function.  The package repeats
  \<open>isAtom\<close> and \<open>expectOK\<close> of \<open>otp\<close> with its own message prefix.
\<close>

section \<open>Processes\<close>

definition async_expectOK :: "eterm \<Rightarrow> go_error + unit" where
  "async_expectOK v = expectOK ''async'' v"

text \<open>The body shared by the calls whose reply must be a pid; \<open>fmt\<close> is the message for another type.\<close>

definition pid_reply :: "string \<Rightarrow> go_error + eterm \<Rightarrow> go_error + Pid" where
  "pid_reply fmt r =
     rbind r (\<lambda>v. case as_pid v of Some pid \<Rightarrow> Inr pid | None \<Rightarrow> Inl (Errorf fmt [FType (type_name v)]))"

definition Spawn :: "caller \<Rightarrow> string \<Rightarrow> string \<Rightarrow> eterm list \<Rightarrow> go_error + Pid" where
  "Spawn c module fun args =
     pid_reply ''async: erlang:spawn returned non-pid: %T'' (c ''erlang:spawn'' [TAtom module, TAtom fun, TList args])"

definition SpawnLink :: "caller \<Rightarrow> string \<Rightarrow> string \<Rightarrow> eterm list \<Rightarrow> go_error + Pid" where
  "SpawnLink c module fun args =
     pid_reply ''async: erlang:spawn_link returned non-pid: %T''
       (c ''erlang:spawn_link'' [TAtom module, TAtom fun, TList args])"

definition SpawnMonitor :: "caller \<Rightarrow> string \<Rightarrow> string \<Rightarrow> eterm list \<Rightarrow> go_error + (Pid \<times> Reference)" where
  "SpawnMonitor c module fun args =
     rbind (c ''erlang:spawn_monitor'' [TAtom module, TAtom fun, TList args]) (\<lambda>v.
     case as_tuple v of
       Some [p, r] \<Rightarrow>
         (case as_pid p of
            None \<Rightarrow> Inl (Errorf ''async: spawn_monitor: first element not pid: %T'' [FType (type_name p)])
          | Some pid \<Rightarrow>
              (case as_ref r of
                 None \<Rightarrow> Inl (Errorf ''async: spawn_monitor: second element not ref: %T'' [FType (type_name r)])
               | Some ref \<Rightarrow> Inr (pid, ref)))
     | _ \<Rightarrow> Inl (Errorf ''async: erlang:spawn_monitor unexpected reply: %v'' [FTerm v]))"

definition Send :: "caller \<Rightarrow> Pid \<Rightarrow> eterm \<Rightarrow> go_error + unit" where
  "Send c pid msg = rbind (c ''erlang:send'' [TPid pid, msg]) (\<lambda>_. Inr ())"

definition SendNamed :: "caller \<Rightarrow> string \<Rightarrow> eterm \<Rightarrow> go_error + unit" where
  "SendNamed c name msg = rbind (c ''erlang:send'' [TAtom name, msg]) (\<lambda>_. Inr ())"

definition Exit :: "caller \<Rightarrow> Pid \<Rightarrow> eterm \<Rightarrow> go_error + unit" where
  "Exit c pid reason = rbind (c ''erlang:exit'' [TPid pid, reason]) async_expectOK"

definition IsAlive :: "caller \<Rightarrow> Pid \<Rightarrow> go_error + bool" where
  "IsAlive c pid =
     rbind (c ''erlang:is_process_alive'' [TPid pid]) (\<lambda>v.
     if isAtom v ''true'' then Inr True
     else if isAtom v ''false'' then Inr False
     else Inl (Errorf ''async: is_process_alive: unexpected reply: %v'' [FTerm v]))"

definition ProcessInfo :: "caller \<Rightarrow> Pid \<Rightarrow> string \<Rightarrow> go_error + eterm option" where
  "ProcessInfo c pid key =
     rbind (c ''erlang:process_info'' [TPid pid, TAtom key]) (\<lambda>v.
     if isAtom v ''undefined'' then Inr None
     else
       (case as_tuple v of
          Some [_, x] \<Rightarrow> Inr (Some x)
        | _ \<Rightarrow> Inl (Errorf ''async: process_info: unexpected reply: %v'' [FTerm v])))"

definition Self :: "caller \<Rightarrow> go_error + Pid" where
  "Self c = pid_reply ''async: erlang:self returned non-pid: %T'' (c ''erlang:self'' [])"

section \<open>Monitors\<close>

definition Monitor :: "caller \<Rightarrow> Pid \<Rightarrow> go_error + Reference" where
  "Monitor c pid =
     rbind (c ''erlang:monitor'' [TAtom ''process'', TPid pid]) (\<lambda>v.
     case as_ref v of
       Some ref \<Rightarrow> Inr ref
     | None \<Rightarrow> Inl (Errorf ''async: erlang:monitor returned non-ref: %T'' [FType (type_name v)]))"

text \<open>These BIFs return the atom \<open>true\<close>.\<close>

definition true_or_ok :: "eterm \<Rightarrow> go_error + unit" where
  "true_or_ok v = (if isAtom v ''true'' then Inr () else async_expectOK v)"

definition Demonitor :: "caller \<Rightarrow> Reference \<Rightarrow> go_error + unit" where
  "Demonitor c ref = rbind (c ''erlang:demonitor'' [TRef ref, TList [TAtom ''flush'']]) true_or_ok"

definition Link :: "caller \<Rightarrow> Pid \<Rightarrow> go_error + unit" where
  "Link c pid = rbind (c ''erlang:link'' [TPid pid]) true_or_ok"

definition Unlink :: "caller \<Rightarrow> Pid \<Rightarrow> go_error + unit" where
  "Unlink c pid = rbind (c ''erlang:unlink'' [TPid pid]) true_or_ok"

record DownMessage =
  dm_Ref :: Reference
  dm_Pid :: Pid
  dm_Reason :: eterm

definition ParseDownMessage :: "eterm \<Rightarrow> DownMessage option" where
  "ParseDownMessage v =
     (case as_tuple v of
        Some [down, r, kind, p, reason] \<Rightarrow>
          if \<not> isAtom down ''DOWN'' then None
          else
            (case as_ref r of
               None \<Rightarrow> None
             | Some ref \<Rightarrow>
                 if \<not> isAtom kind ''process'' then None
                 else
                   (case as_pid p of
                      None \<Rightarrow> None
                    | Some pid \<Rightarrow> Some \<lparr>dm_Ref = ref, dm_Pid = pid, dm_Reason = reason\<rparr>))
      | _ \<Rightarrow> None)"

section \<open>The mailbox\<close>

text \<open>Where the poll goroutine stands: in the outer \<open>select\<close>, before a \<open>Call\<close>, with a message, or returned.\<close>

datatype poll_pc = PSelect | PCall | PGot eterm | PReturned

text \<open>Where a goroutine stands that runs \<open>Push\<close> or \<open>Close\<close>.\<close>

datatype user_pc = UIdle | UPush eterm | UPushHold eterm | UClose | UCloseWait | UReturned

text \<open>
  \<open>mb_in\<close> and \<open>mb_out\<close> record the messages offered to the channel and received from it; \<open>mb_panic\<close> is set
  by a send on, or a second close of, a closed channel.
\<close>

record Mailbox =
  mb_ch :: "eterm list"
  mb_cap :: nat
  mb_closed :: bool
  mb_stop :: bool
  mb_done :: bool
  mb_chClosed :: bool
  mb_mu :: "nat option"
  mb_poll :: poll_pc
  mb_users :: "nat \<Rightarrow> user_pc"
  mb_in :: "eterm list"
  mb_out :: "eterm list"
  mb_panic :: bool

definition NewMailbox :: "int \<Rightarrow> Mailbox" where
  "NewMailbox bufSize =
     \<lparr>mb_ch = [], mb_cap = (if bufSize \<le> 0 then 64 else nat bufSize), mb_closed = False, mb_stop = False,
      mb_done = False, mb_chClosed = False, mb_mu = None, mb_poll = PSelect, mb_users = (\<lambda>_. UIdle),
      mb_in = [], mb_out = [], mb_panic = False\<rparr>"

text \<open>A mailbox around an existing channel has no poller: \<open>done\<close> is closed from the start.\<close>

definition NewMailboxFromChan :: "eterm list \<Rightarrow> nat \<Rightarrow> Mailbox" where
  "NewMailboxFromChan ch cap =
     \<lparr>mb_ch = ch, mb_cap = cap, mb_closed = False, mb_stop = False, mb_done = True, mb_chClosed = False,
      mb_mu = None, mb_poll = PReturned, mb_users = (\<lambda>_. UIdle), mb_in = ch, mb_out = [], mb_panic = False\<rparr>"

definition set_user :: "nat \<Rightarrow> user_pc \<Rightarrow> Mailbox \<Rightarrow> Mailbox" where
  "set_user i u m = m\<lparr>mb_users := (mb_users m)(i := u)\<rparr>"

text \<open>\<open>m.ch <- msg\<close> where there is room; it panics on a closed channel.\<close>

definition ch_send :: "eterm \<Rightarrow> Mailbox \<Rightarrow> Mailbox" where
  "ch_send msg m =
     (if mb_chClosed m then m\<lparr>mb_panic := True\<rparr> else m\<lparr>mb_ch := mb_ch m @ [msg]\<rparr>)"

datatype mb_action =
    MTick | MStop | MReply "go_error + eterm" | MDeliver
  | MPush nat eterm | MPushLock nat | MPushSend nat
  | MClose nat | MCloseLock nat | MCloseFinish nat
  | MRecv

fun mb_act :: "mb_action \<Rightarrow> Mailbox \<Rightarrow> Mailbox option" where
  "mb_act MTick m = (if mb_poll m = PSelect then Some (m\<lparr>mb_poll := PCall\<rparr>) else None)"
| "mb_act MStop m =
     (if mb_poll m = PSelect \<and> mb_stop m then Some (m\<lparr>mb_poll := PReturned, mb_done := True\<rparr>) else None)"
| "mb_act (MReply r) m =
     (if mb_poll m \<noteq> PCall then None
      else
        (case r of
           Inl e \<Rightarrow> Some (m\<lparr>mb_poll := PReturned, mb_done := True\<rparr>)
         | Inr v \<Rightarrow>
             if isAtom v ''empty'' then Some (m\<lparr>mb_poll := PSelect\<rparr>)
             else
               (case as_tuple v of
                  Some [t, msg] \<Rightarrow>
                    if isAtom t ''ok'' then Some (m\<lparr>mb_poll := PGot msg\<rparr>) else Some (m\<lparr>mb_poll := PSelect\<rparr>)
                | _ \<Rightarrow> Some (m\<lparr>mb_poll := PSelect\<rparr>))))"
| "mb_act MDeliver m =
     (case mb_poll m of
        PGot msg \<Rightarrow>
          if mb_mu m \<noteq> None then None
          else if mb_closed m then Some (m\<lparr>mb_poll := PReturned, mb_done := True\<rparr>)
          else
            (let m = m\<lparr>mb_poll := PCall, mb_in := mb_in m @ [msg]\<rparr> in
             Some (if length (mb_ch m) < mb_cap m \<or> mb_chClosed m then ch_send msg m else m))
      | _ \<Rightarrow> None)"
| "mb_act (MPush i msg) m = (if mb_users m i = UIdle then Some (set_user i (UPush msg) m) else None)"
| "mb_act (MPushLock i) m =
     (case mb_users m i of
        UPush msg \<Rightarrow>
          if mb_mu m \<noteq> None then None
          else if mb_closed m then Some (set_user i UReturned m)
          else Some (set_user i (UPushHold msg) (m\<lparr>mb_mu := Some i\<rparr>))
      | _ \<Rightarrow> None)"
| "mb_act (MPushSend i) m =
     (case mb_users m i of
        UPushHold msg \<Rightarrow>
          if length (mb_ch m) < mb_cap m \<or> mb_chClosed m
          then Some (set_user i UReturned (ch_send msg (m\<lparr>mb_mu := None, mb_in := mb_in m @ [msg]\<rparr>)))
          else None
      | _ \<Rightarrow> None)"
| "mb_act (MClose i) m = (if mb_users m i = UIdle then Some (set_user i UClose m) else None)"
| "mb_act (MCloseLock i) m =
     (if mb_users m i \<noteq> UClose \<or> mb_mu m \<noteq> None then None
      else if mb_closed m then Some (set_user i UReturned m)
      else Some (set_user i UCloseWait (m\<lparr>mb_closed := True, mb_stop := True\<rparr>)))"
| "mb_act (MCloseFinish i) m =
     (if mb_users m i = UCloseWait \<and> mb_done m
      then Some (set_user i UReturned
             (if mb_chClosed m then m\<lparr>mb_panic := True\<rparr> else m\<lparr>mb_chClosed := True\<rparr>))
      else None)"
| "mb_act MRecv m =
     (case mb_ch m of
        x # xs \<Rightarrow> Some (m\<lparr>mb_ch := xs, mb_out := mb_out m @ [x]\<rparr>)
      | [] \<Rightarrow> None)"

inductive mb_reach :: "Mailbox \<Rightarrow> bool" where
  mb_new: "mb_reach (NewMailbox bufSize)"
| mb_from_chan: "length ch \<le> cap \<Longrightarrow> mb_reach (NewMailboxFromChan ch cap)"
| mb_step: "mb_reach m \<Longrightarrow> mb_act a m = Some m' \<Longrightarrow> mb_reach m'"

inductive_cases mb_reachE: "mb_reach m"

section \<open>Invariants of the mailbox\<close>

definition mb_inv :: "Mailbox \<Rightarrow> bool" where
  "mb_inv m \<longleftrightarrow> \<not> mb_panic m \<and> (mb_chClosed m \<longrightarrow> mb_closed m) \<and>
     (\<forall>i msg. mb_users m i = UPushHold msg \<longrightarrow> mb_mu m = Some i \<and> \<not> mb_closed m) \<and>
     (\<forall>i. mb_users m i = UCloseWait \<longrightarrow> mb_closed m \<and> \<not> mb_chClosed m \<and> (\<forall>j. mb_users m j = UCloseWait \<longrightarrow> j = i))"


lemma set_user_simps [simp]:
  "mb_users (set_user i u m) = (mb_users m)(i := u)" "mb_ch (set_user i u m) = mb_ch m"
  "mb_cap (set_user i u m) = mb_cap m" "mb_closed (set_user i u m) = mb_closed m"
  "mb_stop (set_user i u m) = mb_stop m" "mb_done (set_user i u m) = mb_done m"
  "mb_chClosed (set_user i u m) = mb_chClosed m" "mb_mu (set_user i u m) = mb_mu m"
  "mb_poll (set_user i u m) = mb_poll m" "mb_in (set_user i u m) = mb_in m"
  "mb_out (set_user i u m) = mb_out m" "mb_panic (set_user i u m) = mb_panic m"
  by (simp_all add: set_user_def)

lemma mb_act_inv:
  assumes "mb_inv m" and "mb_act a m = Some m'"
  shows "mb_inv m'"
proof (cases a)
  case MDeliver
  then show ?thesis
    using assms by (auto simp: mb_inv_def ch_send_def Let_def split: poll_pc.split_asm if_split_asm)
next
  case (MPushLock i)
  then show ?thesis
    using assms unfolding mb_inv_def by (auto split: user_pc.split_asm if_split_asm)
next
  case (MPushSend i)
  then show ?thesis
    using assms unfolding mb_inv_def
    by (auto simp: ch_send_def split: user_pc.split_asm if_split_asm) (metis option.inject)
next
  case (MCloseLock i)
  then show ?thesis
    using assms unfolding mb_inv_def by (auto split: if_split_asm)
next
  case (MCloseFinish i)
  then show ?thesis
    using assms unfolding mb_inv_def by (auto split: if_split_asm)
next
  case (MReply r)
  then show ?thesis
    using assms unfolding mb_inv_def
    by (auto split: if_split_asm sum.split_asm option.split_asm list.split_asm)
qed (use assms in \<open>auto simp: mb_inv_def split: if_split_asm list.split_asm\<close>)

lemma mb_reach_inv: "mb_reach m \<Longrightarrow> mb_inv m"
proof (induction rule: mb_reach.induct)
  case (mb_step m a m')
  then show ?case using mb_act_inv by blast
qed (simp_all add: mb_inv_def NewMailbox_def NewMailboxFromChan_def)





text \<open>While a \<open>Push\<close> waits for room it holds the mutex, so only a receive can unblock \<open>Close\<close>.\<close>

definition push_stuck :: "nat \<Rightarrow> eterm \<Rightarrow> Mailbox \<Rightarrow> bool" where
  "push_stuck i msg m \<longleftrightarrow> mb_users m i = UPushHold msg \<and> mb_mu m = Some i \<and> mb_cap m \<le> length (mb_ch m) \<and>
     \<not> mb_chClosed m \<and> \<not> mb_closed m"

lemma push_stuck_step:
  assumes "push_stuck i msg m" and "mb_inv m" and "mb_act a m = Some m'" and "a \<noteq> MRecv"
  shows "push_stuck i msg m'"
proof (cases a)
  case (MReply r)
  then show ?thesis
    using assms by (auto simp: push_stuck_def split: if_split_asm sum.split_asm option.split_asm list.split_asm)
next
  case (MCloseFinish j)
  then show ?thesis using assms by (auto simp: push_stuck_def mb_inv_def split: if_split_asm)
qed (use assms in \<open>auto simp: push_stuck_def mb_inv_def ch_send_def split: if_split_asm user_pc.split_asm poll_pc.split_asm\<close>)

lemma exit_rejects_true: "c ''erlang:exit'' [TPid pid, reason] = Inr (TAtom ''true'') \<Longrightarrow> \<not> is_ok (Exit c pid reason)"
  by (simp add: Exit_def async_expectOK_def expectOK_def isAtom_def error_reason_def as_tuple_def)

section \<open>Properties\<close>

text \<open>
  C23: under every interleaving of pushes, closes, receives and the poller, the mailbox never sends on or closes a closed
  channel, and it closes the channel only after it was marked closed.
\<close>

theorem mailbox_never_panics:
  assumes "mb_reach m"
  shows "\<not> mb_panic m \<and> (mb_chClosed m \<longrightarrow> mb_closed m)"
  using mb_reach_inv [OF assms] by (simp add: mb_inv_def)

theorem mailbox_never_panics_witness:
  "\<exists>m. mb_act (MCloseFinish 0) (NewMailboxFromChan [TInt64 1] 2
     \<lparr>mb_users := (\<lambda>_. UIdle)(0 := UCloseWait), mb_closed := True, mb_stop := True\<rparr>) = Some m \<and>
     mb_chClosed m \<and> \<not> mb_panic m"
proof -
  let ?m0 = "NewMailboxFromChan [TInt64 1] 2"
  have r0: "mb_reach ?m0" by (rule mb_from_chan) simp
  have s1: "mb_act (MClose 0) ?m0 = Some (set_user 0 UClose ?m0)" by (simp add: NewMailboxFromChan_def)
  have s2: "mb_act (MCloseLock 0) (set_user 0 UClose ?m0) = Some (?m0
      \<lparr>mb_users := (\<lambda>_. UIdle)(0 := UCloseWait), mb_closed := True, mb_stop := True\<rparr>)"
    by (simp add: NewMailboxFromChan_def set_user_def fun_eq_iff)
  obtain m where s3: "mb_act (MCloseFinish 0) (?m0
      \<lparr>mb_users := (\<lambda>_. UIdle)(0 := UCloseWait), mb_closed := True, mb_stop := True\<rparr>) = Some m" "mb_chClosed m"
    by (simp add: NewMailboxFromChan_def)
  from mailbox_never_panics [OF mb_step [OF mb_step [OF mb_step [OF r0 s1] s2] s3(1)]] s3 show ?thesis by blast
qed



end
