(* ===== verification/Go_Os.thy ===== *)
theory Go_Os
  imports Go_Strings
begin

text \<open>
  The parts of Go's \<open>path/filepath\<close>, \<open>os\<close>, \<open>net/http\<close> and \<open>encoding/hex\<close> that the bridge
  calls.  \<open>world\<close> is the state outside the program: the readable files by path and the
  requests sent so far.  What the environment decides (whether a directory can be created, what a
  failing write leaves behind, what a server answers) is given by
  the functions of \<open>env\<close>.
\<close>

section \<open>Paths\<close>

text \<open>
  \<open>filepath.Clean\<close> on Unix, element by element: \<open>out\<close> holds the elements kept so far, the last one
  first.
\<close>

fun clean_parts :: "bool \<Rightarrow> string list \<Rightarrow> string list \<Rightarrow> string list" where
  "clean_parts rooted out [] = rev out"
| "clean_parts rooted out (c # cs) =
     (if c = [] \<or> c = ''.'' then clean_parts rooted out cs
      else if c = ''..'' then
        (case out of
           [] \<Rightarrow> clean_parts rooted (if rooted then [] else [c]) cs
         | d # ds \<Rightarrow> clean_parts rooted (if d = ''..'' then c # out else ds) cs)
      else clean_parts rooted (c # out) cs)"

definition Clean :: "string \<Rightarrow> string" where
  "Clean path =
     (if path = [] then ''.''
      else
        let rooted = (hd path = CHR ''/'');
            p = join ''/'' (clean_parts rooted [] (split_on (CHR ''/'') path))
        in if rooted then CHR ''/'' # p else if p = [] then ''.'' else p)"

text \<open>\<open>filepath.Join\<close>: leading empty elements are ignored.\<close>

definition Join :: "string list \<Rightarrow> string" where
  "Join elem =
     (let es = dropWhile (\<lambda>e. e = []) elem
      in if es = [] then [] else Clean (join ''/'' es))"

text \<open>A path element that \<open>Clean\<close> keeps.\<close>

definition plain_elem :: "string \<Rightarrow> bool" where
  "plain_elem c \<longleftrightarrow> c \<noteq> [] \<and> c \<noteq> ''.'' \<and> c \<noteq> ''..'' \<and> CHR ''/'' \<notin> set c"

lemma clean_parts_snoc:
  "plain_elem c \<Longrightarrow> clean_parts rooted out (cs @ [c]) = clean_parts rooted out cs @ [c]"
  by (induction rooted out cs rule: clean_parts.induct) (auto simp: plain_elem_def split: list.splits)

lemma split_on_snoc:
  "c \<notin> set b \<Longrightarrow> split_on c (a @ c # b) = split_on c a @ [b]"
  by (induction a) (auto simp: split_on_none split: list.splits)

lemma join_snoc: "join sep (xs @ [x]) = (if xs = [] then x else join sep xs @ sep @ x)"
  by (induction sep xs rule: join.induct) auto

lemma Join_plain:
  assumes "d \<noteq> []" and "plain_elem c"
  shows "\<exists>p. Join [d, c] = p @ c \<and> (p = [] \<or> last p = CHR ''/'')"
proof -
  let ?r = "hd d = CHR ''/''"
  let ?ps = "clean_parts ?r [] (split_on (CHR ''/'') d)"
  have c: "c \<noteq> []" "CHR ''/'' \<notin> set c" using assms(2) by (auto simp: plain_elem_def)
  have "Join [d, c] = Clean (d @ ''/'' @ c)" using assms(1) by (simp add: Join_def)
  also have "\<dots> = (if ?r then ''/'' else []) @ join ''/'' (?ps @ [c])"
    using assms c by (simp add: Clean_def Let_def split_on_snoc clean_parts_snoc join_snoc)
  also have "\<dots> = ((if ?r then ''/'' else []) @ (if ?ps = [] then [] else join ''/'' ?ps @ ''/'')) @ c"
    by (simp add: join_snoc)
  finally show ?thesis by (intro exI conjI) (assumption, auto)
qed

text \<open>Two plain names in one directory are two files.\<close>

lemma Join_neq:
  assumes "d \<noteq> []" and "plain_elem c" and "plain_elem c'" and "c \<noteq> c'"
  shows "Join [d, c] \<noteq> Join [d, c']"
proof
  assume eq: "Join [d, c] = Join [d, c']"
  obtain p where p: "Join [d, c] = p @ c" "p = [] \<or> last p = CHR ''/''"
    using Join_plain [OF assms(1,2)] by blast
  obtain q where q: "Join [d, c'] = q @ c'" "q = [] \<or> last q = CHR ''/''"
    using Join_plain [OF assms(1,3)] by blast
  have free: "CHR ''/'' \<notin> set c" "CHR ''/'' \<notin> set c'" using assms by (auto simp: plain_elem_def)
  have tails: "takeWhile (\<lambda>x. x \<noteq> CHR ''/'') (rev (r @ e)) = rev e"
    if "r = [] \<or> last r = CHR ''/''" "CHR ''/'' \<notin> set e" for r e
    using that by (cases r rule: rev_cases) (auto simp: takeWhile_append takeWhile_eq_all_conv)
  have "rev c = rev c'" using tails [OF p(2) free(1)] tails [OF q(2) free(2)] eq p(1) q(1) by metis
  with assms(4) show False by simp
qed

text \<open>\<open>filepath.Base\<close>.\<close>

definition Base :: "string \<Rightarrow> string" where
  "Base path =
     (if path = [] then ''.''
      else
        let p = rev (dropWhile (\<lambda>x. x = CHR ''/'') (rev path));
            b = last (split_on (CHR ''/'') p)
        in if b = [] then ''/'' else b)"

section \<open>Files and requests\<close>

record request =
  rq_method :: string
  rq_url :: string
  rq_headers :: "(string \<times> string) list"

text \<open>A response: the status and what reading its body to the end gives.\<close>

record response =
  rs_status :: int
  rs_body :: "go_error + byte list"

record world =
  w_files :: "string \<rightharpoonup> byte list"
  w_requests :: "request list"

text \<open>
  \<open>e_write path data\<close> is \<open>None\<close> when the write succeeds and otherwise the error and what the failed
  write leaves at \<open>path\<close> (\<open>os.WriteFile\<close> truncates before it writes).  \<open>e_do\<close> may depend on the
  requests already sent.
\<close>

record env =
  e_mkdir :: "string \<Rightarrow> go_error option"
  e_write :: "string \<Rightarrow> byte list \<Rightarrow> (go_error \<times> byte list option) option"
  e_newRequest :: "string \<Rightarrow> string \<Rightarrow> go_error option"
  e_do :: "request list \<Rightarrow> request \<Rightarrow> go_error + response"

definition os_ReadFile :: "world \<Rightarrow> string \<Rightarrow> go_error + byte list" where
  "os_ReadFile w path =
     (case w_files w path of
        None \<Rightarrow> Inl (Errorf ''open %s: no such file or directory'' [FStr path])
      | Some data \<Rightarrow> Inr data)"

definition os_WriteFile :: "env \<Rightarrow> world \<Rightarrow> string \<Rightarrow> byte list \<Rightarrow> (go_error + unit) \<times> world" where
  "os_WriteFile e w path data =
     (case e_write e path data of
        None \<Rightarrow> (Inr (), w\<lparr>w_files := (w_files w)(path \<mapsto> data)\<rparr>)
      | Some (err, left) \<Rightarrow> (Inl err, w\<lparr>w_files := (w_files w)(path := left)\<rparr>))"

definition os_MkdirAll :: "env \<Rightarrow> string \<Rightarrow> go_error + unit" where
  "os_MkdirAll e path = (case e_mkdir e path of None \<Rightarrow> Inr () | Some err \<Rightarrow> Inl err)"

text \<open>\<open>http.NewRequestWithContext\<close> without a body, and \<open>Client.Do\<close>.\<close>

definition http_NewRequest :: "env \<Rightarrow> string \<Rightarrow> string \<Rightarrow> go_error + request" where
  "http_NewRequest e method url =
     (case e_newRequest e method url of
        None \<Rightarrow> Inr \<lparr>rq_method = method, rq_url = url, rq_headers = []\<rparr>
      | Some err \<Rightarrow> Inl err)"

definition header_set :: "string \<Rightarrow> string \<Rightarrow> request \<Rightarrow> request" where
  "header_set k v req = req\<lparr>rq_headers := filter (\<lambda>(k', _). k' \<noteq> k) (rq_headers req) @ [(k, v)]\<rparr>"

definition http_Do :: "env \<Rightarrow> world \<Rightarrow> request \<Rightarrow> (go_error + response) \<times> world" where
  "http_Do e w req = (e_do e (w_requests w) req, w\<lparr>w_requests := w_requests w @ [req]\<rparr>)"

text \<open>
  The error idiom over a threaded world: \<open>sbind\<close> is \<open>x, err := m; if err != nil { return err }\<close>.
\<close>

definition sbind ::
  "('e + 'a) \<times> 'w \<Rightarrow> ('a \<Rightarrow> 'w \<Rightarrow> ('e + 'b) \<times> 'w) \<Rightarrow> ('e + 'b) \<times> 'w" where
  "sbind m f = (case m of (Inl e, w) \<Rightarrow> (Inl e, w) | (Inr x, w) \<Rightarrow> f x w)"

definition swrap :: "('e \<Rightarrow> 'f) \<Rightarrow> ('e + 'a) \<times> 'w \<Rightarrow> ('f + 'a) \<times> 'w" where
  "swrap g m = (wrap_error g (fst m), snd m)"

lemma sbind_simps [simp]:
  "sbind (Inl e, w) f = (Inl e, w)" "sbind (Inr x, w) f = f x w"
  by (simp_all add: sbind_def)

lemma sbind_eq_Inr [result_simps]:
  "sbind m f = (Inr y, w') \<longleftrightarrow> (\<exists>x w. m = (Inr x, w) \<and> f x w = (Inr y, w'))"
  by (cases m; cases "fst m") auto

lemma swrap_simps [simp]: "swrap g (r, w) = (wrap_error g r, w)"
  by (simp add: swrap_def)

lemma swrap_eq_Inr [simp]: "swrap g m = (Inr x, w) \<longleftrightarrow> m = (Inr x, w)"
  by (cases m) auto

lemma os_WriteFile_ok:
  "os_WriteFile e w path data = (Inr u, w') \<longleftrightarrow>
     e_write e path data = None \<and> w' = w\<lparr>w_files := (w_files w)(path \<mapsto> data)\<rparr>"
  by (auto simp: os_WriteFile_def split: option.splits)

lemma os_ReadFile_ok: "os_ReadFile w path = Inr data \<longleftrightarrow> w_files w path = Some data"
  by (auto simp: os_ReadFile_def split: option.splits)

section \<open>Hexadecimal\<close>

text \<open>\<open>hex.EncodeToString\<close>, and \<open>strings.EqualFold\<close> as far as it meets ASCII strings (a
  hexadecimal digit folds only to its other case).\<close>

definition hex_digit :: "nat \<Rightarrow> char" where
  "hex_digit d = (if d < 10 then char_of (48 + d) else char_of (87 + d))"

definition hex_EncodeToString :: "byte list \<Rightarrow> string" where
  "hex_EncodeToString bs = concat (map (\<lambda>b. [hex_digit (unat b div 16), hex_digit (unat b mod 16)]) bs)"

definition ascii_lower :: "char \<Rightarrow> char" where
  "ascii_lower c = (let n = of_char c :: nat in if 65 \<le> n \<and> n \<le> 90 then char_of (n + 32) else c)"

definition EqualFold :: "string \<Rightarrow> string \<Rightarrow> bool" where
  "EqualFold s t \<longleftrightarrow> map ascii_lower s = map ascii_lower t"

lemma EqualFold_refl [simp]: "EqualFold s s"
  by (simp add: EqualFold_def)

lemma of_char_hex_digit: "d < 16 \<Longrightarrow> (of_char (hex_digit d) :: nat) = (if d < 10 then 48 + d else 87 + d)"
  by (simp add: hex_digit_def)

lemma hex_digit_inj: "a < 16 \<Longrightarrow> b < 16 \<Longrightarrow> hex_digit a = hex_digit b \<longleftrightarrow> a = b"
proof -
  assume "a < 16" and "b < 16"
  then have "(if a < 10 then 48 + a else 87 + a) = (if b < 10 then 48 + b else 87 + b)"
    if "hex_digit a = hex_digit b"
    using that by (metis of_char_hex_digit)
  then show ?thesis by (auto split: if_splits)
qed

lemma ascii_lower_hex_digit: "d < 16 \<Longrightarrow> ascii_lower (hex_digit d) = hex_digit d"
proof -
  assume d: "d < 16"
  have "\<not> (65 \<le> (of_char (hex_digit d) :: nat) \<and> (of_char (hex_digit d) :: nat) \<le> 90)"
    unfolding of_char_hex_digit [OF d] by simp
  then show ?thesis unfolding ascii_lower_def Let_def by (simp only: if_False)
qed

lemma nibble_less [simp]: "unat (b :: byte) div 16 < 16"
  using unat_byte_less [of b] by (intro less_mult_imp_div_less) (simp del: unat_byte_less)

lemma hex_lower: "map ascii_lower (hex_EncodeToString bs) = hex_EncodeToString bs"
  by (induction bs) (simp_all add: hex_EncodeToString_def ascii_lower_hex_digit)

lemma hex_inj: "hex_EncodeToString as = hex_EncodeToString bs \<longleftrightarrow> as = bs"
proof (induction as arbitrary: bs)
  case Nil
  then show ?case by (cases bs) (auto simp: hex_EncodeToString_def)
next
  case (Cons a as)
  show ?case
  proof (cases bs)
    case Nil
    then show ?thesis by (simp add: hex_EncodeToString_def)
  next
    case (Cons b bs')
    have "unat a div 16 = unat b div 16 \<and> unat a mod 16 = unat b mod 16 \<longleftrightarrow> a = b"
      by (metis div_mult_mod_eq word_unat_eq_iff)
    with Cons Cons.IH [of bs'] show ?thesis
      by (auto simp: hex_EncodeToString_def hex_digit_inj)
  qed
qed

text \<open>Up to case, a hexadecimal rendering determines the bytes.\<close>

lemma EqualFold_hex: "EqualFold (hex_EncodeToString as) (hex_EncodeToString bs) \<longleftrightarrow> as = bs"
  by (simp add: EqualFold_def hex_lower hex_inj)

end
