(* ===== verification/Hexindex.thy ===== *)
theory Hexindex
  imports Hexsemver Go_Os
begin

text \<open>
  The Hex.pm client of \<open>hexindex/hexindex.go\<close>: package metadata, version resolution, the download
  and cache of release tarballs, and the tar reader that extracts \<open>contents.tar.gz\<close>.
  \<open>encoding/json\<close> (\<open>decode\<close>, which reads the body's stream) and the hash functions (\<open>sha256\<close>, \<open>sha512\<close>) are arguments of
  the operations that call them; the file system and the network are the \<open>world\<close> and \<open>env\<close> of
  \<open>Go_Os\<close>.  Requests carry the HTTP client's timeout in no other way than that they
  may fail.
\<close>

section \<open>Metadata\<close>

record ReleaseRequirement =
  rr_Requirement :: string
  rr_Optional :: bool
  rr_App :: string
  rr_Repository :: string

text \<open>\<open>RetiredAt\<close> is a pointer to a time; the instant itself is never read.\<close>

record Release =
  rel_Version :: string
  rel_OuterChecksum :: string
  rel_Requirements :: "string \<rightharpoonup> ReleaseRequirement"
  rel_RetiredAt :: "int option"

record PackageMeta =
  pm_Name :: string
  pm_Releases :: "Release list"

record DownloadResult =
  dr_OuterPath :: string
  dr_InnerPath :: string
  dr_OuterSHA256 :: string
  dr_InnerSHA256 :: string
  dr_InnerSHA512 :: string

record Client =
  cl_BaseURL :: string
  cl_CacheDir :: string
  cl_NoCache :: bool

definition defaultBaseURL :: string where
  "defaultBaseURL = ''https://hex.pm/api''"

definition NewClient :: "string \<Rightarrow> Client" where
  "NewClient cacheDir = \<lparr>cl_BaseURL = defaultBaseURL, cl_CacheDir = cacheDir, cl_NoCache = False\<rparr>"

definition GetPackage ::
  "env \<Rightarrow> (go_error + byte list \<Rightarrow> go_error + PackageMeta) \<Rightarrow> Client \<Rightarrow> string \<Rightarrow> world \<Rightarrow>
   (go_error + PackageMeta) \<times> world" where
  "GetPackage e decode c name w =
     (let url = cl_BaseURL c @ ''/packages/'' @ name in
      sbind (swrap (\<lambda>err. Errorf ''hexindex: build request: %w'' [FErr err])
               (http_NewRequest e ''GET'' url, w)) (\<lambda>req w.
      let req = header_set ''User-Agent'' ''mochi-erlang-bridge/0.1''
                  (header_set ''Accept'' ''application/json'' req) in
      sbind (swrap (\<lambda>err. Errorf ''hexindex: GET %s: %w'' [FStr url, FErr err])
               (http_Do e w req)) (\<lambda>resp w.
      if rs_status resp = 404
      then (Inl (Errorf ''hexindex: package %q not found on Hex.pm'' [FStr name]), w)
      else if rs_status resp \<noteq> 200
      then (Inl (Errorf ''hexindex: GET %s: HTTP %d'' [FStr url, FInt (rs_status resp)]), w)
      else swrap (\<lambda>err. Errorf ''hexindex: decode package meta for %q: %w'' [FStr name, FErr err])
             (decode (rs_body resp), w))))"

definition active_step :: "Release \<Rightarrow> Version list" where
  "active_step r =
     (if rel_RetiredAt r \<noteq> None then []
      else case ParseVersion (rel_Version r) of Inl _ \<Rightarrow> [] | Inr v \<Rightarrow> [v])"

definition ActiveVersions :: "PackageMeta \<Rightarrow> Version list" where
  "ActiveVersions meta = concat (map active_step (pm_Releases meta))"

definition ResolveVersion :: "PackageMeta \<Rightarrow> string \<Rightarrow> go_error + Version" where
  "ResolveVersion meta requirement =
     rbind (wrap_error (\<lambda>e. Errorf ''hexindex: parse requirement %q: %w'' [FStr requirement, FErr e])
              (ParseRequirements requirement)) (\<lambda>reqs.
     case BestMatch reqs (ActiveVersions meta) of
       None \<Rightarrow> Inl (Errorf ''hexindex: no version of %q satisfies %q'' [FStr (pm_Name meta), FStr requirement])
     | Some best \<Rightarrow> Inr best)"

section \<open>The tar reader\<close>

record tarReader =
  tr_data :: "byte list"
  tr_pos :: nat

definition newTarReader :: "byte list \<Rightarrow> tarReader" where
  "newTarReader data = \<lparr>tr_data = data, tr_pos = 0\<rparr>"

datatype tar_next = TarEOF | TarFail go_error | TarMember string "byte list"

definition slice :: "nat \<Rightarrow> nat \<Rightarrow> 'a list \<Rightarrow> 'a list" where
  "slice a b xs = take (b - a) (drop a xs)"

definition TrimRight :: "char set \<Rightarrow> string \<Rightarrow> string" where
  "TrimRight cutset s = rev (dropWhile (\<lambda>c. c \<in> cutset) (rev s))"

text \<open>The loop over the size field; twelve octal digits stay below \<open>2 ^ 36\<close>, so the
  \<open>int64\<close> never wraps.\<close>

fun octal_prefix :: "nat \<Rightarrow> string \<Rightarrow> nat" where
  "octal_prefix acc [] = acc"
| "octal_prefix acc (ch # cs) =
     (if (of_char ch :: nat) < 48 \<or> 55 < (of_char ch :: nat) then acc
      else octal_prefix (acc * 8 + (of_char ch - 48)) cs)"

definition tarReader_Next :: "tarReader \<Rightarrow> tar_next \<times> tarReader" where
  "tarReader_Next r =
     (if length (tr_data r) < tr_pos r + 512 then (TarEOF, r)
      else
        let hdr = slice (tr_pos r) (tr_pos r + 512) (tr_data r);
            r = r\<lparr>tr_pos := tr_pos r + 512\<rparr>
        in if list_all (\<lambda>b. b = 0) hdr then (TarEOF, r)
           else
             let name = TrimRight {CHR 0x00} (string_of_bytes (slice 0 100 hdr))
             in if name = [] then (TarEOF, r)
                else
                  let sizeStr = TrimRight {CHR 0x00, CHR '' ''} (string_of_bytes (slice 124 136 hdr));
                      sz = octal_prefix 0 sizeStr;
                      blocks = (sz + 511) div 512;
                      fin = tr_pos r + blocks * 512
                  in if length (tr_data r) < fin
                     then (TarFail (Errorf ''tar: file %q size %d exceeds archive length''
                                      [FStr name, FInt (int sz)]), r)
                     else (TarMember name (slice (tr_pos r) (tr_pos r + sz) (tr_data r)),
                           r\<lparr>tr_pos := fin\<rparr>))"

lemma tarReader_Next_advances:
  assumes "tarReader_Next r = (TarMember n d, r')"
  shows "tr_data r' = tr_data r" and "tr_pos r + 512 \<le> tr_pos r'" and "tr_pos r' \<le> length (tr_data r)"
    and "length d + 512 \<le> tr_pos r' - tr_pos r"
  using assms by (auto simp: tarReader_Next_def Let_def slice_def split: if_splits)

function extract_loop :: "tarReader \<Rightarrow> go_error + byte list" where
  "extract_loop r =
     (case tarReader_Next r of
        (TarEOF, r') \<Rightarrow> Inl (Errorf ''contents.tar.gz not found in Hex.pm outer tarball'' [])
      | (TarFail err, r') \<Rightarrow> Inl (Errorf ''tar read: %w'' [FErr err])
      | (TarMember name data, r') \<Rightarrow>
          if name = ''contents.tar.gz'' then Inr data else extract_loop r')"
  by pat_completeness auto
termination
proof (relation "measure (\<lambda>r. length (tr_data r) - tr_pos r)", goal_cases)
  case (2 r x r' n d)
  then have "tarReader_Next r = (TarMember n d, r')" by simp
  from tarReader_Next_advances [OF this] show ?case by simp
qed simp

declare extract_loop.simps [simp del]

definition extractInner :: "byte list \<Rightarrow> go_error + byte list" where
  "extractInner tarBytes = extract_loop (newTarReader tarBytes)"

section \<open>Download and cache\<close>

definition loadCached ::
  "(byte list \<Rightarrow> byte list) \<Rightarrow> (byte list \<Rightarrow> byte list) \<Rightarrow> world \<Rightarrow> string \<Rightarrow> string \<Rightarrow>
   go_error + DownloadResult" where
  "loadCached sha256 sha512 w outerPath innerPath =
     rbind (os_ReadFile w outerPath) (\<lambda>outer.
     rbind (os_ReadFile w innerPath) (\<lambda>inner.
     Inr \<lparr>dr_OuterPath = outerPath, dr_InnerPath = innerPath,
          dr_OuterSHA256 = hex_EncodeToString (sha256 outer),
          dr_InnerSHA256 = hex_EncodeToString (sha256 inner),
          dr_InnerSHA512 = hex_EncodeToString (sha512 inner)\<rparr>))"

text \<open>The part of \<open>DownloadTarball\<close> after the cache lookup.\<close>

definition fetch_tarball ::
  "env \<Rightarrow> (byte list \<Rightarrow> byte list) \<Rightarrow> (byte list \<Rightarrow> byte list) \<Rightarrow> Client \<Rightarrow> string \<Rightarrow> string \<Rightarrow>
   string \<Rightarrow> string \<Rightarrow> string \<Rightarrow> world \<Rightarrow> (go_error + DownloadResult) \<times> world" where
  "fetch_tarball e sha256 sha512 c name version cacheDir outerPath innerPath w =
     (let url = cl_BaseURL c @ ''/tarballs/'' @ name @ ''-'' @ version @ ''.tar'' in
      sbind (swrap (\<lambda>err. Errorf ''hexindex: build tarball request: %w'' [FErr err])
               (http_NewRequest e ''GET'' url, w)) (\<lambda>req w.
      let req = header_set ''User-Agent'' ''mochi-erlang-bridge/0.1'' req in
      sbind (swrap (\<lambda>err. Errorf ''hexindex: GET %s: %w'' [FStr url, FErr err])
               (http_Do e w req)) (\<lambda>resp w.
      if rs_status resp \<noteq> 200
      then (Inl (Errorf ''hexindex: tarball GET %s: HTTP %d'' [FStr url, FInt (rs_status resp)]), w)
      else
      sbind (swrap (\<lambda>err. Errorf ''hexindex: read tarball body: %w'' [FErr err]) (rs_body resp, w)) (\<lambda>body w.
      sbind (swrap (\<lambda>err. Errorf ''hexindex: extract contents.tar.gz from %s-%s: %w''
                            [FStr name, FStr version, FErr err]) (extractInner body, w)) (\<lambda>inner w.
      sbind (swrap (\<lambda>err. Errorf ''hexindex: create cache dir: %w'' [FErr err])
               (os_MkdirAll e cacheDir, w)) (\<lambda>_ w.
      sbind (swrap (\<lambda>err. Errorf ''hexindex: write outer.tar: %w'' [FErr err])
               (os_WriteFile e w outerPath body)) (\<lambda>_ w.
      sbind (swrap (\<lambda>err. Errorf ''hexindex: write inner.tar.gz: %w'' [FErr err])
               (os_WriteFile e w innerPath inner)) (\<lambda>_ w.
      (Inr \<lparr>dr_OuterPath = outerPath, dr_InnerPath = innerPath,
            dr_OuterSHA256 = hex_EncodeToString (sha256 body),
            dr_InnerSHA256 = hex_EncodeToString (sha256 inner),
            dr_InnerSHA512 = hex_EncodeToString (sha512 inner)\<rparr>, w)))))))))"

definition DownloadTarball ::
  "env \<Rightarrow> (byte list \<Rightarrow> byte list) \<Rightarrow> (byte list \<Rightarrow> byte list) \<Rightarrow> Client \<Rightarrow> string \<Rightarrow> string \<Rightarrow> world \<Rightarrow>
   (go_error + DownloadResult) \<times> world" where
  "DownloadTarball e sha256 sha512 c name version w =
     (let cacheDir = Join [cl_CacheDir c, name, version];
          outerPath = Join [cacheDir, ''outer.tar''];
          innerPath = Join [cacheDir, ''inner.tar.gz''];
          fresh = fetch_tarball e sha256 sha512 c name version cacheDir outerPath innerPath w
      in if \<not> cl_NoCache c
         then (case loadCached sha256 sha512 w outerPath innerPath of
                 Inr res \<Rightarrow> (Inr res, w)
               | Inl _ \<Rightarrow> fresh)
         else fresh)"

definition check_file ::
  "(byte list \<Rightarrow> byte list) \<Rightarrow> world \<Rightarrow> string \<Rightarrow> string \<Rightarrow> string \<Rightarrow> string \<Rightarrow> go_error + unit" where
  "check_file sha256 w readMsg mismatchMsg path want =
     (if want \<noteq> [] then
        rbind (wrap_error (\<lambda>err. Errorf readMsg [FErr err]) (os_ReadFile w path)) (\<lambda>data.
        let got = hex_EncodeToString (sha256 data) in
        if \<not> EqualFold got want then Inl (Errorf mismatchMsg [FStr got, FStr want]) else Inr ())
      else Inr ())"

definition VerifyChecksum ::
  "(byte list \<Rightarrow> byte list) \<Rightarrow> world \<Rightarrow> DownloadResult \<Rightarrow> string \<Rightarrow> string \<Rightarrow> go_error + unit" where
  "VerifyChecksum sha256 w res wantOuterSHA256 wantInnerSHA256 =
     rbind (check_file sha256 w ''hexindex: read outer.tar: %w''
              ''hexindex: outer SHA-256 mismatch: got %s, want %s'' (dr_OuterPath res) wantOuterSHA256) (\<lambda>_.
     check_file sha256 w ''hexindex: read inner.tar.gz: %w''
              ''hexindex: inner SHA-256 mismatch: got %s, want %s'' (dr_InnerPath res) wantInnerSHA256)"

section \<open>Resolution\<close>

lemma set_ActiveVersions:
  "v \<in> set (ActiveVersions meta) \<longleftrightarrow>
     (\<exists>r \<in> set (pm_Releases meta). rel_RetiredAt r = None \<and> ParseVersion (rel_Version r) = Inr v)"
proof -
  have "v \<in> set (active_step r) \<longleftrightarrow> rel_RetiredAt r = None \<and> ParseVersion (rel_Version r) = Inr v" for r
    by (auto simp: active_step_def split: sum.splits)
  then show ?thesis by (simp add: ActiveVersions_def)
qed

text \<open>The releases a requirement list admits.\<close>

definition admits :: "PackageMeta \<Rightarrow> Constraint list \<Rightarrow> Version \<Rightarrow> bool" where
  "admits meta reqs v \<longleftrightarrow>
     (\<exists>r \<in> set (pm_Releases meta). rel_RetiredAt r = None \<and> ParseVersion (rel_Version r) = Inr v) \<and>
     (\<forall>c \<in> set reqs. Constraint_Matches c v)"

lemma Satisfies_all: "Satisfies reqs v \<longleftrightarrow> (\<forall>c \<in> set reqs. Constraint_Matches c v)"
  by (induction reqs) auto

lemma admits_iff: "admits meta reqs v \<longleftrightarrow> v \<in> set (ActiveVersions meta) \<and> Satisfies reqs v"
  by (simp add: admits_def set_ActiveVersions Satisfies_all)

lemma BestMatch_eq_Some:
  "BestMatch reqs vs = Some b \<longleftrightarrow>
     b \<in> set vs \<and> Satisfies reqs b \<and> (\<forall>v \<in> set vs. Satisfies reqs v \<longrightarrow> Version_Compare v b \<le> 0)"
  (is "?l \<longleftrightarrow> ?r")
proof
  assume ?l
  then show ?r using version_cmp.pick_fold [of "Satisfies reqs" None vs b] by (simp add: BestMatch_pick)
next
  assume r: ?r
  then have "BestMatch reqs vs \<noteq> None"
    using version_cmp.pick_fold_None [of "Satisfies reqs" None vs] by (auto simp: BestMatch_pick)
  then obtain b' where b': "BestMatch reqs vs = Some b'" by blast
  then have "b' \<in> set vs" "Satisfies reqs b'" "Version_Compare b b' \<le> 0"
    using version_cmp.pick_fold [of "Satisfies reqs" None vs b'] r by (auto simp: BestMatch_pick)
  then have "Version_Compare b b' = 0" using r version_cmp.cmp_swap [of b b'] by force
  then show ?l using b' by (simp add: version_cmp.cmp_eq)
qed

text \<open>
  C25: \<open>ResolveVersion\<close> returns a version exactly when the requirement parses and that version is the
  greatest one among the releases that are not retired, have a well-formed version and
  satisfy every constraint of the requirement.
\<close>

theorem resolve_returns_latest_admitted:
  "ResolveVersion meta requirement = Inr v \<longleftrightarrow>
     (\<exists>reqs. ParseRequirements requirement = Inr reqs \<and> admits meta reqs v \<and>
        (\<forall>v'. admits meta reqs v' \<longrightarrow> Version_Compare v' v \<le> 0))"
proof -
  have "BestMatch reqs (ActiveVersions meta) = Some v \<longleftrightarrow>
      admits meta reqs v \<and> (\<forall>v'. admits meta reqs v' \<longrightarrow> Version_Compare v' v \<le> 0)" for reqs
    unfolding admits_iff by (auto simp: BestMatch_eq_Some)
  moreover have "ResolveVersion meta requirement = Inr v \<longleftrightarrow>
      (\<exists>reqs. ParseRequirements requirement = Inr reqs \<and> BestMatch reqs (ActiveVersions meta) = Some v)"
    by (cases "ParseRequirements requirement") (auto simp: ResolveVersion_def split: option.splits)
  ultimately show ?thesis by simp
qed

theorem resolve_returns_latest_admitted_witness:
  "ResolveVersion \<lparr>pm_Name = ''cowboy'', pm_Releases =
      [\<lparr>rel_Version = ''2.1.0'', rel_OuterChecksum = [], rel_Requirements = Map.empty, rel_RetiredAt = Some 7\<rparr>,
       \<lparr>rel_Version = ''2.0.3'', rel_OuterChecksum = [], rel_Requirements = Map.empty, rel_RetiredAt = None\<rparr>]\<rparr>
     [] = Inr \<lparr>v_Major = 2, v_Minor = 0, v_Patch = 3, v_Pre = []\<rparr>"
  (is "ResolveVersion ?m [] = Inr ?v")
proof -
  have t: "TrimSpace ''2.0.3'' = ''2.0.3''" "TrimSpace [] = []"
    by (rule TrimSpace_id, rule trimmed_ends; simp add: solid_def)
      (auto simp: TrimSpace_def trim_with_id dest: space_runes_nonempty)
  have p: "ParseVersion ''2.0.3'' = Inr ?v"
    by (simp add: ParseVersion_def t Atoi_def Atoi_core_def is_digit_def digit_val_def)
  have r: "ParseRequirements [] = Inr []" by (simp add: ParseRequirements_def t)
  have a: "admits ?m [] w \<longleftrightarrow> w = ?v" for w by (auto simp: admits_def p)
  show ?thesis
    using resolve_returns_latest_admitted [of ?m "[]" ?v] by (simp add: r a)
qed

section \<open>Archives\<close>

text \<open>
  What a tar writer produces: a header of 512 bytes with the name, some fields the reader skips, the size in
  octal and the rest, then the contents padded to whole blocks.
\<close>

record member =
  m_name :: string
  m_mode :: "byte list"     \<comment> \<open>24 bytes between the name and the size\<close>
  m_tail :: "byte list"     \<comment> \<open>376 bytes after the size\<close>
  m_data :: "byte list"

fun octal_field :: "nat \<Rightarrow> nat \<Rightarrow> string" where
  "octal_field 0 n = []"
| "octal_field (Suc k) n = octal_field k (n div 8) @ [digit_char (n mod 8)]"

definition tar_header :: "member \<Rightarrow> byte list" where
  "tar_header m =
     bytes_of_string (m_name m) @ replicate (100 - length (m_name m)) 0 @ m_mode m @
     bytes_of_string (octal_field 11 (length (m_data m))) @ [0] @ m_tail m"

definition tar_padding :: "nat \<Rightarrow> byte list" where
  "tar_padding n = replicate ((n + 511) div 512 * 512 - n) 0"

definition tar_member :: "member \<Rightarrow> byte list" where
  "tar_member m = tar_header m @ m_data m @ tar_padding (length (m_data m))"

definition wf_member :: "member \<Rightarrow> bool" where
  "wf_member m \<longleftrightarrow>
     m_name m \<noteq> [] \<and> length (m_name m) \<le> 100 \<and> last (m_name m) \<noteq> CHR 0x00 \<and>
     length (m_mode m) = 24 \<and> length (m_tail m) = 376 \<and> length (m_data m) < 8 ^ 11"

lemma octal_field_props:
  "length (octal_field k n) = k"
  "octal_prefix acc (octal_field k n @ rest) = octal_prefix (acc * 8 ^ k + n mod 8 ^ k) rest"
  "c \<in> set (octal_field k n) \<Longrightarrow> 48 \<le> (of_char c :: nat) \<and> (of_char c :: nat) \<le> 55"
proof -
  show "length (octal_field k n) = k" by (induction k arbitrary: n) auto
  have d: "(of_char (digit_char (n mod 8)) :: nat) = 48 + n mod 8" for n
    by (rule of_char_digit_char) (use mod_less_divisor [of 8 n] in linarith)
  show "c \<in> set (octal_field k n) \<Longrightarrow> 48 \<le> (of_char c :: nat) \<and> (of_char c :: nat) \<le> 55"
  proof (induction k arbitrary: n)
    case (Suc k)
    then show ?case using d [of n] mod_less_divisor [of 8 n] by auto
  qed simp
  show "octal_prefix acc (octal_field k n @ rest) = octal_prefix (acc * 8 ^ k + n mod 8 ^ k) rest"
  proof (induction k arbitrary: n acc rest)
    case (Suc k)
    have "n mod 8 \<le> 7" by (simp add: less_Suc_eq_le [symmetric])
    then have "octal_prefix acc (octal_field (Suc k) n @ rest) =
        octal_prefix ((acc * 8 ^ k + n div 8 mod 8 ^ k) * 8 + n mod 8) rest"
      using d [of n] by (simp add: Suc.IH)
    also have "(acc * 8 ^ k + n div 8 mod 8 ^ k) * 8 + n mod 8 = acc * 8 ^ Suc k + n mod 8 ^ Suc k"
      by (simp add: mod_mult2_eq algebra_simps)
    finally show ?case .
  qed simp
qed

lemma TrimRight_zeros:
  assumes "s = [] \<or> last s \<notin> C" and "CHR 0x00 \<in> C"
  shows "TrimRight C (s @ replicate k (CHR 0x00)) = s"
proof -
  have "dropWhile (\<lambda>c. c \<in> C) (replicate k (CHR 0x00) @ rev s) = rev s"
    using assms by (induction k) (auto simp: hd_rev dropWhile_eq_self_iff)
  then show ?thesis by (simp add: TrimRight_def)
qed

lemma char_of_byte_0 [simp]: "char_of_byte 0 = CHR 0x00"
  by (simp add: char_of_byte_def char_of_def)

lemma slice_append:
  "length a = i \<Longrightarrow> j = i + length b \<Longrightarrow> slice i j (a @ b @ c) = b"
  by (simp add: slice_def)

lemma tar_header_slices:
  assumes "wf_member m"
  shows "length (tar_header m) = 512"
    and "TrimRight {CHR 0x00} (string_of_bytes (slice 0 100 (tar_header m))) = m_name m"
    and "octal_prefix 0 (TrimRight {CHR 0x00, CHR '' ''} (string_of_bytes (slice 124 136 (tar_header m)))) =
      length (m_data m)"
proof -
  let ?n = "bytes_of_string (m_name m) @ replicate (100 - length (m_name m)) 0"
  let ?o = "octal_field 11 (length (m_data m))"
  have z: "string_of_bytes (replicate k 0) = replicate k (CHR 0x00)" for k
    by (simp add: string_of_bytes_def)
  have app: "string_of_bytes (a @ b) = string_of_bytes a @ string_of_bytes b" for a b
    by (simp add: string_of_bytes_def)
  note wf = assms [unfolded wf_member_def]
  show "length (tar_header m) = 512"
    using wf by (simp add: tar_header_def octal_field_props(1))
  have "slice 0 100 ([] @ ?n @ m_mode m @ bytes_of_string ?o @ [0] @ m_tail m) = ?n"
    by (rule slice_append) (use wf in simp_all)
  then have "string_of_bytes (slice 0 100 (tar_header m)) =
      m_name m @ replicate (100 - length (m_name m)) (CHR 0x00)"
    by (simp add: tar_header_def app z)
  then show "TrimRight {CHR 0x00} (string_of_bytes (slice 0 100 (tar_header m))) = m_name m"
    using wf by (simp add: TrimRight_zeros)
  have "slice 124 136 ((?n @ m_mode m) @ (bytes_of_string ?o @ [0]) @ m_tail m) = bytes_of_string ?o @ [0]"
    by (rule slice_append) (use wf in \<open>simp_all add: octal_field_props(1)\<close>)
  then have s: "string_of_bytes (slice 124 136 (tar_header m)) = ?o @ replicate 1 (CHR 0x00)"
    using z [of 1] by (simp add: tar_header_def app)
  have "last ?o \<notin> {CHR 0x00, CHR '' ''}"
  proof -
    have "?o \<noteq> []" using octal_field_props(1) [of 11 "length (m_data m)"] by fastforce
    then show ?thesis using octal_field_props(3) [OF last_in_set] by fastforce
  qed
  then have "TrimRight {CHR 0x00, CHR '' ''} (string_of_bytes (slice 124 136 (tar_header m))) = ?o"
    unfolding s by (intro TrimRight_zeros) auto
  then show "octal_prefix 0 (TrimRight {CHR 0x00, CHR '' ''} (string_of_bytes (slice 124 136 (tar_header m)))) =
      length (m_data m)"
    using octal_field_props(2) [of 0 11 "length (m_data m)" "[]"] wf by simp
qed

lemma Next_tar_member:
  assumes "wf_member m"
  shows "tarReader_Next \<lparr>tr_data = pre @ tar_member m @ rest, tr_pos = length pre\<rparr> =
    (TarMember (m_name m) (m_data m),
     \<lparr>tr_data = pre @ tar_member m @ rest, tr_pos = length (pre @ tar_member m)\<rparr>)"
proof -
  let ?d = "pre @ tar_member m @ rest" and ?n = "length (m_data m)"
  note H = tar_header_slices [OF assms]
  have pad: "?n + length (tar_padding ?n) = (?n + 511) div 512 * 512"
    by (simp add: tar_padding_def)
  have hdr: "slice (length pre) (length pre + 512) ?d = tar_header m"
    using slice_append [of pre "length pre" "length pre + 512" "tar_header m"] H(1)
    by (simp add: tar_member_def)
  have data: "slice (length pre + 512) (length pre + 512 + ?n) ?d = m_data m"
    using slice_append [of "pre @ tar_header m" "length pre + 512" "length pre + 512 + ?n" "m_data m"] H(1)
    by (simp add: tar_member_def)
  have name: "m_name m \<noteq> []" using assms by (simp add: wf_member_def)
  have nz: "\<not> list_all (\<lambda>b. b = 0) (tar_header m)"
  proof
    assume "list_all (\<lambda>b. b = 0) (tar_header m)"
    then have "\<forall>c \<in> set (m_name m). byte_of_char c = 0"
      by (simp add: tar_header_def list_all_iff bytes_of_string_def)
    then have "char_of_byte (byte_of_char (last (m_name m))) = char_of_byte 0" using name by simp
    then show False using assms by (simp add: wf_member_def)
  qed
  have len: "length (tar_member m) = 512 + (?n + 511) div 512 * 512"
    using pad H(1) by (simp add: tar_member_def)
  show ?thesis
    by (simp add: tarReader_Next_def hdr nz H(2,3) name data Let_def len)
qed

lemma extract_loop_members:
  assumes "\<forall>m \<in> set ms. wf_member m \<and> m_name m \<noteq> ''contents.tar.gz''"
    and "wf_member c" and "m_name c = ''contents.tar.gz''"
  shows "extract_loop \<lparr>tr_data = pre @ concat (map tar_member ms) @ tar_member c @ rest,
    tr_pos = length pre\<rparr> = Inr (m_data c)"
  using assms(1)
proof (induction ms arbitrary: pre)
  case Nil
  then show ?case using assms(2,3) by (subst extract_loop.simps) (simp add: Next_tar_member)
next
  case (Cons m ms)
  from Cons.IH [of "pre @ tar_member m"] Cons.prems show ?case
    by (subst extract_loop.simps) (simp add: Next_tar_member)
qed

lemma extractInner_members:
  assumes "\<forall>m \<in> set ms. wf_member m \<and> m_name m \<noteq> ''contents.tar.gz''"
    and "wf_member c" and "m_name c = ''contents.tar.gz''"
  shows "extractInner (concat (map tar_member ms) @ tar_member c @ rest) = Inr (m_data c)"
  using extract_loop_members [OF assms, of "[]"] by (simp add: extractInner_def newTarReader_def)

text \<open>
  C26: from an archive of well-formed members, of which the first one named \<open>contents.tar.gz\<close> comes after any
  others, \<open>extractInner\<close> returns exactly the bytes that were archived under that name, whatever
  follows in the file.
\<close>

theorem extract_inner_roundtrip:
  assumes "\<forall>m \<in> set ms. wf_member m \<and> m_name m \<noteq> ''contents.tar.gz''"
    and "wf_member c" and "m_name c = ''contents.tar.gz''"
  shows "extractInner (concat (map tar_member ms) @ tar_member c @ rest) = Inr (m_data c)"
  using assms by (rule extractInner_members)

theorem extract_inner_roundtrip_witness:
  "\<exists>ms c. ms \<noteq> [] \<and> m_data c = [0x1F, 0x8B] \<and>
     extractInner (concat (map tar_member ms) @ tar_member c @ replicate 1024 0) = Inr [0x1F, 0x8B]"
proof -
  let ?m = "\<lparr>m_name = ''VERSION'', m_mode = replicate 24 0, m_tail = replicate 376 0, m_data = [0x33]\<rparr>"
  let ?c = "\<lparr>m_name = ''contents.tar.gz'', m_mode = replicate 24 0, m_tail = replicate 376 0,
    m_data = [0x1F, 0x8B]\<rparr>"
  have "extractInner (concat (map tar_member [?m]) @ tar_member ?c @ replicate 1024 0) = Inr (m_data ?c)"
    by (rule extract_inner_roundtrip) (simp_all add: wf_member_def)
  then show ?thesis by (intro exI [of _ "[?m]"] exI [of _ ?c]) simp
qed

section \<open>The cache\<close>

lemma Join_names_neq: "Join [d, ''outer.tar''] \<noteq> Join [d, ''inner.tar.gz'']"
proof (cases "d = []")
  case True
  then show ?thesis by (simp add: Join_def Clean_def Let_def)
next
  case False
  then show ?thesis by (intro Join_neq) (simp_all add: plain_elem_def)
qed

definition cached_as ::
  "(byte list \<Rightarrow> byte list) \<Rightarrow> (byte list \<Rightarrow> byte list) \<Rightarrow> world \<Rightarrow> DownloadResult \<Rightarrow> byte list \<Rightarrow> byte list \<Rightarrow> bool" where
  "cached_as sha256 sha512 w res outer inner \<longleftrightarrow>
     w_files w (dr_OuterPath res) = Some outer \<and> w_files w (dr_InnerPath res) = Some inner \<and>
     dr_OuterSHA256 res = hex_EncodeToString (sha256 outer) \<and>
     dr_InnerSHA256 res = hex_EncodeToString (sha256 inner) \<and>
     dr_InnerSHA512 res = hex_EncodeToString (sha512 inner)"

lemma loadCached_iff:
  "loadCached sha256 sha512 w op ip = Inr res \<longleftrightarrow>
     dr_OuterPath res = op \<and> dr_InnerPath res = ip \<and> (\<exists>outer inner. cached_as sha256 sha512 w res outer inner)"
proof -
  have "loadCached sha256 sha512 w op ip = Inr res \<longleftrightarrow>
      (\<exists>outer inner. w_files w op = Some outer \<and> w_files w ip = Some inner \<and>
        res = \<lparr>dr_OuterPath = op, dr_InnerPath = ip, dr_OuterSHA256 = hex_EncodeToString (sha256 outer),
          dr_InnerSHA256 = hex_EncodeToString (sha256 inner), dr_InnerSHA512 = hex_EncodeToString (sha512 inner)\<rparr>)"
    by (auto simp: loadCached_def result_simps os_ReadFile_ok)
  then show ?thesis by (cases res) (auto simp: cached_as_def)
qed

lemma fetch_tarball_ok:
  assumes "fetch_tarball e sha256 sha512 c name version dir op ip w = (Inr res, w')" and "op \<noteq> ip"
  shows "dr_OuterPath res = op \<and> dr_InnerPath res = ip \<and>
    (\<exists>outer inner. cached_as sha256 sha512 w' res outer inner \<and> extractInner outer = Inr inner)"
  using assms unfolding fetch_tarball_def Let_def
  by (auto simp: result_simps os_WriteFile_ok cached_as_def split: if_splits)

text \<open>
  C27: after a successful download the cache holds the outer and the inner archive with the digests
  the result reports; if a request was sent, the inner archive is the one extracted from the outer.
  Any later call for the same release that may use the cache returns the same result without a request
  and without touching the files, and verifying the result against its own digests succeeds.
\<close>

theorem download_fills_cache:
  assumes "DownloadTarball e sha256 sha512 c name version w = (Inr res, w')"
  shows "(\<exists>outer inner. cached_as sha256 sha512 w' res outer inner \<and>
        (w_requests w' \<noteq> w_requests w \<longrightarrow> extractInner outer = Inr inner)) \<and>
      DownloadTarball e' sha256 sha512 (c\<lparr>cl_NoCache := False\<rparr>) name version w' = (Inr res, w') \<and>
      VerifyChecksum sha256 w' res (dr_OuterSHA256 res) (dr_InnerSHA256 res) = Inr ()"
proof -
  let ?d = "Join [cl_CacheDir c, name, version]"
  let ?o = "Join [?d, ''outer.tar'']" and ?i = "Join [?d, ''inner.tar.gz'']"
  from assms consider
      (cached) "loadCached sha256 sha512 w ?o ?i = Inr res" "w' = w"
    | (fresh) "fetch_tarball e sha256 sha512 c name version ?d ?o ?i w = (Inr res, w')"
    by (auto simp: DownloadTarball_def Let_def split: if_splits sum.splits)
  then have paths: "dr_OuterPath res = ?o" "dr_InnerPath res = ?i"
    and files: "\<exists>outer inner. cached_as sha256 sha512 w' res outer inner \<and>
      (w_requests w' \<noteq> w_requests w \<longrightarrow> extractInner outer = Inr inner)"
    using fetch_tarball_ok [OF _ Join_names_neq] by (cases; auto simp: loadCached_iff; fastforce)+
  have "loadCached sha256 sha512 w' ?o ?i = Inr res"
    using paths files by (auto simp: loadCached_iff)
  then have "DownloadTarball e' sha256 sha512 (c\<lparr>cl_NoCache := False\<rparr>) name version w' = (Inr res, w')"
    by (simp add: DownloadTarball_def Let_def)
  moreover from files have "VerifyChecksum sha256 w' res (dr_OuterSHA256 res) (dr_InnerSHA256 res) = Inr ()"
    by (auto simp: VerifyChecksum_def check_file_def cached_as_def os_ReadFile_def Let_def)
  ultimately show ?thesis using files by blast
qed

theorem download_fills_cache_witness:
  "\<exists>e w res w'. DownloadTarball e (take 2) (take 4) (NewClient ''/cache'') ''cowboy'' ''2.1.0'' w = (Inr res, w') \<and>
     w_requests w' \<noteq> w_requests w \<and>
     DownloadTarball e (take 2) (take 4) (NewClient ''/cache'') ''cowboy'' ''2.1.0'' w' = (Inr res, w')"
proof -
  let ?c = "\<lparr>m_name = ''contents.tar.gz'', m_mode = replicate 24 0, m_tail = replicate 376 0,
    m_data = [0x1F, 0x8B]\<rparr>"
  let ?e = "\<lparr>e_mkdir = \<lambda>_. None, e_write = \<lambda>_ _. None, e_newRequest = \<lambda>_ _. None,
    e_do = \<lambda>_ _. Inr \<lparr>rs_status = 200, rs_body = Inr (tar_member ?c)\<rparr>\<rparr>"
  let ?w = "\<lparr>w_files = Map.empty, w_requests = []\<rparr>"
  have x: "extractInner (tar_member ?c) = Inr (m_data ?c)"
    using extractInner_members [of "[]" ?c "[]"] by (simp add: wf_member_def)
  obtain res w' where d: "DownloadTarball ?e (take 2) (take 4) (NewClient ''/cache'') ''cowboy'' ''2.1.0'' ?w =
      (Inr res, w')" and r: "w_requests w' \<noteq> []"
    by (simp add: DownloadTarball_def NewClient_def Let_def loadCached_def os_ReadFile_def fetch_tarball_def
        http_NewRequest_def http_Do_def x os_MkdirAll_def os_WriteFile_def)
  have "(NewClient ''/cache'')\<lparr>cl_NoCache := False\<rparr> = NewClient ''/cache''" by (simp add: NewClient_def)
  with download_fills_cache [OF d, of ?e] d r show ?thesis
    by (intro exI [of _ ?e] exI [of _ ?w] exI [of _ res] exI [of _ w']) simp
qed

text \<open>
  Nothing compares the downloaded bytes with a checksum: a tarball whose digests differ from the ones the
  package metadata lists is stored and returned.  A write that fails half-way leaves files
  behind that the next call takes for a valid cache entry.
\<close>

lemma failed_write_poisons_cache:
  assumes "w_files w (Join [Join [cl_CacheDir c, name, version], ''outer.tar'']) = Some outer"
    and "w_files w (Join [Join [cl_CacheDir c, name, version], ''inner.tar.gz'']) = Some part"
    and "\<not> cl_NoCache c"
  shows "\<exists>res. DownloadTarball e sha256 sha512 c name version w = (Inr res, w) \<and>
    dr_InnerSHA256 res = hex_EncodeToString (sha256 part)"
  using assms by (simp add: DownloadTarball_def Let_def loadCached_def os_ReadFile_def)

end
