(* ===== verification/Types_Kinds.thy ===== *)
theory Types_Kinds
  imports Go_Strings
begin

text \<open>
  The kinds of the Mochi type checker (\<open>internal/types/kinds.go\<close>) and its effect sets
  (\<open>internal/types/effects.go\<close>).  \<open>Type\<close> is the Go interface: one constructor per
  kind, and \<open>NilType\<close> for the nil interface value, which \<open>Variadic\<close> and
  \<open>Return\<close> of a function type may hold.  A struct's methods keep their signatures (their
  declarations, pointers into the syntax tree, are not read here); the variants of a union are an
  association list that stands for the map.
\<close>

section \<open>Effects\<close>

type_synonym EffectLabel = "8 word"
type_synonym EffectSet = "8 word"

definition effectNames :: "string list" where
  "effectNames = [''io'', ''fs'', ''net'', ''time'', ''meta'']"

definition effectMax :: EffectLabel where
  "effectMax = 5"

definition EffectLabel_String :: "EffectLabel \<Rightarrow> string" where
  "EffectLabel_String l = (if unat l < length effectNames then effectNames ! unat l else ''?'')"

text \<open>The loop over \<open>effectNames\<close> from index \<open>i\<close> on.\<close>

fun find_label :: "EffectLabel \<Rightarrow> string list \<Rightarrow> string \<Rightarrow> EffectLabel option" where
  "find_label i [] name = None"
| "find_label i (n # ns) name = (if n = name then Some i else find_label (i + 1) ns name)"

definition ParseEffectLabel :: "string \<Rightarrow> EffectLabel option" where
  "ParseEffectLabel name = find_label 0 effectNames name"

text \<open>\<open>1 << l\<close> on a \<open>uint8\<close>: zero once the label is 8 or more.\<close>

definition label_bit :: "EffectLabel \<Rightarrow> EffectSet" where
  "label_bit l = push_bit (unat l) 1"

definition NewEffectSet :: "EffectLabel list \<Rightarrow> EffectSet" where
  "NewEffectSet labels = foldl (\<lambda>s l. or s (label_bit l)) 0 labels"

definition EmptyEffects :: EffectSet where
  "EmptyEffects = 0"

definition EffectSet_Has :: "EffectSet \<Rightarrow> EffectLabel \<Rightarrow> bool" where
  "EffectSet_Has s l \<longleftrightarrow> and s (label_bit l) \<noteq> 0"

definition EffectSet_Add :: "EffectSet \<Rightarrow> EffectLabel \<Rightarrow> EffectSet" where
  "EffectSet_Add s l = or s (label_bit l)"

definition EffectSet_Union :: "EffectSet \<Rightarrow> EffectSet \<Rightarrow> EffectSet" where
  "EffectSet_Union s t = or s t"

definition EffectSet_IsSubset :: "EffectSet \<Rightarrow> EffectSet \<Rightarrow> bool" where
  "EffectSet_IsSubset s t \<longleftrightarrow> and s (not t) = 0"

definition EffectSet_IsEmpty :: "EffectSet \<Rightarrow> bool" where
  "EffectSet_IsEmpty s \<longleftrightarrow> s = 0"

definition EffectSet_Labels :: "EffectSet \<Rightarrow> EffectLabel list" where
  "EffectSet_Labels s = filter (EffectSet_Has s) (map word_of_nat [0 ..< unat effectMax])"

definition EffectSet_String :: "EffectSet \<Rightarrow> string" where
  "EffectSet_String s =
     (if EffectSet_IsEmpty s then ''pure''
      else join '', '' (map EffectLabel_String (EffectSet_Labels s)))"

text \<open>The set a bitset denotes, and the refinement of the set operations.\<close>

definition label_set :: "EffectSet \<Rightarrow> EffectLabel set" where
  "label_set s = {l. EffectSet_Has s l}"

lemma bit_label_bit: "bit (label_bit l) n \<longleftrightarrow> n < 8 \<and> n = unat l"
  by (auto simp: label_bit_def bit_exp_iff possible_bit_word)

lemma EffectSet_Has_bit: "EffectSet_Has s l \<longleftrightarrow> unat l < 8 \<and> bit s (unat l)"
proof -
  have b: "bit (and s (label_bit l)) n \<longleftrightarrow> n < 8 \<and> n = unat l \<and> bit s n" for n
    by (auto simp: bit_label_bit bit_and_iff)
  have "and s (label_bit l) \<noteq> 0 \<longleftrightarrow> (\<exists>n. bit (and s (label_bit l)) n)"
    using b by (auto simp: bit_eq_iff)
  then show ?thesis by (auto simp: EffectSet_Has_def b)
qed

lemma bit_effects_eqI:
  assumes "\<And>l. EffectSet_Has s l = EffectSet_Has t l"
  shows "s = t"
proof (rule bit_word_eqI)
  fix n assume "n < LENGTH(8)"
  then have n: "n < 8" "unat (word_of_nat n :: EffectLabel) = n"
    by (simp_all add: unat_of_nat take_bit_eq_mod)
  with assms [of "word_of_nat n"] show "bit s n = bit t n" by (simp add: EffectSet_Has_bit)
qed

lemma label_set_simps [simp]:
  "label_set EmptyEffects = {}"
  "label_set (EffectSet_Union s t) = label_set s \<union> label_set t"
  "label_set (EffectSet_Add s l) = (if unat l < 8 then insert l (label_set s) else label_set s)"
  by (auto simp: label_set_def EffectSet_Has_bit EmptyEffects_def EffectSet_Union_def
      EffectSet_Add_def bit_or_iff bit_label_bit word_unat_eq_iff)

lemma EffectSet_IsSubset_iff: "EffectSet_IsSubset s t \<longleftrightarrow> label_set s \<subseteq> label_set t"
proof -
  have "and s (not t) = 0 \<longleftrightarrow> (\<forall>l. EffectSet_Has (and s (not t)) l \<longrightarrow> False)"
    using bit_effects_eqI [of "and s (not t)" 0] by (auto simp: EffectSet_Has_bit)
  also have "\<dots> \<longleftrightarrow> (\<forall>l. EffectSet_Has s l \<longrightarrow> EffectSet_Has t l)"
    by (auto simp: EffectSet_Has_bit bit_and_iff bit_not_iff)
  finally show ?thesis by (auto simp: EffectSet_IsSubset_def label_set_def)
qed

lemma label_set_inj: "label_set s = label_set t \<longleftrightarrow> s = t"
  using bit_effects_eqI by (auto simp: label_set_def)

lemma label_set_NewEffectSet: "label_set (NewEffectSet ls) = {l \<in> set ls. unat l < 8}"
proof -
  have "label_set (foldl (\<lambda>s l. or s (label_bit l)) s ls) = label_set s \<union> {l \<in> set ls. unat l < 8}" for s
  proof (induction ls arbitrary: s)
    case (Cons l ls)
    then show ?case by (auto simp flip: EffectSet_Add_def)
  qed simp
  from this [of 0] show ?thesis by (simp add: NewEffectSet_def flip: EmptyEffects_def)
qed

lemma ParseEffectLabel_String:
  "unat l < 5 \<Longrightarrow> ParseEffectLabel (EffectLabel_String l) = Some l"
proof -
  assume "unat l < 5"
  then have "unat l \<in> {0, 1, 2, 3, 4}" by auto
  then have "l \<in> {0, 1, 2, 3, 4}" by (auto simp: word_unat_eq_iff)
  then show ?thesis
    by (elim insertE) (simp_all add: ParseEffectLabel_def EffectLabel_String_def effectNames_def)
qed

section \<open>Kinds\<close>

datatype Type =
    NilType
  | IntType | Int64Type | FloatType | BigIntType | BigRatType | StringType | BoolType | UnitType
  | AnyType | ValueType
  | TypeVar string
  | ListType Type
  | SetType Type
  | MapType Type Type
  | OMapType Type Type
  | OptionType Type
  | ChanType Type
  | StreamType Type
  | SubType Type
  | FutureType Type
  | GroupType Type Type
  | StructType string "(string \<times> Type) list" "(string \<times> Type) list"   \<comment> \<open>name, fields, methods\<close>
  | UnionType string "(string \<times> Type) list" "string list"   \<comment> \<open>name, variants, order\<close>
  | FuncType "Type list" Type EffectSet Type "string list"
      \<comment> \<open>parameters, return, effects, variadic, type parameters\<close>

text \<open>
  \<open>String\<close>; \<open>None\<close> is the panic of calling the method on a nil interface.
\<close>

definition wrap_string :: "string \<Rightarrow> string option \<Rightarrow> string \<Rightarrow> string option" where
  "wrap_string a s b = map_option (\<lambda>x. a @ x @ b) s"

definition pair_string :: "string \<Rightarrow> string option \<Rightarrow> string \<Rightarrow> string option \<Rightarrow> string \<Rightarrow> string option" where
  "pair_string a s b t c =
     (case (s, t) of (Some x, Some y) \<Rightarrow> Some (a @ x @ b @ y @ c) | _ \<Rightarrow> None)"

fun Type_String :: "Type \<Rightarrow> string option" where
  "Type_String NilType = None"
| "Type_String IntType = Some ''int''"
| "Type_String Int64Type = Some ''int64''"
| "Type_String FloatType = Some ''float''"
| "Type_String BigIntType = Some ''bigint''"
| "Type_String BigRatType = Some ''bigrat''"
| "Type_String StringType = Some ''string''"
| "Type_String BoolType = Some ''bool''"
| "Type_String UnitType = Some ''unit''"
| "Type_String AnyType = Some ''any''"
| "Type_String ValueType = Some ''value''"
| "Type_String (TypeVar name) = Some name"
| "Type_String (ListType e) = wrap_string ''['' (Type_String e) '']''"
| "Type_String (SetType e) = wrap_string ''set['' (Type_String e) '']''"
| "Type_String (MapType k v) = pair_string ''{'' (Type_String k) '': '' (Type_String v) ''}''"
| "Type_String (OMapType k v) = pair_string ''omap['' (Type_String k) '','' (Type_String v) '']''"
| "Type_String (OptionType e) = wrap_string ''option['' (Type_String e) '']''"
| "Type_String (ChanType e) = wrap_string ''chan<'' (Type_String e) ''>''"
| "Type_String (StreamType e) = wrap_string ''stream<'' (Type_String e) ''>''"
| "Type_String (SubType e) = wrap_string ''sub<'' (Type_String e) ''>''"
| "Type_String (FutureType e) = wrap_string ''future<'' (Type_String e) ''>''"
| "Type_String (GroupType k e) = Some ''group''"
| "Type_String (StructType name fs ms) = Some name"
| "Type_String (UnionType name vs ord) = Some name"
| "Type_String (FuncType ps r eff va tps) =
     Option.bind (those (map Type_String ps)) (\<lambda>pstrs.
     Option.bind
       (if va = NilType then Some []
        else wrap_string (if ps \<noteq> [] then '', ...'' else ''...'') (Type_String va) []) (\<lambda>vstr.
     Option.bind
       (if r = NilType then Some []
        else map_option (\<lambda>s. if s \<noteq> ''unit'' then '': '' @ s else []) (Type_String r)) (\<lambda>rstr.
     Some (''fun('' @ join '', '' pstrs @ vstr @ '')'' @ rstr @
           (if EffectSet_IsEmpty eff then [] else '' ! '' @ EffectSet_String eff)))))"

definition FuncType_Pure :: "EffectSet \<Rightarrow> bool" where
  "FuncType_Pure eff = EffectSet_IsEmpty eff"

text \<open>Components are smaller, for the termination of the functions that descend into types.\<close>

lemma snds_conv: "x \<in> Basic_BNFs.snds p \<longleftrightarrow> x = snd p"
  by (cases p) auto

lemma param_size: "(p :: Type) \<in> set ps \<Longrightarrow> size p \<le> size_list size ps"
  by (erule size_list_estimation') simp

lemma field_size: "(f, t) \<in> set fs \<Longrightarrow> size t \<le> size_list (size_prod (\<lambda>_. 0) size) fs"
  by (erule size_list_estimation') simp

section \<open>Fields of a struct\<close>

fun FieldType :: "(string \<times> Type) list \<Rightarrow> string \<Rightarrow> Type option" where
  "FieldType [] name = None"
| "FieldType ((n, t) # fs) name = (if n = name then Some t else FieldType fs name)"

definition HasField :: "(string \<times> Type) list \<Rightarrow> string \<Rightarrow> bool" where
  "HasField fs name \<longleftrightarrow> FieldType fs name \<noteq> None"

definition FieldNames :: "(string \<times> Type) list \<Rightarrow> string list" where
  "FieldNames fs = map fst fs"

text \<open>The map is filled in order, so the last of two fields of one name wins.\<close>

definition FieldMap :: "(string \<times> Type) list \<Rightarrow> string \<rightharpoonup> Type" where
  "FieldMap fs = foldl (\<lambda>m (n, t). m(n \<mapsto> t)) Map.empty fs"

fun set_field :: "(string \<times> Type) list \<Rightarrow> string \<Rightarrow> Type \<Rightarrow> (string \<times> Type) list option" where
  "set_field [] name ftype = None"
| "set_field ((n, t) # fs) name ftype =
     (if n = name then Some ((n, ftype) # fs) else map_option (Cons (n, t)) (set_field fs name ftype))"

definition WithField :: "(string \<times> Type) list \<Rightarrow> string \<Rightarrow> Type \<Rightarrow> (string \<times> Type) list" where
  "WithField fs name ftype =
     (case set_field fs name ftype of Some fs' \<Rightarrow> fs' | None \<Rightarrow> fs @ [(name, ftype)])"

definition NewStructType :: "string \<Rightarrow> (string \<times> Type) list \<Rightarrow> Type" where
  "NewStructType name fs = StructType name fs []"

lemma FieldType_map_of: "FieldType fs = map_of fs"
proof
  show "FieldType fs name = map_of fs name" for name by (induction fs) auto
qed

lemma set_field_cases:
  "case set_field fs name ftype of
     None \<Rightarrow> map_of fs name = None
   | Some fs' \<Rightarrow> map_of fs name \<noteq> None \<and> map_of fs' = (map_of fs)(name \<mapsto> ftype) \<and> map fst fs' = map fst fs"
proof (induction fs)
  case (Cons f fs)
  then show ?case by (cases f) (auto split: option.splits)
qed simp

lemma FieldType_WithField:
  "FieldType (WithField fs name ftype) = (FieldType fs)(name \<mapsto> ftype)"
  using set_field_cases [of fs name ftype]
  by (auto simp: WithField_def FieldType_map_of fun_eq_iff map_add_def split: option.splits)

lemma FieldNames_WithField:
  "FieldNames (WithField fs name ftype) =
     (if HasField fs name then FieldNames fs else FieldNames fs @ [name])"
  using set_field_cases [of fs name ftype]
  by (auto simp: WithField_def HasField_def FieldNames_def FieldType_map_of split: option.splits)

lemma FieldMap_distinct: "distinct (FieldNames fs) \<Longrightarrow> FieldMap fs = FieldType fs"
proof -
  have "foldl (\<lambda>m (n, t). m(n \<mapsto> t)) m fs = m ++ map_of fs" if "distinct (map fst fs)" for m
    using that
  proof (induction fs arbitrary: m)
    case (Cons f fs)
    then show ?case by (cases f) (simp add: map_add_upd_left dom_map_of_conv_image_fst del: fun_upd_apply)
  qed simp
  then show "distinct (FieldNames fs) \<Longrightarrow> FieldMap fs = FieldType fs"
    by (simp add: FieldMap_def FieldNames_def FieldType_map_of)
qed

end
