(* ===== verification/Types_Subtype.thy ===== *)
theory Types_Subtype
  imports Types_Kinds
begin

text \<open>
  Structural equality, subtyping and assignability of the type checker
  (\<open>internal/types/subtype.go\<close>).  The predicates are total; a nil component compares as the type
  switches of the source let it.
\<close>

section \<open>The predicates\<close>

lemma zip_sizes:
  "((p :: Type), (q :: Type)) \<in> set (zip ps qs) \<Longrightarrow> size p \<le> size_list size ps \<and> size q \<le> size_list size qs"
  by (meson set_zip_leftD set_zip_rightD param_size)

lemma zip_field_sizes:
  "((fn, ft), g) \<in> set (zip fs gs) \<Longrightarrow> size ft \<le> size_list (size_prod (\<lambda>_. 0) size) fs"
  by (drule set_zip_leftD) (rule field_size)

function equalKinds :: "Type \<Rightarrow> Type \<Rightarrow> bool" where
  "equalKinds NilType b = False"
| "equalKinds AnyType b = (b = AnyType)"
| "equalKinds ValueType b = (b = ValueType)"
| "equalKinds IntType b = (b = IntType)"
| "equalKinds Int64Type b = (b = Int64Type)"
| "equalKinds BigIntType b = (b = BigIntType)"
| "equalKinds BigRatType b = (b = BigRatType)"
| "equalKinds FloatType b = (b = FloatType)"
| "equalKinds StringType b = (b = StringType)"
| "equalKinds BoolType b = (b = BoolType)"
| "equalKinds UnitType b = (b = UnitType)"
| "equalKinds (SetType e) b = (case b of SetType f \<Rightarrow> equalKinds e f | _ \<Rightarrow> False)"
| "equalKinds (ListType e) b = (case b of ListType f \<Rightarrow> equalKinds e f | _ \<Rightarrow> False)"
| "equalKinds (MapType k v) b = (case b of MapType k' v' \<Rightarrow> equalKinds k k' \<and> equalKinds v v' | _ \<Rightarrow> False)"
| "equalKinds (OMapType k v) b = (case b of OMapType k' v' \<Rightarrow> equalKinds k k' \<and> equalKinds v v' | _ \<Rightarrow> False)"
| "equalKinds (ChanType e) b = (case b of ChanType f \<Rightarrow> equalKinds e f | _ \<Rightarrow> False)"
| "equalKinds (StreamType e) b = (case b of StreamType f \<Rightarrow> equalKinds e f | _ \<Rightarrow> False)"
| "equalKinds (SubType e) b = (case b of SubType f \<Rightarrow> equalKinds e f | _ \<Rightarrow> False)"
| "equalKinds (OptionType e) b = (case b of OptionType f \<Rightarrow> equalKinds e f | _ \<Rightarrow> False)"
| "equalKinds (FutureType e) b = False"
| "equalKinds (GroupType k e) b = (case b of GroupType k' f \<Rightarrow> equalKinds k k' \<and> equalKinds e f | _ \<Rightarrow> False)"
| "equalKinds (StructType n fs ms) b =
     (case b of
        StructType n' gs ms' \<Rightarrow>
          if n \<noteq> [] \<or> n' \<noteq> [] then n = n'
          else length fs = length gs \<and>
               list_all (\<lambda>((fn, ft), (gn, gt)). fn = gn \<and> equalKinds ft gt) (zip fs gs)
      | _ \<Rightarrow> False)"
| "equalKinds (UnionType n vs ord) b = (case b of UnionType n' vs' ord' \<Rightarrow> n = n' | _ \<Rightarrow> False)"
| "equalKinds (FuncType ps r e va tps) b =
     (case b of
        FuncType qs r' e' va' tps' \<Rightarrow>
          if length ps \<noteq> length qs then False
          else if (va = NilType) \<noteq> (va' = NilType) then False
          else if \<not> list_all (\<lambda>(p, q). equalKinds p q) (zip ps qs) then False
          else if va \<noteq> NilType \<and> \<not> equalKinds va va' then False
          else if r = NilType \<or> r' = NilType then r = NilType \<and> r' = NilType
          else equalKinds r r'
      | _ \<Rightarrow> False)"
| "equalKinds (TypeVar n) b = (case b of TypeVar n' \<Rightarrow> n = n' | _ \<Rightarrow> False)"
  by pat_completeness auto
termination
  by (relation "measure (\<lambda>(a, b). size a)") (auto dest!: zip_sizes zip_field_sizes)

function Subtype :: "Type \<Rightarrow> Type \<Rightarrow> bool" where
  "Subtype s t =
     (if equalKinds s t then True
      else if t = AnyType then True
      else case s of
        IntType \<Rightarrow> t \<in> {Int64Type, BigIntType, BigRatType}
      | Int64Type \<Rightarrow> t \<in> {BigIntType, BigRatType}
      | BigIntType \<Rightarrow> t = BigRatType
      | FloatType \<Rightarrow> t = BigRatType
      | SetType e \<Rightarrow> (case t of SetType f \<Rightarrow> Subtype e f | _ \<Rightarrow> False)
      | ListType e \<Rightarrow> (case t of ListType f \<Rightarrow> Subtype e f | _ \<Rightarrow> False)
      | MapType k v \<Rightarrow> (case t of MapType k' v' \<Rightarrow> equalKinds k k' \<and> equalKinds v v' | _ \<Rightarrow> False)
      | OMapType k v \<Rightarrow> (case t of OMapType k' v' \<Rightarrow> equalKinds k k' \<and> equalKinds v v' | _ \<Rightarrow> False)
      | ChanType e \<Rightarrow> (case t of ChanType f \<Rightarrow> equalKinds e f | _ \<Rightarrow> False)
      | StreamType e \<Rightarrow> (case t of StreamType f \<Rightarrow> equalKinds e f | _ \<Rightarrow> False)
      | SubType e \<Rightarrow> (case t of SubType f \<Rightarrow> equalKinds e f | _ \<Rightarrow> False)
      | OptionType e \<Rightarrow> (case t of OptionType f \<Rightarrow> Subtype e f | _ \<Rightarrow> False)
      | StructType n fs ms \<Rightarrow>
          (case t of
             StructType n' fs' ms' \<Rightarrow> n \<noteq> [] \<and> n = n'
           | UnionType n' vs ord \<Rightarrow> map_of vs n \<noteq> None
           | _ \<Rightarrow> False)
      | UnionType n vs ord \<Rightarrow> (case t of UnionType n' vs' ord' \<Rightarrow> n \<noteq> [] \<and> n = n' | _ \<Rightarrow> False)
      | FuncType ps r e va tps \<Rightarrow>
          (case t of
             FuncType qs r' e' va' tps' \<Rightarrow>
               if length ps \<noteq> length qs then False
               else if (va = NilType) \<noteq> (va' = NilType) then False
               else if \<not> list_all (\<lambda>(p, q). Subtype q p) (zip ps qs) then False
               else if va \<noteq> NilType \<and> \<not> Subtype va' va then False
               else if r = NilType \<or> r' = NilType then r = NilType \<and> r' = NilType
               else Subtype r r'
           | _ \<Rightarrow> False)
      | GroupType k e \<Rightarrow> (case t of GroupType k' f \<Rightarrow> equalKinds k k' \<and> equalKinds e f | _ \<Rightarrow> False)
      | _ \<Rightarrow> False)"
  by pat_completeness auto
termination
  by (relation "measure (\<lambda>(s, t). size s + size t)")
    (auto dest!: zip_sizes simp del: equalKinds.simps)

declare Subtype.simps [simp del]

text \<open>\<open>assignableAt\<close> and \<open>Assignable\<close>; the structural descents fall through to the last two
  tests when the target has another kind.\<close>

function assignableAt :: "Type \<Rightarrow> Type \<Rightarrow> bool \<Rightarrow> bool" where
  "assignableAt src dst elementContext =
     (if dst = AnyType then True
      else if elementContext \<and> src = AnyType then True
      else case (src, dst) of
        (ListType s, ListType d) \<Rightarrow> assignableAt s d True
      | (MapType k v, MapType k' v') \<Rightarrow> assignableAt k k' True \<and> assignableAt v v' True
      | (OMapType k v, OMapType k' v') \<Rightarrow> assignableAt k k' True \<and> assignableAt v v' True
      | (ChanType s, ChanType d) \<Rightarrow> assignableAt s d True
      | (StreamType s, StreamType d) \<Rightarrow> assignableAt s d True
      | (SubType s, SubType d) \<Rightarrow> assignableAt s d True
      | (OptionType s, OptionType d) \<Rightarrow> assignableAt s d True
      | (_, OptionType d) \<Rightarrow> assignableAt src d elementContext
      | _ \<Rightarrow> Subtype src dst)"
  by pat_completeness auto
termination
  by (relation "measure (\<lambda>(s, d, c). size s + size d)") (auto split: Type.splits)

declare assignableAt.simps [simp del]

definition Assignable :: "Type \<Rightarrow> Type \<Rightarrow> bool" where
  "Assignable src dst = assignableAt src dst False"

section \<open>Structural equality\<close>

text \<open>The types that equal themselves: a future never does, nor does a nil element.\<close>

fun comparable :: "Type \<Rightarrow> bool" where
  "comparable NilType = False"
| "comparable (SetType e) = comparable e"
| "comparable (ListType e) = comparable e"
| "comparable (MapType k v) = (comparable k \<and> comparable v)"
| "comparable (OMapType k v) = (comparable k \<and> comparable v)"
| "comparable (ChanType e) = comparable e"
| "comparable (StreamType e) = comparable e"
| "comparable (SubType e) = comparable e"
| "comparable (OptionType e) = comparable e"
| "comparable (FutureType e) = False"
| "comparable (GroupType k e) = (comparable k \<and> comparable e)"
| "comparable (StructType n fs ms) = (n \<noteq> [] \<or> (\<forall>f \<in> set fs. comparable (snd f)))"
| "comparable (FuncType ps r e va tps) =
     ((\<forall>p \<in> set ps. comparable p) \<and> (va = NilType \<or> comparable va) \<and> (r = NilType \<or> comparable r))"
| "comparable _ = True"

lemma list_all2_flip_on:
  "(\<And>x y. x \<in> set xs \<Longrightarrow> P x y \<Longrightarrow> Q y x) \<Longrightarrow> list_all2 P xs ys \<Longrightarrow> list_all2 Q ys xs"
  by (auto simp: list_all2_conv_all_nth)

lemma list_all2_comp_on:
  "(\<And>x y z. x \<in> set xs \<Longrightarrow> P x y \<Longrightarrow> Q y z \<Longrightarrow> R x z) \<Longrightarrow>
   list_all2 P xs ys \<Longrightarrow> list_all2 Q ys zs \<Longrightarrow> list_all2 R xs zs"
  by (auto simp: list_all2_conv_all_nth)

text \<open>A relation lifted to components that may be nil.\<close>

definition nil_or :: "(Type \<Rightarrow> Type \<Rightarrow> bool) \<Rightarrow> Type \<Rightarrow> Type \<Rightarrow> bool" where
  "nil_or P x y \<longleftrightarrow> x = NilType \<and> y = NilType \<or> x \<noteq> NilType \<and> y \<noteq> NilType \<and> P x y"

definition same_field :: "string \<times> Type \<Rightarrow> string \<times> Type \<Rightarrow> bool" where
  "same_field f g \<longleftrightarrow> fst f = fst g \<and> equalKinds (snd f) (snd g)"

lemma equalKinds_Struct:
  "equalKinds (StructType n fs ms) (StructType n' gs ms') \<longleftrightarrow>
     n = n' \<and> (n = [] \<longrightarrow> list_all2 same_field fs gs)"
  by (auto simp: same_field_def list_all2_iff list_all_iff case_prod_unfold)

lemma equalKinds_Func:
  "equalKinds (FuncType ps r e va tps) (FuncType qs r' e' va' tps') \<longleftrightarrow>
     list_all2 equalKinds ps qs \<and> nil_or equalKinds va va' \<and> nil_or equalKinds r r'"
  by (auto simp: nil_or_def list_all2_iff list_all_iff)

lemmas equalKinds_simps [simp del] = equalKinds.simps(22,24)

lemma equalKinds_kind:
  "equalKinds (StructType n fs ms) b \<Longrightarrow> \<exists>n' gs ms'. b = StructType n' gs ms'"
  "equalKinds (FuncType ps r e va tps) b \<Longrightarrow> \<exists>qs r' e' va' tps'. b = FuncType qs r' e' va' tps'"
  by (auto simp: equalKinds.simps split: Type.split_asm)

lemma equalKinds_refl: "equalKinds t t \<longleftrightarrow> comparable t"
proof (induction t)
  case (StructType n fs ms)
  then show ?case
    by (auto simp: equalKinds_Struct list_all2_same same_field_def snds_conv)
next
  case (FuncType ps r e va tps)
  then show ?case by (auto simp: equalKinds_Func list_all2_same nil_or_def)
qed auto

lemma equalKinds_sym: "equalKinds a b \<Longrightarrow> equalKinds b a"
proof (induction a arbitrary: b)
  case (StructType n fs ms)
  from equalKinds_kind(1) [OF StructType.prems] obtain n' gs ms' where b: "b = StructType n' gs ms'" by blast
  have "list_all2 same_field fs gs \<Longrightarrow> list_all2 same_field gs fs"
    by (rule list_all2_flip_on) (use StructType.IH in \<open>auto simp: same_field_def snds_conv\<close>)
  with StructType.prems show ?case by (auto simp: b equalKinds_Struct)
next
  case (FuncType ps r e va tps)
  from equalKinds_kind(2) [OF FuncType.prems] obtain qs r' e' va' tps' where b: "b = FuncType qs r' e' va' tps'"
    by blast
  have "list_all2 equalKinds ps qs \<Longrightarrow> list_all2 equalKinds qs ps"
    by (rule list_all2_flip_on) (use FuncType.IH in auto)
  with FuncType show ?case by (auto simp: b equalKinds_Func nil_or_def)
qed (auto split: Type.split_asm)

lemma equalKinds_trans: "equalKinds a b \<Longrightarrow> equalKinds b c \<Longrightarrow> equalKinds a c"
proof (induction a arbitrary: b c)
  case (StructType n fs ms)
  from equalKinds_kind(1) [OF StructType.prems(1)] obtain n' gs ms' where b: "b = StructType n' gs ms'" by blast
  with equalKinds_kind(1) StructType.prems(2) obtain n'' hs ms'' where c: "c = StructType n'' hs ms''" by blast
  have "list_all2 same_field fs gs \<Longrightarrow> list_all2 same_field gs hs \<Longrightarrow> list_all2 same_field fs hs"
    by (rule list_all2_comp_on) (use StructType.IH in \<open>auto simp: same_field_def snds_conv\<close>)
  with StructType.prems show ?case by (auto simp: b c equalKinds_Struct)
next
  case (FuncType ps r e va tps)
  from equalKinds_kind(2) [OF FuncType.prems(1)] obtain qs r' e' va' tps' where b: "b = FuncType qs r' e' va' tps'"
    by blast
  with equalKinds_kind(2) FuncType.prems(2) obtain rs r'' e'' va'' tps'' where c: "c = FuncType rs r'' e'' va'' tps''"
    by blast
  have "list_all2 equalKinds ps qs \<Longrightarrow> list_all2 equalKinds qs rs \<Longrightarrow> list_all2 equalKinds ps rs"
    by (rule list_all2_comp_on) (use FuncType.IH in auto)
  with FuncType show ?case by (auto simp: b c equalKinds_Func nil_or_def)
qed (auto split: Type.split_asm)

section \<open>Subtyping\<close>

lemma Subtype_top [simp]: "Subtype s AnyType"
  by (simp add: Subtype.simps)

lemma equalKinds_Subtype: "equalKinds s t \<Longrightarrow> Subtype s t"
  by (simp add: Subtype.simps)

text \<open>The rules for each kind on the left.\<close>

lemma Subtype_atom [simp]:
  "Subtype NilType t \<longleftrightarrow> t = AnyType"
  "Subtype AnyType t \<longleftrightarrow> t = AnyType"
  "Subtype ValueType t \<longleftrightarrow> t \<in> {AnyType, ValueType}"
  "Subtype IntType t \<longleftrightarrow> t \<in> {AnyType, IntType, Int64Type, BigIntType, BigRatType}"
  "Subtype Int64Type t \<longleftrightarrow> t \<in> {AnyType, Int64Type, BigIntType, BigRatType}"
  "Subtype BigIntType t \<longleftrightarrow> t \<in> {AnyType, BigIntType, BigRatType}"
  "Subtype BigRatType t \<longleftrightarrow> t \<in> {AnyType, BigRatType}"
  "Subtype FloatType t \<longleftrightarrow> t \<in> {AnyType, FloatType, BigRatType}"
  "Subtype StringType t \<longleftrightarrow> t \<in> {AnyType, StringType}"
  "Subtype BoolType t \<longleftrightarrow> t \<in> {AnyType, BoolType}"
  "Subtype UnitType t \<longleftrightarrow> t \<in> {AnyType, UnitType}"
  "Subtype (TypeVar n) t \<longleftrightarrow> t \<in> {AnyType, TypeVar n}"
  "Subtype (FutureType e) t \<longleftrightarrow> t = AnyType"
  by (auto simp: Subtype.simps split: Type.splits)

lemma Subtype_compound [simp]:
  "Subtype (SetType e) t \<longleftrightarrow> t = AnyType \<or> (\<exists>f. t = SetType f \<and> Subtype e f)"
  "Subtype (ListType e) t \<longleftrightarrow> t = AnyType \<or> (\<exists>f. t = ListType f \<and> Subtype e f)"
  "Subtype (OptionType e) t \<longleftrightarrow> t = AnyType \<or> (\<exists>f. t = OptionType f \<and> Subtype e f)"
  "Subtype (ChanType e) t \<longleftrightarrow> t = AnyType \<or> (\<exists>f. t = ChanType f \<and> equalKinds e f)"
  "Subtype (StreamType e) t \<longleftrightarrow> t = AnyType \<or> (\<exists>f. t = StreamType f \<and> equalKinds e f)"
  "Subtype (SubType e) t \<longleftrightarrow> t = AnyType \<or> (\<exists>f. t = SubType f \<and> equalKinds e f)"
  "Subtype (MapType k v) t \<longleftrightarrow> t = AnyType \<or> (\<exists>k' v'. t = MapType k' v' \<and> equalKinds k k' \<and> equalKinds v v')"
  "Subtype (OMapType k v) t \<longleftrightarrow> t = AnyType \<or> (\<exists>k' v'. t = OMapType k' v' \<and> equalKinds k k' \<and> equalKinds v v')"
  "Subtype (GroupType k v) t \<longleftrightarrow> t = AnyType \<or> (\<exists>k' v'. t = GroupType k' v' \<and> equalKinds k k' \<and> equalKinds v v')"
  by (subst Subtype.simps; auto split: Type.splits dest: equalKinds_Subtype)+

lemma Subtype_nominal:
  "Subtype (UnionType n vs ord) t \<longleftrightarrow> t = AnyType \<or> (\<exists>vs' ord'. t = UnionType n vs' ord')"
  "Subtype (StructType n fs ms) t \<longleftrightarrow>
     t = AnyType \<or> equalKinds (StructType n fs ms) t \<or>
     (\<exists>n' vs ord. t = UnionType n' vs ord \<and> map_of vs n \<noteq> None)"
  by (subst Subtype.simps; auto simp: equalKinds_Struct split: Type.splits dest: equalKinds_kind)+

definition fun_sub :: "Type list \<Rightarrow> Type \<Rightarrow> Type \<Rightarrow> Type list \<Rightarrow> Type \<Rightarrow> Type \<Rightarrow> bool" where
  "fun_sub ps r va qs r' va' \<longleftrightarrow>
     list_all2 (\<lambda>p q. Subtype q p) ps qs \<and> nil_or (\<lambda>x y. Subtype y x) va va' \<and> nil_or Subtype r r'"

lemma Subtype_Func_Func:
  "Subtype (FuncType ps r e va tps) (FuncType qs r' e' va' tps') \<longleftrightarrow>
     equalKinds (FuncType ps r e va tps) (FuncType qs r' e' va' tps') \<or> fun_sub ps r va qs r' va'"
  unfolding fun_sub_def nil_or_def list_all2_iff
  by (subst Subtype.simps) (simp add: list_all_iff del: equalKinds.simps)

lemma equalKinds_fun_sub:
  "equalKinds (FuncType ps r e va tps) (FuncType qs r' e' va' tps') \<Longrightarrow> fun_sub ps r va qs r' va'"
proof -
  have "list_all2 equalKinds ps qs \<Longrightarrow> list_all2 (\<lambda>p q. Subtype q p) ps qs"
    by (erule list_all2_mono) (blast intro: equalKinds_Subtype equalKinds_sym)
  then show "equalKinds (FuncType ps r e va tps) (FuncType qs r' e' va' tps') \<Longrightarrow> fun_sub ps r va qs r' va'"
    by (auto simp: fun_sub_def equalKinds_Func nil_or_def intro: equalKinds_Subtype equalKinds_sym)
qed

lemma Subtype_Func:
  "Subtype (FuncType ps r e va tps) t \<longleftrightarrow>
     t = AnyType \<or> (\<exists>qs r' e' va' tps'. t = FuncType qs r' e' va' tps' \<and> fun_sub ps r va qs r' va')"
proof (cases t)
  case (FuncType qs r' e' va' tps')
  then show ?thesis using Subtype_Func_Func equalKinds_fun_sub by auto
qed (auto simp: Subtype.simps dest: equalKinds_kind)

lemmas Subtype_rules = Subtype_nominal Subtype_Func

text \<open>All union types of one name list the same variants, as they do when they come from one
  declaration.\<close>

fun coherent :: "(string \<Rightarrow> string set) \<Rightarrow> Type \<Rightarrow> bool" where
  "coherent D (SetType e) = coherent D e"
| "coherent D (ListType e) = coherent D e"
| "coherent D (OptionType e) = coherent D e"
| "coherent D (UnionType n vs ord) = (fst ` set vs = D n)"
| "coherent D (FuncType ps r e va tps) = ((\<forall>p \<in> set ps. coherent D p) \<and> coherent D r \<and> coherent D va)"
| "coherent D _ = True"

definition sub_trans_at :: "(string \<Rightarrow> string set) \<Rightarrow> Type \<Rightarrow> bool" where
  "sub_trans_at D t \<longleftrightarrow>
     (\<forall>s u. coherent D s \<longrightarrow> coherent D u \<longrightarrow> Subtype s t \<longrightarrow> Subtype t u \<longrightarrow> Subtype s u)"

lemma sub_trans_atD:
  "sub_trans_at D t \<Longrightarrow> Subtype s t \<Longrightarrow> Subtype t u \<Longrightarrow> coherent D s \<Longrightarrow> coherent D u \<Longrightarrow> Subtype s u"
  by (auto simp: sub_trans_at_def)

lemma fun_sub_trans:
  assumes "\<forall>q \<in> set qs. sub_trans_at D q" and "sub_trans_at D r'" and "sub_trans_at D va'"
    and "fun_sub ps r va qs r' va'" and "fun_sub qs r' va' ws r'' va''"
    and "\<forall>p \<in> set ps. coherent D p" "coherent D r" "coherent D va"
    and "\<forall>p \<in> set ws. coherent D p" "coherent D r''" "coherent D va''"
  shows "fun_sub ps r va ws r'' va''"
proof -
  have "list_all2 (\<lambda>p q. Subtype q p) ps ws"
  proof (rule list_all2_all_nthI)
    show "length ps = length ws"
      using assms(4,5) unfolding fun_sub_def by (metis list_all2_lengthD)
    fix i assume i: "i < length ps"
    have len: "length qs = length ps" "length ws = length ps"
      using assms(4,5) unfolding fun_sub_def by (metis list_all2_lengthD)+
    have s: "Subtype (qs ! i) (ps ! i)" "Subtype (ws ! i) (qs ! i)"
      using assms(4,5) i len list_all2_nthD unfolding fun_sub_def by fastforce+
    have "sub_trans_at D (qs ! i)" "coherent D (ps ! i)" "coherent D (ws ! i)"
      using assms(1,6,9) i len by simp_all
    with s show "Subtype (ws ! i) (ps ! i)" by (blast intro: sub_trans_atD)
  qed
  moreover have "nil_or (\<lambda>x y. Subtype y x) va va''" and "nil_or Subtype r r''"
    using assms(4,5) sub_trans_atD [OF assms(3), of va'' va] sub_trans_atD [OF assms(2), of r r''] assms(7,8,10,11)
    unfolding fun_sub_def nil_or_def by blast+
  ultimately show ?thesis by (simp add: fun_sub_def)
qed

lemma sub_trans_at_elem:
  "sub_trans_at D e \<Longrightarrow> sub_trans_at D (SetType e)"
  "sub_trans_at D e \<Longrightarrow> sub_trans_at D (ListType e)"
  "sub_trans_at D e \<Longrightarrow> sub_trans_at D (OptionType e)"
  unfolding sub_trans_at_def
  by (intro allI impI; rename_tac s u; case_tac s; force simp: Subtype_nominal Subtype_Func dest: equalKinds_kind)+

lemma sub_trans_at_inv:
  "sub_trans_at D (ChanType e)" "sub_trans_at D (StreamType e)" "sub_trans_at D (SubType e)"
  "sub_trans_at D (MapType k v)" "sub_trans_at D (OMapType k v)" "sub_trans_at D (GroupType k v)"
  unfolding sub_trans_at_def
  by (intro allI impI; rename_tac s u; case_tac s;
      force simp: Subtype_nominal Subtype_Func dest: equalKinds_kind intro: equalKinds_trans)+

lemma sub_trans_at_atom:
  "t \<in> {NilType, IntType, Int64Type, FloatType, BigIntType, BigRatType, StringType, BoolType, UnitType,
     AnyType, ValueType, TypeVar n, FutureType e} \<Longrightarrow> sub_trans_at D t"
  unfolding sub_trans_at_def
  by (intro allI impI; rename_tac s u; case_tac s;
      auto simp: Subtype_nominal Subtype_Func dest: equalKinds_kind)

lemma sub_trans_at_Struct: "sub_trans_at D (StructType n fs ms)"
  unfolding sub_trans_at_def
proof (intro allI impI)
  fix s u assume *: "Subtype s (StructType n fs ms)" "Subtype (StructType n fs ms) u"
  then obtain n' gs ms' where s: "s = StructType n' gs ms'"
    and eq: "equalKinds s (StructType n fs ms)"
    by (cases s) (auto simp: Subtype_nominal Subtype_Func)
  then have "n' = n" by (simp add: equalKinds_Struct)
  from * eq show "Subtype s u" unfolding s \<open>n' = n\<close>
    by (auto simp: Subtype_nominal dest: equalKinds_trans)
qed

lemma sub_trans_at_Union: "coherent D (UnionType n vs ord) \<Longrightarrow> sub_trans_at D (UnionType n vs ord)"
  unfolding sub_trans_at_def
proof (intro allI impI)
  fix s u assume c: "coherent D (UnionType n vs ord)" "coherent D u"
    and *: "Subtype s (UnionType n vs ord)" "Subtype (UnionType n vs ord) u"
  show "Subtype s u"
  proof (cases "u = AnyType")
    case False
    with * obtain vs' ord' where u: "u = UnionType n vs' ord'" by (auto simp: Subtype_nominal)
    have "map_of vs' m = None \<longleftrightarrow> map_of vs m = None" for m
      using c by (simp add: u map_of_eq_None_iff)
    with * show ?thesis unfolding u
      by (cases s) (auto simp: Subtype_nominal Subtype_Func simp del: not_None_eq dest: equalKinds_kind)
  qed simp
qed

lemma sub_trans_at_Func:
  assumes "\<forall>q \<in> set qs. sub_trans_at D q" and "sub_trans_at D r" and "sub_trans_at D va"
  shows "sub_trans_at D (FuncType qs r e va tps)"
  unfolding sub_trans_at_def
proof (intro allI impI)
  fix s u assume *: "Subtype s (FuncType qs r e va tps)" "Subtype (FuncType qs r e va tps) u"
    and c: "coherent D s" "coherent D u"
  then show "Subtype s u"
    by (cases s) (auto simp: Subtype_nominal Subtype_Func dest: equalKinds_kind intro: fun_sub_trans [OF assms])
qed

lemma Subtype_transitive: "coherent D t \<Longrightarrow> sub_trans_at D t"
proof (induction t)
  case (UnionType n vs ord)
  show ?case using UnionType.prems by (rule sub_trans_at_Union)
next
  case (FuncType ps r e va tps)
  then show ?case by (intro sub_trans_at_Func) auto
qed (simp_all add: sub_trans_at_elem sub_trans_at_inv sub_trans_at_atom sub_trans_at_Struct)

lemma fun_sub_antisym:
  assumes "\<And>p q. p \<in> set ps \<union> {r, va} \<Longrightarrow> Subtype p q \<Longrightarrow> Subtype q p \<Longrightarrow> equalKinds p q"
    and "fun_sub ps r va qs r' va'" and "fun_sub qs r' va' ps r va"
  shows "equalKinds (FuncType ps r e va tps) (FuncType qs r' e' va' tps')"
  using assms unfolding fun_sub_def equalKinds_Func nil_or_def
  by (auto simp: list_all2_conv_all_nth)

lemma Subtype_antisym: "Subtype s t \<Longrightarrow> Subtype t s \<Longrightarrow> equalKinds s t"
proof (induction s arbitrary: t)
  case (StructType n fs ms)
  then show ?case by (auto simp: Subtype_nominal)
next
  case (UnionType n vs ord)
  then show ?case by (auto simp: Subtype_nominal)
next
  case (FuncType ps r e va tps)
  then show ?case by (cases t) (auto simp: Subtype_Func intro!: fun_sub_antisym)
qed (auto intro: equalKinds_sym)

section \<open>Assignability\<close>

lemma assignableAt_Any [simp]: "assignableAt s AnyType c" "assignableAt AnyType t True"
  by (subst assignableAt.simps; simp)+

lemma assignableAt_elem [simp]:
  "assignableAt (ListType s) (ListType d) c \<longleftrightarrow> assignableAt s d True"
  "assignableAt (ChanType s) (ChanType d) c \<longleftrightarrow> assignableAt s d True"
  "assignableAt (StreamType s) (StreamType d) c \<longleftrightarrow> assignableAt s d True"
  "assignableAt (SubType s) (SubType d) c \<longleftrightarrow> assignableAt s d True"
  "assignableAt (OptionType s) (OptionType d) c \<longleftrightarrow> assignableAt s d True"
  "assignableAt (MapType k v) (MapType k' v') c \<longleftrightarrow> assignableAt k k' True \<and> assignableAt v v' True"
  "assignableAt (OMapType k v) (OMapType k' v') c \<longleftrightarrow> assignableAt k k' True \<and> assignableAt v v' True"
  by (subst assignableAt.simps; simp)+

text \<open>Into a target that is neither an option nor matched structurally only a subtype flows.\<close>

definition descends :: "Type \<Rightarrow> bool" where
  "descends s \<longleftrightarrow> (case s of ListType _ \<Rightarrow> True | MapType _ _ \<Rightarrow> True | OMapType _ _ \<Rightarrow> True | ChanType _ \<Rightarrow> True
     | StreamType _ \<Rightarrow> True | SubType _ \<Rightarrow> True | OptionType _ \<Rightarrow> True | _ \<Rightarrow> False)"

lemma assignableAt_flat:
  "\<not> descends s \<Longrightarrow> s \<noteq> AnyType \<Longrightarrow> \<forall>d. t \<noteq> OptionType d \<Longrightarrow> assignableAt s t c \<longleftrightarrow> Subtype s t"
  by (subst assignableAt.simps) (cases s; cases t; simp add: descends_def)

lemma Subtype_Option_right: "Subtype s (OptionType d) \<Longrightarrow> \<exists>e. s = OptionType e"
  by (cases s) (auto simp: Subtype_nominal Subtype_Func dest: equalKinds_kind)

lemma Subtype_assignableAt_flat:
  assumes "Subtype s t" and "\<not> descends s"
  shows "assignableAt s t c"
proof (cases "s = AnyType")
  case False
  have "t \<noteq> OptionType d" for d
    using Subtype_Option_right [of s d] assms by (auto simp: descends_def)
  with False assms show ?thesis by (simp add: assignableAt_flat)
qed (use assms in simp)

lemma Subtype_assignableAt: "Subtype s t \<Longrightarrow> assignableAt s t c"
proof (induction s arbitrary: t c)
  case (FuncType ps r e va tps)
  show ?case using FuncType.prems by (rule Subtype_assignableAt_flat) (simp add: descends_def)
next
  case (StructType n fs ms)
  show ?case using StructType.prems by (rule Subtype_assignableAt_flat) (simp add: descends_def)
next
  case (UnionType n vs ord)
  show ?case using UnionType.prems by (rule Subtype_assignableAt_flat) (simp add: descends_def)
next
  case (SetType e)
  show ?case using SetType.prems by (rule Subtype_assignableAt_flat) (simp add: descends_def)
next
  case (GroupType k e)
  show ?case using GroupType.prems by (rule Subtype_assignableAt_flat) (simp add: descends_def)
qed (auto dest!: equalKinds_Subtype intro: Subtype_assignableAt_flat simp: descends_def)

text \<open>The target below its outer options.\<close>

fun unwrap_option :: "Type \<Rightarrow> Type" where
  "unwrap_option (OptionType d) = unwrap_option d"
| "unwrap_option t = t"

lemma assignableAt_from_Any: "assignableAt AnyType t False \<longleftrightarrow> unwrap_option t = AnyType"
  by (induction t rule: unwrap_option.induct) (subst assignableAt.simps; simp)+

section \<open>Properties\<close>

text \<open>
  C28: \<open>Subtype\<close> is a partial order up to \<open>equalKinds\<close> on the types that equal themselves: it
  relates a type to itself exactly when no future and no nil element makes it incomparable, two types related
  both ways are structurally equal, and it is transitive when all union types
  of one name have the same variants.
\<close>

theorem subtype_partial_order:
  "(Subtype s s \<longleftrightarrow> comparable s) \<and>
   (Subtype s t \<and> Subtype t s \<longrightarrow> equalKinds s t) \<and>
   (coherent D s \<and> coherent D t \<and> coherent D u \<and> Subtype s t \<and> Subtype t u \<longrightarrow> Subtype s u)"
  using Subtype_antisym [of s] equalKinds_refl [of s] equalKinds_Subtype [of s s]
    sub_trans_atD [OF Subtype_transitive [of D t], of s u]
  by blast

theorem subtype_partial_order_witness:
  "Subtype (FuncType [BigRatType] (ListType IntType) 0 NilType []) (FuncType [IntType] AnyType 0 NilType [])"
proof -
  let ?s = "FuncType [BigRatType] (ListType IntType) 0 NilType []"
  let ?t = "FuncType [BigIntType] (ListType Int64Type) 0 NilType []"
  let ?u = "FuncType [IntType] AnyType 0 NilType []"
  have "Subtype ?s ?t" and "Subtype ?t ?u"
    by (simp_all add: Subtype_Func fun_sub_def nil_or_def)
  then show ?thesis
    using subtype_partial_order [of ?s ?t "\<lambda>_. {}" ?u] by simp
qed

text \<open>
  C29: every subtype is assignable, and the implicit flow from \<open>any\<close> is closed: a value of type
  \<open>any\<close> is assignable exactly to \<open>any\<close> and to options over it.
\<close>

theorem assignable_extends_subtype:
  "(Subtype s t \<longrightarrow> Assignable s t) \<and> (Assignable AnyType t \<longleftrightarrow> unwrap_option t = AnyType)"
  using Subtype_assignableAt [of s t False] by (simp add: Assignable_def assignableAt_from_Any)

theorem assignable_extends_subtype_witness:
  "Assignable (ListType IntType) (ListType BigRatType) \<and> \<not> Assignable AnyType (OptionType IntType)"
  using assignable_extends_subtype [of "ListType IntType" "ListType BigRatType"]
    assignable_extends_subtype [of AnyType "OptionType IntType"]
  by simp

text \<open>
  A future is not even a subtype of itself, and \<open>Assignable\<close> passes over the invariance that
  \<open>Subtype\<close> enforces on channels and maps.
\<close>

lemma future_not_reflexive: "\<not> Subtype (FutureType e) (FutureType e)" "\<not> Assignable (FutureType e) (FutureType e)"
  by (simp_all add: Assignable_def assignableAt_flat descends_def)

lemma assignable_ignores_invariance:
  "Assignable (ChanType IntType) (ChanType BigIntType)" "\<not> Subtype (ChanType IntType) (ChanType BigIntType)"
  "Assignable (MapType StringType IntType) (MapType StringType AnyType)"
  "\<not> Subtype (MapType StringType IntType) (MapType StringType AnyType)"
  by (simp_all add: Assignable_def assignableAt_flat descends_def)

end
