(* ===== verification/Types_Subst.thy ===== *)
theory Types_Subst
  imports Types_Kinds
begin

text \<open>
  Substitutions and the substitution-aware unifier (\<open>internal/types/subst.go\<close>).  \<open>Apply\<close> and
  \<open>occurs\<close> follow the bindings of a substitution transitively and run forever on a cyclic one, so
  they and their callers take fuel: a chase through one binding, or one level of
  \<open>unifyInto\<close>, costs one unit and \<open>None\<close> means that the fuel ran out.  The theory \<open>Types_Subst_Correct\<close>
  shows how much is enough.
\<close>

type_synonym Subst = "string \<rightharpoonup> Type"

datatype type_error =
    OccursCheck string Type    \<comment> \<open>\<open>occurs check failed: %s in %s\<close>\<close>
  | CannotUnify Type Type      \<comment> \<open>\<open>cannot unify %s with %s\<close>\<close>

section \<open>Applying a substitution\<close>

function Apply :: "nat \<Rightarrow> Subst \<Rightarrow> Type \<Rightarrow> Type option" where
  "Apply n sub (TypeVar v) =
     (case sub v of
        None \<Rightarrow> Some (TypeVar v)
      | Some u \<Rightarrow> (case n of 0 \<Rightarrow> None | Suc m \<Rightarrow> Apply m sub u))"
| "Apply n sub (SetType e) = map_option SetType (Apply n sub e)"
| "Apply n sub (ListType e) = map_option ListType (Apply n sub e)"
| "Apply n sub (MapType k v) =
     Option.bind (Apply n sub k) (\<lambda>k'. map_option (MapType k') (Apply n sub v))"
| "Apply n sub (OMapType k v) =
     Option.bind (Apply n sub k) (\<lambda>k'. map_option (OMapType k') (Apply n sub v))"
| "Apply n sub (ChanType e) = map_option ChanType (Apply n sub e)"
| "Apply n sub (StreamType e) = map_option StreamType (Apply n sub e)"
| "Apply n sub (SubType e) = map_option SubType (Apply n sub e)"
| "Apply n sub (FutureType e) = map_option FutureType (Apply n sub e)"
| "Apply n sub (OptionType e) = map_option OptionType (Apply n sub e)"
| "Apply n sub (GroupType k e) =
     Option.bind (Apply n sub k) (\<lambda>k'. map_option (GroupType k') (Apply n sub e))"
| "Apply n sub (FuncType ps r eff va tps) =
     Option.bind (those (map (Apply n sub) ps)) (\<lambda>ps'.
     Option.bind (Apply n sub r) (\<lambda>r'.
     Option.bind (if va \<noteq> NilType then Apply n sub va else Some NilType) (\<lambda>va'.
     Some (FuncType ps' r' eff va' tps))))"
| "Apply n sub (StructType name fs ms) =
     Option.bind (those (map (\<lambda>(f, t). map_option (Pair f) (Apply n sub t)) fs)) (\<lambda>fs'.
     Some (StructType name fs' ms))"
| "Apply n sub (UnionType name vs ord) = Some (UnionType name vs ord)"
| "Apply n sub NilType = Some NilType"
| "Apply n sub IntType = Some IntType"
| "Apply n sub Int64Type = Some Int64Type"
| "Apply n sub FloatType = Some FloatType"
| "Apply n sub BigIntType = Some BigIntType"
| "Apply n sub BigRatType = Some BigRatType"
| "Apply n sub StringType = Some StringType"
| "Apply n sub BoolType = Some BoolType"
| "Apply n sub UnitType = Some UnitType"
| "Apply n sub AnyType = Some AnyType"
| "Apply n sub ValueType = Some ValueType"
  by pat_completeness auto
termination
  by (relation "measures [\<lambda>(n, sub, t). n, \<lambda>(n, sub, t). size t]") (auto dest!: param_size field_size)

section \<open>Binding\<close>

text \<open>\<open>a || b\<close> where either side may run out of fuel, and a loop that returns at the first hit.\<close>

definition or_opt :: "bool option \<Rightarrow> bool option \<Rightarrow> bool option" where
  "or_opt a b = (case a of None \<Rightarrow> None | Some x \<Rightarrow> if x then Some True else b)"

lemma or_opt_cong [fundef_cong]:
  "a = a' \<Longrightarrow> (a' = Some False \<Longrightarrow> b = b') \<Longrightarrow> or_opt a b = or_opt a' b'"
  by (auto simp: or_opt_def split: option.splits)

definition any_opt :: "('a \<Rightarrow> bool option) \<Rightarrow> 'a list \<Rightarrow> bool option" where
  "any_opt f xs = foldr (\<lambda>x r. or_opt (f x) r) xs (Some False)"

lemma any_opt_cong [fundef_cong]:
  "xs = ys \<Longrightarrow> (\<And>x. x \<in> set ys \<Longrightarrow> f x = g x) \<Longrightarrow> any_opt f xs = any_opt g ys"
  by (auto simp: any_opt_def intro: foldr_cong)

function occurs :: "nat \<Rightarrow> string \<Rightarrow> Type \<Rightarrow> Subst \<Rightarrow> bool option" where
  "occurs n name (TypeVar v) sub =
     (if v = name then Some True
      else case sub v of
        None \<Rightarrow> Some False
      | Some u \<Rightarrow> (case n of 0 \<Rightarrow> None | Suc m \<Rightarrow> occurs m name u sub))"
| "occurs n name (SetType e) sub = occurs n name e sub"
| "occurs n name (ListType e) sub = occurs n name e sub"
| "occurs n name (MapType k v) sub = or_opt (occurs n name k sub) (occurs n name v sub)"
| "occurs n name (OMapType k v) sub = or_opt (occurs n name k sub) (occurs n name v sub)"
| "occurs n name (OptionType e) sub = occurs n name e sub"
| "occurs n name (GroupType k e) sub = or_opt (occurs n name k sub) (occurs n name e sub)"
| "occurs n name (FuncType ps r eff va tps) sub =
     or_opt (any_opt (\<lambda>p. occurs n name p sub) ps)
       (or_opt (if va \<noteq> NilType then occurs n name va sub else Some False) (occurs n name r sub))"
| "occurs n name (StructType nm fs ms) sub = any_opt (\<lambda>(f, t). occurs n name t sub) fs"
| "occurs n name (ChanType e) sub = Some False"
| "occurs n name (StreamType e) sub = Some False"
| "occurs n name (SubType e) sub = Some False"
| "occurs n name (FutureType e) sub = Some False"
| "occurs n name (UnionType nm vs ord) sub = Some False"
| "occurs n name NilType sub = Some False"
| "occurs n name IntType sub = Some False"
| "occurs n name Int64Type sub = Some False"
| "occurs n name FloatType sub = Some False"
| "occurs n name BigIntType sub = Some False"
| "occurs n name BigRatType sub = Some False"
| "occurs n name StringType sub = Some False"
| "occurs n name BoolType sub = Some False"
| "occurs n name UnitType sub = Some False"
| "occurs n name AnyType sub = Some False"
| "occurs n name ValueType sub = Some False"
  by pat_completeness auto
termination
  by (relation "measures [\<lambda>(n, name, t, sub). n, \<lambda>(n, name, t, sub). size t]") (auto dest!: param_size field_size)

definition Bind :: "nat \<Rightarrow> Subst \<Rightarrow> string \<Rightarrow> Type \<Rightarrow> (type_error + Subst) option" where
  "Bind n sub name t =
     (if t = TypeVar name then Some (Inr sub)
      else case occurs n name t sub of
        None \<Rightarrow> None
      | Some found \<Rightarrow> if found then Some (Inl (OccursCheck name t)) else Some (Inr (sub(name \<mapsto> t))))"

text \<open>\<open>Compose\<close>; \<open>other\<close> is given by its entries, whose keys are distinct.\<close>

definition Compose :: "nat \<Rightarrow> Subst \<Rightarrow> (string \<times> Type) list \<Rightarrow> Subst option" where
  "Compose n sub other =
     Option.bind (those (map (\<lambda>(k, v). map_option (Pair k) (Apply n sub v)) other)) (\<lambda>out.
     Some (map_of out ++ sub))"

section \<open>Unification\<close>

definition sameAtomic :: "Type \<Rightarrow> Type \<Rightarrow> bool" where
  "sameAtomic a b =
     (case a of
        IntType \<Rightarrow> b = IntType
      | Int64Type \<Rightarrow> b = Int64Type
      | BigIntType \<Rightarrow> b = BigIntType
      | BigRatType \<Rightarrow> b = BigRatType
      | FloatType \<Rightarrow> b = FloatType
      | StringType \<Rightarrow> b = StringType
      | BoolType \<Rightarrow> b = BoolType
      | UnitType \<Rightarrow> b = UnitType
      | _ \<Rightarrow> False)"

text \<open>
  The switch of \<open>unifyInto\<close> on two types that are neither variables nor \<open>any\<close>: \<open>None\<close> is the
  mismatch, otherwise the pairs that are unified one after the other.
\<close>

definition unify_parts :: "Type \<Rightarrow> Type \<Rightarrow> (Type \<times> Type) list option" where
  "unify_parts a b =
     (case a of
        SetType x \<Rightarrow> (case b of SetType y \<Rightarrow> Some [(x, y)] | _ \<Rightarrow> None)
      | ListType x \<Rightarrow> (case b of ListType y \<Rightarrow> Some [(x, y)] | _ \<Rightarrow> None)
      | MapType k v \<Rightarrow> (case b of MapType k' v' \<Rightarrow> Some [(k, k'), (v, v')] | _ \<Rightarrow> None)
      | OMapType k v \<Rightarrow> (case b of OMapType k' v' \<Rightarrow> Some [(k, k'), (v, v')] | _ \<Rightarrow> None)
      | ChanType x \<Rightarrow> (case b of ChanType y \<Rightarrow> Some [(x, y)] | _ \<Rightarrow> None)
      | StreamType x \<Rightarrow> (case b of StreamType y \<Rightarrow> Some [(x, y)] | _ \<Rightarrow> None)
      | SubType x \<Rightarrow> (case b of SubType y \<Rightarrow> Some [(x, y)] | _ \<Rightarrow> None)
      | FutureType x \<Rightarrow> (case b of FutureType y \<Rightarrow> Some [(x, y)] | _ \<Rightarrow> None)
      | OptionType x \<Rightarrow> (case b of OptionType y \<Rightarrow> Some [(x, y)] | _ \<Rightarrow> None)
      | GroupType k x \<Rightarrow> (case b of GroupType k' y \<Rightarrow> Some [(k, k'), (x, y)] | _ \<Rightarrow> None)
      | FuncType ps r e va tps \<Rightarrow>
          (case b of
             FuncType qs r' e' va' tps' \<Rightarrow>
               if length ps \<noteq> length qs then None
               else if (va = NilType) \<noteq> (va' = NilType) then None
               else Some (zip ps qs @ (if va \<noteq> NilType then [(va, va')] else []) @ [(r, r')])
           | _ \<Rightarrow> None)
      | StructType n fs ms \<Rightarrow> (case b of StructType n' gs ms' \<Rightarrow> if n \<noteq> n' then None else Some [] | _ \<Rightarrow> None)
      | UnionType n vs ord \<Rightarrow> (case b of UnionType n' vs' ord' \<Rightarrow> if n \<noteq> n' then None else Some [] | _ \<Rightarrow> None)
      | _ \<Rightarrow> if sameAtomic a b then Some [] else None)"

text \<open>The type assertion \<open>t.(*TypeVar)\<close>.\<close>

definition as_TypeVar :: "Type \<Rightarrow> string option" where
  "as_TypeVar t = (case t of TypeVar v \<Rightarrow> Some v | _ \<Rightarrow> None)"

primrec unifyInto :: "nat \<Rightarrow> Type \<Rightarrow> Type \<Rightarrow> Subst \<Rightarrow> (type_error + Subst) option" where
  "unifyInto 0 a0 b0 sub = None"
| "unifyInto (Suc n) a0 b0 sub =
     Option.bind (Apply n sub a0) (\<lambda>a.
     Option.bind (Apply n sub b0) (\<lambda>b.
     case as_TypeVar a of
       Some av \<Rightarrow> if as_TypeVar b = Some av then Some (Inr sub) else Bind n sub av b
     | None \<Rightarrow>
       (case as_TypeVar b of
          Some bv \<Rightarrow> Bind n sub bv a
        | None \<Rightarrow>
          if a = AnyType then Some (Inr sub)
          else if b = AnyType then Some (Inr sub)
          else case unify_parts a b of
            None \<Rightarrow> Some (Inl (CannotUnify a b))
          | Some ps \<Rightarrow> foldl (\<lambda>r p. fbind r (case_prod (unifyInto n) p)) (Some (Inr sub)) ps)))"

definition Unify :: "nat \<Rightarrow> Type \<Rightarrow> Type \<Rightarrow> Subst \<Rightarrow> (type_error + Subst) option" where
  "Unify n a b sub = unifyInto n a b sub"

end
