(* ===== verification/Types_Subst_Correct.thy ===== *)
theory Types_Subst_Correct
  imports Types_Subst
begin

text \<open>
  Correctness of the unifier.  Fuelled application is factored into a total simultaneous
  substitution of the variables' resolved images (\<open>Apply_eq\<close>), the occurs check into a search over
  the variables it visits (\<open>occurs_eq\<close>); on an acyclic substitution both finish and
  unification terminates with a solution.
\<close>

section \<open>Variables and simultaneous substitution\<close>

fun tvs :: "Type \<Rightarrow> string set" where
  "tvs (TypeVar v) = {v}"
| "tvs (SetType e) = tvs e"
| "tvs (ListType e) = tvs e"
| "tvs (MapType k v) = tvs k \<union> tvs v"
| "tvs (OMapType k v) = tvs k \<union> tvs v"
| "tvs (ChanType e) = tvs e"
| "tvs (StreamType e) = tvs e"
| "tvs (SubType e) = tvs e"
| "tvs (FutureType e) = tvs e"
| "tvs (OptionType e) = tvs e"
| "tvs (GroupType k e) = tvs k \<union> tvs e"
| "tvs (FuncType ps r eff va tps) = (\<Union>p \<in> set ps. tvs p) \<union> tvs va \<union> tvs r"
| "tvs (StructType n fs ms) = (\<Union>f \<in> set fs. tvs (snd f))"
| "tvs _ = {}"

fun tsubst :: "(string \<Rightarrow> Type) \<Rightarrow> Type \<Rightarrow> Type" where
  "tsubst s (TypeVar v) = s v"
| "tsubst s (SetType e) = SetType (tsubst s e)"
| "tsubst s (ListType e) = ListType (tsubst s e)"
| "tsubst s (MapType k v) = MapType (tsubst s k) (tsubst s v)"
| "tsubst s (OMapType k v) = OMapType (tsubst s k) (tsubst s v)"
| "tsubst s (ChanType e) = ChanType (tsubst s e)"
| "tsubst s (StreamType e) = StreamType (tsubst s e)"
| "tsubst s (SubType e) = SubType (tsubst s e)"
| "tsubst s (FutureType e) = FutureType (tsubst s e)"
| "tsubst s (OptionType e) = OptionType (tsubst s e)"
| "tsubst s (GroupType k e) = GroupType (tsubst s k) (tsubst s e)"
| "tsubst s (FuncType ps r eff va tps) =
     FuncType (map (tsubst s) ps) (tsubst s r) eff (tsubst s va) tps"
| "tsubst s (StructType n fs ms) = StructType n (map (\<lambda>f. (fst f, tsubst s (snd f))) fs) ms"
| "tsubst s t = t"

lemma finite_tvs [simp]: "finite (tvs t)"
  by (induction t) (auto simp: snds_conv)

lemma tsubst_cong: "(\<And>v. v \<in> tvs t \<Longrightarrow> s v = s' v) \<Longrightarrow> tsubst s t = tsubst s' t"
proof (induction t)
  case (StructType n fs ms)
  have "tsubst s (snd f) = tsubst s' (snd f)" if "f \<in> set fs" for f
    using StructType.IH(1) [OF that, of "snd f"] StructType.prems that by (auto simp: snds_conv)
  then show ?case by simp
qed auto

lemma tsubst_id: "(\<And>v. v \<in> tvs t \<Longrightarrow> s v = TypeVar v) \<Longrightarrow> tsubst s t = t"
proof (induction t)
  case (StructType n fs ms)
  have "tsubst s (snd f) = snd f" if "f \<in> set fs" for f
    using StructType.IH(1) [OF that, of "snd f"] StructType.prems that by (auto simp: snds_conv)
  then have "map (\<lambda>f. (fst f, tsubst s (snd f))) fs = fs"
    by (intro map_idI) (simp add: prod_eq_iff)
  then show ?case by simp
qed (auto intro: map_idI)


lemma tvs_tsubst: "tvs (tsubst s t) = (\<Union>v \<in> tvs t. tvs (s v))"
  by (induction t) (auto simp: snds_conv)

section \<open>Application\<close>

definition look :: "nat \<Rightarrow> Subst \<Rightarrow> string \<Rightarrow> Type option" where
  "look n sub v = Apply n sub (TypeVar v)"

lemma those_map: "those (map f xs) = (if \<forall>x \<in> set xs. f x \<noteq> None then Some (map (\<lambda>x. the (f x)) xs) else None)"
  by (induction xs) (auto split: option.splits)

lemma Apply_eq:
  "Apply n sub t = (if \<forall>v \<in> tvs t. look n sub v \<noteq> None then Some (tsubst (\<lambda>v. the (look n sub v)) t) else None)"
proof (induction t)
  case (TypeVar v)
  then show ?case by (auto simp: look_def)
next
  case (StructType nm fs ms)
  have f: "(case f of (a, b) \<Rightarrow> map_option (Pair a) (Apply n sub b)) =
    (if \<forall>v \<in> tvs (snd f). look n sub v \<noteq> None then Some (fst f, tsubst (\<lambda>v. the (look n sub v)) (snd f)) else None)"
    if "f \<in> set fs" for f
    using StructType(1) [OF that, of "snd f"] by (auto simp: snds_conv split: prod.splits)
  then show ?case by (auto simp: those_map)
next
  case (FuncType ps r eff va tps)
  have ps: "those (map (Apply n sub) ps) =
      (if \<forall>p \<in> set ps. \<forall>v \<in> tvs p. look n sub v \<noteq> None then Some (map (tsubst (\<lambda>v. the (look n sub v))) ps) else None)"
    using FuncType.IH(1) by (auto simp: those_map)
  have va: "(if va \<noteq> NilType then Apply n sub va else Some NilType) = Apply n sub va" by simp
  show ?case
    unfolding Apply.simps va ps FuncType.IH(2,3) by (simp add: ball_Un)
qed auto

lemma look_simps:
  "sub v = None \<Longrightarrow> look n sub v = Some (TypeVar v)"
  "sub v = Some u \<Longrightarrow> look 0 sub v = None"
  "sub v = Some u \<Longrightarrow> look (Suc n) sub v = Apply n sub u"
  by (simp_all add: look_def)

lemma look_Suc: "look n sub v = Some u \<Longrightarrow> look (Suc n) sub v = Some u"
proof (induction n arbitrary: v u)
  case 0
  then show ?case by (cases "sub v") (auto simp: look_simps)
next
  case (Suc n)
  show ?case
  proof (cases "sub v")
    case (Some w)
    with Suc.prems have a: "\<forall>x \<in> tvs w. look n sub x \<noteq> None" "u = tsubst (\<lambda>v. the (look n sub v)) w"
      by (auto simp: look_simps Apply_eq split: if_splits)
    then have eq: "look (Suc n) sub x = look n sub x" if "x \<in> tvs w" for x
      using Suc.IH [of x] that by (cases "look n sub x") auto
    then have "tsubst (\<lambda>v. the (look (Suc n) sub v)) w = u"
      unfolding a(2) by (intro tsubst_cong) simp
    then show ?thesis using a(1) eq Some by (simp add: look_simps(3) Apply_eq)
  qed (use Suc in \<open>auto simp: look_simps\<close>)
qed

lemma look_mono: "look n sub v = Some u \<Longrightarrow> n \<le> m \<Longrightarrow> look m sub v = Some u"
  by (rotate_tac, induction m rule: dec_induct) (auto intro: look_Suc)

text \<open>The resolved image of a variable and of a type.\<close>

definition clo :: "Subst \<Rightarrow> string \<Rightarrow> Type" where
  "clo sub v = (if \<exists>n u. look n sub v = Some u then SOME u. \<exists>n. look n sub v = Some u else TypeVar v)"

definition resolve :: "Subst \<Rightarrow> Type \<Rightarrow> Type" where
  "resolve sub t = tsubst (clo sub) t"

lemma look_unique: "look n sub v = Some u \<Longrightarrow> look m sub v = Some u' \<Longrightarrow> u = u'"
  by (metis look_mono nle_le option.inject)

lemma clo_look: "look n sub v = Some u \<Longrightarrow> clo sub v = u"
proof -
  assume l: "look n sub v = Some u"
  then have "(SOME u. \<exists>n. look n sub v = Some u) = u"
    by (intro some_equality) (auto dest: look_unique)
  with l show ?thesis by (auto simp: clo_def)
qed

lemma Apply_resolve: "Apply n sub t = Some u \<Longrightarrow> u = resolve sub t"
proof -
  assume "Apply n sub t = Some u"
  then have *: "\<forall>v \<in> tvs t. look n sub v \<noteq> None" "u = tsubst (\<lambda>v. the (look n sub v)) t"
    by (auto simp: Apply_eq split: if_splits)
  then show ?thesis
    unfolding resolve_def *(2) by (intro tsubst_cong) (auto simp: clo_look)
qed

section \<open>Acyclic substitutions\<close>

definition dep :: "Subst \<Rightarrow> (string \<times> string) set" where
  "dep sub = {(w, v). \<exists>u. sub v = Some u \<and> w \<in> tvs u}"

lemma look_total:
  assumes "wf (dep sub)"
  shows "\<exists>n. look n sub v \<noteq> None"
  using assms
proof (induction v rule: wf_induct_rule)
  case (less v)
  show ?case
  proof (cases "sub v")
    case None
    then show ?thesis by (simp add: look_simps)
  next
    case (Some u)
    have "\<forall>w \<in> tvs u. \<exists>n. look n sub w \<noteq> None"
      using less Some by (auto simp: dep_def)
    then obtain f where f: "\<forall>w \<in> tvs u. look (f w) sub w \<noteq> None" by metis
    define N where "N = Max (insert 0 (f ` tvs u))"
    have "look N sub w \<noteq> None" if "w \<in> tvs u" for w
    proof -
      have "f w \<le> N" unfolding N_def using that by (intro Max_ge) auto
      with f that look_mono show ?thesis by blast
    qed
    then have "look (Suc N) sub v \<noteq> None" by (simp add: look_simps(3) Some Apply_eq)
    then show ?thesis by blast
  qed
qed

lemma uniform_bound:
  assumes "finite A" and "\<And>x. x \<in> A \<Longrightarrow> \<exists>n. \<forall>m \<ge> n. P m x"
  shows "\<exists>n :: nat. \<forall>m \<ge> n. \<forall>x \<in> A. P m x"
  using assms
proof (induction A rule: finite_induct)
  case (insert x A)
  then obtain n n' where "\<forall>m \<ge> n. P m x" "\<forall>m \<ge> n'. \<forall>x \<in> A. P m x" by (metis insertCI)
  then have "\<forall>m \<ge> max n n'. \<forall>x \<in> insert x A. P m x" by auto
  then show ?case by blast
qed simp

lemma Apply_total:
  assumes "wf (dep sub)"
  shows "\<exists>n. \<forall>m \<ge> n. Apply m sub t = Some (resolve sub t)"
proof -
  have "\<exists>n. \<forall>m \<ge> n. look m sub v \<noteq> None" for v
    using look_total [OF assms, of v] look_mono by (metis not_None_eq)
  then have "\<exists>n. \<forall>m \<ge> n. \<forall>v \<in> tvs t. look m sub v \<noteq> None"
    by (intro uniform_bound) auto
  then obtain n where "\<forall>m \<ge> n. \<forall>v \<in> tvs t. look m sub v \<noteq> None" by blast
  then have "\<forall>m \<ge> n. Apply m sub t \<noteq> None" by (simp add: Apply_eq)
  then show ?thesis using Apply_resolve by (metis not_None_eq)
qed

lemma clo_simps:
  assumes "wf (dep sub)"
  shows "sub v = None \<Longrightarrow> clo sub v = TypeVar v" and "sub v = Some u \<Longrightarrow> clo sub v = resolve sub u"
proof -
  show "sub v = None \<Longrightarrow> clo sub v = TypeVar v" by (rule clo_look [of 0]) (simp add: look_simps)
  assume v: "sub v = Some u"
  from Apply_total [OF assms, of u] obtain n where "Apply n sub u = Some (resolve sub u)" by blast
  then show "clo sub v = resolve sub u" by (intro clo_look [of "Suc n"]) (simp add: look_simps(3) v)
qed



text \<open>Resolved types mention only unbound variables, of those that occur at all.\<close>

definition vars_in :: "string set \<Rightarrow> Subst \<Rightarrow> bool" where
  "vars_in U sub \<longleftrightarrow> dom sub \<subseteq> U \<and> (\<forall>u \<in> ran sub. tvs u \<subseteq> U)"

lemma tvs_resolve:
  assumes "wf (dep sub)"
  shows "tvs (clo sub v) \<inter> dom sub = {}" and "vars_in U sub \<Longrightarrow> v \<in> U \<Longrightarrow> tvs (clo sub v) \<subseteq> U"
proof -
  show "tvs (clo sub v) \<inter> dom sub = {}"
    using assms
  proof (induction v rule: wf_induct_rule)
    case (less v)
    show ?case
    proof (cases "sub v")
      case (Some u)
      then show ?thesis
        using less by (fastforce simp: clo_simps(2) [OF assms Some] resolve_def tvs_tsubst dep_def)
    qed (auto simp: clo_simps [OF assms])
  qed
  show "vars_in U sub \<Longrightarrow> v \<in> U \<Longrightarrow> tvs (clo sub v) \<subseteq> U"
    using assms
  proof (induction v rule: wf_induct_rule)
    case (less v)
    show ?case
    proof (cases "sub v")
      case (Some u)
      then have "tvs u \<subseteq> U" using less by (auto simp: vars_in_def ran_def)
      then show ?thesis
        using less Some by (fastforce simp: clo_simps(2) [OF assms Some] resolve_def tvs_tsubst dep_def)
    qed (use less in \<open>auto simp: clo_simps [OF assms]\<close>)
  qed
qed

lemma resolve_vars:
  assumes "wf (dep sub)"
  shows "tvs (resolve sub t) \<inter> dom sub = {}" and "vars_in U sub \<Longrightarrow> tvs t \<subseteq> U \<Longrightarrow> tvs (resolve sub t) \<subseteq> U"
  using tvs_resolve [OF assms] by (fastforce simp: resolve_def tvs_tsubst)+

lemma resolve_idle:
  assumes "wf (dep sub)" and "tvs t \<inter> dom sub = {}"
  shows "resolve sub t = t"
  unfolding resolve_def using assms by (intro tsubst_id clo_simps(1)) (auto simp: dom_def)

section \<open>The occurs check\<close>

text \<open>The variables \<open>occurs\<close> visits, in order.\<close>

fun ovars :: "Type \<Rightarrow> string list" where
  "ovars (TypeVar v) = [v]"
| "ovars (SetType e) = ovars e"
| "ovars (ListType e) = ovars e"
| "ovars (MapType k v) = ovars k @ ovars v"
| "ovars (OMapType k v) = ovars k @ ovars v"
| "ovars (OptionType e) = ovars e"
| "ovars (GroupType k e) = ovars k @ ovars e"
| "ovars (FuncType ps r eff va tps) = concat (map ovars ps) @ ovars va @ ovars r"
| "ovars (StructType n fs ms) = concat (map (\<lambda>f. ovars (snd f)) fs)"
| "ovars _ = []"

text \<open>
  It misses the elements of channels, streams, subscriptions and futures.  The types on which it sees every
  variable, and in which only the variadic parameter of a function may be nil:
\<close>

fun solvable :: "Type \<Rightarrow> bool" where
  "solvable (SetType e) = solvable e"
| "solvable (ListType e) = solvable e"
| "solvable (MapType k v) = (solvable k \<and> solvable v)"
| "solvable (OMapType k v) = (solvable k \<and> solvable v)"
| "solvable (OptionType e) = solvable e"
| "solvable (GroupType k e) = (solvable k \<and> solvable e)"
| "solvable (FuncType ps r eff va tps) = ((\<forall>p \<in> set ps. solvable p) \<and> (va = NilType \<or> solvable va) \<and> solvable r)"
| "solvable (StructType n fs ms) = (\<forall>f \<in> set fs. solvable (snd f))"
| "solvable (ChanType e) = False"
| "solvable (StreamType e) = False"
| "solvable (SubType e) = False"
| "solvable (FutureType e) = False"
| "solvable NilType = False"
| "solvable _ = True"

lemma set_ovars: "solvable t \<Longrightarrow> set (ovars t) = tvs t"
  by (induction t) (auto simp: snds_conv)

lemma solvable_tsubst: "solvable t \<Longrightarrow> (\<And>v. v \<in> tvs t \<Longrightarrow> solvable (s v)) \<Longrightarrow> solvable (tsubst s t)"
proof (induction t)
  case (StructType n fs ms)
  have "solvable (tsubst s (snd f))" if "f \<in> set fs" for f
    using StructType.IH(1) [OF that, of "snd f"] StructType.prems that by (auto simp: snds_conv)
  then show ?case by simp
qed auto

lemma or_opt_simps [simp]:
  "or_opt (Some True) b = Some True" "or_opt (Some False) b = b" "or_opt None b = None" "or_opt a (Some False) = a"
  by (auto simp: or_opt_def split: option.splits)

lemma or_opt_assoc: "or_opt (or_opt a b) c = or_opt a (or_opt b c)"
  by (auto simp: or_opt_def split: option.splits)

lemma any_opt_simps [simp]:
  "any_opt f [] = Some False" "any_opt f (x # xs) = or_opt (f x) (any_opt f xs)"
  "any_opt f (xs @ ys) = or_opt (any_opt f xs) (any_opt f ys)"
proof -
  show nil: "any_opt f [] = Some False" and cons: "any_opt f (x # xs) = or_opt (f x) (any_opt f xs)" for x xs
    by (simp_all add: any_opt_def)
  show "any_opt f (xs @ ys) = or_opt (any_opt f xs) (any_opt f ys)"
    by (induction xs) (simp_all add: nil cons or_opt_assoc)
qed

lemma any_opt_concat: "any_opt f (concat (map g xs)) = any_opt (\<lambda>x. any_opt f (g x)) xs"
  by (induction xs) simp_all

lemma occurs_eq: "occurs n name t sub = any_opt (\<lambda>v. occurs n name (TypeVar v) sub) (ovars t)"
proof (induction t)
  case (StructType nm fs ms)
  have "occurs n name (snd f) sub = any_opt (\<lambda>v. occurs n name (TypeVar v) sub) (ovars (snd f))"
    if "f \<in> set fs" for f
    using StructType(1) [OF that, of "snd f"] by (simp add: snds_conv)
  then have "any_opt (\<lambda>(f, t). occurs n name t sub) fs =
      any_opt (\<lambda>f. any_opt (\<lambda>v. occurs n name (TypeVar v) sub) (ovars (snd f))) fs"
    by (intro any_opt_cong) auto
  then show ?case by (simp add: any_opt_concat del: occurs.simps(1))
next
  case (FuncType ps r eff va tps)
  have "any_opt (\<lambda>p. occurs n name p sub) ps =
      any_opt (\<lambda>p. any_opt (\<lambda>v. occurs n name (TypeVar v) sub) (ovars p)) ps"
    by (intro any_opt_cong refl FuncType.IH(1))
  moreover have "(if va \<noteq> NilType then occurs n name va sub else Some False) = occurs n name va sub" by simp
  ultimately show ?case
    unfolding occurs.simps(8) using FuncType.IH(2,3) by (simp add: any_opt_concat del: occurs.simps(1))
qed (simp_all del: occurs.simps(1))

lemma any_opt_False: "any_opt f xs = Some False \<longleftrightarrow> (\<forall>x \<in> set xs. f x = Some False)"
  by (induction xs) (auto simp: or_opt_def split: option.splits)

lemma any_opt_stable:
  assumes "\<forall>m \<ge> n. \<forall>x \<in> set xs. f m x = g x" and "\<forall>x \<in> set xs. g x \<noteq> None"
  shows "\<exists>b. \<forall>m \<ge> n. any_opt (f m) xs = Some b"
proof -
  have "\<exists>b. any_opt g xs = Some b"
    using assms(2) by (induction xs) (auto simp: or_opt_def)
  moreover have "any_opt (f m) xs = any_opt g xs" if "n \<le> m" for m
    using assms(1) that by (intro any_opt_cong) auto
  ultimately show ?thesis by auto
qed

lemma occurs_total:
  assumes "wf (dep sub)" and "\<forall>u \<in> ran sub. solvable u" and "solvable t"
  shows "\<exists>n b. \<forall>m \<ge> n. occurs m name t sub = Some b"
proof -
  have var: "\<exists>n b. \<forall>m \<ge> n. occurs m name (TypeVar v) sub = Some b" for v
    using assms(1)
  proof (induction v rule: wf_induct_rule)
    case (less v)
    show ?case
    proof (cases "v = name \<or> sub v = None")
      case False
      then obtain u where u: "sub v = Some u" and "v \<noteq> name" by auto
      then have "solvable u" using assms(2) by (auto simp: ran_def)
      have "\<exists>b. \<exists>n. \<forall>m \<ge> n. occurs m name (TypeVar w) sub = Some b" if "w \<in> set (ovars u)" for w
      proof -
        have "(w, v) \<in> dep sub" using that u set_ovars [OF \<open>solvable u\<close>] by (auto simp: dep_def)
        with less show ?thesis by blast
      qed
      then obtain g where g: "\<And>w. w \<in> set (ovars u) \<Longrightarrow> \<exists>n. \<forall>m \<ge> n. occurs m name (TypeVar w) sub = Some (g w)"
        by metis
      have "\<exists>n. \<forall>m \<ge> n. \<forall>w \<in> set (ovars u). occurs m name (TypeVar w) sub = Some (g w)"
        using g by (intro uniform_bound) auto
      then obtain n where "\<forall>m \<ge> n. \<forall>w \<in> set (ovars u). occurs m name (TypeVar w) sub = Some (g w)" by blast
      from any_opt_stable [OF this] obtain b where b: "\<forall>m \<ge> n. occurs m name u sub = Some b"
        unfolding occurs_eq [of _ name u] by blast
      have "occurs m name (TypeVar v) sub = Some b" if "Suc n \<le> m" for m
        using b that \<open>v \<noteq> name\<close> u by (cases m) auto
      then show ?thesis by blast
    next
      case True
      then have "\<forall>m \<ge> 0. occurs m name (TypeVar v) sub = Some (v = name)" by auto
      then show ?thesis by blast
    qed
  qed
  then obtain g where g: "\<And>w. \<exists>n. \<forall>m \<ge> n. occurs m name (TypeVar w) sub = Some (g w)" by metis
  have "\<exists>n. \<forall>m \<ge> n. \<forall>w \<in> set (ovars t). occurs m name (TypeVar w) sub = Some (g w)"
    using g by (intro uniform_bound) auto
  then obtain n where "\<forall>m \<ge> n. \<forall>w \<in> set (ovars t). occurs m name (TypeVar w) sub = Some (g w)" by blast
  from any_opt_stable [OF this] show ?thesis unfolding occurs_eq [of _ name t] by blast
qed

lemma occurs_False:
  assumes "occurs n name t sub = Some False" and "solvable t" and "\<forall>u \<in> ran sub. solvable u"
  shows "\<forall>v \<in> tvs t. (name, v) \<notin> (dep sub)\<^sup>*"
  using assms(1,2)
proof (induction n arbitrary: t)
  case (0 t)
  have "sub v = None \<and> v \<noteq> name" if "v \<in> tvs t" for v
  proof -
    have "occurs 0 name (TypeVar v) sub = Some False"
      using 0 that by (simp add: occurs_eq [of _ _ t] any_opt_False set_ovars del: occurs.simps(1))
    then show ?thesis by (auto split: if_splits option.splits)
  qed
  then have "(name, v) \<notin> (dep sub)\<^sup>*" if "v \<in> tvs t" for v
    using that by (auto simp: dep_def elim!: rtranclE [of name v])
  then show ?case by blast
next
  case (Suc n t)
  have "(name, v) \<notin> (dep sub)\<^sup>*" if "v \<in> tvs t" for v
  proof
    assume r: "(name, v) \<in> (dep sub)\<^sup>*"
    have o: "occurs (Suc n) name (TypeVar v) sub = Some False"
      using Suc.prems that by (simp add: occurs_eq [of _ _ t] any_opt_False set_ovars del: occurs.simps(1))
    then have "v \<noteq> name" by (auto split: if_splits)
    with r obtain w where w: "(name, w) \<in> (dep sub)\<^sup>*" "(w, v) \<in> dep sub" by (metis rtranclE)
    then obtain u where u: "sub v = Some u" "w \<in> tvs u" by (auto simp: dep_def)
    with o \<open>v \<noteq> name\<close> have "occurs n name u sub = Some False" by simp
    with Suc.IH [of u] u assms(3) w(1) show False by (auto simp: ran_def)
  qed
  then show ?case by blast
qed

lemma wf_add_edges:
  assumes "wf r" and "\<And>w. (w, x) \<notin> r" and "\<And>a. a \<in> A \<Longrightarrow> (x, a) \<notin> r\<^sup>*"
  shows "wf (r \<union> A \<times> {x})"
proof (rule wfUNIVI)
  fix P y
  assume step: "\<forall>y. (\<forall>z. (z, y) \<in> r \<union> A \<times> {x} \<longrightarrow> P z) \<longrightarrow> P y"
  have indep: "(x, y) \<notin> r\<^sup>* \<Longrightarrow> P y" for y
    using assms(1)
  proof (induction y rule: wf_induct_rule)
    case (less y)
    have "P z" if "(z, y) \<in> r \<union> A \<times> {x}" for z
    proof -
      have "(z, y) \<in> r" using that less.prems by auto
      with less show ?thesis by (meson rtrancl_into_rtrancl)
    qed
    with step show ?case by blast
  qed
  have "P x" using step assms(2,3) indep by blast
  show "P y"
    using assms(1)
  proof (induction y rule: wf_induct_rule)
    case (less y)
    show ?case
    proof (cases "y = x")
      case False
      with less step show ?thesis by blast
    qed (simp add: \<open>P x\<close>)
  qed
qed

lemma dep_upd: "sub x = None \<Longrightarrow> dep (sub(x \<mapsto> t)) = dep sub \<union> tvs t \<times> {x}"
  by (auto simp: dep_def split: if_splits)

text \<open>A well-formed solver state.\<close>

definition wf_subst :: "Subst \<Rightarrow> bool" where
  "wf_subst sub \<longleftrightarrow> wf (dep sub) \<and> (\<forall>u \<in> ran sub. solvable u)"

lemma wf_substD: "wf_subst sub \<Longrightarrow> wf (dep sub)"
  by (simp add: wf_subst_def)

lemma solvable_resolve:
  assumes "wf_subst sub" and "solvable t"
  shows "solvable (resolve sub t)"
proof -
  have w: "wf (dep sub)" using assms by (simp add: wf_subst_def)
  have "solvable (clo sub v)" for v
    using w
  proof (induction v rule: wf_induct_rule)
    case (less v)
    show ?case
    proof (cases "sub v")
      case (Some u)
      then have "solvable u" using assms(1) by (auto simp: wf_subst_def ran_def)
      then show ?thesis
        unfolding clo_simps(2) [OF w Some] resolve_def
        using less Some by (intro solvable_tsubst) (auto simp: dep_def)
    qed (simp add: clo_simps [OF w])
  qed
  then show ?thesis unfolding resolve_def using assms(2) by (intro solvable_tsubst) auto
qed

lemma Bind_ok:
  assumes "Bind n sub x t = Some (Inr sub')" and "wf_subst sub" and "solvable t" and "sub x = None"
  shows "wf_subst sub' \<and> sub \<subseteq>\<^sub>m sub' \<and> (t = TypeVar x \<and> sub' = sub \<or> sub' = sub(x \<mapsto> t))"
proof (cases "t = TypeVar x")
  case False
  with assms(1) have o: "occurs n x t sub = Some False" and s: "sub' = sub(x \<mapsto> t)"
    by (auto simp: Bind_def split: option.splits if_splits)
  have "wf (dep sub')"
    unfolding s dep_upd [of sub x t, OF assms(4)]
    using assms occurs_False [OF o] by (intro wf_add_edges) (auto simp: wf_subst_def dep_def)
  moreover have "\<forall>u \<in> ran sub'. solvable u" using assms by (auto simp: s wf_subst_def ran_def)
  moreover have "sub \<subseteq>\<^sub>m sub'" using assms(4) by (auto simp: s map_le_def dom_def)
  ultimately show ?thesis by (simp add: wf_subst_def s)
qed (use assms in \<open>simp add: Bind_def\<close>)

section \<open>Solutions\<close>


lemma zip_memD: "(x, y) \<in> set (zip ps qs) \<Longrightarrow> x \<in> set ps \<and> y \<in> set qs"
  by (auto dest: set_zip_leftD set_zip_rightD)

lemma unify_parts_size: "unify_parts a b = Some ps \<Longrightarrow> (x, y) \<in> set ps \<Longrightarrow> size x < size a"
  by (cases a) (auto simp: unify_parts_def split: Type.split_asm if_splits dest!: zip_memD param_size)

lemma unify_parts_vars:
  "unify_parts a b = Some ps \<Longrightarrow> (x, y) \<in> set ps \<Longrightarrow> tvs x \<subseteq> tvs a \<and> tvs y \<subseteq> tvs b"
  by (cases a) (auto simp: unify_parts_def split: Type.split_asm if_splits dest!: zip_memD)

lemma unify_parts_solvable:
  "unify_parts a b = Some ps \<Longrightarrow> (x, y) \<in> set ps \<Longrightarrow> solvable a \<Longrightarrow> solvable b \<Longrightarrow> solvable x \<and> solvable y"
  by (cases a) (auto simp: unify_parts_def split: Type.split_asm if_splits dest!: zip_memD)









lemma foldl_fbind_Inl: "foldl (\<lambda>r p. fbind r (f p)) (Some (Inl e)) ps = Some (Inl e)"
  by (induction ps) auto



lemma as_TypeVar_iff [simp]: "as_TypeVar t = Some v \<longleftrightarrow> t = TypeVar v"
  by (auto simp: as_TypeVar_def split: Type.splits)

lemma as_TypeVar_TypeVar [simp]: "as_TypeVar (TypeVar v) = Some v"
  by simp



section \<open>Termination\<close>

text \<open>
  The outcome of a call that ends: an error, the same substitution, or one with strictly more of the
  variables bound.
\<close>

definition progress :: "string set \<Rightarrow> Subst \<Rightarrow> type_error + Subst \<Rightarrow> bool" where
  "progress U sub r \<longleftrightarrow>
     (\<forall>sub'. r = Inr sub' \<longrightarrow> wf_subst sub' \<and> vars_in U sub' \<and> (sub' = sub \<or> dom sub \<subset> dom sub'))"

definition ends :: "string set \<Rightarrow> Subst \<Rightarrow> (nat \<Rightarrow> (type_error + Subst) option) \<Rightarrow> bool" where
  "ends U sub f \<longleftrightarrow> (\<exists>n r. (\<forall>m \<ge> n. f m = Some r) \<and> progress U sub r)"

lemma endsI: "(\<And>m. n \<le> m \<Longrightarrow> f m = Some r) \<Longrightarrow> progress U sub r \<Longrightarrow> ends U sub f"
  by (auto simp: ends_def)

lemma ends_Suc: "ends U sub (\<lambda>m. f (Suc m)) \<Longrightarrow> ends U sub f"
  unfolding ends_def by (metis Suc_le_D Suc_le_mono)

lemma ends_Bind:
  assumes "wf_subst sub" and "solvable t" and "sub x = None" and "vars_in U sub" and "x \<in> U" and "tvs t \<subseteq> U"
  shows "ends U sub (\<lambda>m. Bind m sub x t)"
proof (cases "t = TypeVar x")
  case True
  then show ?thesis using assms by (intro endsI [of 0 _ "Inr sub"]) (simp_all add: Bind_def progress_def)
next
  case False
  from occurs_total [of sub t x] assms(1,2)
  obtain n b where n: "\<forall>m \<ge> n. occurs m x t sub = Some b" by (auto simp: wf_subst_def)
  let ?r = "if b then Inl (OccursCheck x t) else Inr (sub(x \<mapsto> t))"
  have B: "Bind m sub x t = Some ?r" if "n \<le> m" for m using n that False by (simp add: Bind_def)
  have "progress U sub ?r"
  proof (cases b)
    case False
    with B [of n] have "Bind n sub x t = Some (Inr (sub(x \<mapsto> t)))" by simp
    moreover have "dom sub \<noteq> insert x (dom sub)" using assms(3) by (metis domIff insertCI)
    ultimately show ?thesis using Bind_ok [of n sub x t "sub(x \<mapsto> t)"] assms False
      by (auto simp: progress_def vars_in_def ran_def)
  qed (simp add: progress_def)
  with B show ?thesis by (rule endsI)
qed

lemma ends_list:
  assumes "\<And>x y sub'. (x, y) \<in> set ps \<Longrightarrow> wf_subst sub' \<Longrightarrow> vars_in U sub' \<Longrightarrow> sub' = sub \<or> dom sub \<subset> dom sub' \<Longrightarrow>
      ends U sub' (\<lambda>m. f m (x, y) sub')"
    and "wf_subst s0" and "vars_in U s0" and "s0 = sub \<or> dom sub \<subset> dom s0"
  shows "ends U sub (\<lambda>m. foldl (\<lambda>r p. fbind r (f m p)) (Some (Inr s0)) ps)"
  using assms
proof (induction ps arbitrary: s0)
  case Nil
  then show ?case by (intro endsI [of 0 _ "Inr s0"]) (auto simp: progress_def)
next
  case (Cons p ps)
  obtain x y where p: "p = (x, y)" by force
  from Cons.prems have "ends U s0 (\<lambda>m. f m (x, y) s0)" by (auto simp: p)
  then obtain n r where r: "\<forall>m \<ge> n. f m (x, y) s0 = Some r" "progress U s0 r" by (auto simp: ends_def)
  show ?case
  proof (cases r)
    case (Inl e)
    with r show ?thesis
      by (intro endsI [of n _ "Inl e"]) (auto simp: p foldl_fbind_Inl progress_def)
  next
    case (Inr s1)
    with r have s1: "wf_subst s1" "vars_in U s1" "s1 = s0 \<or> dom s0 \<subset> dom s1" by (auto simp: progress_def)
    then have "s1 = sub \<or> dom sub \<subset> dom s1" using Cons.prems(4) by (metis psubset_trans)
    with Cons s1 have "ends U sub (\<lambda>m. foldl (\<lambda>r p. fbind r (f m p)) (Some (Inr s1)) ps)" by auto
    then obtain n' r' where r': "\<forall>m \<ge> n'. foldl (\<lambda>r p. fbind r (f m p)) (Some (Inr s1)) ps = Some r'" "progress U sub r'"
      by (auto simp: ends_def)
    with r Inr show ?thesis by (intro endsI [of "max n n'" _ r']) (auto simp: p)
  qed
qed

lemma ends_eventually: "(\<And>m. n \<le> m \<Longrightarrow> f m = g m) \<Longrightarrow> ends U sub g \<Longrightarrow> ends U sub f"
  unfolding ends_def
proof (elim exE conjE)
  fix n' r assume fg: "\<And>m. n \<le> m \<Longrightarrow> f m = g m" and g: "\<forall>m \<ge> n'. g m = Some r" "progress U sub r"
  then have "\<forall>m \<ge> max n n'. f m = Some r" by simp
  with g(2) show "\<exists>n r. (\<forall>m \<ge> n. f m = Some r) \<and> progress U sub r" by blast
qed

lemma ends_const: "progress U sub r \<Longrightarrow> ends U sub (\<lambda>m. Some r)"
  by (auto simp: ends_def)

text \<open>The body of \<open>unifyInto\<close> after both arguments have been resolved.\<close>

definition unify_body :: "nat \<Rightarrow> Type \<Rightarrow> Type \<Rightarrow> Subst \<Rightarrow> (type_error + Subst) option" where
  "unify_body n a b sub =
     (case as_TypeVar a of
       Some av \<Rightarrow> if as_TypeVar b = Some av then Some (Inr sub) else Bind n sub av b
     | None \<Rightarrow>
       (case as_TypeVar b of
          Some bv \<Rightarrow> Bind n sub bv a
        | None \<Rightarrow>
          if a = AnyType then Some (Inr sub)
          else if b = AnyType then Some (Inr sub)
          else case unify_parts a b of
            None \<Rightarrow> Some (Inl (CannotUnify a b))
          | Some ps \<Rightarrow> foldl (\<lambda>r p. fbind r (case_prod (unifyInto n) p)) (Some (Inr sub)) ps))"

lemma unifyInto_body:
  "unifyInto (Suc n) a b sub = Option.bind (Apply n sub a) (\<lambda>a. Option.bind (Apply n sub b) (\<lambda>b. unify_body n a b sub))"
  by (simp add: unify_body_def)

lemma ends_body:
  assumes "wf_subst sub" and "vars_in U sub" and "solvable a" and "solvable b" and "tvs a \<subseteq> U" and "tvs b \<subseteq> U"
    and "tvs a \<inter> dom sub = {}" and "tvs b \<inter> dom sub = {}"
    and parts: "\<And>ps x y sub'. unify_parts a b = Some ps \<Longrightarrow> (x, y) \<in> set ps \<Longrightarrow> wf_subst sub' \<Longrightarrow> vars_in U sub' \<Longrightarrow>
      sub' = sub \<or> dom sub \<subset> dom sub' \<Longrightarrow> ends U sub' (\<lambda>m. unifyInto m x y sub')"
  shows "ends U sub (\<lambda>m. unify_body m a b sub)"
proof -
  have same: "ends U sub (\<lambda>m. Some (Inr sub))" using assms by (intro ends_const) (simp add: progress_def)
  show ?thesis
  proof (cases "as_TypeVar a")
    case (Some x)
    then have x: "a = TypeVar x" by simp
    then have "sub x = None" using assms(7) by (auto simp: dom_def)
    with x assms show ?thesis
      using same by (cases "b = TypeVar x") (auto simp: unify_body_def intro: ends_Bind)
  next
    case a: None
    show ?thesis
    proof (cases "as_TypeVar b")
      case (Some y)
      then have y: "b = TypeVar y" by simp
      then have "sub y = None" using assms(8) by (auto simp: dom_def)
      with a y assms show ?thesis by (auto simp: unify_body_def intro: ends_Bind)
    next
      case b: None
      show ?thesis
      proof (cases "a = AnyType \<or> b = AnyType")
        case True
        then have "unify_body m a b sub = Some (Inr sub)" for m using a b by (auto simp: unify_body_def)
        with same show ?thesis by simp
      next
        case False
        show ?thesis
        proof (cases "unify_parts a b")
          case None
          with a b False show ?thesis by (simp add: unify_body_def ends_const progress_def)
        next
          case (Some ps)
          have "ends U sub (\<lambda>m. foldl (\<lambda>r p. fbind r (case_prod (unifyInto m) p)) (Some (Inr sub)) ps)"
            by (rule ends_list) (use parts [OF Some] assms(1,2) in auto)
          with a b False Some show ?thesis by (simp add: unify_body_def)
        qed
      qed
    qed
  qed
qed

lemma unifyInto_ends:
  assumes "finite U"
  shows "wf_subst sub \<Longrightarrow> vars_in U sub \<Longrightarrow> solvable a \<Longrightarrow> solvable b \<Longrightarrow> tvs a \<subseteq> U \<Longrightarrow> tvs b \<subseteq> U \<Longrightarrow>
    ends U sub (\<lambda>m. unifyInto m a b sub)"
proof (induction "(card (U - dom sub), size (resolve sub a))" arbitrary: a b sub
    rule: wf_induct_rule [OF wf_lex_prod [OF wf_less_than wf_less_than]])
  case (1 a sub b)
  let ?a = "resolve sub a" and ?b = "resolve sub b"
  note wf = wf_substD [OF 1(2)]
  have sol: "solvable ?a" "solvable ?b" using 1 solvable_resolve by auto
  have U: "tvs ?a \<subseteq> U" "tvs ?b \<subseteq> U" using 1 resolve_vars(2) [OF wf] by auto
  obtain n1 n2 where n: "\<forall>m \<ge> n1. Apply m sub a = Some ?a" "\<forall>m \<ge> n2. Apply m sub b = Some ?b"
    using Apply_total [OF wf] by metis
  have "ends U sub (\<lambda>m. unify_body m ?a ?b sub)"
  proof (rule ends_body)
    fix ps x y sub'
    assume ps: "unify_parts ?a ?b = Some ps" "(x, y) \<in> set ps"
      and s: "wf_subst sub'" "vars_in U sub'" "sub' = sub \<or> dom sub \<subset> dom sub'"
    have "((card (U - dom sub'), size (resolve sub' x)), (card (U - dom sub), size ?a)) \<in> less_than <*lex*> less_than"
      using s(3)
    proof
      assume "sub' = sub"
      have "tvs x \<inter> dom sub = {}" using unify_parts_vars [OF ps] resolve_vars(1) [OF wf, of a] by auto
      then show ?thesis
        using unify_parts_size [OF ps] resolve_idle [OF wf] by (simp add: \<open>sub' = sub\<close>)
    next
      assume "dom sub \<subset> dom sub'"
      then obtain x where "x \<in> dom sub'" "x \<notin> dom sub" by blast
      then have "x \<in> U - dom sub" "x \<notin> U - dom sub'" using s(2) unfolding vars_in_def by blast+
      with \<open>dom sub \<subset> dom sub'\<close> have "U - dom sub' \<subset> U - dom sub" by blast
      then show ?thesis using assms by (simp add: psubset_card_mono)
    qed
    then show "ends U sub' (\<lambda>m. unifyInto m x y sub')"
      by (rule 1(1)) (use unify_parts_solvable [OF ps sol] unify_parts_vars [OF ps] U s in auto)
  qed (use 1 sol U resolve_vars(1) [OF wf] in auto)
  then have "ends U sub (\<lambda>m. unifyInto (Suc m) a b sub)"
    by (rule ends_eventually [of "max n1 n2", rotated]) (simp add: unifyInto_body n del: unifyInto.simps)
  then show ?case by (rule ends_Suc)
qed

section \<open>Properties\<close>

text \<open>
  C30: on solvable types (no channel, stream, subscription or future in them, nil at most as a variadic
  parameter) and from an acyclic, finite substitution over such types, \<open>Unify\<close> terminates: with enough fuel the
  result no longer depends on it.
\<close>

theorem unify_terminates:
  assumes "wf_subst sub" and "finite (dom sub)" and "solvable a" and "solvable b"
  shows "\<exists>n r. \<forall>m \<ge> n. Unify m a b sub = Some r"
proof -
  let ?U = "dom sub \<union> (\<Union>u \<in> ran sub. tvs u) \<union> tvs a \<union> tvs b"
  have "finite ?U" using assms(2) by (simp add: finite_ran)
  moreover have "vars_in ?U sub" by (auto simp: vars_in_def)
  ultimately have "ends ?U sub (\<lambda>m. unifyInto m a b sub)"
    using assms by (intro unifyInto_ends) auto
  then show ?thesis by (auto simp: ends_def Unify_def)
qed

theorem unify_terminates_witness:
  "\<exists>n r. \<forall>m \<ge> n. Unify m (MapType (TypeVar ''K'') (ListType (TypeVar ''V'')))
     (MapType StringType (TypeVar ''W'')) Map.empty = Some r"
  by (rule unify_terminates) (simp_all add: wf_subst_def dep_def)



text \<open>
  Outside the solvable types the occurs check has a hole: a variable is bound to a channel over itself, after which
  applying the substitution never returns.
\<close>

lemma occurs_check_misses_channels:
  "Unify (Suc n) (TypeVar ''T'') (ChanType (TypeVar ''T'')) Map.empty =
     Some (Inr [''T'' \<mapsto> ChanType (TypeVar ''T'')])"
  "Apply m [''T'' \<mapsto> ChanType (TypeVar ''T'')] (TypeVar ''T'') = None"
proof -
  show "Unify (Suc n) (TypeVar ''T'') (ChanType (TypeVar ''T'')) Map.empty =
     Some (Inr [''T'' \<mapsto> ChanType (TypeVar ''T'')])"
    by (simp add: Unify_def as_TypeVar_def Bind_def)
  show "Apply m [''T'' \<mapsto> ChanType (TypeVar ''T'')] (TypeVar ''T'') = None"
    by (induction m) simp_all
qed

text \<open>The boxed FFI type does not unify with itself.\<close>

lemma value_not_unifiable: "Unify (Suc n) ValueType ValueType sub = Some (Inl (CannotUnify ValueType ValueType))"
  by (simp add: Unify_def as_TypeVar_def unify_parts_def sameAtomic_def)

end
