(* ===== verification/Types_Poly.thy ===== *)
theory Types_Poly
  imports Types_Subst_Correct
begin

text \<open>
  Fresh variables, instantiation and generalisation (\<open>internal/types/poly.go\<close>).  The
  global counter is threaded through; free variables are collected in the order they are met, with the
  fuel of \<open>Types_Subst\<close> for the bindings that are followed.
\<close>

section \<open>The operations\<close>

definition FreshTypeVar :: "string \<Rightarrow> u64 \<Rightarrow> string \<times> u64" where
  "FreshTypeVar base freshCounter =
     (let base = (if base = [] then ''T'' else base);
          n = freshCounter + 1
      in (base @ ''#'' @ show_nat (unat n), n))"

definition ResetFreshCounter :: "u64 \<Rightarrow> u64" where
  "ResetFreshCounter freshCounter = 0"

text \<open>The loop that fills the substitution.\<close>

fun fresh_subst :: "string list \<Rightarrow> Subst \<Rightarrow> u64 \<Rightarrow> Subst \<times> u64" where
  "fresh_subst [] sub c = (sub, c)"
| "fresh_subst (name # names) sub c =
     (let (tv, c) = FreshTypeVar name c in fresh_subst names (sub(name \<mapsto> TypeVar tv)) c)"

definition Instantiate :: "nat \<Rightarrow> Type \<Rightarrow> string list \<Rightarrow> u64 \<Rightarrow> (Type \<times> Subst) option \<times> u64" where
  "Instantiate n t params c =
     (if params = [] \<or> t = NilType then (Some (t, Map.empty), c)
      else let (sub, c) = fresh_subst params Map.empty c
           in (map_option (\<lambda>u. (u, sub)) (Apply n sub t), c))"

definition app_opt :: "'a list option \<Rightarrow> 'a list option \<Rightarrow> 'a list option" where
  "app_opt a b = (case (a, b) of (Some x, Some y) \<Rightarrow> Some (x @ y) | _ \<Rightarrow> None)"

function collectFreeVars :: "nat \<Rightarrow> Type \<Rightarrow> Subst \<Rightarrow> string list option" where
  "collectFreeVars n (TypeVar v) sub =
     (case sub v of
        Some u \<Rightarrow> (case n of 0 \<Rightarrow> None | Suc m \<Rightarrow> collectFreeVars m u sub)
      | None \<Rightarrow> Some [v])"
| "collectFreeVars n (SetType e) sub = collectFreeVars n e sub"
| "collectFreeVars n (ListType e) sub = collectFreeVars n e sub"
| "collectFreeVars n (MapType k v) sub = app_opt (collectFreeVars n k sub) (collectFreeVars n v sub)"
| "collectFreeVars n (OMapType k v) sub = app_opt (collectFreeVars n k sub) (collectFreeVars n v sub)"
| "collectFreeVars n (ChanType e) sub = collectFreeVars n e sub"
| "collectFreeVars n (StreamType e) sub = collectFreeVars n e sub"
| "collectFreeVars n (SubType e) sub = collectFreeVars n e sub"
| "collectFreeVars n (FutureType e) sub = collectFreeVars n e sub"
| "collectFreeVars n (OptionType e) sub = collectFreeVars n e sub"
| "collectFreeVars n (GroupType k e) sub = app_opt (collectFreeVars n k sub) (collectFreeVars n e sub)"
| "collectFreeVars n (FuncType ps r eff va tps) sub =
     app_opt (map_option concat (those (map (\<lambda>p. collectFreeVars n p sub) ps)))
       (app_opt (if va \<noteq> NilType then collectFreeVars n va sub else Some []) (collectFreeVars n r sub))"
| "collectFreeVars n (StructType nm fs ms) sub =
     map_option concat (those (map (\<lambda>(f, t). collectFreeVars n t sub) fs))"
| "collectFreeVars n (UnionType nm vs ord) sub = Some []"
| "collectFreeVars n NilType sub = Some []"
| "collectFreeVars n IntType sub = Some []"
| "collectFreeVars n Int64Type sub = Some []"
| "collectFreeVars n FloatType sub = Some []"
| "collectFreeVars n BigIntType sub = Some []"
| "collectFreeVars n BigRatType sub = Some []"
| "collectFreeVars n StringType sub = Some []"
| "collectFreeVars n BoolType sub = Some []"
| "collectFreeVars n UnitType sub = Some []"
| "collectFreeVars n AnyType sub = Some []"
| "collectFreeVars n ValueType sub = Some []"
  by pat_completeness auto
termination
  by (relation "measures [\<lambda>(n, t, sub). n, \<lambda>(n, t, sub). size t]") (auto dest!: param_size field_size)

definition FreeTypeVars :: "nat \<Rightarrow> Type \<Rightarrow> Subst \<Rightarrow> string list option" where
  "FreeTypeVars n t sub = map_option (\<lambda>seen. sort_by_key id (remdups seen)) (collectFreeVars n t sub)"

text \<open>\<open>envFreeVars\<close> over the types of the scopes of an environment, innermost first.\<close>

definition envFreeVars :: "(string \<times> Type) list list \<Rightarrow> string list option" where
  "envFreeVars scopes =
     map_option concat (those (map (\<lambda>(x, t). collectFreeVars 0 t Map.empty) (concat scopes)))"

definition Generalise :: "Type \<Rightarrow> (string \<times> Type) list list option \<Rightarrow> (string list \<times> Type) option" where
  "Generalise t env =
     Option.bind (FreeTypeVars 0 t Map.empty) (\<lambda>free.
     case env of
       None \<Rightarrow> Some (free, t)
     | Some scopes \<Rightarrow>
         Option.bind (envFreeVars scopes) (\<lambda>captured.
         Some (filter (\<lambda>name. name \<notin> set captured) free, t)))"

section \<open>Free variables\<close>

lemma app_opt_Some [simp]: "app_opt a b = Some z \<longleftrightarrow> (\<exists>x y. a = Some x \<and> b = Some y \<and> z = x @ y)"
  by (auto simp: app_opt_def split: option.splits)

text \<open>The variables collected are those of the applied type.\<close>

definition collects :: "('b \<Rightarrow> string set) \<Rightarrow> 'b option \<Rightarrow> string list option \<Rightarrow> bool" where
  "collects h a c \<longleftrightarrow> (case a of None \<Rightarrow> c = None | Some u \<Rightarrow> \<exists>vs. c = Some vs \<and> set vs = h u)"

lemma collects_those:
  assumes "\<And>x. x \<in> set xs \<Longrightarrow> collects h (f x) (g x)"
  shows "collects (\<lambda>us. \<Union>u \<in> set us. h u) (those (map f xs)) (map_option concat (those (map g xs)))"
  using assms
proof (induction xs)
  case (Cons x xs)
  then have "collects h (f x) (g x)" "collects (\<lambda>us. \<Union>u \<in> set us. h u) (those (map f xs)) (map_option concat (those (map g xs)))"
    by auto
  then show ?case by (auto simp: collects_def split: option.splits)
qed (simp add: collects_def)

lemma collects_Func:
  assumes "collects (\<lambda>us. \<Union>u \<in> set us. tvs u) A C" and "collects tvs V CV" and "collects tvs R CR"
  shows "collects tvs (Option.bind A (\<lambda>ps. Option.bind R (\<lambda>r. Option.bind V (\<lambda>va. Some (FuncType ps r eff va tps)))))
    (app_opt C (app_opt CV CR))"
  using assms by (cases A; cases R; cases V) (auto simp: collects_def app_opt_def split: option.splits)

lemma collectFreeVars_Apply: "collects tvs (Apply n sub t) (collectFreeVars n t sub)"
proof (induction n t sub rule: collectFreeVars.induct)
  case (1 n v sub)
  then show ?case by (cases "sub v"; cases n) (simp_all add: collects_def)
next
  case (12 n ps r eff va tps sub)
  have "collects (\<lambda>us. \<Union>u \<in> set us. tvs u) (those (map (Apply n sub) ps))
      (map_option concat (those (map (\<lambda>p. collectFreeVars n p sub) ps)))"
    using 12(1) by (rule collects_those)
  moreover have "collects tvs (if va \<noteq> NilType then Apply n sub va else Some NilType)
      (if va \<noteq> NilType then collectFreeVars n va sub else Some [])"
    using 12(2) by (simp add: collects_def)
  ultimately show ?case unfolding Apply.simps collectFreeVars.simps using 12(3) by (rule collects_Func)
next
  case (13 n nm fs ms sub)
  have "collects (\<lambda>us. \<Union>u \<in> set us. tvs (snd u)) (those (map (\<lambda>(f, t). map_option (Pair f) (Apply n sub t)) fs))
      (map_option concat (those (map (\<lambda>(f, t). collectFreeVars n t sub) fs)))"
  proof (rule collects_those)
    fix x assume "x \<in> set fs"
    with 13 [of x "fst x" "snd x"]
    show "collects (\<lambda>u. tvs (snd u)) (case x of (f, t) \<Rightarrow> map_option (Pair f) (Apply n sub t))
        (case x of (f, t) \<Rightarrow> collectFreeVars n t sub)"
      by (auto simp: collects_def split: option.splits prod.splits)
  qed
  then show ?case by (auto simp: collects_def split: option.splits)
qed (auto simp: collects_def app_opt_def split: option.splits nat.splits)

lemma FreeTypeVars_resolve:
  assumes "wf (dep sub)"
  shows "\<exists>n. \<forall>m \<ge> n. \<exists>vs. FreeTypeVars m t sub = Some vs \<and> set vs = tvs (resolve sub t) \<and> distinct vs"
proof -
  from Apply_total [OF assms, of t] obtain n where n: "\<forall>m \<ge> n. Apply m sub t = Some (resolve sub t)" by blast
  have "\<exists>vs. FreeTypeVars m t sub = Some vs \<and> set vs = tvs (resolve sub t) \<and> distinct vs" if "n \<le> m" for m
    using n that collectFreeVars_Apply [of m sub t] by (auto simp: FreeTypeVars_def collects_def)
  then show ?thesis by blast
qed

section \<open>Instantiation\<close>

lemma show_nat_inj: "show_nat a = show_nat b \<Longrightarrow> a = b"
proof (induction a arbitrary: b rule: show_nat.induct)
  case (1 a)
  have d: "digit_char x = digit_char y \<longleftrightarrow> x = y" if "x < 10" "y < 10" for x y
    using that of_char_digit_char by (metis add_left_cancel)
  show ?case
  proof (cases "a < 10 \<or> b < 10")
    case True
    then show ?thesis
      using "1.prems" d [of a b] show_nat_nonempty [of "a div 10"] show_nat_nonempty [of "b div 10", symmetric] by (cases "a < 10"; cases "b < 10") (auto simp: show_nat.simps [of a] show_nat.simps [of b])
  next
    case False
    with "1.prems" have "show_nat (a div 10) = show_nat (b div 10)" "digit_char (a mod 10) = digit_char (b mod 10)"
      by (simp_all add: show_nat.simps [of a] show_nat.simps [of b])
    with "1.IH" False d [of "a mod 10" "b mod 10"] show ?thesis by (metis div_mod_decomp mod_less_divisor zero_less_numeral)
  qed
qed

lemma FreshTypeVar_name:
  assumes "FreshTypeVar base c = (tv, c')"
  shows "c' = c + 1" and "tv = (if base = [] then ''T'' else base) @ ''#'' @ show_nat (unat c')"
  using assms by (auto simp: FreshTypeVar_def Let_def split: if_splits)

lemma hash_suffix_inj:
  assumes "a @ ''#'' @ show_nat n = b @ ''#'' @ show_nat m"
  shows "n = m"
proof -
  have free: "CHR ''#'' \<notin> set (show_nat k)" for k
    using show_nat_digits [of "CHR ''#''" k] by (auto simp: is_digit_def)
  have tail: "takeWhile (\<lambda>c. c \<noteq> CHR ''#'') (rev (x @ ''#'' @ show_nat k)) = rev (show_nat k)" for x k
    using free [of k] by (auto simp: takeWhile_append takeWhile_eq_all_conv)
  have "rev (show_nat n) = rev (show_nat m)" using tail [of a n] tail [of b m] assms by metis
  then show ?thesis using show_nat_inj by simp
qed

text \<open>
  The variables handed out between two counter values below the wrap-around: each parameter is bound to a name
  that ends in its own counter value.
\<close>

definition fresh_between :: "nat \<Rightarrow> nat \<Rightarrow> Type option \<Rightarrow> bool" where
  "fresh_between lo hi u \<longleftrightarrow>
     (\<exists>k base. lo < k \<and> k \<le> hi \<and> u = Some (TypeVar (base @ ''#'' @ show_nat k)))"

lemma fresh_between_mono: "fresh_between lo hi u \<Longrightarrow> lo' \<le> lo \<Longrightarrow> fresh_between lo' hi u"
  unfolding fresh_between_def using le_less_trans by blast

lemma fresh_between_name: "fresh_between lo hi u \<Longrightarrow> \<exists>w. u = Some (TypeVar w) \<and> CHR ''#'' \<in> set w"
  by (auto simp: fresh_between_def)

lemma fresh_subst_spec:
  assumes "unat c + length names < 2 ^ 64" and "fresh_subst names sub c = (sub', c')"
  shows "unat c' = unat c + length names \<and> dom sub' = dom sub \<union> set names \<and>
    (\<forall>v. v \<in> set names \<longrightarrow> fresh_between (unat c) (unat c') (sub' v)) \<and>
    (\<forall>v. v \<notin> set names \<longrightarrow> sub' v = sub v)"
  using assms
proof (induction names arbitrary: sub c)
  case (Cons name names)
  obtain tv c1 where f: "FreshTypeVar name c = (tv, c1)" by force
  have c1: "c1 = c + 1" "tv = (if name = [] then ''T'' else name) @ ''#'' @ show_nat (unat c1)"
    using FreshTypeVar_name [OF f] by blast+
  have u: "unat c1 = unat c + 1"
    using Cons.prems(1) unfolding c1(1) by (subst unat_add_lem [THEN iffD1]) simp_all
  have rest: "fresh_subst names (sub(name \<mapsto> TypeVar tv)) c1 = (sub', c')" using Cons.prems(2) f by simp
  have ih: "unat c' = unat c1 + length names" "dom sub' = dom (sub(name \<mapsto> TypeVar tv)) \<union> set names"
    "\<forall>v. v \<in> set names \<longrightarrow> fresh_between (unat c1) (unat c') (sub' v)"
    "\<forall>v. v \<notin> set names \<longrightarrow> sub' v = (sub(name \<mapsto> TypeVar tv)) v"
    using Cons.IH [OF _ rest] Cons.prems(1) u by (auto simp del: fun_upd_apply dom_fun_upd)
  have "fresh_between (unat c) (unat c') (sub' v)" if v: "v \<in> set (name # names)" for v
  proof (cases "v \<in> set names")
    case True
    with ih(3) u show ?thesis using fresh_between_mono by fastforce
  next
    case False
    with v ih(4) have "sub' v = Some (TypeVar tv)" by simp
    then show ?thesis unfolding fresh_between_def
      using ih(1) u c1(2) by (intro exI [of _ "unat c1"] exI conjI) auto
  qed
  with ih u show ?case by auto
qed simp

text \<open>
  Instantiating a type none of whose variables and parameters contains the separator replaces the parameters by
  variables that do not occur in the type and leaves the others alone; one unit of fuel is enough.
\<close>

lemma Instantiate_spec:
  assumes "unat c + length params < 2 ^ 64" and "params \<noteq> []" and "t \<noteq> NilType"
    and "\<forall>v \<in> tvs t \<union> set params. CHR ''#'' \<notin> set v"
  shows "\<exists>sub c'. Instantiate (Suc n) t params c = (Some (tsubst (clo sub) t, sub), c') \<and>
    dom sub = set params \<and>
    (\<forall>v \<in> set params. \<exists>w. clo sub v = TypeVar w \<and> w \<notin> tvs t) \<and>
    (\<forall>v. v \<notin> set params \<longrightarrow> clo sub v = TypeVar v)"
proof -
  obtain sub c' where f: "fresh_subst params Map.empty c = (sub, c')" by force
  from fresh_subst_spec [OF assms(1) f]
  have dom: "dom sub = set params"
    and "\<And>v. v \<in> set params \<Longrightarrow> fresh_between (unat c) (unat c') (sub v)"
    by auto
  then have fresh: "\<And>v. v \<in> set params \<Longrightarrow> \<exists>w. sub v = Some (TypeVar w) \<and> CHR ''#'' \<in> set w"
    using fresh_between_name by blast
  have hash: "w \<notin> tvs t \<and> sub w = None" if "sub v = Some (TypeVar w)" for v w
  proof -
    have "v \<in> set params" using that dom by auto
    with fresh that have "CHR ''#'' \<in> set w" by fastforce
    then have "w \<notin> tvs t \<union> set params" using assms(4) by blast
    with dom show ?thesis by (auto simp: dom_def)
  qed
  have look: "look (Suc m) sub v = Some (case sub v of None \<Rightarrow> TypeVar v | Some u \<Rightarrow> u)" for m v
  proof (cases "sub v")
    case (Some u)
    then have "v \<in> set params" using dom by auto
    with fresh Some obtain w where "u = TypeVar w" by fastforce
    with Some hash [of v w] show ?thesis by (simp add: look_def)
  qed (simp add: look_def)
  then have clo: "clo sub v = (case sub v of None \<Rightarrow> TypeVar v | Some u \<Rightarrow> u)" for v
    by (rule clo_look)
  have "Apply (Suc n) sub t = Some (tsubst (clo sub) t)"
    using look clo by (simp add: Apply_eq tsubst_cong [of t "clo sub"])
  then have "Instantiate (Suc n) t params c = (Some (tsubst (clo sub) t, sub), c')"
    using assms(2,3) f by (simp add: Instantiate_def)
  moreover have "\<exists>w. clo sub v = TypeVar w \<and> w \<notin> tvs t" if "v \<in> set params" for v
    using fresh [OF that] hash clo [of v] by force
  moreover have "clo sub v = TypeVar v" if "v \<notin> set params" for v
    using that dom clo by (auto simp: dom_def split: option.split)
  ultimately show ?thesis using dom by blast
qed

text \<open>
  Two variables count as the same when their names agree: the unifier compares names, not the identity of
  the pointers.
\<close>

lemma variables_compare_by_name: "Unify (Suc n) (TypeVar v) (TypeVar v) Map.empty = Some (Inr Map.empty)"
  by (simp add: Unify_def as_TypeVar_def)

end
