(* ===== verification/Types_Legacy.thy ===== *)
theory Types_Legacy
  imports Types_Subst
begin

text \<open>
  The older unifier of \<open>internal/types/unify.go\<close>, a predicate that records bindings in a map it is handed.
  The map may be nil (\<open>None\<close>), which turns the unifier into a comparison; bindings made before a
  failure stay.  Without an occurs check a chase through the map may not return, so the model has fuel.
\<close>

section \<open>The unifier\<close>

type_synonym ustate = "Subst option"

definition and_then :: "(bool \<times> 's) option \<Rightarrow> ('s \<Rightarrow> (bool \<times> 's) option) \<Rightarrow> (bool \<times> 's) option" where
  "and_then r f = (case r of None \<Rightarrow> None | Some (ok, s) \<Rightarrow> if ok then f s else Some (False, s))"

text \<open>The branch \<open>case *TypeVar\<close> on the right-hand side, which ten of the kinds share.\<close>

definition bind_right ::
  "(Type \<Rightarrow> Type \<Rightarrow> ustate \<Rightarrow> (bool \<times> ustate) option) \<Rightarrow> Type \<Rightarrow> string \<Rightarrow> ustate \<Rightarrow> (bool \<times> ustate) option" where
  "bind_right rec a name subst =
     (case subst of
        None \<Rightarrow> Some (False, subst)
      | Some s \<Rightarrow>
          (case s name of
             Some val \<Rightarrow> rec a val subst
           | None \<Rightarrow> Some (True, Some (s(name \<mapsto> a)))))"

text \<open>One call; \<open>rec\<close> stands for the recursive ones.\<close>

definition unify_step ::
  "(Type \<Rightarrow> Type \<Rightarrow> ustate \<Rightarrow> (bool \<times> ustate) option) \<Rightarrow> Type \<Rightarrow> Type \<Rightarrow> ustate \<Rightarrow> (bool \<times> ustate) option" where
  "unify_step rec a b subst =
     (let answer = (\<lambda>ok. Some (ok, subst)); var = bind_right rec a in
      if b = AnyType then answer True
      else case a of
        AnyType \<Rightarrow> answer True
      | TypeVar x \<Rightarrow>
          (case subst of
             Some s \<Rightarrow> (case s x of Some val \<Rightarrow> rec val b subst | None \<Rightarrow> Some (True, Some (s(x \<mapsto> b))))
           | None \<Rightarrow> answer (b = TypeVar x))
      | ListType x \<Rightarrow> (case b of ListType y \<Rightarrow> rec x y subst | TypeVar v \<Rightarrow> var v subst | _ \<Rightarrow> answer False)
      | MapType k v \<Rightarrow>
          (case b of MapType k' v' \<Rightarrow> and_then (rec k k' subst) (rec v v') | TypeVar v \<Rightarrow> var v subst | _ \<Rightarrow> answer False)
      | ChanType x \<Rightarrow> (case b of ChanType y \<Rightarrow> rec x y subst | TypeVar v \<Rightarrow> var v subst | _ \<Rightarrow> answer False)
      | StreamType x \<Rightarrow> (case b of StreamType y \<Rightarrow> rec x y subst | TypeVar v \<Rightarrow> var v subst | _ \<Rightarrow> answer False)
      | SubType x \<Rightarrow> (case b of SubType y \<Rightarrow> rec x y subst | TypeVar v \<Rightarrow> var v subst | _ \<Rightarrow> answer False)
      | FutureType x \<Rightarrow> (case b of FutureType y \<Rightarrow> rec x y subst | TypeVar v \<Rightarrow> var v subst | _ \<Rightarrow> answer False)
      | OptionType x \<Rightarrow> (case b of OptionType y \<Rightarrow> rec x y subst | TypeVar v \<Rightarrow> var v subst | _ \<Rightarrow> answer False)
      | GroupType k x \<Rightarrow>
          (case b of GroupType k' y \<Rightarrow> and_then (rec k k' subst) (rec x y) | TypeVar v \<Rightarrow> var v subst | _ \<Rightarrow> answer False)
      | StructType n fs ms \<Rightarrow>
          (case b of
             StructType n' gs ms' \<Rightarrow>
               if n \<noteq> [] \<and> n' \<noteq> [] \<and> n \<noteq> n' then answer False
               else if length fs \<noteq> length gs then answer False
               else foldl (\<lambda>r f. and_then r (\<lambda>s.
                      case FieldType gs (fst f) of None \<Rightarrow> Some (False, s) | Some bv \<Rightarrow> rec (snd f) bv s))
                    (Some (True, subst)) fs
           | UnionType n' vs ord \<Rightarrow> (case map_of vs n of Some vt \<Rightarrow> rec a vt subst | None \<Rightarrow> answer False)
           | _ \<Rightarrow> answer False)
      | UnionType n vs ord \<Rightarrow>
          (case b of
             UnionType n' vs' ord' \<Rightarrow> answer (n = n')
           | StructType n' gs ms' \<Rightarrow> (case map_of vs n' of Some vt \<Rightarrow> rec vt b subst | None \<Rightarrow> answer False)
           | TypeVar v \<Rightarrow> var v subst
           | _ \<Rightarrow> answer False)
      | FuncType ps r e va tps \<Rightarrow>
          (case b of
             FuncType qs r' e' va' tps' \<Rightarrow>
               if length ps \<noteq> length qs then answer False
               else if (va = NilType) \<noteq> (va' = NilType) then answer False
               else and_then (foldl (\<lambda>acc p. and_then acc (rec (fst p) (snd p))) (Some (True, subst)) (zip ps qs)) (\<lambda>s.
                    and_then (if va \<noteq> NilType then rec va va' s else Some (True, s)) (rec r r'))
           | _ \<Rightarrow> answer False)
      | IntType \<Rightarrow> answer (b \<in> {IntType, BigIntType})
      | Int64Type \<Rightarrow> answer (b \<in> {Int64Type, IntType})
      | BigIntType \<Rightarrow> answer (b \<in> {BigIntType, IntType, Int64Type})
      | BigRatType \<Rightarrow> answer (b \<in> {BigRatType, FloatType, IntType, Int64Type, BigIntType})
      | FloatType \<Rightarrow> answer (b = FloatType)
      | StringType \<Rightarrow> answer (b = StringType)
      | BoolType \<Rightarrow> answer (b = BoolType)
      | UnitType \<Rightarrow> answer (b = UnitType)
      | ValueType \<Rightarrow> answer (b = ValueType)
      | _ \<Rightarrow> (case b of TypeVar v \<Rightarrow> var v subst | _ \<Rightarrow> answer False))"

primrec unify :: "nat \<Rightarrow> Type \<Rightarrow> Type \<Rightarrow> ustate \<Rightarrow> (bool \<times> ustate) option" where
  "unify 0 a b subst = None"
| "unify (Suc n) a b subst = unify_step (unify n) a b subst"

section \<open>As a comparison\<close>

lemma and_then_nil:
  "\<exists>ok. r = Some (ok, None) \<Longrightarrow> \<exists>ok. f None = Some (ok, None) \<Longrightarrow> \<exists>ok. and_then r f = Some (ok, None)"
  by (auto simp: and_then_def)

lemma foldl_and_then_nil:
  assumes "\<And>x. x \<in> set xs \<Longrightarrow> \<exists>ok. f x None = Some (ok, None)" and "\<exists>ok. r = Some (ok, None)"
  shows "\<exists>ok. foldl (\<lambda>r x. and_then r (f x)) r xs = Some (ok, None)"
  using assms
proof (induction xs arbitrary: r)
  case (Cons x xs)
  from Cons.prems have "\<exists>ok. and_then r (f x) = Some (ok, None)" by (intro and_then_nil) auto
  with Cons show ?case by simp
qed simp

lemma map_of_size: "map_of vs n = Some t \<Longrightarrow> size t \<le> size_list (size_prod (\<lambda>_. 0) size) vs"
  by (drule map_of_SomeD) (rule field_size)

lemma unify_nil_total: "size a + size b < n \<Longrightarrow> \<exists>ok. unify n a b None = Some (ok, None)"
proof (induction n arbitrary: a b)
  case (Suc n)
  note IH = Suc.IH
  have rec: "\<exists>ok. unify n x y None = Some (ok, None)" if "size x + size y < size a + size b" for x y
    using Suc that by simp
  show ?case
  proof (cases a)
    case (StructType nm fs ms)
    show ?thesis
    proof (cases b)
      case b: (StructType nm' gs ms')
      have "\<exists>ok. (case FieldType gs (fst f) of None \<Rightarrow> Some (False, None) | Some bv \<Rightarrow> unify n (snd f) bv None) =
          Some (ok, None)" if "f \<in> set fs" for f
      proof (cases "FieldType gs (fst f)")
        case (Some bv)
        then have "size bv \<le> size_list (size_prod (\<lambda>_. 0) size) gs"
          by (simp add: FieldType_map_of map_of_size)
        moreover have "size (snd f) \<le> size_list (size_prod (\<lambda>_. 0) size) fs"
          using that field_size [of "fst f" "snd f"] by simp
        ultimately show ?thesis using rec [of "snd f" bv] by (simp add: StructType b Some)
      qed auto
      then show ?thesis
        using foldl_and_then_nil [of fs "\<lambda>f s. case FieldType gs (fst f) of None \<Rightarrow> Some (False, s) | Some bv \<Rightarrow> unify n (snd f) bv s" "Some (True, None)"]
        by (auto simp: unify_step_def StructType b Let_def)
    next
      case (UnionType nm' vs ord)
      then show ?thesis
        using rec [of a] map_of_size [of vs nm] by (auto simp: unify_step_def StructType Let_def split: option.splits)
    qed (auto simp: unify_step_def StructType bind_right_def Let_def)
  next
    case (FuncType ps r e va tps)
    show ?thesis
    proof (cases b)
      case b: (FuncType qs r' e' va' tps')
      have p: "\<exists>ok. unify n (fst p) (snd p) None = Some (ok, None)" if "p \<in> set (zip ps qs)" for p
      proof -
        have "fst p \<in> set ps" "snd p \<in> set qs"
          using that set_zip_leftD [of "fst p" "snd p"] set_zip_rightD [of "fst p" "snd p"] by auto
        then show ?thesis
          using rec [of "fst p" "snd p"] param_size [of "fst p" ps] param_size [of "snd p" qs]
          by (simp add: FuncType b)
      qed
      show ?thesis
        using foldl_and_then_nil [of "zip ps qs" "\<lambda>p. unify n (fst p) (snd p)", OF p] rec
        by (auto simp: unify_step_def FuncType b Let_def intro!: and_then_nil)
    qed (auto simp: unify_step_def FuncType bind_right_def Let_def)
  next
    case (UnionType nm vs ord)
    have "\<exists>ok. unify n vt b None = Some (ok, None)" if "map_of vs m = Some vt" for m vt
      using map_of_size [OF that] by (intro rec) (simp add: UnionType)
    then show ?thesis
      by (auto simp: unify_step_def UnionType bind_right_def Let_def split: Type.split option.split)
  qed (cases b; insert rec; auto simp: unify_step_def bind_right_def Let_def intro!: and_then_nil)+
qed simp

section \<open>With bindings\<close>

text \<open>
  Unifying a variable with itself binds it to itself; the next look at it never returns.  Sets and ordered maps
  have no case and do not even unify with themselves.
\<close>

lemma self_binding_diverges:
  "unify (Suc n) (TypeVar v) (TypeVar v) (Some Map.empty) = Some (True, Some [v \<mapsto> TypeVar v])"
  "b \<noteq> AnyType \<Longrightarrow> unify m (TypeVar v) b (Some [v \<mapsto> TypeVar v]) = None"
proof -
  show "unify (Suc n) (TypeVar v) (TypeVar v) (Some Map.empty) = Some (True, Some [v \<mapsto> TypeVar v])"
    by (simp add: unify_step_def)
  show "unify m (TypeVar v) b (Some [v \<mapsto> TypeVar v]) = None" if "b \<noteq> AnyType"
    using that by (induction m) (simp_all add: unify_step_def Let_def)
qed

lemma repeated_parameter_diverges:
  "unify n (FuncType [TypeVar v, TypeVar v] UnitType 0 NilType []) (FuncType [TypeVar v, IntType] UnitType 0 NilType [])
     (Some Map.empty) = None"
proof (cases n)
  case (Suc m)
  have "unify m (TypeVar v) IntType (Some [v \<mapsto> TypeVar v]) = None" by (rule self_binding_diverges) simp
  then show ?thesis
    using self_binding_diverges(1) [of "m - 1" v] Suc
    by (cases m) (simp_all add: unify_step_def and_then_def Let_def)
qed simp

lemma sets_do_not_unify:
  "unify (Suc n) (SetType e) (SetType e) s = Some (False, s)"
  "unify (Suc n) (OMapType k v) (OMapType k v) s = Some (False, s)"
  by (simp_all add: unify_step_def)

end
