(* ===== verification/Types_Env.thy ===== *)
theory Types_Env
  imports Types_Kinds
begin

text \<open>
  The lexical environments of \<open>internal/types/env.go\<close>.  Scopes are mutable and shared through
  their parent pointers, so they live in an explicit store: a list of scopes whose indices are the addresses.
  Pointers into the syntax tree (agents, functions) are numbers, runtime values have type \<open>'v\<close>;
  the standard streams are not modelled.  A map that was never made is \<open>None\<close>: reading it finds nothing,
  writing it panics.
\<close>

record 'v ModelSpec =
  model_Provider :: string
  model_Name :: string
  model_Params :: "string \<rightharpoonup> 'v"

record 'v Env =
  env_parent :: "nat option"
  env_types :: "string \<rightharpoonup> Type"
  env_structs :: "string \<rightharpoonup> Type"
  env_unions :: "(string \<times> Type) list"    \<comment> \<open>iterated by \<open>FindUnionByVariant\<close>\<close>
  env_streams :: "string \<rightharpoonup> Type"
  env_agents :: "string \<rightharpoonup> nat"
  env_mut :: "string \<rightharpoonup> bool"
  env_values :: "string \<rightharpoonup> 'v"
  env_funcs :: "string \<rightharpoonup> nat"
  env_models :: "string \<rightharpoonup> 'v ModelSpec"
  env_narrowed :: "(string \<rightharpoonup> bool) option"
  env_typeParams :: "(string \<rightharpoonup> string) option"
  env_diagnostics :: "go_error list"

type_synonym 'v heap = "'v Env list"

section \<open>Scopes\<close>

text \<open>
  The scope at an address and its ancestors.  A parent is older than its child (\<open>wf_heap\<close>), which the
  test \<open>p < e\<close> makes explicit so that the walk is total.
\<close>

function scopes :: "'v heap \<Rightarrow> nat \<Rightarrow> nat list" where
  "scopes h e = e # (case env_parent (h ! e) of None \<Rightarrow> [] | Some p \<Rightarrow> if p < e then scopes h p else [])"
  by pat_completeness auto
termination
  by (relation "measure (\<lambda>(h, e). e)") auto

declare scopes.simps [simp del]

definition wf_heap :: "'v heap \<Rightarrow> bool" where
  "wf_heap h \<longleftrightarrow> (\<forall>e < length h. \<forall>p. env_parent (h ! e) = Some p \<longrightarrow> p < e)"

fun first_some :: "('a \<Rightarrow> 'b option) \<Rightarrow> 'a list \<Rightarrow> 'b option" where
  "first_some f [] = None"
| "first_some f (x # xs) = (case f x of Some y \<Rightarrow> Some y | None \<Rightarrow> first_some f xs)"

text \<open>The lookup all getters share: the local map first, then the parent.\<close>

definition env_lookup :: "('v Env \<Rightarrow> string \<Rightarrow> 'b option) \<Rightarrow> 'v heap \<Rightarrow> nat \<Rightarrow> string \<Rightarrow> 'b option" where
  "env_lookup sel h e name = first_some (\<lambda>a. sel (h ! a) name) (scopes h e)"

definition upd_env :: "'v heap \<Rightarrow> nat \<Rightarrow> ('v Env \<Rightarrow> 'v Env) \<Rightarrow> 'v heap" where
  "upd_env h e f = h[e := f (h ! e)]"

definition root_scope :: "'v heap \<Rightarrow> nat \<Rightarrow> nat" where
  "root_scope h e = last (scopes h e)"

definition RecordDiagnostic :: "'v heap \<Rightarrow> nat \<Rightarrow> go_error \<Rightarrow> 'v heap" where
  "RecordDiagnostic h e err =
     upd_env h (root_scope h e) (\<lambda>r. r\<lparr>env_diagnostics := env_diagnostics r @ [err]\<rparr>)"

definition TakeDiagnostics :: "'v heap \<Rightarrow> nat \<Rightarrow> go_error list \<times> 'v heap" where
  "TakeDiagnostics h e =
     (env_diagnostics (h ! root_scope h e), upd_env h (root_scope h e) (\<lambda>r. r\<lparr>env_diagnostics := []\<rparr>))"

definition NewEnv :: "'v heap \<Rightarrow> nat option \<Rightarrow> 'v heap \<times> nat" where
  "NewEnv h parent =
     (h @ [\<lparr>env_parent = parent, env_types = Map.empty, env_structs = Map.empty, env_unions = [],
            env_streams = Map.empty, env_agents = Map.empty, env_mut = Map.empty, env_values = Map.empty,
            env_funcs = Map.empty, env_models = Map.empty, env_narrowed = Some Map.empty,
            env_typeParams = Some Map.empty, env_diagnostics = []\<rparr>], length h)"

section \<open>Declarations\<close>

definition SetStruct :: "'v heap \<Rightarrow> nat \<Rightarrow> string \<Rightarrow> Type \<Rightarrow> 'v heap" where
  "SetStruct h e name st = upd_env h e (\<lambda>s. s\<lparr>env_structs := (env_structs s)(name \<mapsto> st)\<rparr>)"

definition GetStruct :: "'v heap \<Rightarrow> nat \<Rightarrow> string \<Rightarrow> Type option" where
  "GetStruct h e name = env_lookup env_structs h e name"

definition Structs :: "'v heap \<Rightarrow> nat \<Rightarrow> string \<rightharpoonup> Type" where
  "Structs h e = foldr (\<lambda>a out. out ++ env_structs (h ! a)) (scopes h e) Map.empty"

fun alist_set :: "(string \<times> 'b) list \<Rightarrow> string \<Rightarrow> 'b \<Rightarrow> (string \<times> 'b) list" where
  "alist_set [] k v = [(k, v)]"
| "alist_set ((k', v') # xs) k v = (if k' = k then (k, v) # xs else (k', v') # alist_set xs k v)"

definition SetUnion :: "'v heap \<Rightarrow> nat \<Rightarrow> string \<Rightarrow> Type \<Rightarrow> 'v heap" where
  "SetUnion h e name ut = upd_env h e (\<lambda>s. s\<lparr>env_unions := alist_set (env_unions s) name ut\<rparr>)"

definition GetUnion :: "'v heap \<Rightarrow> nat \<Rightarrow> string \<Rightarrow> Type option" where
  "GetUnion h e name = env_lookup (\<lambda>s. map_of (env_unions s)) h e name"

definition SetStream :: "'v heap \<Rightarrow> nat \<Rightarrow> string \<Rightarrow> Type \<Rightarrow> 'v heap" where
  "SetStream h e name st = upd_env h e (\<lambda>s. s\<lparr>env_streams := (env_streams s)(name \<mapsto> st)\<rparr>)"

definition GetStream :: "'v heap \<Rightarrow> nat \<Rightarrow> string \<Rightarrow> Type option" where
  "GetStream h e name = env_lookup env_streams h e name"

text \<open>\<open>None\<close> is the panic of writing to a nil map.\<close>

definition SetTypeParam :: "'v heap \<Rightarrow> nat \<Rightarrow> string \<Rightarrow> string \<Rightarrow> 'v heap option" where
  "SetTypeParam h e name tv =
     (case env_typeParams (h ! e) of
        None \<Rightarrow> None
      | Some m \<Rightarrow> Some (upd_env h e (\<lambda>s. s\<lparr>env_typeParams := Some (m(name \<mapsto> tv))\<rparr>)))"

definition read_map :: "('k \<rightharpoonup> 'b) option \<Rightarrow> 'k \<Rightarrow> 'b option" where
  "read_map m k = (case m of None \<Rightarrow> None | Some f \<Rightarrow> f k)"

definition LookupTypeParam :: "'v heap \<Rightarrow> nat \<Rightarrow> string \<Rightarrow> string option" where
  "LookupTypeParam h e name = env_lookup (\<lambda>s. read_map (env_typeParams s)) h e name"

definition LookupType :: "'v heap \<Rightarrow> nat \<Rightarrow> string \<Rightarrow> Type option" where
  "LookupType h e name = env_lookup env_types h e name"

definition has_variant :: "string \<Rightarrow> Type \<Rightarrow> bool" where
  "has_variant variant u = (case u of UnionType n vs ord \<Rightarrow> map_of vs variant \<noteq> None | _ \<Rightarrow> False)"

text \<open>Go iterates over a map in an unspecified order; \<open>iter\<close> is that order.\<close>

definition FindUnionByVariant ::
  "((string \<times> Type) list \<Rightarrow> (string \<times> Type) list) \<Rightarrow> 'v heap \<Rightarrow> nat \<Rightarrow> string \<Rightarrow> Type option" where
  "FindUnionByVariant iter h e variant =
     env_lookup (\<lambda>s variant. map_option snd (find (\<lambda>u. has_variant variant (snd u)) (iter (env_unions s)))) h e variant"

definition SetModel :: "'v heap \<Rightarrow> nat \<Rightarrow> string \<Rightarrow> 'v ModelSpec \<Rightarrow> 'v heap" where
  "SetModel h e name spec = upd_env h e (\<lambda>s. s\<lparr>env_models := (env_models s)(name \<mapsto> spec)\<rparr>)"

definition SetAgent :: "'v heap \<Rightarrow> nat \<Rightarrow> string \<Rightarrow> nat \<Rightarrow> 'v heap" where
  "SetAgent h e name decl = upd_env h e (\<lambda>s. s\<lparr>env_agents := (env_agents s)(name \<mapsto> decl)\<rparr>)"

definition GetModel :: "'v heap \<Rightarrow> nat \<Rightarrow> string \<Rightarrow> 'v ModelSpec option" where
  "GetModel h e name = env_lookup env_models h e name"

definition GetAgent :: "'v heap \<Rightarrow> nat \<Rightarrow> string \<Rightarrow> nat option" where
  "GetAgent h e name = env_lookup env_agents h e name"

section \<open>Variables\<close>

definition set_var :: "string \<Rightarrow> Type \<Rightarrow> bool \<Rightarrow> 'v Env \<Rightarrow> 'v Env" where
  "set_var name typ mutable s =
     s\<lparr>env_types := (env_types s)(name \<mapsto> typ), env_mut := (env_mut s)(name \<mapsto> mutable)\<rparr>"

definition SetVar :: "'v heap \<Rightarrow> nat \<Rightarrow> string \<Rightarrow> Type \<Rightarrow> bool \<Rightarrow> 'v heap" where
  "SetVar h e name typ mutable = upd_env h e (set_var name typ mutable)"

text \<open>The scope \<open>SetVarDeep\<close> writes: the nearest one that binds the name, or the outermost.\<close>

fun deep_target :: "'v heap \<Rightarrow> nat list \<Rightarrow> string \<Rightarrow> nat" where
  "deep_target h [] name = 0"
| "deep_target h [a] name = a"
| "deep_target h (a # b # as) name =
     (if env_types (h ! a) name \<noteq> None then a else deep_target h (b # as) name)"

definition SetVarDeep :: "'v heap \<Rightarrow> nat \<Rightarrow> string \<Rightarrow> Type \<Rightarrow> bool \<Rightarrow> 'v heap" where
  "SetVarDeep h e name typ mutable =
     upd_env h (deep_target h (scopes h e) name) (set_var name typ mutable)"

definition undefined_variable :: "string \<Rightarrow> go_error" where
  "undefined_variable name = Errorf ''undefined variable: %s'' [FStr name]"


definition is_narrowed :: "'v Env \<Rightarrow> string \<Rightarrow> bool" where
  "is_narrowed s name \<longleftrightarrow> read_map (env_narrowed s) name = Some True"

fun declared_in :: "'v heap \<Rightarrow> nat list \<Rightarrow> string \<Rightarrow> Type option" where
  "declared_in h [] name = None"
| "declared_in h (a # as) name =
     (if env_types (h ! a) name \<noteq> None \<and> \<not> is_narrowed (h ! a) name then env_types (h ! a) name
      else if as \<noteq> [] then declared_in h as name
      else env_types (h ! a) name)"

definition DeclaredVarType :: "'v heap \<Rightarrow> nat \<Rightarrow> string \<Rightarrow> go_error + Type" where
  "DeclaredVarType h e name =
     (case declared_in h (scopes h e) name of Some t \<Rightarrow> Inr t | None \<Rightarrow> Inl (undefined_variable name))"

definition IsNarrowed :: "'v heap \<Rightarrow> nat \<Rightarrow> string \<Rightarrow> bool" where
  "IsNarrowed h e name \<longleftrightarrow>
     env_lookup (\<lambda>s name. case env_types s name of None \<Rightarrow> None | Some _ \<Rightarrow> Some (is_narrowed s name)) h e name = Some True"

definition isMutable :: "'v heap \<Rightarrow> nat \<Rightarrow> string \<Rightarrow> bool option" where
  "isMutable h e name = env_lookup env_mut h e name"

definition IsMutable :: "'v heap \<Rightarrow> nat \<Rightarrow> string \<Rightarrow> go_error + bool" where
  "IsMutable h e name =
     (case isMutable h e name of Some m \<Rightarrow> Inr m | None \<Rightarrow> Inl (undefined_variable name))"

section \<open>Values and functions\<close>

definition SetValue :: "'v heap \<Rightarrow> nat \<Rightarrow> string \<Rightarrow> 'v \<Rightarrow> bool \<Rightarrow> 'v heap" where
  "SetValue h e name val mutable =
     upd_env h e (\<lambda>s. s\<lparr>env_values := (env_values s)(name \<mapsto> val), env_mut := (env_mut s)(name \<mapsto> mutable)\<rparr>)"

definition UpdateValue :: "'v heap \<Rightarrow> nat \<Rightarrow> string \<Rightarrow> 'v \<Rightarrow> (go_error + unit) \<times> 'v heap" where
  "UpdateValue h e name val =
     (case find (\<lambda>a. env_values (h ! a) name \<noteq> None) (scopes h e) of
        None \<Rightarrow> (Inl (Errorf ''variable not declared: %s'' [FStr name]), h)
      | Some a \<Rightarrow>
          if isMutable h a name \<noteq> Some True
          then (Inl (Errorf ''cannot assign to immutable variable: %s'' [FStr name]), h)
          else (Inr (), upd_env h a (\<lambda>s. s\<lparr>env_values := (env_values s)(name \<mapsto> val)\<rparr>)))"

definition GetValue :: "'v heap \<Rightarrow> nat \<Rightarrow> string \<Rightarrow> go_error + 'v" where
  "GetValue h e name =
     (case env_lookup env_values h e name of Some v \<Rightarrow> Inr v | None \<Rightarrow> Inl (undefined_variable name))"

definition SetFunc :: "'v heap \<Rightarrow> nat \<Rightarrow> string \<Rightarrow> nat \<Rightarrow> 'v heap" where
  "SetFunc h e name fn = upd_env h e (\<lambda>s. s\<lparr>env_funcs := (env_funcs s)(name \<mapsto> fn)\<rparr>)"

definition SetFuncType :: "'v heap \<Rightarrow> nat \<Rightarrow> string \<Rightarrow> Type \<Rightarrow> 'v heap" where
  "SetFuncType h e name typ = upd_env h e (\<lambda>s. s\<lparr>env_types := (env_types s)(name \<mapsto> typ)\<rparr>)"

definition GetFunc :: "'v heap \<Rightarrow> nat \<Rightarrow> string \<Rightarrow> nat option" where
  "GetFunc h e name = env_lookup env_funcs h e name"

text \<open>\<open>Copy\<close> leaves the maps of narrowed names and type parameters, and the diagnostics, unset.\<close>

definition Copy :: "'v heap \<Rightarrow> nat \<Rightarrow> 'v heap \<times> nat" where
  "Copy h e =
     (h @ [(h ! e)\<lparr>env_narrowed := None, env_typeParams := None, env_diagnostics := []\<rparr>], length h)"

section \<open>Frames\<close>

lemma scopes_head: "\<exists>as. scopes h e = e # as \<and> (\<forall>a \<in> set as. a < e)"
proof (induction h e rule: scopes.induct)
  case (1 h e)
  show ?case
  proof (cases "\<exists>p. env_parent (h ! e) = Some p \<and> p < e")
    case True
    then obtain p where p: "env_parent (h ! e) = Some p" "p < e" by blast
    with 1 obtain as where "scopes h p = p # as" "\<forall>a \<in> set as. a < p" by blast
    with p show ?thesis by (subst scopes.simps) auto
  next
    case False
    then show ?thesis by (subst scopes.simps) (auto split: option.splits)
  qed
qed

lemma scopes_self [simp]: "e \<in> set (scopes h e)"
  using scopes_head [of h e] by auto

lemma scopes_le: "a \<in> set (scopes h e) \<Longrightarrow> a \<le> e"
  using scopes_head [of h e] by (auto intro: less_imp_le)

text \<open>The walk only reads parent pointers.\<close>

lemma scopes_cong:
  assumes "\<And>a. a \<le> e \<Longrightarrow> env_parent (h' ! a) = env_parent (h ! a)"
  shows "scopes h' e = scopes h e"
  using assms
proof (induction h e rule: scopes.induct)
  case (1 h e)
  show ?case
    using 1 by (subst (1 2) scopes.simps) (auto split: option.splits)
qed

lemma first_some_cong:
  "xs = ys \<Longrightarrow> (\<And>x. x \<in> set ys \<Longrightarrow> f x = g x) \<Longrightarrow> first_some f xs = first_some g ys"
  by (induction ys arbitrary: xs) (auto split: option.splits)

lemma env_lookup_cong:
  assumes "\<And>a. a \<le> e \<Longrightarrow> env_parent (h' ! a) = env_parent (h ! a)"
    and "\<And>a. a \<in> set (scopes h e) \<Longrightarrow> sel (h' ! a) name = sel (h ! a) name"
  shows "env_lookup sel h' e name = env_lookup sel h e name"
proof -
  have "scopes h' e = scopes h e" using assms(1) by (rule scopes_cong)
  then show ?thesis unfolding env_lookup_def by (rule first_some_cong) (rule assms(2))
qed

lemma nth_upd_env: "upd_env h e f ! a = (if a = e \<and> e < length h then f (h ! e) else h ! a)"
  by (cases "e < length h") (auto simp: upd_env_def nth_list_update list_update_beyond)

lemma upd_env_length [simp]: "length (upd_env h e f) = length h"
  by (simp add: upd_env_def)

text \<open>
  A named table of a scope with its setter: what its lookups return after an update is proved once and holds
  for each of the tables below.
\<close>

locale scope_table =
  fixes sel :: "'v Env \<Rightarrow> string \<Rightarrow> 'b option"
    and put :: "string \<Rightarrow> 'b \<Rightarrow> 'v Env \<Rightarrow> 'v Env"
  assumes sel_put: "sel (put name x s) = (sel s)(name \<mapsto> x)"
    and parent_put: "env_parent (put name x s) = env_parent s"
begin

lemma parents: "env_parent (upd_env h e (put name x) ! a) = env_parent (h ! a)"
  by (simp add: nth_upd_env parent_put)

lemma lookup_put:
  "e < length h \<Longrightarrow> env_lookup sel (upd_env h e (put name x)) e name = Some x"
  using scopes_head [of h e]
  by (auto simp: env_lookup_def scopes_cong [OF parents] nth_upd_env sel_put)

lemma lookup_other_name:
  "name' \<noteq> name \<Longrightarrow> env_lookup sel (upd_env h e (put name x)) e' name' = env_lookup sel h e' name'"
  by (rule env_lookup_cong [OF parents]) (simp add: nth_upd_env sel_put)

lemma lookup_unrelated:
  "e \<notin> set (scopes h e') \<Longrightarrow> env_lookup sel (upd_env h e (put name x)) e' name' = env_lookup sel h e' name'"
  by (rule env_lookup_cong [OF parents]) (auto simp: nth_upd_env)

lemma lookup_inherited:
  assumes "e < length h" and "e \<in> set (scopes h e')"
    and "\<And>a. a \<in> set (takeWhile (\<lambda>a. a \<noteq> e) (scopes h e')) \<Longrightarrow> sel (h ! a) name = None"
  shows "env_lookup sel (upd_env h e (put name x)) e' name = Some x"
proof -
  have "first_some (\<lambda>a. sel (upd_env h e (put name x) ! a) name) as = Some x"
    if "e \<in> set as" "\<And>a. a \<in> set (takeWhile (\<lambda>a. a \<noteq> e) as) \<Longrightarrow> sel (h ! a) name = None" for as
    using that
  proof (induction as)
    case (Cons a as)
    then show ?case
      by (cases "a = e") (auto simp: nth_upd_env assms(1) sel_put)
  qed simp
  from this [OF assms(2,3)] show ?thesis
    by (simp add: env_lookup_def scopes_cong [OF parents])
qed

end

lemma map_of_alist_set: "map_of (alist_set xs k v) = (map_of xs)(k \<mapsto> v)"
  by (induction xs k v rule: alist_set.induct) auto


interpretation func_type_table: scope_table env_types "\<lambda>name typ s. s\<lparr>env_types := (env_types s)(name \<mapsto> typ)\<rparr>"
  by unfold_locales simp_all

interpretation struct_table: scope_table env_structs "\<lambda>name st s. s\<lparr>env_structs := (env_structs s)(name \<mapsto> st)\<rparr>"
  by unfold_locales simp_all

interpretation union_table:
  scope_table "\<lambda>s. map_of (env_unions s)" "\<lambda>name ut s. s\<lparr>env_unions := alist_set (env_unions s) name ut\<rparr>"
  by unfold_locales (simp_all add: map_of_alist_set)

interpretation stream_table: scope_table env_streams "\<lambda>name st s. s\<lparr>env_streams := (env_streams s)(name \<mapsto> st)\<rparr>"
  by unfold_locales simp_all

interpretation agent_table: scope_table env_agents "\<lambda>name d s. s\<lparr>env_agents := (env_agents s)(name \<mapsto> d)\<rparr>"
  by unfold_locales simp_all

interpretation model_table: scope_table env_models "\<lambda>name m s. s\<lparr>env_models := (env_models s)(name \<mapsto> m)\<rparr>"
  by unfold_locales simp_all

interpretation func_table: scope_table env_funcs "\<lambda>name f s. s\<lparr>env_funcs := (env_funcs s)(name \<mapsto> f)\<rparr>"
  by unfold_locales simp_all

interpretation value_table: scope_table env_values
  "\<lambda>name v s. s\<lparr>env_values := (env_values s)(name \<mapsto> v), env_mut := (env_mut s)(name \<mapsto> mutable)\<rparr>"
  by unfold_locales simp_all

section \<open>Laws of the environment\<close>

lemma wf_heap_NewEnv:
  "wf_heap h \<Longrightarrow> (\<forall>p. parent = Some p \<longrightarrow> p < length h) \<Longrightarrow> wf_heap (fst (NewEnv h parent))"
  by (auto simp: wf_heap_def NewEnv_def nth_append)

lemma wf_heap_Copy: "wf_heap h \<Longrightarrow> e < length h \<Longrightarrow> wf_heap (fst (Copy h e))"
proof -
  assume h: "wf_heap h" and e: "e < length h"
  have "p < length h" if "env_parent (h ! e) = Some p" for p
  proof -
    have "p < e" using h e that by (simp add: wf_heap_def)
    with e show ?thesis by simp
  qed
  with h show ?thesis by (auto simp: wf_heap_def Copy_def nth_append)
qed

lemma NewEnv_inherits:
  "e < length h \<Longrightarrow> NewEnv h (Some e) = (h', c) \<Longrightarrow> env_lookup env_types h' c name = env_lookup env_types h e name"
proof -
  assume e: "e < length h" and n: "NewEnv h (Some e) = (h', c)"
  have c: "scopes h' c = c # scopes h e"
    using e n scopes_cong [of e h' h]
    by (subst scopes.simps) (auto simp: NewEnv_def nth_append)
  have same: "h' ! a = h ! a" if "a \<in> set (scopes h e)" for a
    using scopes_le [OF that] e n by (auto simp: NewEnv_def nth_append)
  have "env_types (h' ! c) name = None" using n by (auto simp: NewEnv_def)
  then show ?thesis by (simp add: env_lookup_def c same cong: first_some_cong)
qed

lemma Copy_nth:
  assumes "Copy h e = (h', c)" and "e < length h"
  shows "c = length h" and "a < length h \<Longrightarrow> h' ! a = h ! a"
    and "h' ! c = (h ! e)\<lparr>env_narrowed := None, env_typeParams := None, env_diagnostics := []\<rparr>"
  using assms by (auto simp: Copy_def nth_append)





text \<open>
  What a copy loses: the narrowing marks, so that the declared type of a narrowed name reads as the narrowed one,
  and the map of type parameters, so that registering one in the copy panics.
\<close>

lemma copy_drops_narrowing:
  assumes "Copy h e = (h', c)" and "e < length h"
  shows "\<not> is_narrowed (h' ! c) name" and "SetTypeParam h' c name tv = None"
  using Copy_nth(3) [OF assms] by (simp_all add: is_narrowed_def read_map_def SetTypeParam_def)

text \<open>An unbound name is created by \<open>SetVarDeep\<close> in the outermost scope, not in the current one.\<close>

lemma SetVarDeep_unbound:
  assumes "env_lookup env_types h e name = None"
  shows "SetVarDeep h e name typ mutable = SetVar h (root_scope h e) name typ mutable"
proof -
  have "first_some (\<lambda>a. env_types (h ! a) name) as = None \<Longrightarrow> as \<noteq> [] \<Longrightarrow> deep_target h as name = last as" for as
    by (induction h as name rule: deep_target.induct) (auto split: option.splits)
  from this [of "scopes h e"] assms show ?thesis
    using scopes_head [of h e] by (auto simp: SetVarDeep_def SetVar_def root_scope_def env_lookup_def)
qed

end
