(* ===== verification/Publish.thy ===== *)
theory Publish
  imports Go_Strings
begin

text \<open>
  The trusted-publishing flow of \<open>publish/oidc.go\<close> and \<open>publish/publish.go\<close>.  \<open>encoding/json\<close> appears as the
  arguments \<open>unmarshal_claims\<close>, \<open>marshal_claims\<close>, \<open>marshal_token\<close> and \<open>unmarshal_key\<close>; the
  transport is a function of the calls already made, and the calls of a run are recorded in order.
\<close>

section \<open>Base64\<close>

text \<open>\<open>base64.RawURLEncoding\<close>: no padding, line breaks are skipped, surplus bits are ignored.\<close>

definition b64_char :: "nat \<Rightarrow> char" where
  "b64_char d =
     (if d < 26 then char_of (65 + d) else if d < 52 then char_of (71 + d)
      else if d < 62 then char_of (d - 4) else if d = 62 then CHR ''-'' else CHR ''_'')"

definition b64_digit :: "char \<Rightarrow> nat option" where
  "b64_digit c =
     (let n = of_char c :: nat in
      if 65 \<le> n \<and> n \<le> 90 then Some (n - 65)
      else if 97 \<le> n \<and> n \<le> 122 then Some (n - 71)
      else if 48 \<le> n \<and> n \<le> 57 then Some (n + 4)
      else if n = 45 then Some 62 else if n = 95 then Some 63 else None)"

fun b64_encode_digits :: "nat list \<Rightarrow> nat list" where
  "b64_encode_digits (a # b # c # rest) =
     [a div 4, (a mod 4) * 16 + b div 16, (b mod 16) * 4 + c div 64, c mod 64] @ b64_encode_digits rest"
| "b64_encode_digits [a, b] = [a div 4, (a mod 4) * 16 + b div 16, (b mod 16) * 4]"
| "b64_encode_digits [a] = [a div 4, (a mod 4) * 16]"
| "b64_encode_digits [] = []"

fun b64_decode_digits :: "nat list \<Rightarrow> nat list option" where
  "b64_decode_digits (p # q # r # s # rest) =
     map_option ((@) [p * 4 + q div 16, (q mod 16) * 16 + r div 4, (r mod 4) * 64 + s]) (b64_decode_digits rest)"
| "b64_decode_digits [p, q, r] = Some [p * 4 + q div 16, (q mod 16) * 16 + r div 4]"
| "b64_decode_digits [p, q] = Some [p * 4 + q div 16]"
| "b64_decode_digits [p] = None"
| "b64_decode_digits [] = Some []"

definition EncodeToString :: "byte list \<Rightarrow> string" where
  "EncodeToString bs = map b64_char (b64_encode_digits (map unat bs))"

definition corrupt_input :: go_error where
  "corrupt_input = ExternalErr ''base64.CorruptInputError''"

definition DecodeString :: "string \<Rightarrow> go_error + byte list" where
  "DecodeString s =
     (case those (map b64_digit (filter (\<lambda>c. c \<noteq> CHR 0x0A \<and> c \<noteq> CHR 0x0D) s)) of
        None \<Rightarrow> Inl corrupt_input
      | Some ds \<Rightarrow>
          (case b64_decode_digits ds of
             None \<Rightarrow> Inl corrupt_input
           | Some ns \<Rightarrow> Inr (map word_of_nat ns)))"

section \<open>The token\<close>

record OIDCClaims =
  oc_Issuer :: string
  oc_Subject :: string
  oc_Audience :: string
  oc_Expiry :: u64
  oc_IssuedAt :: u64
  oc_Repository :: string
  oc_RepositoryOwner :: string
  oc_JobWorkflowRef :: string


definition DefaultHexURL :: string where
  "DefaultHexURL = ''https://hex.pm''"

definition ParseOIDCToken :: "(byte list \<Rightarrow> go_error + OIDCClaims) \<Rightarrow> string \<Rightarrow> go_error + OIDCClaims" where
  "ParseOIDCToken unmarshal_claims jwt =
     (let parts = split_on (CHR ''.'') jwt in
      if length parts \<noteq> 3
      then Inl (PublishErr ''OIDC token: expected 3 JWT parts, got %d'' [FInt (int (length parts))])
      else rbind (wrap_error (\<lambda>e. Errorf ''OIDC token: payload base64: %w'' [FErr e])
                    (DecodeString (parts ! 1))) (\<lambda>payload.
           wrap_error (\<lambda>e. Errorf ''OIDC token: payload JSON: %w'' [FErr e]) (unmarshal_claims payload)))"

text \<open>
  An instant as \<open>time.Time\<close> keeps it: seconds since year 1 in an \<open>int64\<close> and nanoseconds.
  \<open>time.Unix\<close> adds the offset of the epoch, which wraps for the largest arguments.
\<close>

record instant =
  t_sec :: u64
  t_nsec :: nat

definition time_Unix :: "u64 \<Rightarrow> instant" where
  "time_Unix s = \<lparr>t_sec = s + 62135596800, t_nsec = 0\<rparr>"

definition time_Before :: "instant \<Rightarrow> instant \<Rightarrow> bool" where
  "time_Before t u \<longleftrightarrow> sint (t_sec t) < sint (t_sec u) \<or> t_sec t = t_sec u \<and> t_nsec t < t_nsec u"


definition EncodeUnverifiedJWT :: "(OIDCClaims \<Rightarrow> byte list) \<Rightarrow> OIDCClaims \<Rightarrow> string" where
  "EncodeUnverifiedJWT marshal_claims claims =
     (let hdr = EncodeToString (bytes_of_string ''{\"alg\":\"none\",\"typ\":\"JWT\"}'');
          payload = EncodeToString (marshal_claims claims)
      in hdr @ ''.'' @ payload @ ''.'')"

record GHAOIDCEnv =
  gha_RequestURL :: string
  gha_RequestToken :: string

definition ErrOIDCEnvMissing :: go_error where
  "ErrOIDCEnvMissing =
     PublishErr (''GitHub Actions OIDC environment not found; set `id-token: write` in '' @
       ''your workflow permissions and ensure ACTIONS_ID_TOKEN_REQUEST_URL / '' @
       ''ACTIONS_ID_TOKEN_REQUEST_TOKEN are set. Long-lived HEX_API_KEY tokens '' @
       ''are not accepted.'') []"

definition FromEnv :: "(string \<rightharpoonup> string) \<Rightarrow> go_error + GHAOIDCEnv" where
  "FromEnv env =
     (case (env ''ACTIONS_ID_TOKEN_REQUEST_URL'', env ''ACTIONS_ID_TOKEN_REQUEST_TOKEN'') of
        (Some url, Some tok) \<Rightarrow>
          if url = [] \<or> tok = [] then Inl ErrOIDCEnvMissing
          else Inr \<lparr>gha_RequestURL = url, gha_RequestToken = tok\<rparr>
      | _ \<Rightarrow> Inl ErrOIDCEnvMissing)"

section \<open>Publishing\<close>









definition default_url :: "string \<Rightarrow> string" where
  "default_url hexURL = (if hexURL = [] then DefaultHexURL else hexURL)"






section \<open>Tokens round trip\<close>

lemma b64_digit_char: "d < 64 \<Longrightarrow> b64_digit (b64_char d) = Some d"
proof -
  assume d: "d < 64"
  have n: "(of_char (b64_char d) :: nat) =
      (if d < 26 then 65 + d else if d < 52 then 71 + d else if d < 62 then d - 4 else if d = 62 then 45 else 95)"
    using d by (simp add: b64_char_def)
  show ?thesis unfolding b64_digit_def Let_def n using d by auto
qed

lemma b64_char_plain: "d < 64 \<Longrightarrow> b64_char d \<noteq> CHR 0x0A \<and> b64_char d \<noteq> CHR 0x0D \<and> b64_char d \<noteq> CHR ''.''"
  using b64_digit_char [of d] by (auto simp: b64_digit_def)

lemma b64_encode_bound: "\<forall>n \<in> set ns. n < 256 \<Longrightarrow> d \<in> set (b64_encode_digits ns) \<Longrightarrow> d < 64"
proof (induction ns rule: b64_encode_digits.induct)
  case (1 a b c rest)
  have "a div 4 < 64" "a mod 4 < 4" "b div 16 < 16" "b mod 16 < 16" "c div 64 < 4" "c mod 64 < 64"
    using "1.prems"(1) by auto
  with 1 show ?case by auto
next
  case (2 a b)
  have "a div 4 < 64" "a mod 4 < 4" "b div 16 < 16" "b mod 16 < 16" using "2.prems"(1) by auto
  with 2 show ?case by auto
next
  case (3 a)
  have "a div 4 < 64" "a mod 4 < 4" using "3.prems"(1) by auto
  with 3 show ?case by auto
qed simp

lemma base_split:
  fixes a b c :: nat
  assumes "b < 256" and "c < 256"
  shows "a div 4 * 4 + (a mod 4 * 16 + b div 16) div 16 = a \<and>
    (a mod 4 * 16 + b div 16) mod 16 * 16 + (b mod 16 * 4 + c div 64) div 4 = b \<and>
    (b mod 16 * 4 + c div 64) mod 4 * 64 + c mod 64 = c"
proof -
  have "b div 16 < 16" and "c div 64 < 4" using assms by auto
  then show ?thesis by simp
qed

lemma b64_decode_encode: "\<forall>n \<in> set ns. n < 256 \<Longrightarrow> b64_decode_digits (b64_encode_digits ns) = Some ns"
proof (induction ns rule: b64_encode_digits.induct)
  case (1 a b c rest)
  then show ?case using base_split [of b c a] by simp
next
  case (2 a b)
  then show ?case using base_split [of b 0 a] by simp
next
  case (3 a)
  then show ?case using base_split [of 0 0 a] by simp
qed simp

lemma those_map_Some: "(\<And>x. x \<in> set xs \<Longrightarrow> f x = Some (g x)) \<Longrightarrow> those (map f xs) = Some (map g xs)"
  by (induction xs) auto

lemma DecodeString_EncodeToString: "DecodeString (EncodeToString bs) = Inr bs"
proof -
  let ?ds = "b64_encode_digits (map unat bs)"
  have lt: "d < 64" if "d \<in> set ?ds" for d
    using b64_encode_bound [of "map unat bs" d] that by auto
  then have plain: "filter (\<lambda>c. c \<noteq> CHR 0x0A \<and> c \<noteq> CHR 0x0D) (map b64_char ?ds) = map b64_char ?ds"
    using b64_char_plain by (auto simp: filter_id_conv)
  have "those (map b64_digit (map b64_char ?ds)) = Some (map (\<lambda>d. d) ?ds)"
    unfolding map_map by (rule those_map_Some) (simp add: b64_digit_char lt)
  moreover have "b64_decode_digits ?ds = Some (map unat bs)" by (rule b64_decode_encode) auto
  moreover have "map word_of_nat (map unat bs) = bs" by (simp add: o_def)
  ultimately show ?thesis by (simp add: DecodeString_def EncodeToString_def plain)
qed

lemma EncodeToString_no_dot: "CHR ''.'' \<notin> set (EncodeToString bs)"
  using b64_encode_bound [of "map unat bs"] b64_char_plain by (fastforce simp: EncodeToString_def)

text \<open>A token built for claims is parsed to these claims whenever JSON decoding inverts its encoding.\<close>

lemma ParseOIDCToken_Encode:
  assumes "\<And>c. unmarshal_claims (marshal_claims c) = Inr c"
  shows "ParseOIDCToken unmarshal_claims (EncodeUnverifiedJWT marshal_claims claims) = Inr claims"
proof -
  have "split_on (CHR ''.'') (EncodeUnverifiedJWT marshal_claims claims) =
      [EncodeToString (bytes_of_string ''{\"alg\":\"none\",\"typ\":\"JWT\"}''), EncodeToString (marshal_claims claims), []]"
    using EncodeToString_no_dot by (simp add: EncodeUnverifiedJWT_def Let_def split_on_append)
  then show ?thesis by (simp add: ParseOIDCToken_def Let_def DecodeString_EncodeToString assms)
qed

section \<open>The calls of a run\<close>

lemma default_url_idem [simp]: "default_url (default_url u) = default_url u"
  by (simp add: default_url_def DefaultHexURL_def)




text \<open>
  An expiry so large that adding the epoch offset wraps counts as expired although it lies in the far future.
\<close>

lemma far_expiry_rejected:
  "time_Before (time_Unix 0x7FFFFFFFFFFFFFFF) \<lparr>t_sec = 62135596800, t_nsec = 0\<rparr>"
  by (simp add: time_Before_def time_Unix_def)

end
