(* ===== verification/Edocingest.thy ===== *)
theory Edocingest
  imports Go_Strings
begin

text \<open>
  The EDoc fallback of \<open>edocingest/edocingest.go\<close>: a state machine over the tokens of an XML document.  The
  tokens come from \<open>encoding/xml\<close> (the argument \<open>xml_tokens\<close>: the tokens read, and the error
  that ended the reading if it was not the end of the input); names are local names.
\<close>

section \<open>The parser\<close>

record FunctionDoc =
  fd_Name :: string
  fd_Arity :: u64
  fd_TypeSpec :: string
  fd_Doc :: string

record ModuleDoc =
  md_Name :: string
  md_Functions :: "FunctionDoc list"

datatype xml_token =
    StartElement string "(string \<times> string) list"
  | EndElement string
  | CharData string
  | OtherToken    \<comment> \<open>comments, directives, processing instructions\<close>

text \<open>\<open>parseInt\<close>: the decimal prefix, in wrapping machine arithmetic.\<close>

fun parse_prefix :: "u64 \<Rightarrow> string \<Rightarrow> u64" where
  "parse_prefix n [] = n"
| "parse_prefix n (ch # s) =
     (if \<not> is_digit ch then n else parse_prefix (n * 10 + word_of_nat (digit_val ch)) s)"

definition parseInt :: "string \<Rightarrow> u64" where
  "parseInt s = parse_prefix 0 s"

record pstate =
  st_doc :: ModuleDoc
  st_inFunctions :: bool
  st_curFun :: "FunctionDoc option"
  st_captureText :: string
  st_captureTarget :: string

definition init_state :: pstate where
  "init_state =
     \<lparr>st_doc = \<lparr>md_Name = [], md_Functions = []\<rparr>, st_inFunctions = False, st_curFun = None,
      st_captureText = [], st_captureTarget = []\<rparr>"

definition fun_attr :: "FunctionDoc \<Rightarrow> string \<times> string \<Rightarrow> FunctionDoc" where
  "fun_attr f a =
     (if fst a = ''name'' then f\<lparr>fd_Name := snd a\<rparr>
      else if fst a = ''arity'' then f\<lparr>fd_Arity := parseInt (snd a)\<rparr>
      else f)"

definition empty_fun :: FunctionDoc where
  "empty_fun = \<lparr>fd_Name = [], fd_Arity = 0, fd_TypeSpec = [], fd_Doc = []\<rparr>"

definition start_element :: "pstate \<Rightarrow> string \<Rightarrow> (string \<times> string) list \<Rightarrow> pstate" where
  "start_element st name attrs =
     (if name = ''module'' \<or> name = ''edoc'' then
        st\<lparr>st_doc := foldl (\<lambda>d a. if fst a = ''name'' then d\<lparr>md_Name := snd a\<rparr> else d) (st_doc st) attrs\<rparr>
      else if name = ''functions'' then st\<lparr>st_inFunctions := True\<rparr>
      else if name = ''function'' then
        (if st_inFunctions st then st\<lparr>st_curFun := Some (foldl fun_attr empty_fun attrs)\<rparr> else st)
      else if name = ''typespec'' then
        (if st_curFun st \<noteq> None then st\<lparr>st_captureTarget := ''typespec'', st_captureText := []\<rparr> else st)
      else if name = ''p'' \<or> name = ''div'' then
        (if st_curFun st \<noteq> None \<and> st_captureTarget st = []
         then st\<lparr>st_captureTarget := ''doc'', st_captureText := []\<rparr> else st)
      else st)"

definition end_element :: "pstate \<Rightarrow> string \<Rightarrow> pstate" where
  "end_element st name =
     (if name = ''functions'' then st\<lparr>st_inFunctions := False\<rparr>
      else if name = ''function'' then
        (case st_curFun st of
           None \<Rightarrow> st
         | Some f \<Rightarrow>
             st\<lparr>st_doc := (st_doc st)\<lparr>md_Functions := md_Functions (st_doc st) @ [f]\<rparr>,
                st_curFun := None, st_captureTarget := [], st_captureText := []\<rparr>)
      else if name = ''typespec'' then
        (case st_curFun st of
           None \<Rightarrow> st
         | Some f \<Rightarrow>
             if st_captureTarget st = ''typespec''
             then st\<lparr>st_curFun := Some (f\<lparr>fd_TypeSpec := TrimSpace (st_captureText st)\<rparr>),
                     st_captureTarget := [], st_captureText := []\<rparr>
             else st)
      else if name = ''p'' \<or> name = ''div'' then
        (case st_curFun st of
           None \<Rightarrow> st
         | Some f \<Rightarrow>
             if st_captureTarget st = ''doc''
             then st\<lparr>st_curFun := Some (if fd_Doc f = [] then f\<lparr>fd_Doc := TrimSpace (st_captureText st)\<rparr> else f),
                     st_captureTarget := [], st_captureText := []\<rparr>
             else st)
      else st)"

fun xml_step :: "pstate \<Rightarrow> xml_token \<Rightarrow> pstate" where
  "xml_step st (StartElement name attrs) = start_element st name attrs"
| "xml_step st (EndElement name) = end_element st name"
| "xml_step st (CharData t) =
     (if st_captureTarget st \<noteq> [] then st\<lparr>st_captureText := st_captureText st @ t\<rparr> else st)"
| "xml_step st OtherToken = st"

definition ParseXMLBytes ::
  "(byte list \<Rightarrow> xml_token list \<times> go_error option) \<Rightarrow> byte list \<Rightarrow> go_error + ModuleDoc" where
  "ParseXMLBytes xml_tokens data =
     (case xml_tokens data of
        (toks, Some err) \<Rightarrow> Inl (Errorf ''edocingest: XML parse: %w'' [FErr err])
      | (toks, None) \<Rightarrow> Inr (st_doc (foldl xml_step init_state toks)))"

text \<open>\<open>ParseXML\<close> reads the whole input first.\<close>

definition ParseXML ::
  "(byte list \<Rightarrow> xml_token list \<times> go_error option) \<Rightarrow> go_error + byte list \<Rightarrow> go_error + ModuleDoc" where
  "ParseXML xml_tokens input =
     rbind (wrap_error (\<lambda>e. Errorf ''edocingest: read: %w'' [FErr e]) input) (ParseXMLBytes xml_tokens)"

definition FunctionsWithSpec :: "ModuleDoc \<Rightarrow> FunctionDoc list" where
  "FunctionsWithSpec m = filter (\<lambda>f. fd_TypeSpec f \<noteq> []) (md_Functions m)"

definition FunctionsWithoutSpec :: "ModuleDoc \<Rightarrow> FunctionDoc list" where
  "FunctionsWithoutSpec m = filter (\<lambda>f. fd_TypeSpec f = []) (md_Functions m)"

section \<open>Documents\<close>

text \<open>
  The tokens of a documented module: one element per function with its signature, an optional specification and its
  paragraphs, of which the parser keeps the first with text.  Surrounding blanks do not matter.
\<close>

record fun_source =
  fs_name :: string
  fs_arity :: nat
  fs_spec :: "string option"
  fs_paras :: "string list"

definition spec_tokens :: "string option \<Rightarrow> xml_token list" where
  "spec_tokens sp = (case sp of None \<Rightarrow> []
     | Some t \<Rightarrow> [StartElement ''typespec'' [], CharData t, EndElement ''typespec''])"

definition para_tokens :: "string \<Rightarrow> xml_token list" where
  "para_tokens t = [StartElement ''p'' [], CharData t, EndElement ''p'']"

definition fun_tokens :: "fun_source \<Rightarrow> xml_token list" where
  "fun_tokens f =
     [StartElement ''function'' [(''name'', fs_name f), (''arity'', show_nat (fs_arity f))]] @
     spec_tokens (fs_spec f) @ concat (map para_tokens (fs_paras f)) @ [EndElement ''function'']"

definition module_tokens :: "string \<Rightarrow> fun_source list \<Rightarrow> xml_token list" where
  "module_tokens name fs =
     [StartElement ''module'' [(''name'', name)], StartElement ''functions'' []] @
     concat (map fun_tokens fs) @ [EndElement ''functions'', EndElement ''module'']"

definition first_text :: "string list \<Rightarrow> string" where
  "first_text ts = (case find (\<lambda>t. TrimSpace t \<noteq> []) ts of None \<Rightarrow> [] | Some t \<Rightarrow> TrimSpace t)"

definition doc_of :: "fun_source \<Rightarrow> FunctionDoc" where
  "doc_of f =
     \<lparr>fd_Name = fs_name f, fd_Arity = word_of_nat (fs_arity f),
      fd_TypeSpec = (case fs_spec f of None \<Rightarrow> [] | Some t \<Rightarrow> TrimSpace t), fd_Doc = first_text (fs_paras f)\<rparr>"

lemma parse_prefix_show_nat: "parse_prefix 0 (show_nat n) = word_of_nat n"
proof -
  have snoc: "\<forall>c \<in> set xs. is_digit c \<Longrightarrow> parse_prefix n (xs @ [c]) = parse_prefix (parse_prefix n xs) [c]" for n xs c
    by (induction xs arbitrary: n) auto
  show ?thesis
  proof (induction n rule: show_nat.induct)
    case (1 n)
    show ?case
    proof (cases "n < 10")
      case False
      have "n = n div 10 * 10 + n mod 10" by simp
      then have "(word_of_nat n :: u64) = word_of_nat (n div 10) * 10 + word_of_nat (n mod 10)"
        by (metis of_nat_add of_nat_mult of_nat_numeral)
      with False 1 show ?thesis
        by (subst show_nat.simps) (simp add: snoc show_nat_digits)
    qed simp
  qed
qed

lemma fold_paras:
  assumes "st_curFun st = Some f" and "st_captureTarget st = []" and "st_captureText st = []"
  shows "foldl xml_step st (concat (map para_tokens ts)) =
    st\<lparr>st_curFun := Some (if fd_Doc f = [] then f\<lparr>fd_Doc := first_text ts\<rparr> else f)\<rparr>"
  using assms
proof (induction ts arbitrary: st f)
  case Nil
  then show ?case by (cases st; cases f) (auto simp: first_text_def)
next
  case (Cons t ts)
  let ?g = "if fd_Doc f = [] then f\<lparr>fd_Doc := TrimSpace t\<rparr> else f"
  have "foldl xml_step st (para_tokens t) = st\<lparr>st_curFun := Some ?g\<rparr>"
    using Cons.prems by (cases st) (simp add: para_tokens_def start_element_def end_element_def)
  then have "foldl xml_step st (concat (map para_tokens (t # ts))) =
      foldl xml_step (st\<lparr>st_curFun := Some ?g\<rparr>) (concat (map para_tokens ts))"
    by simp
  also have "\<dots> = st\<lparr>st_curFun := Some (if fd_Doc ?g = [] then ?g\<lparr>fd_Doc := first_text ts\<rparr> else ?g)\<rparr>"
    using Cons.IH [of "st\<lparr>st_curFun := Some ?g\<rparr>" ?g] Cons.prems by simp
  also have "\<dots> = st\<lparr>st_curFun := Some (if fd_Doc f = [] then f\<lparr>fd_Doc := first_text (t # ts)\<rparr> else f)\<rparr>"
    by (simp add: first_text_def)
  finally show ?case .
qed

lemma fold_fun:
  assumes "st_inFunctions st" and "st_captureTarget st = []" and "st_captureText st = []" and "st_curFun st = None"
  shows "foldl xml_step st (fun_tokens f) =
    st\<lparr>st_doc := (st_doc st)\<lparr>md_Functions := md_Functions (st_doc st) @ [doc_of f]\<rparr>\<rparr>"
proof -
  let ?f0 = "\<lparr>fd_Name = fs_name f, fd_Arity = word_of_nat (fs_arity f), fd_TypeSpec = [], fd_Doc = []\<rparr>"
  let ?f1 = "?f0\<lparr>fd_TypeSpec := (case fs_spec f of None \<Rightarrow> [] | Some t \<Rightarrow> TrimSpace t)\<rparr>"
  have "xml_step st (StartElement ''function'' [(''name'', fs_name f), (''arity'', show_nat (fs_arity f))]) =
      st\<lparr>st_curFun := Some ?f0\<rparr>"
    using assms by (simp add: start_element_def fun_attr_def empty_fun_def parseInt_def parse_prefix_show_nat)
  moreover have "foldl xml_step (st\<lparr>st_curFun := Some ?f0\<rparr>) (spec_tokens (fs_spec f)) = st\<lparr>st_curFun := Some ?f1\<rparr>"
    using assms by (cases st; cases "fs_spec f") (simp_all add: spec_tokens_def start_element_def end_element_def)
  moreover have "foldl xml_step (st\<lparr>st_curFun := Some ?f1\<rparr>) (concat (map para_tokens (fs_paras f))) =
      st\<lparr>st_curFun := Some (doc_of f)\<rparr>"
    using assms by (simp add: fold_paras doc_of_def)
  moreover have "xml_step (st\<lparr>st_curFun := Some (doc_of f)\<rparr>) (EndElement ''function'') =
      st\<lparr>st_doc := (st_doc st)\<lparr>md_Functions := md_Functions (st_doc st) @ [doc_of f]\<rparr>\<rparr>"
    using assms by (cases st) (simp add: end_element_def)
  ultimately show ?thesis by (simp add: fun_tokens_def)
qed

lemma fold_funs:
  assumes "st_inFunctions st" and "st_captureTarget st = []" and "st_captureText st = []" and "st_curFun st = None"
  shows "foldl xml_step st (concat (map fun_tokens fs)) =
    st\<lparr>st_doc := (st_doc st)\<lparr>md_Functions := md_Functions (st_doc st) @ map doc_of fs\<rparr>\<rparr>"
  using assms
proof (induction fs arbitrary: st)
  case (Cons f fs)
  then show ?case by (simp add: fold_fun)
qed simp

text \<open>
  C34: the parser reads back a documented module: its name and, in order, every function with its arity modulo
  the machine word, its trimmed specification and its first non-blank paragraph; and each function
  is reported with or without a specification, never both.
\<close>

theorem edoc_module_roundtrip:
  assumes "xml_tokens data = (module_tokens name fs, None)"
  shows "ParseXMLBytes xml_tokens data = Inr \<lparr>md_Name = name, md_Functions = map doc_of fs\<rparr> \<and>
    set (FunctionsWithSpec \<lparr>md_Name = name, md_Functions = map doc_of fs\<rparr>) \<inter>
      set (FunctionsWithoutSpec \<lparr>md_Name = name, md_Functions = map doc_of fs\<rparr>) = {} \<and>
    length (FunctionsWithSpec \<lparr>md_Name = name, md_Functions = map doc_of fs\<rparr>) +
      length (FunctionsWithoutSpec \<lparr>md_Name = name, md_Functions = map doc_of fs\<rparr>) = length fs"
proof -
  have "foldl xml_step init_state (module_tokens name fs) =
      init_state\<lparr>st_doc := \<lparr>md_Name = name, md_Functions = map doc_of fs\<rparr>\<rparr>"
    by (simp add: module_tokens_def init_state_def start_element_def end_element_def fold_funs)
  then have "ParseXMLBytes xml_tokens data = Inr \<lparr>md_Name = name, md_Functions = map doc_of fs\<rparr>"
    using assms by (simp add: ParseXMLBytes_def)
  moreover have "length (filter P xs) + length (filter (\<lambda>x. \<not> P x) xs) = length xs" for P and xs :: "FunctionDoc list"
    by (rule sum_length_filter_compl)
  from this [of "\<lambda>f. fd_TypeSpec f \<noteq> []" "map doc_of fs"] show ?thesis
    using calculation by (auto simp: FunctionsWithSpec_def FunctionsWithoutSpec_def)
qed

theorem edoc_module_roundtrip_witness:
  "ParseXMLBytes (\<lambda>_. (module_tokens ''lager'' [\<lparr>fs_name = ''log'', fs_arity = 3, fs_spec = None, fs_paras = []\<rparr>], None)) [] =
     Inr \<lparr>md_Name = ''lager'', md_Functions = [\<lparr>fd_Name = ''log'', fd_Arity = 3, fd_TypeSpec = [], fd_Doc = []\<rparr>]\<rparr>"
  using edoc_module_roundtrip [of "\<lambda>_. (module_tokens ''lager'' [\<lparr>fs_name = ''log'', fs_arity = 3, fs_spec = None, fs_paras = []\<rparr>], None)"
      "[]" "''lager''" "[\<lparr>fs_name = ''log'', fs_arity = 3, fs_spec = None, fs_paras = []\<rparr>]"]
  by (simp add: doc_of_def first_text_def)

end
