(* ===== verification/Toml.thy ===== *)
theory Toml
  imports Go_Strings "HOL-Library.AList"
begin

text \<open>
  The TOML reader of \<open>internal/toml\<close>: a recursive descent parser over the bytes of the source and a typed
  accessor for its result.  The unread part \<open>src[pos:]\<close> stands for \<open>src\<close> and \<open>pos\<close>.  A
  \<open>map[string]any\<close> is shared by reference (the table a header opens is filled by the lines that
  follow, and a later header may reach it again), so tables live in a store and are named by their index;
  the root is table 0.  \<open>strconv.ParseFloat\<close> is the argument \<open>ParseFloat\<close>, giving the bits of the float.
\<close>

section \<open>Values and the state of the parser\<close>

datatype tval =
    VString string
  | VInt int
  | VFloat u64
  | VBool bool
  | VTable nat
  | VTables "nat list"
  | VList "tval list"

type_synonym table = "(string \<times> tval) list"

record parser =
  p_rest :: string
  p_line :: nat
  p_col :: nat
  p_tables :: "table list"

abbreviation "dquote \<equiv> CHR 0x22"
abbreviation "squote \<equiv> CHR 0x27"
abbreviation "backslash \<equiv> CHR 0x5C"
abbreviation "line_feed \<equiv> CHR 0x0A"
abbreviation "carriage_return \<equiv> CHR 0x0D"
abbreviation "tabulator \<equiv> CHR 0x09"
abbreviation "space \<equiv> CHR 0x20"

definition errf :: "parser \<Rightarrow> string \<Rightarrow> fmt_arg list \<Rightarrow> go_error" where
  "errf p format args =
     Errorf (''toml: line %d col %d: '' @ format) ([FInt (int (p_line p)), FInt (int (p_col p))] @ args)"

definition eof :: "parser \<Rightarrow> bool" where
  "eof p \<longleftrightarrow> p_rest p = []"

definition peek :: "parser \<Rightarrow> char" where
  "peek p = (case p_rest p of [] \<Rightarrow> CHR 0x00 | c # _ \<Rightarrow> c)"

definition advance :: "parser \<Rightarrow> char \<times> parser" where
  "advance p =
     (case p_rest p of
        [] \<Rightarrow> (CHR 0x00, p)
      | c # r \<Rightarrow>
          (c, if c = line_feed then p\<lparr>p_rest := r, p_line := p_line p + 1, p_col := 1\<rparr>
              else p\<lparr>p_rest := r, p_col := p_col p + 1\<rparr>))"

text \<open>A call of \<open>advance\<close> whose result is not used.\<close>

abbreviation skip1 :: "parser \<Rightarrow> parser" where
  "skip1 p \<equiv> snd (advance p)"

lemma p_rest_skip1 [simp]: "p_rest (skip1 p) = tl (p_rest p)"
  by (simp add: advance_def split: list.splits)

lemma p_tables_skip1 [simp]: "p_tables (skip1 p) = p_tables p"
  by (simp add: advance_def split: list.splits)

lemma fst_advance: "fst (advance p) = peek p"
  by (simp add: advance_def peek_def split: list.splits)

lemma advance_eq: "advance p = (c, q) \<longleftrightarrow> c = peek p \<and> q = skip1 p"
  by (metis fst_advance prod.collapse prod.inject)

lemma eof_length: "\<not> eof p \<Longrightarrow> length (tl (p_rest p)) < length (p_rest p)"
  by (simp add: eof_def)

text \<open>The UTF-8 encoding of a rune below 0x10000, as \<open>string(c)\<close> and \<open>WriteRune\<close> give it.\<close>

definition encodeRune :: "nat \<Rightarrow> string" where
  "encodeRune r =
     (if r < 0x80 then [char_of r]
      else if r < 0x800 then [char_of (0xC0 + r div 0x40), char_of (0x80 + r mod 0x40)]
      else if 0xD800 \<le> r \<and> r < 0xE000 then [char_of (0xEF :: nat), char_of (0xBF :: nat), char_of (0xBD :: nat)]
      else [char_of (0xE0 + r div 0x1000), char_of (0x80 + r div 0x40 mod 0x40), char_of (0x80 + r mod 0x40)])"

definition peek_string :: "parser \<Rightarrow> string" where
  "peek_string p = encodeRune (of_char (peek p))"

section \<open>White space\<close>

text \<open>The scanning loops: advance while there is input and the byte passes the test.\<close>

function advance_while :: "(char \<Rightarrow> bool) \<Rightarrow> parser \<Rightarrow> parser" where
  "advance_while P p = (if \<not> eof p \<and> P (peek p) then advance_while P (skip1 p) else p)"
  by pat_completeness auto

termination by (relation "measure (\<lambda>(P, p). length (p_rest p))") (auto dest: eof_length)

declare advance_while.simps [simp del]

definition skipInlineWS :: "parser \<Rightarrow> parser" where
  "skipInlineWS = advance_while (\<lambda>c. c = space \<or> c = tabulator)"

lemma p_rest_advance_while [simp]: "p_rest (advance_while P p) = dropWhile P (p_rest p)"
proof (induction P p rule: advance_while.induct)
  case (1 P p)
  then show ?case
    by (subst advance_while.simps) (auto simp: eof_def peek_def split: list.splits)
qed

lemma p_tables_advance_while [simp]: "p_tables (advance_while P p) = p_tables p"
proof (induction P p rule: advance_while.induct)
  case (1 P p)
  then show ?case by (subst advance_while.simps) auto
qed

lemma comment_shorter:
  "\<not> eof p \<Longrightarrow> peek p = CHR ''#'' \<Longrightarrow> length (dropWhile (\<lambda>c. c \<noteq> line_feed) (p_rest p)) < length (p_rest p)"
  by (auto simp: eof_def peek_def le_imp_less_Suc length_dropWhile_le split: list.splits)

function skipWSAndComments :: "parser \<Rightarrow> parser" where
  "skipWSAndComments p =
     (if eof p then p
      else if peek p \<in> {space, tabulator, line_feed, carriage_return} then skipWSAndComments (skip1 p)
      else if peek p = CHR ''#'' then skipWSAndComments (advance_while (\<lambda>c. c \<noteq> line_feed) p)
      else p)"
  by pat_completeness auto

termination by (relation "measure (\<lambda>p. length (p_rest p))") (auto dest: eof_length comment_shorter)

declare skipWSAndComments.simps [simp del]

definition skipLineEnd :: "parser \<Rightarrow> go_error + unit \<times> parser" where
  "skipLineEnd p0 =
     (let p = skipInlineWS p0 in
      if eof p then Inr ((), p)
      else let p = (if peek p = CHR ''#'' then advance_while (\<lambda>c. c \<noteq> line_feed) p else p) in
      if eof p then Inr ((), p)
      else let p = (if peek p = carriage_return then skip1 p else p) in
      if eof p then Inr ((), p)
      else if peek p \<noteq> line_feed then Inl (errf p ''trailing garbage: %q'' [FStr (peek_string p)])
      else Inr ((), skip1 p))"

section \<open>Strings and keys\<close>

definition simple_escape :: "char \<Rightarrow> char option" where
  "simple_escape esc =
     (if esc = dquote then Some dquote
      else if esc = backslash then Some backslash
      else if esc = CHR ''n'' then Some line_feed
      else if esc = CHR ''t'' then Some tabulator
      else if esc = CHR ''r'' then Some carriage_return
      else if esc = CHR ''/'' then Some (CHR ''/'')
      else if esc = CHR ''b'' then Some (CHR 0x08)
      else if esc = CHR ''f'' then Some (CHR 0x0C)
      else None)"

definition hex_val :: "char \<Rightarrow> nat option" where
  "hex_val c =
     (let n = of_char c in
      if 48 \<le> n \<and> n \<le> 57 then Some (n - 48)
      else if 97 \<le> n \<and> n \<le> 102 then Some (n - 87)
      else if 65 \<le> n \<and> n \<le> 70 then Some (n - 55)
      else None)"

text \<open>\<open>strconv.ParseUint(hex, 16, 32)\<close> on four bytes.\<close>

fun ParseUint16 :: "nat \<Rightarrow> string \<Rightarrow> nat option" where
  "ParseUint16 n [] = Some n"
| "ParseUint16 n (c # s) = (case hex_val c of None \<Rightarrow> None | Some d \<Rightarrow> ParseUint16 (16 * n + d) s)"

lemma p_rest_skips [simp]: "p_rest ((skip1 ^^ n) p) = drop n (p_rest p)"
  by (induction n) (simp_all add: drop_Suc tl_drop)

lemma p_tables_skips [simp]: "p_tables ((skip1 ^^ n) p) = p_tables p"
  by (induction n) simp_all

function string_loop :: "char \<Rightarrow> string \<Rightarrow> parser \<Rightarrow> go_error + string \<times> parser" where
  "string_loop quote b p =
     (if eof p then Inl (errf p ''unterminated string'' [])
      else let c = peek p; p1 = skip1 p in
      if c = quote then Inr (b, p1)
      else if c = line_feed then Inl (errf p1 ''newline in string literal'' [])
      else if quote = dquote \<and> c = backslash then
        (if eof p1 then Inl (errf p1 ''unterminated escape'' [])
         else let esc = peek p1; p2 = skip1 p1 in
         (case simple_escape esc of
            Some ch \<Rightarrow> string_loop quote (b @ [ch]) p2
          | None \<Rightarrow>
              if esc = CHR ''u'' then
                (if length (p_rest p2) < 4
                 then Inl (errf p2 (''bad '' @ [backslash] @ ''u escape (need 4 hex digits)'') [])
                 else let hex = take 4 (p_rest p2); p3 = (skip1 ^^ 4) p2 in
                 (case ParseUint16 0 hex of
                    None \<Rightarrow> Inl (errf p3 (''bad '' @ [backslash] @ ''u escape %q'') [FStr hex])
                  | Some n \<Rightarrow> string_loop quote (b @ encodeRune n) p3))
              else Inl (errf p2 (''unknown escape '' @ [backslash] @ ''%s'') [FStr (encodeRune (of_char esc))])))
      else string_loop quote (b @ [c]) p1)"
  by pat_completeness auto

termination
  by (relation "measure (\<lambda>(quote, b, p). length (p_rest p))") (auto simp: eof_def simp del: funpow.simps)

declare string_loop.simps [simp del]

definition parseString :: "parser \<Rightarrow> go_error + string \<times> parser" where
  "parseString p =
     (let quote = peek p; p1 = skip1 p in
      if quote \<noteq> dquote \<and> quote \<noteq> squote
      then Inl (errf p1 ''internal: parseString called on non-quote'' [])
      else if peek p1 = quote then
        (let p2 = skip1 p1 in
         if peek p2 = quote
         then Inl (errf p2 (''multiline strings ('' @ replicate 3 dquote @ '' / '' @ replicate 3 squote @ '') not supported'') [])
         else Inr ([], p2))
      else string_loop quote [] p1)"

definition key_char :: "char \<Rightarrow> bool" where
  "key_char c \<longleftrightarrow>
     (let n = (of_char c :: nat) in
      97 \<le> n \<and> n \<le> 122 \<or> 65 \<le> n \<and> n \<le> 90 \<or> 48 \<le> n \<and> n \<le> 57 \<or> c = CHR ''_'' \<or> c = CHR ''-'')"

text \<open>\<open>src[start:pos]\<close>: the part of the input read between two states.\<close>

definition read_since :: "parser \<Rightarrow> parser \<Rightarrow> string" where
  "read_since p q = take (length (p_rest p) - length (p_rest q)) (p_rest p)"

definition parseKey :: "parser \<Rightarrow> go_error + string \<times> parser" where
  "parseKey p =
     (if peek p = dquote \<or> peek p = squote then parseString p
      else let q = advance_while key_char p in
      if p_rest q = p_rest p then Inl (errf q ''expected key, got %q'' [FStr (peek_string q)])
      else Inr (read_since p q, q))"

section \<open>Numbers and booleans\<close>

text \<open>The digit loop counts the digits; underscores are skipped after the first digit.\<close>

function number_digits :: "nat \<Rightarrow> parser \<Rightarrow> nat \<times> parser" where
  "number_digits digits p =
     (if \<not> eof p \<and> is_digit (peek p) then number_digits (digits + 1) (skip1 p)
      else if \<not> eof p \<and> peek p = CHR ''_'' \<and> 0 < digits then number_digits digits (skip1 p)
      else (digits, p))"
  by pat_completeness auto

termination by (relation "measure (\<lambda>(digits, p). length (p_rest p))") (auto dest: eof_length)

declare number_digits.simps [simp del]

definition parse_int_error :: "string \<Rightarrow> num_error \<Rightarrow> go_error" where
  "parse_int_error raw e =
     Errorf ''strconv.ParseInt: parsing %q: %s''
       [FStr raw, FStr (case e of ErrSyntax \<Rightarrow> ''invalid syntax'' | ErrRange \<Rightarrow> ''value out of range'')]"

definition parseNumber :: "(string \<Rightarrow> go_error + u64) \<Rightarrow> parser \<Rightarrow> go_error + tval \<times> parser" where
  "parseNumber ParseFloat start =
     (let p = (if peek start = CHR ''+'' \<or> peek start = CHR ''-'' then skip1 start else start);
          (digits, p) = number_digits 0 p
      in if digits = 0 then Inl (errf p ''expected digit, got %q'' [FStr (peek_string p)])
         else if peek p \<in> set ''xobXOB'' then Inl (errf p ''non-decimal integer literals not supported'' [])
         else
           let frac = (peek p = CHR ''.'');
               p = (if frac then advance_while is_digit (skip1 p) else p);
               expo = (peek p = CHR ''e'' \<or> peek p = CHR ''E'');
               p = (if expo then
                      let p = skip1 p;
                          p = (if peek p = CHR ''+'' \<or> peek p = CHR ''-'' then skip1 p else p)
                      in advance_while is_digit p
                    else p);
               raw = filter (\<lambda>c. c \<noteq> CHR ''_'') (read_since start p)
           in if frac \<or> expo then
                (case ParseFloat raw of
                   Inl err \<Rightarrow> Inl (errf p ''bad float %q: %v'' [FStr raw, FErr err])
                 | Inr f \<Rightarrow> Inr (VFloat f, p))
              else
                (case Atoi_core raw of
                   Inl err \<Rightarrow> Inl (errf p ''bad int %q: %v'' [FStr raw, FErr (parse_int_error raw err)])
                 | Inr n \<Rightarrow> Inr (VInt n, p)))"

definition parseBool :: "parser \<Rightarrow> go_error + bool \<times> parser" where
  "parseBool p =
     (if has_prefix (p_rest p) ''true'' then Inr (True, (skip1 ^^ 4) p)
      else if has_prefix (p_rest p) ''false'' then Inr (False, (skip1 ^^ 5) p)
      else Inl (errf p ''expected true/false'' []))"

section \<open>Values\<close>

text \<open>Allocation of a map, and the write \<open>m[k] = v\<close> to one.\<close>

definition new_table :: "parser \<Rightarrow> nat \<times> parser" where
  "new_table p = (length (p_tables p), p\<lparr>p_tables := p_tables p @ [[]]\<rparr>)"

definition set_key :: "table list \<Rightarrow> nat \<Rightarrow> string \<Rightarrow> tval \<Rightarrow> table list" where
  "set_key ts a k v = ts[a := AList.update k v (ts ! a)]"

abbreviation get_key :: "table list \<Rightarrow> nat \<Rightarrow> string \<Rightarrow> tval option" where
  "get_key ts a k \<equiv> map_of (ts ! a) k"

fun table_addr :: "tval \<Rightarrow> nat option" where
  "table_addr (VTable a) = Some a"
| "table_addr v = None"

text \<open>The value of an array: tables only make an array of tables.\<close>

definition array_value :: "tval list \<Rightarrow> tval" where
  "array_value items =
     (case those (map table_addr items) of
        Some as \<Rightarrow> if items \<noteq> [] then VTables as else VList items
      | None \<Rightarrow> VList items)"

text \<open>
  The calls of \<open>parseValue\<close>, of the loop of \<open>parseArray\<close> and of the loop of \<open>parseInlineTable\<close> nest as
  deep as the input does; the first argument bounds their depth, and \<open>None\<close> is running out of it.
\<close>

fun parseValue :: "(string \<Rightarrow> go_error + u64) \<Rightarrow> nat \<Rightarrow> parser \<Rightarrow> (go_error + tval \<times> parser) option"
and array_loop :: "(string \<Rightarrow> go_error + u64) \<Rightarrow> nat \<Rightarrow> tval list \<Rightarrow> parser \<Rightarrow> (go_error + tval \<times> parser) option"
and inline_loop :: "(string \<Rightarrow> go_error + u64) \<Rightarrow> nat \<Rightarrow> nat \<Rightarrow> parser \<Rightarrow> (go_error + tval \<times> parser) option"
where
  "parseValue pf 0 p = None"
| "parseValue pf (Suc n) p =
     (if eof p then Some (Inl (errf p ''unexpected EOF in value'' []))
      else let c = peek p in
      if c = dquote \<or> c = squote then Some (rbind (parseString p) (\<lambda>(s, p). Inr (VString s, p)))
      else if c = CHR ''['' then array_loop pf n [] (skip1 p)
      else if c = CHR ''{'' then
        (let (t, p) = new_table (skip1 p); p = skipInlineWS p in
         if peek p = CHR ''}'' then Some (Inr (VTable t, skip1 p)) else inline_loop pf n t p)
      else if c = CHR ''t'' \<or> c = CHR ''f'' then Some (rbind (parseBool p) (\<lambda>(b, p). Inr (VBool b, p)))
      else if c = CHR ''-'' \<or> c = CHR ''+'' \<or> is_digit c then Some (parseNumber pf p)
      else Some (Inl (errf p ''unexpected character %q starting value'' [FStr (peek_string p)])))"
| "array_loop pf 0 items p = None"
| "array_loop pf (Suc n) items p0 =
     (let p = skipWSAndComments p0 in
      if eof p then Some (Inl (errf p ''unterminated array'' []))
      else if peek p = CHR '']'' then Some (Inr (array_value items, skip1 p))
      else
        fbind (parseValue pf n p) (\<lambda>(val, p).
        let items = items @ [val]; p = skipWSAndComments p in
        if peek p = CHR '','' then array_loop pf n items (skip1 p)
        else let p = skipWSAndComments p in
        if peek p = CHR '']'' then Some (Inr (array_value items, skip1 p))
        else Some (Inl (errf p ''expected ',' or ']' in array, got %q'' [FStr (peek_string p)]))))"
| "inline_loop pf 0 t p = None"
| "inline_loop pf (Suc n) t p =
     fbind (Some (parseKey (skipInlineWS p))) (\<lambda>(k, p).
     let p = skipInlineWS p in
     if peek p \<noteq> CHR ''='' then Some (Inl (errf p ''expected '=' in inline table, got %q'' [FStr (peek_string p)]))
     else
       fbind (parseValue pf n (skipInlineWS (skip1 p))) (\<lambda>(val, p).
       if get_key (p_tables p) t k \<noteq> None
       then Some (Inl (errf p ''duplicate key %q in inline table'' [FStr k]))
       else
         let p = skipInlineWS (p\<lparr>p_tables := set_key (p_tables p) t k val\<rparr>) in
         if peek p = CHR '','' then inline_loop pf n t (skip1 p)
         else if peek p = CHR ''}'' then Some (Inr (VTable t, skip1 p))
         else Some (Inl (errf p ''expected ',' or '}' in inline table, got %q'' [FStr (peek_string p)]))))"

definition parseKeyValueLine ::
  "(string \<Rightarrow> go_error + u64) \<Rightarrow> nat \<Rightarrow> nat \<Rightarrow> parser \<Rightarrow> (go_error + unit \<times> parser) option" where
  "parseKeyValueLine pf n target p =
     (let startLine = p_line p in
      fbind (Some (parseKey p)) (\<lambda>(k, p).
      let p = skipInlineWS p in
      if peek p = CHR ''.''
      then Some (Inl (errf p ''dotted keys on LHS of key/value not supported (got %q.)'' [FStr k]))
      else if peek p \<noteq> CHR ''=''
      then Some (Inl (errf p ''expected '=' after key %q, got %q'' [FStr k, FStr (peek_string p)]))
      else
        fbind (parseValue pf n (skipInlineWS (skip1 p))) (\<lambda>(val, p).
        if get_key (p_tables p) target k \<noteq> None
        then Some (Inl (errf p ''duplicate key %q on line %d'' [FStr k, FInt (int startLine)]))
        else Some (skipLineEnd (p\<lparr>p_tables := set_key (p_tables p) target k val\<rparr>)))))"

section \<open>Tables\<close>

fun go_type :: "tval \<Rightarrow> string" where
  "go_type (VString s) = ''string''"
| "go_type (VInt n) = ''int64''"
| "go_type (VFloat f) = ''float64''"
| "go_type (VBool b) = ''bool''"
| "go_type (VTable a) = ''map[string]interface {}''"
| "go_type (VTables as) = ''[]map[string]interface {}''"
| "go_type (VList vs) = ''[]interface {}''"

definition show_path :: "string list \<Rightarrow> string" where
  "show_path path = ''['' @ join '' '' path @ '']''"

text \<open>
  \<open>descendTable\<close> with the part of the path already walked; \<open>create\<close> is true in every call of the
  package, and the other case is kept as the source has it.
\<close>

fun descend :: "bool \<Rightarrow> table list \<Rightarrow> nat \<Rightarrow> string list \<Rightarrow> string list \<Rightarrow> go_error + nat \<times> table list" where
  "descend create ts cur walked [] = Inr (cur, ts)"
| "descend create ts cur walked (key # path) =
     (let here = walked @ [key] in
      case get_key ts cur key of
        None \<Rightarrow>
          if \<not> create then Inl (Errorf ''missing key %q at path %v'' [FStr key, FStr (show_path here)])
          else let nm = length ts in descend create (set_key (ts @ [[]]) cur key (VTable nm)) nm here path
      | Some (VTable a) \<Rightarrow> descend create ts a here path
      | Some (VTables as) \<Rightarrow>
          if as = [] then Inl (Errorf ''empty array-of-tables at %v'' [FStr (show_path here)])
          else descend create ts (last as) here path
      | Some v \<Rightarrow> Inl (Errorf ''key %q at %v is %T, not a table'' [FStr key, FStr (show_path here), FType (go_type v)]))"

definition descendTable :: "table list \<Rightarrow> nat \<Rightarrow> string list \<Rightarrow> bool \<Rightarrow> go_error + nat \<times> table list" where
  "descendTable ts target path create = descend create ts target [] path"

definition appendArrayOfTables :: "table list \<Rightarrow> nat \<Rightarrow> string list \<Rightarrow> nat \<Rightarrow> go_error + table list" where
  "appendArrayOfTables ts target path tbl =
     (if path = [] then Inl (Errorf ''empty array-of-tables path'' [])
      else
        rbind (if 1 < length path then descendTable ts target (butlast path) True else Inr (target, ts)) (\<lambda>(parent, ts).
        let final = last path in
        case get_key ts parent final of
          None \<Rightarrow> Inr (set_key ts parent final (VTables [tbl]))
        | Some (VTables arr) \<Rightarrow> Inr (set_key ts parent final (VTables (arr @ [tbl])))
        | Some v \<Rightarrow> Inl (Errorf ''key %q is %T, not an array-of-tables'' [FStr final, FType (go_type v)])))"

section \<open>Documents\<close>

fun parseKeyPath :: "nat \<Rightarrow> string list \<Rightarrow> parser \<Rightarrow> (go_error + string list \<times> parser) option" where
  "parseKeyPath 0 parts p = None"
| "parseKeyPath (Suc n) parts p =
     fbind (Some (parseKey (skipInlineWS p))) (\<lambda>(k, p).
     let parts = parts @ [k]; p = skipInlineWS p in
     if peek p \<noteq> CHR ''.'' then Some (Inr (parts, p)) else parseKeyPath n parts (skip1 p))"

text \<open>A header line, from the bracket that opens it; the result is the table that the next lines fill.\<close>

definition parse_header :: "nat \<Rightarrow> parser \<Rightarrow> (go_error + nat \<times> parser) option" where
  "parse_header n p0 =
     (let p = skip1 p0;
          isArray = (peek p = CHR ''['');
          p = (if isArray then skip1 p else p)
      in fbind (parseKeyPath n [] p) (\<lambda>(path, p).
         if isArray \<and> peek p \<noteq> CHR '']''
         then Some (Inl (errf p ''expected ']]' end of array-of-tables header, got %q'' [FStr (peek_string p)]))
         else let p = (if isArray then skip1 p else p) in
         if peek p \<noteq> CHR '']''
         then Some (Inl (errf p ''expected ']' end of table header, got %q'' [FStr (peek_string p)]))
         else
           fbind (Some (skipLineEnd (skip1 p))) (\<lambda>(_, p).
           if isArray then
             (let (tbl, p) = new_table p in
              case appendArrayOfTables (p_tables p) 0 path tbl of
                Inl err \<Rightarrow> Some (Inl (errf p ''%v'' [FErr err]))
              | Inr ts \<Rightarrow> Some (Inr (tbl, p\<lparr>p_tables := ts\<rparr>)))
           else
             (case descendTable (p_tables p) 0 path True of
                Inl err \<Rightarrow> Some (Inl (errf p ''%v'' [FErr err]))
              | Inr (tbl, ts) \<Rightarrow> Some (Inr (tbl, p\<lparr>p_tables := ts\<rparr>))))))"

fun parseDocument :: "(string \<Rightarrow> go_error + u64) \<Rightarrow> nat \<Rightarrow> nat \<Rightarrow> parser \<Rightarrow> (go_error + table list) option" where
  "parseDocument pf 0 current p = None"
| "parseDocument pf (Suc n) current p0 =
     (let p = skipWSAndComments p0 in
      if eof p then Some (Inr (p_tables p))
      else if peek p = CHR ''['' then fbind (parse_header n p) (\<lambda>(current, p). parseDocument pf n current p)
      else fbind (parseKeyValueLine pf n current p) (\<lambda>(_, p). parseDocument pf n current p))"

text \<open>The nesting and the number of lines are bounded by the length of the source.\<close>

definition Parse :: "(string \<Rightarrow> go_error + u64) \<Rightarrow> string \<Rightarrow> (go_error + table list) option" where
  "Parse pf src = parseDocument pf (2 * length src + 2) 0 \<lparr>p_rest = src, p_line = 1, p_col = 1, p_tables = [[]]\<rparr>"

section \<open>The decoder\<close>

record Decoder =
  d_tables :: "table list"
  d_tree :: nat

definition NewDecoder :: "table list \<Rightarrow> nat \<Rightarrow> Decoder" where
  "NewDecoder ts tree = \<lparr>d_tables = ts, d_tree = tree\<rparr>"

abbreviation d_get :: "Decoder \<Rightarrow> string \<Rightarrow> tval option" where
  "d_get d key \<equiv> get_key (d_tables d) (d_tree d) key"

definition want_error :: "string \<Rightarrow> string \<Rightarrow> tval \<Rightarrow> go_error" where
  "want_error want key v = Errorf (''toml: key %q is %T, want '' @ want) [FStr key, FType (go_type v)]"

definition Decoder_String :: "Decoder \<Rightarrow> string \<Rightarrow> go_error + string \<times> bool" where
  "Decoder_String d key =
     (case d_get d key of
        None \<Rightarrow> Inr ([], False)
      | Some (VString s) \<Rightarrow> Inr (s, True)
      | Some v \<Rightarrow> Inl (want_error ''string'' key v))"

definition StringRequired :: "Decoder \<Rightarrow> string \<Rightarrow> go_error + string" where
  "StringRequired d key =
     rbind (Decoder_String d key) (\<lambda>(s, present).
       if \<not> present then Inl (Errorf ''toml: missing required key %q'' [FStr key]) else Inr s)"

definition Decoder_Int :: "Decoder \<Rightarrow> string \<Rightarrow> go_error + int \<times> bool" where
  "Decoder_Int d key =
     (case d_get d key of
        None \<Rightarrow> Inr (0, False)
      | Some (VInt n) \<Rightarrow> Inr (n, True)
      | Some v \<Rightarrow> Inl (want_error ''int64'' key v))"

definition Decoder_Bool :: "Decoder \<Rightarrow> string \<Rightarrow> go_error + bool \<times> bool" where
  "Decoder_Bool d key =
     (case d_get d key of
        None \<Rightarrow> Inr (False, False)
      | Some (VBool b) \<Rightarrow> Inr (b, True)
      | Some v \<Rightarrow> Inl (want_error ''bool'' key v))"

definition Decoder_Table :: "Decoder \<Rightarrow> string \<Rightarrow> go_error + Decoder option" where
  "Decoder_Table d key =
     (case d_get d key of
        None \<Rightarrow> Inr None
      | Some (VTable a) \<Rightarrow> Inr (Some (d\<lparr>d_tree := a\<rparr>))
      | Some v \<Rightarrow> Inl (want_error ''table'' key v))"

definition TableArray :: "Decoder \<Rightarrow> string \<Rightarrow> go_error + Decoder list \<times> bool" where
  "TableArray d key =
     (case d_get d key of
        None \<Rightarrow> Inr ([], False)
      | Some (VTables as) \<Rightarrow> Inr (map (\<lambda>a. d\<lparr>d_tree := a\<rparr>) as, True)
      | Some v \<Rightarrow> Inl (want_error ''array-of-tables'' key v))"

fun string_elems :: "string \<Rightarrow> nat \<Rightarrow> tval list \<Rightarrow> go_error + string list" where
  "string_elems key i [] = Inr []"
| "string_elems key i (it # arr) =
     (case it of
        VString s \<Rightarrow> rbind (string_elems key (i + 1) arr) (\<lambda>out. Inr (s # out))
      | _ \<Rightarrow> Inl (Errorf ''toml: key %q index %d is %T, want string'' [FStr key, FInt (int i), FType (go_type it)]))"

definition StringArray :: "Decoder \<Rightarrow> string \<Rightarrow> go_error + string list \<times> bool" where
  "StringArray d key =
     (case d_get d key of
        None \<Rightarrow> Inr ([], False)
      | Some (VList arr) \<Rightarrow> rbind (string_elems key 0 arr) (\<lambda>out. Inr (out, True))
      | Some (VTables as) \<Rightarrow> Inl (Errorf ''toml: key %q is an array-of-tables, want string array'' [FStr key])
      | Some v \<Rightarrow> Inl (want_error ''string array'' key v))"

definition Raw :: "Decoder \<Rightarrow> table" where
  "Raw d = d_tables d ! d_tree d"

text \<open>\<open>Keys\<close> ranges over the map, whose order is unspecified.\<close>

definition Keys :: "Decoder \<Rightarrow> string set" where
  "Keys d = fst ` set (Raw d)"

end
