(* ===== verification/Toml_Correct.thy ===== *)
theory Toml_Correct
  imports Toml
begin

text \<open>
  Every parsing function consumes input, which bounds the nesting and gives termination, and keeps
  the store closed: keys are unique within a table, and a reference names a table that exists.
\<close>

section \<open>Progress of the scanners\<close>

abbreviation plen :: "parser \<Rightarrow> nat" where
  "plen p \<equiv> length (p_rest p)"

named_theorems toml_progress

lemma plen_advance_while [toml_progress]: "plen (advance_while P p) \<le> plen p"
  by (simp add: length_dropWhile_le)

lemma plen_skipInlineWS [toml_progress]: "plen (skipInlineWS p) \<le> plen p"
  by (simp add: skipInlineWS_def length_dropWhile_le)

lemma p_tables_skipInlineWS [simp]: "p_tables (skipInlineWS p) = p_tables p"
  by (simp add: skipInlineWS_def)

lemma skipWSAndComments_keeps:
  "plen (skipWSAndComments p) \<le> plen p \<and> p_tables (skipWSAndComments p) = p_tables p"
proof (induction p rule: skipWSAndComments.induct)
  case (1 p)
  show ?case
    using 1 plen_advance_while [of "\<lambda>c. c \<noteq> line_feed" p]
    by (subst (1 2) skipWSAndComments.simps) (auto intro: le_trans)
qed

lemmas plen_skipWSAndComments [toml_progress] = skipWSAndComments_keeps [THEN conjunct1]
lemmas p_tables_skipWSAndComments [simp] = skipWSAndComments_keeps [THEN conjunct2]

lemma peek_nonempty: "peek p \<noteq> CHR 0x00 \<Longrightarrow> p_rest p \<noteq> []"
  by (auto simp: peek_def)

lemma plen_skip1: "p_rest p \<noteq> [] \<Longrightarrow> plen (skip1 p) < plen p"
  by simp

lemma skipLineEnd_keeps:
  assumes "skipLineEnd p = Inr (u, q)"
  shows "plen q \<le> plen p \<and> p_tables q = p_tables p"
proof -
  let ?c = "\<lambda>r. if peek r = CHR ''#'' then advance_while (\<lambda>c. c \<noteq> line_feed) r else r"
  let ?d = "\<lambda>r. if peek r = carriage_return then skip1 r else r"
  have "plen (?c r) \<le> plen r" "p_tables (?c r) = p_tables r" "plen (?d r) \<le> plen r" "p_tables (?d r) = p_tables r" for r
    by (auto simp: length_dropWhile_le)
  note k = this
  have "q \<in> {skipInlineWS p, ?c (skipInlineWS p), ?d (?c (skipInlineWS p)), skip1 (?d (?c (skipInlineWS p)))}"
    using assms by (auto simp: skipLineEnd_def Let_def split: if_splits)
  then show ?thesis
    using plen_skipInlineWS [of p] k(1) [of "skipInlineWS p"] k(2) [of "skipInlineWS p"]
      k(3) [of "?c (skipInlineWS p)"] k(4) [of "?c (skipInlineWS p)"]
    by auto
qed

lemma string_loop_keeps:
  "string_loop quote b p = Inr (s, q) \<Longrightarrow> plen q < plen p \<and> p_tables q = p_tables p"
proof (induction quote b p rule: string_loop.induct)
  case (1 quote b p)
  from 1(4) show ?case
    apply (subst (asm) string_loop.simps)
    using 1(1-3) by (force simp: Let_def eof_def split: if_splits option.splits simp del: funpow.simps)
qed

lemma parseString_keeps:
  assumes "parseString p = Inr (s, q)"
  shows "plen q < plen p \<and> p_tables q = p_tables p"
proof -
  have "p_rest p \<noteq> []" using assms by (auto simp: parseString_def Let_def peek_def split: if_splits list.splits)
  then show ?thesis
    using assms
    by (auto simp: parseString_def Let_def dest!: string_loop_keeps split: if_splits)
qed

lemma parseKey_keeps:
  assumes "parseKey p = Inr (k, q)"
  shows "plen q < plen p \<and> p_tables q = p_tables p"
proof (cases "peek p = dquote \<or> peek p = squote")
  case True
  then show ?thesis using assms parseString_keeps by (simp add: parseKey_def)
next
  case False
  then have q: "q = advance_while key_char p" "dropWhile key_char (p_rest p) \<noteq> p_rest p"
    using assms by (auto simp: parseKey_def Let_def split: if_splits)
  then show ?thesis
    by (metis dropWhile_eq_self_iff length_dropWhile_le nless_le p_rest_advance_while p_tables_advance_while
        append_self_conv2 length_append takeWhile_dropWhile_id add_cancel_left_left length_0_conv)
qed

lemma number_digits_keeps:
  assumes "number_digits d p = (n, q)"
  shows "plen q \<le> plen p \<and> p_tables q = p_tables p \<and> (n \<noteq> d \<longrightarrow> plen q < plen p) \<and> d \<le> n"
  using assms
proof (induction d p rule: number_digits.induct)
  case (1 d p)
  consider "\<not> eof p" "is_digit (peek p)"
    | "\<not> eof p" "\<not> is_digit (peek p)" "peek p = CHR ''_''" "0 < d" | "n = d" "q = p"
    using 1(3) by (subst (asm) number_digits.simps) (auto split: if_splits)
  then show ?case
  proof cases
    case 1
    with "1.prems" have "number_digits (d + 1) (skip1 p) = (n, q)" by (subst (asm) number_digits.simps) simp
    with "1.IH"(1) 1 show ?thesis by (auto dest: eof_length)
  next
    case 2
    with "1.prems" have "number_digits d (skip1 p) = (n, q)" by (subst (asm) number_digits.simps) simp
    with "1.IH"(2) 2 show ?thesis by (auto dest: eof_length)
  qed simp
qed

lemma parseNumber_keeps:
  assumes "parseNumber pf p = Inr (v, q)"
  shows "plen q < plen p \<and> p_tables q = p_tables p \<and> (\<exists>n f. v \<in> {VInt n, VFloat f})"
proof -
  define p1 where "p1 = (if peek p = CHR ''+'' \<or> peek p = CHR ''-'' then skip1 p else p)"
  obtain n p2 where d: "number_digits 0 p1 = (n, p2)" by force
  define p3 where "p3 = (if peek p2 = CHR ''.'' then advance_while is_digit (skip1 p2) else p2)"
  define p4 where "p4 = skip1 p3"
  define p5 where "p5 = (if peek p4 = CHR ''+'' \<or> peek p4 = CHR ''-'' then skip1 p4 else p4)"
  define p6 where "p6 = (if peek p3 = CHR ''e'' \<or> peek p3 = CHR ''E'' then advance_while is_digit p5 else p3)"
  have n: "n \<noteq> 0" and q: "q = p6" and v: "\<exists>n f. v \<in> {VInt n, VFloat f}"
    using assms unfolding parseNumber_def p1_def [symmetric] d
    by (auto simp: Let_def d p3_def p4_def p5_def p6_def split: if_splits sum.splits)
  have "plen p1 \<le> plen p" "p_tables p1 = p_tables p" by (auto simp: p1_def)
  moreover have "plen p2 < plen p1" "p_tables p2 = p_tables p1" using number_digits_keeps [OF d] n by auto
  moreover have "plen p3 \<le> plen p2" "p_tables p3 = p_tables p2"
    using length_dropWhile_le [of is_digit "tl (p_rest p2)"] by (auto simp: p3_def)
  moreover have "plen p5 \<le> plen p3" "p_tables p5 = p_tables p3" by (auto simp: p5_def p4_def)
  moreover have "plen p6 \<le> max (plen p3) (plen p5)" "p_tables p6 = p_tables p3"
    using length_dropWhile_le [of is_digit "p_rest p5"] calculation by (auto simp: p6_def)
  ultimately show ?thesis using q v by auto
qed

lemma parseBool_keeps:
  assumes "parseBool p = Inr (b, q)"
  shows "plen q < plen p \<and> p_tables q = p_tables p"
proof -
  have "p_rest p \<noteq> []" "q \<in> {(skip1 ^^ 4) p, (skip1 ^^ 5) p}"
    using assms by (auto simp: parseBool_def has_prefix_def split: if_splits simp del: funpow.simps)
  then show ?thesis by (auto simp del: funpow.simps)
qed

section \<open>The store\<close>

fun val_ok :: "nat \<Rightarrow> tval \<Rightarrow> bool" where
  "val_ok n (VTable a) = (a < n)"
| "val_ok n (VTables as) = (\<forall>a \<in> set as. a < n)"
| "val_ok n (VList vs) = (\<forall>v \<in> set vs. val_ok n v)"
| "val_ok n v = True"

definition table_ok :: "nat \<Rightarrow> table \<Rightarrow> bool" where
  "table_ok n t \<longleftrightarrow> distinct (map fst t) \<and> (\<forall>v \<in> snd ` set t. val_ok n v)"

definition store_ok :: "table list \<Rightarrow> bool" where
  "store_ok ts \<longleftrightarrow> ts \<noteq> [] \<and> (\<forall>t \<in> set ts. table_ok (length ts) t)"

lemma val_ok_mono: "val_ok n v \<Longrightarrow> n \<le> m \<Longrightarrow> val_ok m v"
  by (induction n v rule: val_ok.induct) auto

lemma snd_set_update: "snd ` set (AList.update k v t) \<subseteq> insert v (snd ` set t)"
  by (induction t) auto

lemma length_set_key [simp]: "length (set_key ts a k v) = length ts"
  by (simp add: set_key_def)

lemma get_set_key: "a < length ts \<Longrightarrow> get_key (set_key ts a k v) a k = Some v"
  by (simp add: set_key_def update_conv)

lemma table_ok_mono: "table_ok n t \<Longrightarrow> n \<le> m \<Longrightarrow> table_ok m t"
  using val_ok_mono by (auto simp: table_ok_def)

lemma table_ok_update: "table_ok n t \<Longrightarrow> val_ok n v \<Longrightarrow> table_ok n (AList.update k v t)"
  unfolding table_ok_def by (metis distinct_update insertE snd_set_update subsetD)

lemma store_ok_set_key:
  assumes "store_ok ts" "a < length ts" "val_ok (length ts) v"
  shows "store_ok (set_key ts a k v)"
proof -
  have "table_ok (length ts) (AList.update k v (ts ! a))"
    using assms by (intro table_ok_update) (auto simp: store_ok_def)
  then show ?thesis using assms by (auto simp: store_ok_def set_key_def dest: set_update_subset_insert [THEN subsetD])
qed

lemma store_ok_new: "store_ok ts \<Longrightarrow> store_ok (ts @ [[]])"
  by (auto simp: store_ok_def intro: table_ok_mono) (simp add: table_ok_def)

lemma store_ok_get: "store_ok ts \<Longrightarrow> a < length ts \<Longrightarrow> get_key ts a k = Some v \<Longrightarrow> val_ok (length ts) v"
  unfolding store_ok_def table_ok_def by (metis (no_types) image_eqI map_of_SomeD nth_mem snd_conv)

lemma those_addrs: "those (map table_addr vs) = Some as \<Longrightarrow> vs = map VTable as"
proof (induction vs arbitrary: as)
  case (Cons v vs)
  then show ?case by (cases v) auto
qed simp

lemma val_ok_array_value: "\<forall>v \<in> set items. val_ok n v \<Longrightarrow> val_ok n (array_value items)"
  by (auto simp: array_value_def dest!: those_addrs split: option.splits)

section \<open>Values\<close>

text \<open>Success consumes input, keeps the store closed and never loses a table.\<close>

definition post :: "parser \<Rightarrow> tval \<Rightarrow> parser \<Rightarrow> bool \<Rightarrow> bool" where
  "post p v q pre \<longleftrightarrow> plen q < plen p \<and>
     (store_ok (p_tables p) \<and> pre \<longrightarrow>
        store_ok (p_tables q) \<and> length (p_tables p) \<le> length (p_tables q) \<and> val_ok (length (p_tables q)) v)"

lemma post_same: "plen q < plen p \<Longrightarrow> p_tables q = p_tables p \<Longrightarrow> val_ok (length (p_tables p)) v \<Longrightarrow> post p v q pre"
  by (simp add: post_def)

lemma post_value: "parseValue pf n p = Some (Inr (v, q)) \<Longrightarrow> post p v q True"
  and post_array: "array_loop pf n items p = Some (Inr (v, q)) \<Longrightarrow>
    post p v q (\<forall>x \<in> set items. val_ok (length (p_tables p)) x)"
  and post_inline: "inline_loop pf n t p = Some (Inr (v, q)) \<Longrightarrow> post p v q (t < length (p_tables p))"
proof (induction pf n p and pf n items p and pf n t p arbitrary: v q and v q and v q
    rule: parseValue_array_loop_inline_loop.induct)
  case (2 pf n p)
  have ne: "\<not> eof p" using "2.prems" by (auto split: if_splits)
  then have l: "plen (skip1 p) < plen p" by (simp add: eof_def)
  let ?t = "fst (new_table (skip1 p))" and ?p = "skipInlineWS (snd (new_table (skip1 p)))"
  have t: "plen ?p < plen p" "?t < length (p_tables ?p)" "length (p_tables p) \<le> length (p_tables ?p)"
    "store_ok (p_tables p) \<Longrightarrow> store_ok (p_tables ?p)"
    using l plen_skipInlineWS [of "snd (new_table (skip1 p))"] by (auto simp: new_table_def store_ok_new)
  consider (str) s where "parseString p = Inr (s, q)" "v = VString s"
    | (arr) "peek p = CHR ''[''" "array_loop pf n [] (skip1 p) = Some (Inr (v, q))"
    | (tbl) "v = VTable ?t" "q = skip1 ?p"
    | (inl) "peek p = CHR ''{''" "peek ?p \<noteq> CHR ''}''" "inline_loop pf n ?t ?p = Some (Inr (v, q))"
    | (bool) b where "parseBool p = Inr (b, q)" "v = VBool b"
    | (num) "parseNumber pf p = Inr (v, q)"
    using "2.prems" ne by (auto simp: Let_def rbind_eq_Inr case_prod_beta split: if_splits)
  then show ?case
  proof cases
    case arr
    with "2.IH"(1) ne have "post (skip1 p) v q True" by simp
    then show ?thesis using l by (auto simp: post_def)
  next
    case inl
    with "2.IH"(2) ne have "post ?p v q (?t < length (p_tables ?p))" by (simp add: case_prod_beta)
    then show ?thesis using t by (auto simp: post_def)
  next
    case tbl
    then show ?thesis using t by (auto simp: post_def)
  qed (auto dest!: parseString_keeps parseBool_keeps parseNumber_keeps intro!: post_same)
next
  case (4 pf n items p0)
  let ?p = "skipWSAndComments p0"
  have l: "plen ?p \<le> plen p0" by (rule plen_skipWSAndComments)
  consider (close) "\<not> eof ?p" "v = array_value items" "q = skip1 ?p"
    | (item) x p1 where "\<not> eof ?p" "peek ?p \<noteq> CHR '']''" "parseValue pf n ?p = Some (Inr (x, p1))"
    using "4.prems" by (auto simp: Let_def fbind_eq_Inr split: if_splits)
  then show ?case
  proof cases
    case close
    then have "plen (skip1 ?p) < plen p0"
      using less_le_trans [OF plen_skip1 l] by (simp add: eof_def)
    then show ?thesis using close by (auto simp: post_def val_ok_array_value)
  next
    case item
    let ?q = "skipWSAndComments p1"
    have x: "post ?p x p1 True" using "4.IH"(1) item by simp
    have lq: "plen ?q \<le> plen p1" "plen (skipWSAndComments ?q) \<le> plen p1"
      using plen_skipWSAndComments [of p1] plen_skipWSAndComments [of ?q] by auto
    consider "array_loop pf n (items @ [x]) (skip1 ?q) = Some (Inr (v, q))" "peek ?q = CHR '',''"
      | "v = array_value (items @ [x])" "q = skip1 (skipWSAndComments ?q)"
      using "4.prems" item by (auto simp: Let_def fbind_eq_Inr split: if_splits)
    then show ?thesis
    proof cases
      case 1
      then have "post (skip1 ?q) v q (\<forall>y \<in> set (items @ [x]). val_ok (length (p_tables (skip1 ?q))) y)"
        using "4.IH"(2) [OF refl item refl refl refl] by simp
      then show ?thesis using x l lq by (auto simp: post_def intro: val_ok_mono)
    next
      case 2
      have "val_ok (length (p_tables p1)) v" if "val_ok (length (p_tables p1)) x"
        "\<forall>y \<in> set items. val_ok (length (p_tables p1)) y"
        using 2 that by (auto intro!: val_ok_array_value)
      then show ?thesis using 2 x l lq by (auto simp: post_def intro: val_ok_mono)
    qed
  qed
next
  case (6 pf n t p)
  obtain k p1 x p2 where k: "parseKey (skipInlineWS p) = Inr (k, p1)"
    and eq: "peek (skipInlineWS p1) = CHR ''=''"
    and val: "parseValue pf n (skipInlineWS (skip1 (skipInlineWS p1))) = Some (Inr (x, p2))"
    and new: "get_key (p_tables p2) t k = None"
    using "6.prems" by (auto simp: Let_def fbind_eq_Inr split: if_splits)
  let ?v = "skipInlineWS (skip1 (skipInlineWS p1))"
  let ?q = "skipInlineWS (p2\<lparr>p_tables := set_key (p_tables p2) t k x\<rparr>)"
  have "post ?v x p2 True" using "6.IH"(1) [OF _ refl refl] k eq val by simp
  moreover have "plen p1 < plen p" "p_tables p1 = p_tables p"
    using parseKey_keeps [OF k] plen_skipInlineWS [of p] by auto
  moreover have "plen ?v \<le> plen p1"
    using plen_skipInlineWS [of p1] plen_skipInlineWS [of "skip1 (skipInlineWS p1)"] by simp
  moreover have "plen ?q \<le> plen p2" using plen_skipInlineWS [of "p2\<lparr>p_tables := set_key (p_tables p2) t k x\<rparr>"] by simp
  ultimately have s: "plen ?q < plen p" and ok: "store_ok (p_tables p) \<and> t < length (p_tables p) \<Longrightarrow>
      store_ok (p_tables ?q) \<and> length (p_tables p) \<le> length (p_tables ?q) \<and> t < length (p_tables ?q)"
    by (auto simp: post_def store_ok_set_key)
  consider "inline_loop pf n t (skip1 ?q) = Some (Inr (v, q))" "peek ?q = CHR '',''" | "v = VTable t" "q = skip1 ?q"
    using "6.prems" k eq val new by (auto simp: Let_def split: if_splits)
  then show ?case
  proof cases
    case 1
    then have "post (skip1 ?q) v q (t < length (p_tables (skip1 ?q)))"
      using "6.IH"(2) [OF _ refl refl _ val refl _ refl] k eq new by simp
    then show ?thesis using s ok by (auto simp: post_def)
  next
    case 2
    then show ?thesis using s ok by (auto simp: post_def)
  qed
qed simp_all

section \<open>Enough depth\<close>

lemma fbind_returns: "m \<noteq> None \<Longrightarrow> (\<And>x. m = Some (Inr x) \<Longrightarrow> f x \<noteq> None) \<Longrightarrow> fbind m f \<noteq> None"
  by (auto simp: fbind_eq_None)

lemma value_returns: "2 * plen p < n \<Longrightarrow> parseValue pf n p \<noteq> None"
  and array_returns: "2 * plen p + 1 < n \<Longrightarrow> array_loop pf n items p \<noteq> None"
  and inline_returns: "2 * plen p + 1 < n \<Longrightarrow> inline_loop pf n t p \<noteq> None"
proof (induction pf n p and pf n items p and pf n t p rule: parseValue_array_loop_inline_loop.induct)
  case (2 pf n p)
  let ?t = "fst (new_table (skip1 p))" and ?p = "skipInlineWS (snd (new_table (skip1 p)))"
  have "plen ?p \<le> plen (skip1 p)"
    using plen_skipInlineWS [of "snd (new_table (skip1 p))"] by (auto simp: new_table_def)
  moreover have "2 * plen (skip1 p) + 1 < n" if "\<not> eof p"
    using "2.prems" plen_skip1 [of p] that unfolding eof_def by linarith
  ultimately have "\<not> eof p \<Longrightarrow> peek p = CHR ''['' \<Longrightarrow> array_loop pf n [] (skip1 p) \<noteq> None"
    "\<not> eof p \<Longrightarrow> peek p = CHR ''{'' \<Longrightarrow> peek ?p \<noteq> CHR ''}'' \<Longrightarrow> inline_loop pf n ?t ?p \<noteq> None"
    using "2.IH" by (auto simp: case_prod_beta)
  then show ?case by (auto simp: Let_def case_prod_beta)
next
  case (4 pf n items p0)
  let ?p = "skipWSAndComments p0"
  have l: "plen ?p \<le> plen p0" by (rule plen_skipWSAndComments)
  have "fbind (parseValue pf n ?p) f \<noteq> None" if ne: "\<not> eof ?p" "peek ?p \<noteq> CHR '']''"
    and f: "\<And>x q. parseValue pf n ?p = Some (Inr (x, q)) \<Longrightarrow> f (x, q) \<noteq> None" for f :: "_ \<Rightarrow> (go_error + tval \<times> parser) option"
    using "4.IH"(1) "4.prems" l ne f by (intro fbind_returns) auto
  moreover have "array_loop pf n (items @ [x]) (skip1 (skipWSAndComments q)) \<noteq> None"
    if ne: "\<not> eof ?p" "peek ?p \<noteq> CHR '']''" and v: "parseValue pf n ?p = Some (Inr (x, q))"
      and c: "peek (skipWSAndComments q) = CHR '',''" for x q
  proof -
    have "plen q < plen ?p" using post_value [OF v] by (simp add: post_def)
    then have "2 * plen (skip1 (skipWSAndComments q)) + 1 < n"
      using "4.prems" l plen_skipWSAndComments [of q] by simp
    then show ?thesis using "4.IH"(2) [OF refl ne v refl refl refl] c by simp
  qed
  ultimately show ?case by (auto simp: Let_def)
next
  case (6 pf n t p)
  have v: "parseValue pf n w \<noteq> None" "2 * plen w + 1 < n"
    if "parseKey (skipInlineWS p) = Inr (k, p1)" "peek (skipInlineWS p1) = CHR ''=''"
      "w = skipInlineWS (skip1 (skipInlineWS p1))" for k p1 w
  proof -
    have "plen p1 < plen p" using parseKey_keeps [OF that(1)] plen_skipInlineWS [of p] by linarith
    moreover have "plen w \<le> plen p1"
      using plen_skipInlineWS [of p1] plen_skipInlineWS [of "skip1 (skipInlineWS p1)"] that(3) by simp
    ultimately show "2 * plen w + 1 < n" using "6.prems" by linarith
    then show "parseValue pf n w \<noteq> None"
      using "6.IH"(1) [OF _ refl refl] that by simp
  qed
  have r: "inline_loop pf n t (skip1 (skipInlineWS (p2\<lparr>p_tables := set_key (p_tables p2) t k x\<rparr>))) \<noteq> None"
    if k: "parseKey (skipInlineWS p) = Inr (k, p1)" "peek (skipInlineWS p1) = CHR ''=''"
      and x: "parseValue pf n (skipInlineWS (skip1 (skipInlineWS p1))) = Some (Inr (x, p2))"
      and q: "get_key (p_tables p2) t k = None"
        "peek (skipInlineWS (p2\<lparr>p_tables := set_key (p_tables p2) t k x\<rparr>)) = CHR '',''"
    for k p1 x p2
  proof -
    have "plen p2 < plen (skipInlineWS (skip1 (skipInlineWS p1)))" using post_value [OF x] by (simp add: post_def)
    then have "2 * plen (skip1 (skipInlineWS (p2\<lparr>p_tables := set_key (p_tables p2) t k x\<rparr>))) + 1 < n"
      using v(2) [OF k refl] plen_skipInlineWS [of "p2\<lparr>p_tables := set_key (p_tables p2) t k x\<rparr>"] by simp
    then show ?thesis using "6.IH"(2) [OF _ refl refl _ x refl _ refl] k q by simp
  qed
  show ?case
  proof (cases "parseKey (skipInlineWS p)")
    case (Inr kp)
    then obtain k p1 where k: "parseKey (skipInlineWS p) = Inr (k, p1)" by (cases kp) simp
    show ?thesis
    proof (cases "peek (skipInlineWS p1) = CHR ''=''")
      case True
      then obtain res where res: "parseValue pf n (skipInlineWS (skip1 (skipInlineWS p1))) = Some res"
        using v(1) [OF k _ refl] by auto
      show ?thesis
      proof (cases res)
        case (Inl e)
        then show ?thesis using k True res by (simp add: Let_def)
      next
        case (Inr xp)
        obtain x p2 where x: "xp = (x, p2)" by force
        show ?thesis using k True res r [OF k True, of x p2] by (simp add: Let_def Inr x)
      qed
    qed (simp add: k Let_def)
  qed simp
qed simp_all

section \<open>Headers and documents\<close>

lemma parseKeyPath_keeps:
  "parseKeyPath n parts p = Some (Inr (path, q)) \<Longrightarrow> plen q < plen p \<and> p_tables q = p_tables p"
proof (induction n parts p arbitrary: path q rule: parseKeyPath.induct)
  case (2 n parts p)
  obtain k p1 where k: "parseKey (skipInlineWS p) = Inr (k, p1)"
    using "2.prems" by (auto simp: fbind_eq_Inr)
  have l: "plen (skipInlineWS p1) < plen p" "p_tables (skipInlineWS p1) = p_tables p"
    using parseKey_keeps [OF k] plen_skipInlineWS [of p] plen_skipInlineWS [of p1] by auto
  consider "q = skipInlineWS p1"
    | "parseKeyPath n (parts @ [k]) (skip1 (skipInlineWS p1)) = Some (Inr (path, q))"
      "peek (skipInlineWS p1) = CHR ''.''"
    using "2.prems" by (auto simp: k Let_def split: if_splits)
  then show ?case
  proof cases
    case 2
    with "2.IH" [OF _ refl refl refl] k have "plen q < plen (skip1 (skipInlineWS p1))"
      "p_tables q = p_tables (skip1 (skipInlineWS p1))" by auto
    with l show ?thesis by simp
  qed (use l in simp)
qed simp

lemma parseKeyPath_returns: "plen p < n \<Longrightarrow> parseKeyPath n parts p \<noteq> None"
proof (induction n parts p rule: parseKeyPath.induct)
  case (2 n parts p)
  show ?case
  proof (cases "parseKey (skipInlineWS p)")
    case (Inr kp)
    then obtain k p1 where k: "parseKey (skipInlineWS p) = Inr (k, p1)" by (cases kp) simp
    have "plen (skipInlineWS p1) < plen p"
      using parseKey_keeps [OF k] plen_skipInlineWS [of p] plen_skipInlineWS [of p1] by auto
    then show ?thesis using "2.IH" [OF _ refl refl refl] "2.prems" by (auto simp: k Let_def)
  qed simp
qed simp

lemma descend_keeps:
  assumes "descend create ts cur walked path = Inr (a, ts')" "store_ok ts" "cur < length ts"
  shows "store_ok ts' \<and> length ts \<le> length ts' \<and> a < length ts'"
  using assms
proof (induction create ts cur walked path arbitrary: a ts' rule: descend.induct)
  case (2 create ts cur walked key path)
  show ?case
  proof (cases "get_key ts cur key")
    case None
    let ?ts = "set_key (ts @ [[]]) cur key (VTable (length ts))"
    have "store_ok ?ts" using 2 by (intro store_ok_set_key store_ok_new) auto
    then show ?thesis using 2 None by (fastforce simp: Let_def split: if_splits)
  next
    case (Some v)
    then have "val_ok (length ts) v" using store_ok_get 2 by blast
    then show ?thesis using 2 Some by (cases v) (auto simp: Let_def split: if_splits)
  qed
qed simp

lemma appendArrayOfTables_keeps:
  assumes "appendArrayOfTables ts target path tbl = Inr ts'" "store_ok ts" "target < length ts" "tbl < length ts"
  shows "store_ok ts' \<and> length ts \<le> length ts'"
proof -
  obtain parent us where d: "(if 1 < length path then descendTable ts target (butlast path) True else Inr (target, ts)) = Inr (parent, us)"
    and r: "(case get_key us parent (last path) of
          None \<Rightarrow> Inr (set_key us parent (last path) (VTables [tbl]))
        | Some (VTables arr) \<Rightarrow> Inr (set_key us parent (last path) (VTables (arr @ [tbl])))
        | Some v \<Rightarrow> Inl (Errorf ''key %q is %T, not an array-of-tables'' [FStr (last path), FType (go_type v)])) = Inr ts'"
    using assms(1) by (auto simp: appendArrayOfTables_def rbind_eq_Inr Let_def split: if_splits)
  have u: "store_ok us" "length ts \<le> length us" "parent < length us"
    using d assms descend_keeps unfolding descendTable_def by (auto split: if_splits)
  then show ?thesis
    using r assms(4) store_ok_get [OF u(1,3), of "last path"]
    by (fastforce split: option.splits tval.splits intro!: store_ok_set_key)
qed

definition doc_post :: "parser \<Rightarrow> nat \<Rightarrow> parser \<Rightarrow> bool" where
  "doc_post p a q \<longleftrightarrow> plen q < plen p \<and>
     (store_ok (p_tables p) \<longrightarrow>
        store_ok (p_tables q) \<and> length (p_tables p) \<le> length (p_tables q) \<and> a < length (p_tables q))"

text \<open>The three stages of a header line: the path, the closing brackets, the table.\<close>

lemma parse_header_keeps:
  assumes "parse_header n p = Some (Inr (a, q))" "\<not> eof p"
  shows "doc_post p a q"
proof -
  define p1 where "p1 = (if peek (skip1 p) = CHR ''['' then skip1 (skip1 p) else skip1 p)"
  obtain path p2 where path: "parseKeyPath n [] p1 = Some (Inr (path, p2))"
    using assms(1) by (auto simp: parse_header_def Let_def fbind_eq_Inr p1_def)
  define p3 where "p3 = (if peek (skip1 p) = CHR ''['' then skip1 p2 else p2)"
  obtain p4 where p4: "skipLineEnd (skip1 p3) = Inr ((), p4)"
    and r: "if peek (skip1 p) = CHR ''['' then
         \<exists>ts. appendArrayOfTables (p_tables p4 @ [[]]) 0 path (length (p_tables p4)) = Inr ts \<and>
           a = length (p_tables p4) \<and> q = p4\<lparr>p_tables := ts\<rparr>
       else \<exists>ts. descendTable (p_tables p4) 0 path True = Inr (a, ts) \<and> q = p4\<lparr>p_tables := ts\<rparr>"
    using assms(1) path unfolding parse_header_def Let_def p1_def [symmetric] 
    by (auto simp: fbind_eq_Inr p3_def new_table_def split: if_splits sum.splits)
  have l: "plen p4 < plen p" "p_tables p4 = p_tables p"
    using assms(2) parseKeyPath_keeps [OF path] skipLineEnd_keeps [OF p4]
    by (auto simp: p1_def p3_def eof_def split: if_splits)
  have "store_ok (p_tables q) \<and> length (p_tables p4) \<le> length (p_tables q) \<and> a < length (p_tables q)"
    if ok: "store_ok (p_tables p4)"
  proof -
    have "0 < length (p_tables p4)" using ok by (simp add: store_ok_def)
    then show ?thesis
      using r ok appendArrayOfTables_keeps [of "p_tables p4 @ [[]]" 0 path "length (p_tables p4)"]
        descend_keeps [of True "p_tables p4" 0 "[]" path a]
      by (auto simp: store_ok_new descendTable_def split: if_splits)
  qed
  moreover have "plen q = plen p4" using r by (auto split: if_splits)
  ultimately show ?thesis using l by (simp add: doc_post_def)
qed

lemma parse_header_returns: "plen p \<le> n \<Longrightarrow> \<not> eof p \<Longrightarrow> parse_header n p \<noteq> None"
proof -
  assume n: "plen p \<le> n" and "\<not> eof p"
  define p1 where "p1 = (if peek (skip1 p) = CHR ''['' then skip1 (skip1 p) else skip1 p)"
  have "plen p1 < n" using n eof_length [OF \<open>\<not> eof p\<close>] by (auto simp: p1_def)
  then have "parseKeyPath n [] p1 \<noteq> None" by (rule parseKeyPath_returns)
  then show ?thesis
    unfolding parse_header_def Let_def p1_def [symmetric]
    by (auto simp: case_prod_beta fbind_eq_None simp del: not_None_eq split: sum.splits)
qed

lemma parseKeyValueLine_keeps:
  assumes "parseKeyValueLine pf n a p = Some (Inr (u, q))" "a < length (p_tables p)"
  shows "doc_post p a q"
proof -
  obtain k p1 x p2 where k: "parseKey p = Inr (k, p1)"
    and val: "parseValue pf n (skipInlineWS (skip1 (skipInlineWS p1))) = Some (Inr (x, p2))"
    and e: "skipLineEnd (p2\<lparr>p_tables := set_key (p_tables p2) a k x\<rparr>) = Inr (u, q)"
    using assms(1) by (auto simp: parseKeyValueLine_def Let_def fbind_eq_Inr split: if_splits)
  have "plen (skipInlineWS (skip1 (skipInlineWS p1))) \<le> plen p1"
    using plen_skipInlineWS [of p1] plen_skipInlineWS [of "skip1 (skipInlineWS p1)"] by simp
  then show ?thesis
    using post_value [OF val] parseKey_keeps [OF k] skipLineEnd_keeps [OF e] assms(2)
    by (auto simp: post_def doc_post_def store_ok_set_key)
qed

lemma parseKeyValueLine_returns: "2 * plen p < n \<Longrightarrow> parseKeyValueLine pf n a p \<noteq> None"
proof (cases "parseKey p")
  case (Inr kp)
  then obtain k p1 where k: "parseKey p = Inr (k, p1)" by (cases kp) simp
  assume "2 * plen p < n"
  moreover have "plen (skipInlineWS (skip1 (skipInlineWS p1))) \<le> plen p1"
    using plen_skipInlineWS [of p1] plen_skipInlineWS [of "skip1 (skipInlineWS p1)"] by simp
  ultimately have "parseValue pf n (skipInlineWS (skip1 (skipInlineWS p1))) \<noteq> None"
    using parseKey_keeps [OF k] by (intro value_returns) linarith
  then show ?thesis
    by (auto simp: parseKeyValueLine_def Let_def k case_prod_beta fbind_eq_None simp del: not_None_eq)
qed (simp add: parseKeyValueLine_def Let_def)

lemma parseDocument_spec:
  assumes "2 * plen p + 1 < n" "store_ok (p_tables p)" "a < length (p_tables p)"
  shows "\<exists>r. parseDocument pf n a p = Some r \<and> (\<forall>ts. r = Inr ts \<longrightarrow> store_ok ts)"
  using assms
proof (induction n arbitrary: a p)
  case (Suc n)
  let ?p = "skipWSAndComments p"
  have l: "plen ?p \<le> plen p" by (rule plen_skipWSAndComments)
  have next_line: "\<exists>r. fbind (Some res) f = Some r \<and> (\<forall>ts. r = Inr ts \<longrightarrow> store_ok ts)"
    if "\<And>x q. res = Inr (x, q) \<Longrightarrow> doc_post ?p (b x) q \<and> f (x, q) = parseDocument pf n (b x) q"
    for res :: "go_error + 'b \<times> parser" and f b
  proof (cases res)
    case (Inr xq)
    obtain x q where xq: "xq = (x, q)" by force
    with that [of x q] Inr l Suc.prems have "2 * plen q + 1 < n" "store_ok (p_tables q)" "b x < length (p_tables q)"
      by (auto simp: doc_post_def)
    from Suc.IH [OF this] show ?thesis using that [of x q] Inr xq by simp
  qed simp
  consider "eof ?p" | "\<not> eof ?p" "peek ?p = CHR ''[''" | "\<not> eof ?p" "peek ?p \<noteq> CHR ''[''" by blast
  then show ?case
  proof cases
    case 2
    then obtain res where r: "parse_header n ?p = Some res"
      using parse_header_returns [of ?p n] l Suc.prems(1) by auto
    show ?thesis
      using next_line [of res "\<lambda>x. x" "\<lambda>(b, q). parseDocument pf n b q"] parse_header_keeps [of n ?p] 2 r
      by (simp add: Let_def)
  next
    case 3
    then obtain res where r: "parseKeyValueLine pf n a ?p = Some res"
      using parseKeyValueLine_returns [of ?p n pf a] l Suc.prems(1) by auto
    show ?thesis
      using next_line [of res "\<lambda>_. a" "\<lambda>(_, q). parseDocument pf n a q"]
        parseKeyValueLine_keeps [of pf n a ?p] 3 r Suc.prems(3)
      by (simp add: Let_def)
  qed (use Suc.prems in \<open>simp add: Let_def\<close>)
qed simp

text \<open>
  C35: the parser returns on every input: nesting never exceeds what the length of the source allows.  In the
  tree it returns no table has two entries for a key and every reference is to a table of the tree, so the
  decoder never reaches outside of it.
\<close>

theorem toml_parse_returns:
  "\<exists>r. Parse pf src = Some r \<and>
    (\<forall>ts. r = Inr ts \<longrightarrow> store_ok ts \<and>
      (\<forall>a < length ts. \<forall>key ds present. TableArray (NewDecoder ts a) key = Inr (ds, present) \<longrightarrow>
         (\<forall>d \<in> set ds. d_tables d = ts \<and> d_tree d < length ts)))"
proof -
  have "store_ok [[]]" by (simp add: store_ok_def table_ok_def)
  then obtain r where r: "Parse pf src = Some r" "\<And>ts. r = Inr ts \<Longrightarrow> store_ok ts"
    using parseDocument_spec [of "\<lparr>p_rest = src, p_line = 1, p_col = 1, p_tables = [[]]\<rparr>" "2 * length src + 2" 0 pf]
    by (auto simp: Parse_def)
  have "d_tables d = ts \<and> d_tree d < length ts"
    if "store_ok ts" "a < length ts" "TableArray (NewDecoder ts a) key = Inr (ds, present)" "d \<in> set ds" for ts a key ds present d
    using that store_ok_get [OF that(1,2), of key]
    by (auto simp: TableArray_def NewDecoder_def split: option.splits tval.splits)
  then show ?thesis using r by blast
qed

theorem toml_parse_returns_witness:
  "Parse (\<lambda>_. Inr 0) ''[[a]] # x'' = Some (Inr [[(''a'', VTables [1])], []]) \<and>
   TableArray (NewDecoder [[(''a'', VTables [1])], []] 0) ''a'' = Inr ([NewDecoder [[(''a'', VTables [1])], []] 1], True) \<and>
   store_ok [[(''a'', VTables [1])], []]"
proof -
  have "Parse (\<lambda>_. Inr 0) ''[[a]] # x'' = Some (Inr [[(''a'', VTables [1])], []])" by code_simp
  moreover have "TableArray (NewDecoder [[(''a'', VTables [1])], []] 0) ''a'' =
      Inr ([NewDecoder [[(''a'', VTables [1])], []] 1], True)"
    by (simp add: TableArray_def NewDecoder_def)
  ultimately show ?thesis using toml_parse_returns [of "\<lambda>_. Inr 0" "''[[a]] # x''"] by auto
qed

end
