(* ===== verification/Go_Quote.thy ===== *)
theory Go_Quote
  imports Go_Strings Go_Os
begin

text \<open>
  \<open>strconv.Quote\<close>, which is what the verb \<open>%q\<close> prints of a string, on Go's byte strings.  The
  Unicode table behind \<open>strconv.IsPrint\<close> for runes beyond ASCII is the argument \<open>IsPrint\<close>.
\<close>

definition in_range :: "nat \<Rightarrow> nat \<Rightarrow> char \<Rightarrow> bool" where
  "in_range lo hi c \<longleftrightarrow> lo \<le> (of_char c :: nat) \<and> (of_char c :: nat) \<le> hi"

text \<open>Continuation bytes, and the second bytes allowed after the first bytes of three- and four-byte runes.\<close>

abbreviation cont :: "char \<Rightarrow> bool" where
  "cont \<equiv> in_range 0x80 0xBF"

definition second3 :: "char \<Rightarrow> char \<Rightarrow> bool" where
  "second3 a b \<longleftrightarrow> cont b \<and> (of_char a = (0xE0 :: nat) \<longrightarrow> in_range 0xA0 0xBF b) \<and>
     (of_char a = (0xED :: nat) \<longrightarrow> in_range 0x80 0x9F b)"

definition second4 :: "char \<Rightarrow> char \<Rightarrow> bool" where
  "second4 a b \<longleftrightarrow> cont b \<and> (of_char a = (0xF0 :: nat) \<longrightarrow> in_range 0x90 0xBF b) \<and>
     (of_char a = (0xF4 :: nat) \<longrightarrow> in_range 0x80 0x8F b)"

text \<open>The rune at the front of a string that does not start with an ASCII byte, with its width.\<close>

fun decodeRune :: "string \<Rightarrow> (nat \<times> nat) option" where
  "decodeRune (a # b # s) =
     (let x = of_char a; y = of_char b; z = of_char (hd s); w = of_char (hd (tl s)) in
      if in_range 0xC2 0xDF a \<and> cont b then Some ((x - 0xC0) * 0x40 + (y - 0x80), 2)
      else if in_range 0xE0 0xEF a \<and> second3 a b \<and> s \<noteq> [] \<and> cont (hd s)
      then Some ((x - 0xE0) * 0x1000 + (y - 0x80) * 0x40 + (z - 0x80), 3)
      else if in_range 0xF0 0xF4 a \<and> second4 a b \<and> 1 < length s \<and> cont (hd s) \<and> cont (hd (tl s))
      then Some ((x - 0xF0) * 0x40000 + (y - 0x80) * 0x1000 + (z - 0x80) * 0x40 + (w - 0x80), 4)
      else None)"
| "decodeRune s = None"

lemma decodeRune_width: "decodeRune s = Some (r, w) \<Longrightarrow> 2 \<le> w \<and> w \<le> length s"
  by (cases s rule: decodeRune.cases) (auto simp: Let_def Suc_le_eq split: if_splits)

lemma in_range_ge: "in_range lo hi c \<Longrightarrow> lo \<le> (of_char c :: nat)"
  by (simp add: in_range_def)

lemma decodeRune_bytes:
  assumes "decodeRune s = Some (r, w)"
  shows "\<forall>c \<in> set (take w s). 0x80 \<le> (of_char c :: nat)"
proof -
  obtain a b t where s: "s = a # b # t" using assms by (cases s rule: decodeRune.cases) auto
  consider "w = 2" "in_range 0xC2 0xDF a" "cont b"
    | y u where "w = 3" "in_range 0xE0 0xEF a" "cont b" "t = y # u" "cont y"
    | y z u where "w = 4" "in_range 0xF0 0xF4 a" "cont b" "t = y # z # u" "cont y" "cont z"
    using assms unfolding s
    by (cases t; cases "tl t") (auto simp: Let_def second3_def second4_def split: if_splits)
  then show ?thesis by cases (auto simp: s dest!: in_range_ge)
qed

fun hex_fixed :: "nat \<Rightarrow> nat \<Rightarrow> string" where
  "hex_fixed 0 n = []"
| "hex_fixed (Suc k) n = hex_fixed k (n div 16) @ [hex_digit (n mod 16)]"

definition quote_ascii :: "char \<Rightarrow> string" where
  "quote_ascii c =
     (if c = CHR 0x22 \<or> c = CHR 0x5C then [CHR 0x5C, c]
      else if in_range 0x20 0x7E c then [c]
      else if c = CHR 0x07 then CHR 0x5C # ''a''
      else if c = CHR 0x08 then CHR 0x5C # ''b''
      else if c = CHR 0x0C then CHR 0x5C # ''f''
      else if c = CHR 0x0A then CHR 0x5C # ''n''
      else if c = CHR 0x0D then CHR 0x5C # ''r''
      else if c = CHR 0x09 then CHR 0x5C # ''t''
      else if c = CHR 0x0B then CHR 0x5C # ''v''
      else CHR 0x5C # ''x'' @ hex_fixed 2 (of_char c))"

definition quote_rune :: "(nat \<Rightarrow> bool) \<Rightarrow> nat \<Rightarrow> string \<Rightarrow> string" where
  "quote_rune IsPrint r bytes =
     (if IsPrint r then bytes
      else if r < 0x10000 then CHR 0x5C # ''u'' @ hex_fixed 4 r
      else CHR 0x5C # ''U'' @ hex_fixed 8 r)"

function quote_body :: "(nat \<Rightarrow> bool) \<Rightarrow> string \<Rightarrow> string" where
  "quote_body IsPrint [] = []"
| "quote_body IsPrint (c # s) =
     (if (of_char c :: nat) < 0x80 then quote_ascii c @ quote_body IsPrint s
      else
        (case decodeRune (c # s) of
           None \<Rightarrow> (CHR 0x5C # ''x'' @ hex_fixed 2 (of_char c)) @ quote_body IsPrint s
         | Some (r, w) \<Rightarrow> quote_rune IsPrint r (take w (c # s)) @ quote_body IsPrint (drop w (c # s))))"
  by pat_completeness auto

termination by (relation "measure (\<lambda>(IsPrint, s). length s)") (auto dest: decodeRune_width)

definition Quote :: "(nat \<Rightarrow> bool) \<Rightarrow> string \<Rightarrow> string" where
  "Quote IsPrint s = CHR 0x22 # quote_body IsPrint s @ [CHR 0x22]"

lemma quote_ascii_nonempty [simp]: "quote_ascii c \<noteq> []"
  by (simp add: quote_ascii_def)

lemma hd_quote_ascii: "hd (quote_ascii c) \<noteq> CHR 0x22"
  by (simp add: quote_ascii_def)

text \<open>The body of a quoted string never starts with a quote, and is empty only for the empty string.\<close>

lemma quote_body_front: "quote_body IsPrint (c # s) \<noteq> [] \<and> hd (quote_body IsPrint (c # s)) \<noteq> CHR 0x22"
proof (cases "(of_char c :: nat) < 0x80")
  case True
  then show ?thesis using hd_quote_ascii [of c] by simp
next
  case False
  then have c: "c \<noteq> CHR 0x22" by auto
  show ?thesis
  proof (cases "decodeRune (c # s)")
    case (Some x)
    then obtain r w where x: "decodeRune (c # s) = Some (r, w)" by (cases x) simp
    then obtain v where "w = Suc v" using decodeRune_width [OF x] by (cases w) auto
    then show ?thesis using False c x by (simp add: quote_rune_def)
  qed (use False in simp)
qed

end
