(* ===== verification/Lockfile.thy ===== *)
theory Lockfile
  imports Toml_Correct Go_Quote
begin

text \<open>
  The lock file of \<open>lockfile/\<close>: the entries, their TOML form (\<open>render.go\<close>), the reader (\<open>parse.go\<close>), the
  digests (\<open>digest.go\<close>) and the check against them (\<open>check.go\<close>).  The hash functions are arguments; a Go
  map is the list of its entries in some order of iteration.
\<close>

section \<open>Entries\<close>

definition SchemaVersion :: int where "SchemaVersion = 1"

record Entry =
  e_Name :: string
  e_Version :: string
  e_Registry :: string
  e_OuterSHA256 :: string
  e_InnerSHA256 :: string
  e_InnerSHA512 :: string
  e_BeamIngestSHA256 :: string
  e_ShimSHA256 :: string
  e_Capabilities :: "string list"
  e_Dependencies :: "string list"
  e_OTPApp :: string
  e_Modules :: "string list"

record Manifest =
  m_Version :: int
  m_Entries :: "Entry list"

definition Manifest_Sort :: "Manifest \<Rightarrow> Manifest" where
  "Manifest_Sort m = m\<lparr>m_Entries := sort_by_key e_Name (m_Entries m)\<rparr>"

section \<open>Digests\<close>

definition SHA256Hex :: "(byte list \<Rightarrow> byte list) \<Rightarrow> byte list \<Rightarrow> string" where
  "SHA256Hex sha256 data = hex_EncodeToString (sha256 data)"

definition SHA512Hex :: "(byte list \<Rightarrow> byte list) \<Rightarrow> byte list \<Rightarrow> string" where
  "SHA512Hex sha512 data = hex_EncodeToString (sha512 data)"

definition ComputeBeamIngestSHA256 :: "(byte list \<Rightarrow> byte list) \<Rightarrow> (string \<times> byte list) list \<Rightarrow> string" where
  "ComputeBeamIngestSHA256 sha256 modules =
     (let names = sort_by_key (\<lambda>n. n) (map fst modules) in
      hex_EncodeToString (sha256 (concat (map (\<lambda>name. case map_of modules name of None \<Rightarrow> [] | Some b \<Rightarrow> b) names))))"

definition ComputeShimSHA256 :: "(byte list \<Rightarrow> byte list) \<Rightarrow> string \<Rightarrow> string" where
  "ComputeShimSHA256 sha256 shimContent = SHA256Hex sha256 (bytes_of_string shimContent)"

section \<open>The check\<close>

record CheckInput =
  ci_OuterTarball :: "byte list"
  ci_InnerTarball :: "byte list"
  ci_BeamChunks :: "(string \<times> byte list) list"
  ci_ShimContent :: string

record CheckResult =
  cr_OK :: bool
  cr_Failures :: "string list"

definition lock_truncate :: "string \<Rightarrow> nat \<Rightarrow> string" where
  "lock_truncate s n = (if length s \<le> n then s else take n s @ ''...'')"

definition check_field :: "string \<Rightarrow> string \<Rightarrow> string \<Rightarrow> string list \<Rightarrow> string list" where
  "check_field field want got failures =
     (if want \<noteq> [] \<and> want \<noteq> got
      then failures @ [field @ '': want '' @ lock_truncate want 16 @ '', got '' @ lock_truncate got 16]
      else failures)"

definition Entry_Check ::
  "(byte list \<Rightarrow> byte list) \<Rightarrow> (byte list \<Rightarrow> byte list) \<Rightarrow> Entry \<Rightarrow> CheckInput \<Rightarrow> CheckResult" where
  "Entry_Check sha256 sha512 e input =
     (let failures = [];
          failures = (if ci_OuterTarball input \<noteq> []
                      then check_field ''outer-sha256'' (e_OuterSHA256 e) (SHA256Hex sha256 (ci_OuterTarball input)) failures
                      else failures);
          failures = (if ci_InnerTarball input \<noteq> []
                      then check_field ''inner-sha512'' (e_InnerSHA512 e) (SHA512Hex sha512 (ci_InnerTarball input))
                        (check_field ''inner-sha256'' (e_InnerSHA256 e) (SHA256Hex sha256 (ci_InnerTarball input)) failures)
                      else failures);
          failures = (if ci_BeamChunks input \<noteq> []
                      then check_field ''beam-ingest-sha256'' (e_BeamIngestSHA256 e)
                        (ComputeBeamIngestSHA256 sha256 (ci_BeamChunks input)) failures
                      else failures);
          failures = (if ci_ShimContent input \<noteq> []
                      then check_field ''shim-sha256'' (e_ShimSHA256 e) (ComputeShimSHA256 sha256 (ci_ShimContent input)) failures
                      else failures)
      in \<lparr>cr_OK = (length failures = 0), cr_Failures = failures\<rparr>)"

definition check_step ::
  "(byte list \<Rightarrow> byte list) \<Rightarrow> (byte list \<Rightarrow> byte list) \<Rightarrow> (string \<rightharpoonup> CheckInput) \<Rightarrow>
   bool \<times> (string \<rightharpoonup> string list) \<Rightarrow> Entry \<Rightarrow> bool \<times> (string \<rightharpoonup> string list)" where
  "check_step sha256 sha512 inputs st e =
     (case inputs (e_Name e) of
        None \<Rightarrow> st
      | Some inp \<Rightarrow>
          let result = Entry_Check sha256 sha512 e inp in
          if \<not> cr_OK result then (False, (snd st)(e_Name e \<mapsto> cr_Failures result)) else st)"

definition CheckAll ::
  "(byte list \<Rightarrow> byte list) \<Rightarrow> (byte list \<Rightarrow> byte list) \<Rightarrow> Manifest \<Rightarrow> (string \<rightharpoonup> CheckInput) \<Rightarrow>
   bool \<times> (string \<rightharpoonup> string list)" where
  "CheckAll sha256 sha512 m inputs = foldl (check_step sha256 sha512 inputs) (True, Map.empty) (m_Entries m)"

section \<open>Reading\<close>

text \<open>The seven optional strings are decoded in a fixed order; the first that has another type is the error.\<close>

definition decodeEntry :: "Decoder \<Rightarrow> go_error + Entry" where
  "decodeEntry d =
     rbind (StringRequired d ''name'') (\<lambda>name.
     rbind (StringRequired d ''version'') (\<lambda>version.
     rbind (Decoder_String d ''registry'') (\<lambda>(registry, _).
     rbind (Decoder_String d ''outer-sha256'') (\<lambda>(outer, _).
     rbind (Decoder_String d ''inner-sha256'') (\<lambda>(inner, _).
     rbind (Decoder_String d ''inner-sha512'') (\<lambda>(inner512, _).
     rbind (Decoder_String d ''beam-ingest-sha256'') (\<lambda>(beam, _).
     rbind (Decoder_String d ''shim-sha256'') (\<lambda>(shim, _).
     rbind (Decoder_String d ''otp-app'') (\<lambda>(app, _).
     rbind (wrap_error (\<lambda>e. Errorf ''capabilities: %w'' [FErr e]) (StringArray d ''capabilities'')) (\<lambda>(caps, _).
     rbind (wrap_error (\<lambda>e. Errorf ''dependencies: %w'' [FErr e]) (StringArray d ''dependencies'')) (\<lambda>(deps, _).
     rbind (wrap_error (\<lambda>e. Errorf ''modules: %w'' [FErr e]) (StringArray d ''modules'')) (\<lambda>(mods, _).
       Inr \<lparr>e_Name = name, e_Version = version, e_Registry = registry, e_OuterSHA256 = outer, e_InnerSHA256 = inner,
            e_InnerSHA512 = inner512, e_BeamIngestSHA256 = beam, e_ShimSHA256 = shim, e_Capabilities = caps,
            e_Dependencies = deps, e_OTPApp = app, e_Modules = mods\<rparr>))))))))))))"

fun decode_entries :: "nat \<Rightarrow> Decoder list \<Rightarrow> go_error + Entry list" where
  "decode_entries i [] = Inr []"
| "decode_entries i (sub # arr) =
     rbind (wrap_error (\<lambda>e. Errorf ''erlang lockfile: entry %d: %w'' [FInt (int i), FErr e]) (decodeEntry sub)) (\<lambda>e.
     rbind (decode_entries (i + 1) arr) (\<lambda>es. Inr (e # es)))"

abbreviation lock_error :: "go_error \<Rightarrow> go_error" where
  "lock_error e \<equiv> Errorf ''erlang lockfile: %w'' [FErr e]"

definition parse_tree :: "table list \<Rightarrow> go_error + Manifest" where
  "parse_tree tree =
     (let dec = NewDecoder tree 0 in
      rbind (wrap_error lock_error (Decoder_Int dec ''erlang-lockfile-schema'')) (\<lambda>(version, present).
      if \<not> present then Inl (Errorf ''erlang lockfile: missing required key %q'' [FStr ''erlang-lockfile-schema''])
      else if version \<noteq> SchemaVersion
      then Inl (Errorf ''erlang lockfile: unsupported schema %d (this build understands %d)''
                  [FInt version, FInt SchemaVersion])
      else
        rbind (wrap_error lock_error (TableArray dec ''erlang-package'')) (\<lambda>(arr, _).
        rbind (decode_entries 0 arr) (\<lambda>entries.
        Inr (Manifest_Sort \<lparr>m_Version = version, m_Entries = entries\<rparr>)))))"

definition ParseTOML :: "(string \<Rightarrow> go_error + u64) \<Rightarrow> string \<Rightarrow> (go_error + Manifest) option" where
  "ParseTOML pf src =
     fbind (fwrap (\<lambda>e. Errorf ''erlang lockfile: parse: %w'' [FErr e]) (Parse pf src)) (\<lambda>tree. Some (parse_tree tree))"

section \<open>Writing\<close>

definition key_line :: "(nat \<Rightarrow> bool) \<Rightarrow> string \<Rightarrow> string \<Rightarrow> string" where
  "key_line IsPrint key s = key @ '' = '' @ Quote IsPrint s @ [line_feed]"

definition list_line :: "(nat \<Rightarrow> bool) \<Rightarrow> string \<Rightarrow> string list \<Rightarrow> string" where
  "list_line IsPrint key xs =
     (if 0 < length xs then key @ '' = ['' @ join '', '' (map (Quote IsPrint) xs) @ '']'' @ [line_feed] else [])"

definition renderEntry :: "(nat \<Rightarrow> bool) \<Rightarrow> Entry \<Rightarrow> string" where
  "renderEntry IsPrint e =
     ''[[erlang-package]]'' @ [line_feed] @
     key_line IsPrint ''name'' (e_Name e) @
     key_line IsPrint ''version'' (e_Version e) @
     (let registry = (if e_Registry e = [] then ''https://hex.pm'' else e_Registry e) in
      key_line IsPrint ''registry'' registry) @
     (if e_OuterSHA256 e \<noteq> [] then key_line IsPrint ''outer-sha256'' (e_OuterSHA256 e) else []) @
     (if e_InnerSHA256 e \<noteq> [] then key_line IsPrint ''inner-sha256'' (e_InnerSHA256 e) else []) @
     (if e_InnerSHA512 e \<noteq> [] then key_line IsPrint ''inner-sha512'' (e_InnerSHA512 e) else []) @
     (if e_BeamIngestSHA256 e \<noteq> [] then key_line IsPrint ''beam-ingest-sha256'' (e_BeamIngestSHA256 e) else []) @
     (if e_ShimSHA256 e \<noteq> [] then key_line IsPrint ''shim-sha256'' (e_ShimSHA256 e) else []) @
     (if e_OTPApp e \<noteq> [] \<and> e_OTPApp e \<noteq> e_Name e then key_line IsPrint ''otp-app'' (e_OTPApp e) else []) @
     list_line IsPrint ''capabilities'' (e_Capabilities e) @
     list_line IsPrint ''dependencies'' (e_Dependencies e) @
     list_line IsPrint ''modules'' (e_Modules e) @
     [line_feed]"

text \<open>
  \<open>RenderTOML\<close> copies the manifest but not the slice of entries, so its sort is visible to the
  caller: the second component is the caller's manifest afterwards.
\<close>

definition RenderTOML :: "(nat \<Rightarrow> bool) \<Rightarrow> Manifest \<Rightarrow> string \<times> Manifest" where
  "RenderTOML IsPrint m =
     (let out = Manifest_Sort m;
          v = (if m_Version out = 0 then SchemaVersion else m_Version out)
      in (''# Auto-generated by mochi pkg lock (MEP-66). Do not edit by hand.'' @ [line_feed] @
          ''# Regenerate via `mochi pkg lock`.'' @ [line_feed] @
          ''erlang-lockfile-schema = '' @ show_int v @ [line_feed, line_feed] @
          concat (map (renderEntry IsPrint) (m_Entries out)),
          out))"

end
