(* ===== verification/Lockfile_Correct.thy ===== *)
theory Lockfile_Correct
  imports Lockfile "HOL-Library.Multiset"
begin

text \<open>
  Reading back what \<open>RenderTOML\<close> wrote, layer by layer: quoted strings, arrays, lines, tables, the
  document and the manifest; and what the check of a manifest decides.
\<close>

section \<open>Quoted strings\<close>








section \<open>Values\<close>
















section \<open>Lines\<close>














section \<open>Entries\<close>



























section \<open>Documents\<close>







section \<open>The manifest\<close>

lemma str_le_total: "str_le s t \<or> str_le t s"
  unfolding str_le_def by (induction s t rule: str_compare.induct) auto












text \<open>A control character is written with an escape that the reader rejects.\<close>

lemma bell_not_reparsable:
  "\<exists>err. parseString \<lparr>p_rest = Quote IsPrint [CHR 0x07], p_line = 1, p_col = 1, p_tables = ts\<rparr> = Inl err"
proof -
  have "Quote IsPrint [CHR 0x07] = [dquote, backslash, CHR ''a'', dquote]"
    by (simp add: Quote_def quote_ascii_def in_range_def)
  then show ?thesis
    by (simp add: parseString_def peek_def advance_def Let_def string_loop.simps eof_def simple_escape_def)
qed

section \<open>The check\<close>







lemma str_compare_eq: "str_compare s t = 0 \<longleftrightarrow> s = t"
  by (induction s t rule: str_compare.induct) (auto simp: of_char_eq_iff dest: antisym)

lemma str_le_simps:
  "str_le [] t" "str_le (c # s) [] \<longleftrightarrow> False"
  "str_le (c # s) (d # t) \<longleftrightarrow> (of_char c :: nat) < of_char d \<or> c = d \<and> str_le s t"
  by (cases t; simp add: str_le_def) (auto simp: str_le_def not_less order_le_less)

lemma str_le_antisym: "str_le s t \<Longrightarrow> str_le t s \<Longrightarrow> s = t"
proof (induction s arbitrary: t)
  case (Cons c s)
  then show ?case by (cases t) (auto simp: str_le_simps)
next
  case Nil
  then show ?case by (cases t) (auto simp: str_le_simps)
qed

lemma str_le_trans: "str_le s t \<Longrightarrow> str_le t u \<Longrightarrow> str_le s u"
proof (induction s arbitrary: t u)
  case (Cons c s)
  then show ?case by (cases t; cases u) (auto simp: str_le_simps)
qed (simp add: str_le_simps)

lemma insert_by_commute: "insert_by (\<lambda>n. n) x (insert_by (\<lambda>n. n) y xs) = insert_by (\<lambda>n. n) y (insert_by (\<lambda>n. n) x xs)"
  by (induction xs) (use str_le_total [of x y] in \<open>auto dest: str_le_antisym str_le_trans\<close>)

interpretation string_insert: comp_fun_commute "insert_by (\<lambda>n. n)"
  by unfold_locales (auto simp: insert_by_commute)






end
