(* ===== verification/Cerl.thy ===== *)
theory Cerl
  imports Etf_Correct Go_Strings
begin

text \<open>
  The Core Erlang syntax trees of \<open>transpiler/cerl/cerl.go\<close> and their serialiser.  An expression is a raw
  Erlang term in the shape of the records of the Erlang compiler; the package has an ETF encoder
  of its own, independent of \<open>etf/etf.go\<close>.  The functions that append to the buffer are modelled by
  the bytes they append.
\<close>

section \<open>Terms\<close>

datatype cterm =
    EAtom string
  | EInt u64          \<comment> \<open>\<open>int64\<close>, two's complement\<close>
  | EFloat u64        \<comment> \<open>bit pattern of a \<open>float64\<close>\<close>
  | ETuple "cterm list"
  | EList "cterm list"
  | EBin "byte list"
  | EMap "(cterm \<times> cterm) list"

abbreviation etfMap :: byte where "etfMap \<equiv> 116"

definition appendAtom :: "string \<Rightarrow> byte list" where
  "appendAtom name =
     (let b = bytes_of_string name in
      (if length b \<le> 255 then [tagSmallAtomUTF8, u8_of_len (length b)]
       else tagAtomUTF8 # put_u16 (u16_of_len (length b))) @ b)"

text \<open>The digit loop: it runs while the signed value is positive.\<close>

function big_digits :: "u64 \<Rightarrow> byte list" where
  "big_digits n = (if 0 < sint n then ucast (n AND 255) # big_digits (signed_drop_bit 8 n) else [])"
  by pat_completeness auto
termination
proof (relation "measure (\<lambda>n. nat (sint n))")
  fix n :: u64
  assume "0 < sint n"
  then show "(signed_drop_bit 8 n, n) \<in> measure (\<lambda>n. nat (sint n))"
    by (simp add: sint_signed_drop_bit_eq drop_bit_eq_div)
qed simp

declare big_digits.simps [simp del]

definition appendBigInt :: "u64 \<Rightarrow> byte list" where
  "appendBigInt n =
     (let sign = (if sint n < 0 then 1 else 0);
          n = (if sint n < 0 then - n else n);
          digits = big_digits n
      in tagSmallBig # u8_of_len (length digits) # sign # digits)"

definition appendInt :: "u64 \<Rightarrow> byte list" where
  "appendInt n =
     (if 0 \<le> sint n \<and> sint n \<le> 255 then [tagSmallInteger, ucast n]
      else if - 2147483648 \<le> sint n \<and> sint n \<le> 2147483647 then tagInteger # put_u32 (ucast n)
      else appendBigInt n)"

definition appendFloat :: "u64 \<Rightarrow> byte list" where
  "appendFloat bits = tagNewFloat # put_u64 bits"

definition appendTuple :: "(cterm \<Rightarrow> byte list) \<Rightarrow> cterm list \<Rightarrow> byte list" where
  "appendTuple app elems =
     (let n = length elems in
      (if n \<le> 255 then [tagSmallTuple, u8_of_len n] else tagLargeTuple # put_u32 (u32_of_len n)) @
      concat (map app elems))"

definition appendList :: "(cterm \<Rightarrow> byte list) \<Rightarrow> cterm list \<Rightarrow> byte list" where
  "appendList app elems =
     (if length elems = 0 then [tagNil]
      else tagList # put_u32 (u32_of_len (length elems)) @ concat (map app elems) @ [tagNil])"

definition appendBinary :: "byte list \<Rightarrow> byte list" where
  "appendBinary data = tagBinary # put_u32 (u32_of_len (length data)) @ data"

definition appendMap :: "(cterm \<Rightarrow> byte list) \<Rightarrow> (cterm \<times> cterm) list \<Rightarrow> byte list" where
  "appendMap app pairs =
     etfMap # put_u32 (u32_of_len (length pairs)) @ concat (map (\<lambda>(k, v). app k @ app v) pairs)"

lemma append_congs [fundef_cong]:
  "ts = ts' \<Longrightarrow> (\<And>t. t \<in> set ts' \<Longrightarrow> f t = g t) \<Longrightarrow> appendTuple f ts = appendTuple g ts'"
  "ts = ts' \<Longrightarrow> (\<And>t. t \<in> set ts' \<Longrightarrow> f t = g t) \<Longrightarrow> appendList f ts = appendList g ts'"
  "ps = ps' \<Longrightarrow> (\<And>k v. (k, v) \<in> set ps' \<Longrightarrow> f k = g k) \<Longrightarrow>
   (\<And>k v. (k, v) \<in> set ps' \<Longrightarrow> f v = g v) \<Longrightarrow> appendMap f ps = appendMap g ps'"
  by (auto simp: appendTuple_def appendList_def appendMap_def Let_def intro!: arg_cong [where f = concat] map_cong)

fun appendETF :: "cterm \<Rightarrow> byte list" where
  "appendETF (EAtom a) = appendAtom a"
| "appendETF (EInt i) = appendInt i"
| "appendETF (EFloat f) = appendFloat f"
| "appendETF (ETuple t) = appendTuple appendETF t"
| "appendETF (EList l) = appendList appendETF l"
| "appendETF (EBin b) = appendBinary b"
| "appendETF (EMap m) = appendMap appendETF m"

section \<open>The constructors\<close>

definition anno :: cterm where "anno = EList []"

text \<open>A node is a tuple of its name, the empty annotation and its fields.\<close>

abbreviation node :: "string \<Rightarrow> cterm list \<Rightarrow> cterm" where
  "node name fs \<equiv> ETuple (EAtom name # anno # fs)"

definition CInt :: "u64 \<Rightarrow> cterm" where
  "CInt n = node ''c_literal'' [EInt n]"

definition CFloat :: "u64 \<Rightarrow> cterm" where
  "CFloat f = node ''c_literal'' [EFloat f]"

definition CAtom :: "string \<Rightarrow> cterm" where
  "CAtom name = node ''c_literal'' [EAtom name]"

definition CLit :: "cterm \<Rightarrow> cterm" where
  "CLit val = node ''c_literal'' [val]"

definition CBin :: "byte list \<Rightarrow> cterm" where
  "CBin data = node ''c_literal'' [EBin data]"

definition CVar :: "string \<Rightarrow> cterm" where
  "CVar name = node ''c_var'' [EAtom name]"

definition CBool :: "bool \<Rightarrow> cterm" where
  "CBool b = node ''c_literal'' [EAtom (if b then ''true'' else ''false'')]"

definition CNil :: cterm where
  "CNil = node ''c_literal'' [EList []]"

definition CEmptyMap :: cterm where
  "CEmptyMap = node ''c_literal'' [EMap []]"

definition CVarFunc :: "string \<Rightarrow> u64 \<Rightarrow> cterm" where
  "CVarFunc name arity = node ''c_var'' [ETuple [EAtom name, EInt arity]]"

definition CFun :: "cterm list \<Rightarrow> cterm \<Rightarrow> cterm" where
  "CFun vars body = node ''c_fun'' [EList vars, body]"

definition CLet :: "cterm list \<Rightarrow> cterm \<Rightarrow> cterm \<Rightarrow> cterm" where
  "CLet vars arg body = node ''c_let'' [EList vars, arg, body]"

definition CSeq :: "cterm \<Rightarrow> cterm \<Rightarrow> cterm" where
  "CSeq arg body = node ''c_seq'' [arg, body]"

definition CApply :: "cterm \<Rightarrow> cterm list \<Rightarrow> cterm" where
  "CApply op args = node ''c_apply'' [op, EList args]"

definition CCall :: "cterm \<Rightarrow> cterm \<Rightarrow> cterm list \<Rightarrow> cterm" where
  "CCall module name args = node ''c_call'' [module, name, EList args]"

definition CPrimop :: "string \<Rightarrow> cterm list \<Rightarrow> cterm" where
  "CPrimop name args = node ''c_primop'' [CAtom name, EList args]"

definition CCase :: "cterm \<Rightarrow> cterm list \<Rightarrow> cterm" where
  "CCase arg clauses = node ''c_case'' [arg, EList clauses]"

definition CClause :: "cterm list \<Rightarrow> cterm \<Rightarrow> cterm \<Rightarrow> cterm" where
  "CClause pats guard body = node ''c_clause'' [EList pats, guard, body]"

definition CTuple :: "cterm list \<Rightarrow> cterm" where
  "CTuple es = node ''c_tuple'' [EList es]"

definition CCons :: "cterm \<Rightarrow> cterm \<Rightarrow> cterm" where
  "CCons h t = node ''c_cons'' [h, t]"

definition CValues :: "cterm list \<Rightarrow> cterm" where
  "CValues es = node ''c_values'' [EList es]"

definition CMap :: "cterm \<Rightarrow> cterm list \<Rightarrow> bool \<Rightarrow> cterm" where
  "CMap arg pairs isPat = node ''c_map'' [arg, EList pairs, EAtom (if isPat then ''true'' else ''false'')]"

definition CMapPairAssoc :: "cterm \<Rightarrow> cterm \<Rightarrow> cterm" where
  "CMapPairAssoc key val = node ''c_map_pair'' [node ''c_literal'' [EAtom ''assoc''], key, val]"

definition CMapPairExact :: "cterm \<Rightarrow> cterm \<Rightarrow> cterm" where
  "CMapPairExact key val = node ''c_map_pair'' [node ''c_literal'' [EAtom ''exact''], key, val]"

definition CTry :: "cterm \<Rightarrow> cterm list \<Rightarrow> cterm \<Rightarrow> cterm list \<Rightarrow> cterm \<Rightarrow> cterm" where
  "CTry arg vars body evars handler = node ''c_try'' [arg, EList vars, body, EList evars, handler]"

definition CCatch :: "cterm \<Rightarrow> cterm" where
  "CCatch body = node ''c_catch'' [body]"

definition CReceive :: "cterm list \<Rightarrow> cterm \<Rightarrow> cterm \<Rightarrow> cterm" where
  "CReceive clauses timeout action = node ''c_receive'' [EList clauses, timeout, action]"

definition CAlias :: "cterm \<Rightarrow> cterm \<Rightarrow> cterm" where
  "CAlias v pat = node ''c_alias'' [v, pat]"

definition CLetrec :: "cterm list \<Rightarrow> cterm \<Rightarrow> cterm" where
  "CLetrec defs body = node ''c_letrec'' [EList defs, body]"

section \<open>Modules\<close>

record FuncDef =
  fn_Name :: string
  fn_Arity :: u64
  fn_Vars :: "string list"
  fn_Body :: cterm

record FuncRef =
  fr_Name :: string
  fr_Arity :: u64

record Attr =
  at_Key :: string
  at_Val :: cterm

record Core_Module =
  mod_Name :: string
  mod_Exports :: "FuncRef list"
  mod_Attrs :: "Attr list"
  mod_Defs :: "FuncDef list"

text \<open>
  The order of the definitions: by name, then by arity.  \<open>sort.Slice\<close> leaves the order of definitions with
  the same name and arity open; here they keep theirs.
\<close>

definition def_less :: "FuncDef \<Rightarrow> FuncDef \<Rightarrow> bool" where
  "def_less d e =
     (if fn_Name d \<noteq> fn_Name e then str_compare (fn_Name d) (fn_Name e) < 0
      else sint (fn_Arity d) < sint (fn_Arity e))"

fun insert_def :: "FuncDef \<Rightarrow> FuncDef list \<Rightarrow> FuncDef list" where
  "insert_def d [] = [d]"
| "insert_def d (e # es) = (if def_less e d then e # insert_def d es else d # e # es)"

definition sort_defs :: "FuncDef list \<Rightarrow> FuncDef list" where
  "sort_defs ds = foldr insert_def ds []"

definition def_term :: "FuncDef \<Rightarrow> cterm" where
  "def_term d = ETuple [CVarFunc (fn_Name d) (fn_Arity d), CFun (map CVar (fn_Vars d)) (fn_Body d)]"

definition toTerm :: "Core_Module \<Rightarrow> cterm" where
  "toTerm m =
     (let exports = EList (map (\<lambda>e. CVarFunc (fr_Name e) (fr_Arity e)) (mod_Exports m));
          attrs = EList (map (\<lambda>a. ETuple [CAtom (at_Key a), at_Val a]) (mod_Attrs m));
          defs = EList (map def_term (sort_defs (mod_Defs m)))
      in ETuple [EAtom ''c_module'', anno, CAtom (mod_Name m), exports, attrs, defs])"

text \<open>The error result of \<open>MarshalBinary\<close> is always nil.\<close>

definition MarshalBinary :: "Core_Module \<Rightarrow> go_error + byte list" where
  "MarshalBinary m = Inr (versionMagic # appendETF (toTerm m))"

section \<open>Agreement with the ETF package\<close>

text \<open>
  The value of a term in the sense of \<open>etf/etf.go\<close>, and the terms on which the two encoders agree: atoms of
  at most 65535 bytes, no map (the ETF package has none), and not the least \<open>int64\<close>.
\<close>

fun eterm_of :: "cterm \<Rightarrow> eterm" where
  "eterm_of (EAtom a) = TAtom a"
| "eterm_of (EInt i) = TInt64 i"
| "eterm_of (EFloat f) = TFloat f"
| "eterm_of (ETuple t) = TTuple (map eterm_of t)"
| "eterm_of (EList l) = TList (map eterm_of l)"
| "eterm_of (EBin b) = TBytes b"
| "eterm_of (EMap m) = TOther ''cerl.EMap''"

definition least_int64 :: u64 where "least_int64 = word_of_int (- (2 ^ 63))"

fun plain :: "cterm \<Rightarrow> bool" where
  "plain (EAtom a) \<longleftrightarrow> length a \<le> 65535"
| "plain (EInt i) \<longleftrightarrow> i \<noteq> least_int64"
| "plain (EFloat f) \<longleftrightarrow> True"
| "plain (ETuple t) \<longleftrightarrow> (\<forall>x \<in> set t. plain x)"
| "plain (EList l) \<longleftrightarrow> (\<forall>x \<in> set l. plain x)"
| "plain (EBin b) \<longleftrightarrow> True"
| "plain (EMap m) \<longleftrightarrow> False"

lemma canon_eterm_of [simp]: "canon (eterm_of t) = eterm_of t"
  by (induction t) (auto simp: comp_def)

lemma signed_drop_bit_nonneg:
  assumes "0 \<le> sint (n :: u64)"
  shows "signed_drop_bit 8 n = drop_bit 8 n"
proof -
  have "sint (signed_drop_bit 8 n) = uint (drop_bit 8 n)"
    using unsigned_less [of n, where 'a = int]
    by (simp add: sint_signed_drop_bit_eq unsigned_drop_bit_eq take_bit_int_eq_self
        flip: uint_nonneg_sint [OF assms])
  then have "word_of_int (sint (signed_drop_bit 8 n)) = (word_of_int (uint (drop_bit 8 n)) :: u64)" by simp
  then show ?thesis by simp
qed

lemma big_digits_nonneg: "0 \<le> sint n \<Longrightarrow> big_digits n = le_digits n"
proof (induction n rule: big_digits.induct)
  case (1 n)
  show ?case
  proof (cases "sint n = 0")
    case True
    have "n = word_of_int (sint n)" by simp
    then have "n = 0" by (simp only: True) simp
    then show ?thesis by (simp add: big_digits.simps [of 0] le_digits.simps [of 0])
  next
    case False
    with 1(2) have pos: "0 < sint n" by simp
    then have "n \<noteq> 0" by auto
    moreover have "0 \<le> sint (signed_drop_bit 8 n)"
      using pos by (simp add: sint_signed_drop_bit_eq)
    ultimately show ?thesis
      using pos 1(1) by (simp add: big_digits.simps [of n] le_digits.simps [of n] signed_drop_bit_nonneg)
  qed
qed

lemma sint_uminus: 
  assumes "(n :: u64) \<noteq> least_int64"
  shows "sint (- n) = - sint n"
proof -
  have "sint n \<noteq> - (2 ^ 63)"
  proof
    assume s: "sint n = - (2 ^ 63)"
    have "n = word_of_int (sint n)" by simp
    also have "\<dots> = least_int64" by (simp only: s least_int64_def)
    finally show False using assms by simp
  qed
  then have "is_int64 (- sint n)" using is_int64_sint [of n] by (auto simp: is_int64_def)
  from sint_of_int_small(1) [OF this] show ?thesis by simp
qed

lemma encInt64_appendInt: "n \<noteq> least_int64 \<Longrightarrow> encInt64 n = Inr (appendInt n)"
  using big_digits_nonneg [of n] big_digits_nonneg [of "- n"] sint_uminus [of n]
    le_digits_length_8 [of n] le_digits_length_8 [of "- n"]
  by (auto simp: encInt64_def appendInt_def appendBigInt_def Let_def)

lemma enc_elems_append:
  "(\<And>t. t \<in> set ts \<Longrightarrow> encTerm (eterm_of t) = Inr (app t)) \<Longrightarrow>
   enc_elems fmt encTerm i (map eterm_of ts) = Inr (concat (map app ts))"
  by (induction ts arbitrary: i) simp_all

lemma encTerm_appendETF: "plain t \<Longrightarrow> encTerm (eterm_of t) = Inr (appendETF t)"
proof (induction t)
  case (ETuple ts)
  with enc_elems_append [of ts appendETF] show ?case
    by (simp add: encTuple_def appendTuple_def tuple_header_def)
next
  case (EList ts)
  with enc_elems_append [of ts appendETF] show ?case
    by (simp add: encList_def appendList_def)
qed (simp_all add: encAtom_def appendAtom_def encInt64_appendInt encBinary_def appendBinary_def appendFloat_def Let_def)

lemma plain_toTerm:
  "plain (toTerm m) \<longleftrightarrow>
     length (mod_Name m) \<le> 65535 \<and>
     (\<forall>e \<in> set (mod_Exports m). length (fr_Name e) \<le> 65535 \<and> fr_Arity e \<noteq> least_int64) \<and>
     (\<forall>a \<in> set (mod_Attrs m). length (at_Key a) \<le> 65535 \<and> plain (at_Val a)) \<and>
     (\<forall>d \<in> set (mod_Defs m). length (fn_Name d) \<le> 65535 \<and> fn_Arity d \<noteq> least_int64 \<and>
       (\<forall>v \<in> set (fn_Vars d). length v \<le> 65535) \<and> plain (fn_Body d))"
proof -
  have ins: "set (insert_def d es) = insert d (set es)" for d es by (induction es) auto
  have "set (sort_defs ds) = set ds" for ds
    by (induction ds) (simp_all add: sort_defs_def ins)
  then show ?thesis
    by (auto simp: toTerm_def def_term_def CVarFunc_def CFun_def CVar_def CAtom_def anno_def)
qed

text \<open>The sorted definitions do not depend on the order in which they were collected.\<close>

text \<open>
  C38: on every module without oversized atoms, map literals and least integers, \<open>MarshalBinary\<close> writes the
  bytes that the ETF package writes for the same term, so its decoder reads the module back.
\<close>

theorem marshal_agrees_with_etf:
  assumes "plain (toTerm m)" and "sizes_ok (eterm_of (toTerm m))" and "term_depth (eterm_of (toTerm m)) \<le> fuel"
  shows "MarshalBinary m = Encode (eterm_of (toTerm m)) \<and>
    (\<exists>bs. MarshalBinary m = Inr bs \<and> Decode zlib fuel bs = Some (Inr (eterm_of (toTerm m))))"
proof -
  have e: "Encode (eterm_of (toTerm m)) = MarshalBinary m"
    using encTerm_appendETF [OF assms(1)] by (simp add: Encode_def MarshalBinary_def)
  then have "Encode (eterm_of (toTerm m)) = Inr (versionMagic # appendETF (toTerm m))"
    by (simp add: MarshalBinary_def)
  from Decode_Encode_rest [OF this assms(2,3), of zlib "[]"] e show ?thesis
    by (simp add: MarshalBinary_def)
qed

theorem marshal_agrees_with_etf_witness:
  "Decode (\<lambda>_ _. ZlibHeader IoEOF) 8 (versionMagic # appendETF (toTerm
     \<lparr>mod_Name = ''m'', mod_Exports = [\<lparr>fr_Name = ''f'', fr_Arity = 1\<rparr>], mod_Attrs = [],
      mod_Defs = [\<lparr>fn_Name = ''f'', fn_Arity = 1, fn_Vars = [''V_x''], fn_Body = CVar ''V_x''\<rparr>]\<rparr>)) =
   Some (Inr (eterm_of (toTerm
     \<lparr>mod_Name = ''m'', mod_Exports = [\<lparr>fr_Name = ''f'', fr_Arity = 1\<rparr>], mod_Attrs = [],
      mod_Defs = [\<lparr>fn_Name = ''f'', fn_Arity = 1, fn_Vars = [''V_x''], fn_Body = CVar ''V_x''\<rparr>]\<rparr>)))"
  (is "Decode ?z 8 (_ # appendETF (toTerm ?m)) = _")
proof -
  have "plain (toTerm ?m)" by (simp add: plain_toTerm least_int64_def CVar_def anno_def)
  moreover have "sizes_ok (eterm_of (toTerm ?m))" "term_depth (eterm_of (toTerm ?m)) \<le> 8"
    by (simp_all add: toTerm_def def_term_def sort_defs_def CVarFunc_def CFun_def CVar_def CAtom_def anno_def)
  ultimately show ?thesis using marshal_agrees_with_etf [of ?m 8 ?z] by (simp add: MarshalBinary_def)
qed

text \<open>
  On the least \<open>int64\<close> the encoders part: \<open>n = -n\<close> leaves it negative, the digit loop does not run, and the
  literal becomes a big integer without digits, which decodes to 0.
\<close>

lemma appendInt_least: "appendInt least_int64 = [tagSmallBig, 0, 1]"
proof -
  have s: "sint least_int64 = - (2 ^ 63)" by (simp add: least_int64_def sint_of_int_small is_int64_def)
  have m: "- least_int64 = least_int64" by (simp add: least_int64_def)
  have "big_digits least_int64 = []" using s by (simp add: big_digits.simps [of least_int64])
  with s show ?thesis
    by (simp only: appendInt_def appendBigInt_def Let_def m) (simp add: u8_of_len_def)
qed

lemma least_literal_decodes_to_zero:
  "Decode zlib 1 (versionMagic # appendETF (EInt least_int64)) = Some (Inr (TInt64 0))"
  by (simp add: appendInt_least Decode_def dec_term.simps dec_tagged_def dec_byte_def dec_bigInt_def dec_bytes_def
      be_value_def is_int64_def)

end
