(* ===== verification/Aotir.thy ===== *)
theory Aotir
  imports Etf_Term Go_Strings
begin

text \<open>
  The intermediate representation of \<open>internal/aotir\<close> (\<open>types.go\<close>, \<open>program.go\<close>).  A type is a flat tag;
  what a tag leaves open (the name of a record, the element type of a list) rides in parallel
  fields of the node.  The fields that always come together are one record here: \<open>Shape\<close> for those of a
  parameter, a return type, a call or a variable, \<open>ElemInfo\<close> and \<open>MapInfo\<close> for those of list and map nodes.
  A pointer or interface that may be nil is an option.
\<close>

section \<open>Types\<close>

datatype IrType = TypeInvalid | TypeUnit | TypeString | TypeInt | TypeFloat | TypeBool | TypeRecord | TypeList
  | TypeMap | TypeSet | TypeOMap | TypeUnion | TypeFun | TypeChan | TypeStream | TypeSub | TypeAgent | TypeValue
  | TypeFuture

fun IrType_String :: "IrType \<Rightarrow> string" where
  "IrType_String TypeUnit = ''unit''"
| "IrType_String TypeString = ''string''"
| "IrType_String TypeInt = ''int''"
| "IrType_String TypeFloat = ''float''"
| "IrType_String TypeBool = ''bool''"
| "IrType_String TypeRecord = ''record''"
| "IrType_String TypeList = ''list''"
| "IrType_String TypeMap = ''map''"
| "IrType_String TypeSet = ''set''"
| "IrType_String TypeOMap = ''omap''"
| "IrType_String TypeUnion = ''union''"
| "IrType_String TypeFun = ''fun''"
| "IrType_String TypeChan = ''chan''"
| "IrType_String TypeStream = ''stream''"
| "IrType_String TypeSub = ''sub''"
| "IrType_String TypeAgent = ''agent''"
| "IrType_String TypeValue = ''value''"
| "IrType_String TypeFuture = ''future''"
| "IrType_String TypeInvalid = ''invalid''"

record FunSig =
  fs_ParamTypes :: "IrType list"
  fs_ReturnType :: IrType

definition funTypeAbbrev :: "IrType \<Rightarrow> string" where
  "funTypeAbbrev t =
     (if t = TypeInt then ''i64'' else if t = TypeFloat then ''f64'' else if t = TypeBool then ''bool''
      else if t = TypeString then ''str'' else if t = TypeUnit then ''void'' else ''unknown'')"

definition FunTypeName :: "FunSig \<Rightarrow> string" where
  "FunTypeName sig =
     (if length (fs_ParamTypes sig) = 0 then ''mochi_closure_to_'' @ funTypeAbbrev (fs_ReturnType sig)
      else ''mochi_closure_'' @ join ''_'' (map funTypeAbbrev (fs_ParamTypes sig)) @ ''_to_'' @
        funTypeAbbrev (fs_ReturnType sig))"

record ElemInfo =
  el_ElemType :: IrType
  el_ElemRecordName :: string
  el_InnerElemType :: IrType
  el_MapElemKeyType :: IrType
  el_MapElemValueType :: IrType

record MapInfo =
  mi_KeyType :: IrType
  mi_ValueType :: IrType
  mi_ListValueElemType :: IrType

record Shape =
  sh_Type :: IrType
  sh_RecordName :: string
  sh_UnionName :: string
  sh_Elem :: ElemInfo
  sh_Map :: MapInfo
  sh_FunSig :: "FunSig option"

text \<open>What variables and \<open>let\<close> bindings have beyond a shape.\<close>

record Handles =
  hd_ChanElemType :: IrType
  hd_StreamElemType :: IrType
  hd_SubElemType :: IrType
  hd_FutureElemType :: IrType
  hd_AgentName :: string

section \<open>Expressions\<close>

datatype BinOp = BinInvalid | BinAddI64 | BinSubI64 | BinMulI64 | BinDivI64 | BinModI64 | BinAddF64 | BinSubF64
  | BinMulF64 | BinDivF64 | BinEqI64 | BinNeI64 | BinLtI64 | BinLeI64 | BinGtI64 | BinGeI64 | BinEqF64 | BinNeF64
  | BinLtF64 | BinLeF64 | BinGtF64 | BinGeF64 | BinEqBool | BinNeBool | BinEqStr | BinNeStr | BinEqRec | BinNeRec
  | BinEqList | BinNeList | BinEqMap | BinNeMap | BinAndBool | BinOrBool | BinStrCat

datatype UnOp = UnInvalid | UnNegI64 | UnNegF64 | UnNotBool

record FunCapture =
  fc_FieldName :: string
  fc_VarType :: IrType
  fc_SrcName :: string

record VarRef =
  vr_Name :: string
  vr_Shape :: Shape
  vr_Handles :: Handles
  vr_IsSpawnedRef :: bool

record Param =
  pa_Name :: string
  pa_Shape :: Shape

record JavaFuncDecl =
  jv_ClassName :: string
  jv_MethodName :: string
  jv_MochiName :: string
  jv_Params :: "Param list"
  jv_ReturnType :: IrType
  jv_IsStatic :: bool

record DatalogFact =
  df_Name :: string
  df_Args :: "string list"

record DatalogRuleBody =
  db_Name :: string
  db_Args :: "string list"
  db_IsNot :: bool
  db_IsNeq :: bool
  db_NeqA :: string
  db_NeqB :: string

record DatalogRule =
  dr_HeadName :: string
  dr_HeadArgs :: "string list"
  dr_Body :: "DatalogRuleBody list"

record DatalogProgram =
  dp_Facts :: "DatalogFact list"
  dp_Rules :: "DatalogRule list"

record DatalogQuery =
  dq_QueryName :: string
  dq_QueryArgs :: "string list"
  dq_Prog :: "DatalogProgram option"
  dq_CResultVar :: string

record FunLit =
  fl_FuncName :: string
  fl_Sig :: "FunSig option"
  fl_Captures :: "FunCapture list"
  fl_EnvTypeName :: string
  fl_EnvVarName :: string

datatype (plugins only:) Expr =
    StringLit string
  | IntLit u64
  | FloatLit u64          \<comment> \<open>bit pattern\<close>
  | BoolLit bool
  | VarRefE VarRef
  | BinaryExpr BinOp "Expr option" "Expr option" IrType
  | UnaryExpr UnOp "Expr option" IrType
  | CallExpr string "Expr option list" Shape
  | RecordLit string "(string \<times> Expr option) list"
  | FieldAccess "Expr option" string string IrType string
      \<comment> \<open>receiver, record, field, result, result record\<close>
  | ListLit ElemInfo "Expr option list"
  | IndexExpr "Expr option" "Expr option" ElemInfo
  | LenExpr "Expr option" ElemInfo
  | StrLenExpr "Expr option"
  | NumCastExpr "Expr option"
  | ListMinExpr "Expr option" ElemInfo
  | ListMaxExpr "Expr option" ElemInfo
  | ListContainsExpr "Expr option" "Expr option" IrType
  | ListSumExpr "Expr option" IrType
  | JsonDecodeExpr "Expr option"
  | ListMapExpr "Expr option" "Expr option" IrType
  | ListFilterExpr "Expr option" "Expr option" IrType
  | ListFoldlExpr "Expr option" "Expr option" "Expr option" IrType
  | MathCallExpr string "Expr option" IrType
  | StrIndexExpr "Expr option" "Expr option"
  | StrContainsExpr "Expr option" "Expr option"
  | StrSubstringExpr "Expr option" "Expr option" "Expr option"
  | StrReverseExpr "Expr option"
  | StrConvertExpr "Expr option"
  | StrUpperExpr "Expr option"
  | StrLowerExpr "Expr option"
  | StrSplitExpr "Expr option" "Expr option"
  | StrJoinExpr "Expr option" "Expr option"
  | StrMethodRef "Expr option" string
  | AppendExpr "Expr option" "Expr option" ElemInfo
  | ListSortAscExpr "Expr option" ElemInfo
  | ListSliceExpr "Expr option" "Expr option" "Expr option" ElemInfo
  | MapLit MapInfo "Expr option list" "Expr option list"
  | MapGetExpr "Expr option" "Expr option" MapInfo
  | MapHasExpr "Expr option" "Expr option" MapInfo
  | MapLenExpr "Expr option" MapInfo
  | MapKeysExpr "Expr option" MapInfo
  | MapValuesExpr "Expr option" MapInfo
  | SetLiteralExpr "Expr option list" IrType
  | SetAddExpr "Expr option" "Expr option" IrType
  | SetHasExpr "Expr option" "Expr option" IrType
  | SetLenExpr "Expr option" IrType
  | SetToListExpr "Expr option" IrType
  | OMapLiteralExpr "Expr option list" "Expr option list" IrType IrType
  | OMapGetExpr "Expr option" "Expr option" IrType IrType
  | OMapSetExpr "Expr option" "Expr option" "Expr option" IrType IrType
  | OMapHasExpr "Expr option" "Expr option" IrType IrType
  | OMapLenExpr "Expr option" IrType IrType
  | VariantLit string string nat "(string \<times> Expr option) list"
  | UnionVarRef string string
  | VariantFieldAccess "Expr option" string string string IrType string
      \<comment> \<open>receiver, union, variant, field, result, record\<close>
  | FunLitE FunLit
  | FunCallExpr "Expr option" "Expr option list" IrType
  | ReadFileExpr "Expr option"
  | LinesExpr "Expr option"
  | HttpGetExpr "Expr option"
  | LoadCSVExpr "Expr option"
  | AsyncExpr "Expr option" IrType
  | AwaitExpr "Expr option" IrType
  | JavaCallExpr "JavaFuncDecl option" "Expr option list" IrType
  | LLMGenerateExpr string "Expr option" "Expr option"
  | RawCExpr string IrType
  | ChanMakeExpr "Expr option" IrType
  | ChanRecvExpr "Expr option" IrType
  | StreamMakeExpr "Expr option" IrType
  | SubMakeExpr "Expr option" IrType
  | SubMakeLimitExpr "Expr option" "Expr option" IrType
  | SubRecvExpr "Expr option" IrType
  | AgentLit string "(string \<times> Expr option) list"
  | AgentMethodRef string string "Expr option" IrType bool
  | AgentSpawnExpr string "Expr option list"
  | AgentIntentCallExpr string string "Expr option" "Expr option list" IrType bool
  | DatalogQueryExpr DatalogQuery

text \<open>\<open>Expr.Type\<close>.\<close>

primrec Expr_Type :: "Expr \<Rightarrow> IrType" where
  "Expr_Type (StringLit s) = TypeString"
| "Expr_Type (IntLit n) = TypeInt"
| "Expr_Type (FloatLit f) = TypeFloat"
| "Expr_Type (BoolLit b) = TypeBool"
| "Expr_Type (VarRefE v) = sh_Type (vr_Shape v)"
| "Expr_Type (BinaryExpr bop l r res) = res"
| "Expr_Type (UnaryExpr uop x res) = res"
| "Expr_Type (CallExpr f args res) = sh_Type res"
| "Expr_Type (RecordLit n fs) = TypeRecord"
| "Expr_Type (FieldAccess r rn fn res rrn) = res"
| "Expr_Type (ListLit i es) = TypeList"
| "Expr_Type (IndexExpr r x i) = el_ElemType i"
| "Expr_Type (LenExpr r i) = TypeInt"
| "Expr_Type (StrLenExpr r) = TypeInt"
| "Expr_Type (NumCastExpr x) = TypeInt"
| "Expr_Type (ListMinExpr r i) = el_ElemType i"
| "Expr_Type (ListMaxExpr r i) = el_ElemType i"
| "Expr_Type (ListContainsExpr l v t) = TypeBool"
| "Expr_Type (ListSumExpr r t) = t"
| "Expr_Type (JsonDecodeExpr x) = TypeMap"
| "Expr_Type (ListMapExpr l f t) = TypeList"
| "Expr_Type (ListFilterExpr l f t) = TypeList"
| "Expr_Type (ListFoldlExpr l f x t) = t"
| "Expr_Type (MathCallExpr f a res) = res"
| "Expr_Type (StrIndexExpr r x) = TypeString"
| "Expr_Type (StrContainsExpr r s) = TypeBool"
| "Expr_Type (StrSubstringExpr r a b) = TypeString"
| "Expr_Type (StrReverseExpr r) = TypeString"
| "Expr_Type (StrConvertExpr x) = TypeString"
| "Expr_Type (StrUpperExpr r) = TypeString"
| "Expr_Type (StrLowerExpr r) = TypeString"
| "Expr_Type (StrSplitExpr s p) = TypeList"
| "Expr_Type (StrJoinExpr l p) = TypeString"
| "Expr_Type (StrMethodRef r m) = TypeInvalid"
| "Expr_Type (AppendExpr r v i) = TypeList"
| "Expr_Type (ListSortAscExpr r i) = TypeList"
| "Expr_Type (ListSliceExpr r a b i) = TypeList"
| "Expr_Type (MapLit i ks vs) = TypeMap"
| "Expr_Type (MapGetExpr r k i) = mi_ValueType i"
| "Expr_Type (MapHasExpr r k i) = TypeBool"
| "Expr_Type (MapLenExpr r i) = TypeInt"
| "Expr_Type (MapKeysExpr r i) = TypeList"
| "Expr_Type (MapValuesExpr r i) = TypeList"
| "Expr_Type (SetLiteralExpr es t) = TypeSet"
| "Expr_Type (SetAddExpr r e t) = TypeSet"
| "Expr_Type (SetHasExpr r e t) = TypeBool"
| "Expr_Type (SetLenExpr r t) = TypeInt"
| "Expr_Type (SetToListExpr r t) = TypeList"
| "Expr_Type (OMapLiteralExpr ks vs kt vt) = TypeOMap"
| "Expr_Type (OMapGetExpr r k kt vt) = vt"
| "Expr_Type (OMapSetExpr r k v kt vt) = TypeOMap"
| "Expr_Type (OMapHasExpr r k kt vt) = TypeBool"
| "Expr_Type (OMapLenExpr r kt vt) = TypeInt"
| "Expr_Type (VariantLit u v tag fs) = TypeUnion"
| "Expr_Type (UnionVarRef n u) = TypeUnion"
| "Expr_Type (VariantFieldAccess r u v f res rn) = res"
| "Expr_Type (FunLitE f) = TypeFun"
| "Expr_Type (FunCallExpr c args res) = res"
| "Expr_Type (ReadFileExpr p) = TypeString"
| "Expr_Type (LinesExpr p) = TypeList"
| "Expr_Type (HttpGetExpr u) = TypeString"
| "Expr_Type (LoadCSVExpr p) = TypeList"
| "Expr_Type (AsyncExpr b t) = TypeFuture"
| "Expr_Type (AwaitExpr f t) = t"
| "Expr_Type (JavaCallExpr d args res) = res"
| "Expr_Type (LLMGenerateExpr pr m p) = TypeString"
| "Expr_Type (RawCExpr c t) = t"
| "Expr_Type (ChanMakeExpr c t) = TypeChan"
| "Expr_Type (ChanRecvExpr c t) = t"
| "Expr_Type (StreamMakeExpr c t) = TypeStream"
| "Expr_Type (SubMakeExpr s t) = TypeSub"
| "Expr_Type (SubMakeLimitExpr s l t) = TypeSub"
| "Expr_Type (SubRecvExpr s t) = t"
| "Expr_Type (AgentLit a fs) = TypeAgent"
| "Expr_Type (AgentMethodRef a i r t sp) = TypeInvalid"
| "Expr_Type (AgentSpawnExpr a args) = TypeAgent"
| "Expr_Type (AgentIntentCallExpr a i r args res sp) = res"
| "Expr_Type (DatalogQueryExpr q) = TypeList"

section \<open>Statements\<close>

record MatchBinding =
  mb_VarName :: string
  mb_FieldName :: string
  mb_FieldType :: IrType
  mb_RecordName :: string

record MatchHead =
  mh_VariantName :: string
  mh_Tag :: nat
  mh_Bindings :: "MatchBinding list"
  mh_Guard :: "Expr option"

record LetStmt =
  ls_Name :: string
  ls_Shape :: Shape
  ls_Handles :: Handles
  ls_Init :: "Expr option"
  ls_Mutable :: bool

text \<open>
  A block is the list of its statements; a match arm is its head and its block.
\<close>

datatype (plugins only:) Stmt =
    CallStmt string "Expr option list"
  | LetS LetStmt
  | AssignStmt string "Expr option"
  | ListSetStmt string "Expr option" "Expr option" ElemInfo
  | MapPutStmt string "Expr option" "Expr option" MapInfo
  | OMapPutStmt string "Expr option" "Expr option" IrType IrType
  | IfStmt "Expr option" "Stmt option list option" "Stmt option list option"
  | WhileStmt "Expr option" "Stmt option list option"
  | TryCatchStmt string "Stmt option list option" string "Stmt option list option"
  | ForRangeStmt string "Expr option" "Expr option" "Stmt option list option"
  | ForEachStmt string "Expr option" ElemInfo "Stmt option list option"
  | BreakStmt
  | ContinueStmt
  | ReturnStmt "Expr option"
  | MatchStmt "Expr option" string "(MatchHead \<times> Stmt option list option) list"
      "(MatchHead \<times> Stmt option list option) option" string IrType string string
      \<comment> \<open>target, union, arms, default; result variable, its type, union and record\<close>
  | ClosureEnvStmt string string "FunCapture list"
  | WriteFileStmt "Expr option" "Expr option"
  | AppendFileStmt "Expr option" "Expr option"
  | SaveCSVStmt "Expr option" "Expr option"
  | QueryScopeStmt string string ElemInfo "Stmt option list option"
  | PanicStmt "Expr option" "Expr option"
  | RawCStmt string
  | ChanSendStmt "Expr option" "Expr option" IrType
  | StreamEmitStmt "Expr option" "Expr option" IrType
  | AgentIntentCallStmt string string "Expr option" "Expr option list" bool

type_synonym Block = "Stmt option list"

section \<open>Programs\<close>

record RecordField =
  rf_Name :: string
  rf_Type :: IrType
  rf_RecordName :: string

record RecordDecl =
  rd_Name :: string
  rd_Fields :: "RecordField list"

record VariantField =
  vf_Name :: string
  vf_FieldType :: IrType
  vf_RecordName :: string
  vf_UnionName :: string

record VariantDecl =
  vd_Name :: string
  vd_Tag :: nat
  vd_Fields :: "VariantField list"

record UnionDecl =
  ud_Name :: string
  ud_Variants :: "VariantDecl list"

record ExternFuncDecl =
  ef_Name :: string
  ef_Params :: "Param list"
  ef_ReturnType :: IrType
  ef_ReturnRecord :: string
  ef_OrigName :: string

text \<open>The declarations of Go, Python and JavaScript functions have the same fields.\<close>

record ForeignFuncDecl =
  gf_Name :: string
  gf_Params :: "Param list"
  gf_ReturnType :: IrType

record AgentIntentParam =
  ai_Name :: string
  ai_Type :: IrType

record AgentIntentDecl =
  ad_Name :: string
  ad_Params :: "AgentIntentParam list"
  ad_ReturnType :: IrType
  ad_Body :: "Block option"

record AgentDecl =
  ag_Name :: string
  ag_Fields :: "RecordField list"
  ag_Intents :: "AgentIntentDecl list"
  ag_OnClose :: "Block option"

record Function =
  fu_Name :: string
  fu_Params :: "Param list"
  fu_IsLifted :: bool
  fu_EnvTypeName :: string
  fu_Captures :: "FunCapture list"
  fu_Return :: Shape
  fu_Body :: "Block option"

record Program =
  p_Functions :: "Function option list"
  p_Main :: int
  p_Records :: "RecordDecl option list"
  p_Unions :: "UnionDecl option list"
  p_ExternFuncs :: "ExternFuncDecl option list"
  p_Agents :: "AgentDecl option list"
  p_GoFuncs :: "ForeignFuncDecl option list"
  p_PythonFuncs :: "ForeignFuncDecl option list"
  p_JSFuncs :: "ForeignFuncDecl option list"
  p_JavaFuncs :: "JavaFuncDecl option list"
  p_Datalog :: "DatalogProgram option"

end
