(* ===== verification/Aotir_Expr.thy ===== *)
theory Aotir_Expr
  imports Aotir
begin

text \<open>
  The expression half of the verifier of the intermediate representation (\<open>internal/aotir/verifier.go\<close>).  An
  error is the format string of its message and the error it wraps; the names and types printed into a message
  are left out.  \<open>None\<close> is a run-time panic: some cases call \<open>Type\<close> of an operand without a nil test.  The
  functions for the kinds of nodes get each operand together with the outcome of verifying it.
\<close>

section \<open>Checks\<close>

type_synonym check = "(go_error + unit) option"

abbreviation passed :: check where "passed \<equiv> Some (Inr ())"

definition require :: "bool \<Rightarrow> string \<Rightarrow> check" where
  "require c msg = (if c then passed else Some (Inl (Errorf msg [])))"

text \<open>Checks in order, up to the first that does not pass.\<close>

fun checks :: "check list \<Rightarrow> check" where
  "checks [] = passed"
| "checks (c # cs) = fbind c (\<lambda>_. checks cs)"

declare checks.simps [simp del]

definition within :: "string \<Rightarrow> check \<Rightarrow> check" where
  "within msg c = fwrap (\<lambda>e. Errorf msg [FErr e]) c"

text \<open>Checks behind a condition.\<close>

definition whenever :: "bool \<Rightarrow> check list \<Rightarrow> check" where
  "whenever c cs = (if c then checks cs else passed)"

text \<open>An operand and the outcome of \<open>verifyExprCtx\<close> on it; a nil operand ends in the default case.\<close>

type_synonym operand = "Expr option \<times> check"

definition operand :: "Expr option \<Rightarrow> check option \<Rightarrow> operand" where
  "operand e c = (e, case c of None \<Rightarrow> Some (Inl (Errorf ''unhandled Expr %T'' [])) | Some r \<Rightarrow> r)"

definition present :: "operand \<Rightarrow> bool" where "present x = (fst x \<noteq> None)"

text \<open>\<open>x.Type()\<close>, which panics on nil: \<open>dereference\<close> stands before the uses that no nil test protects.\<close>

definition otype :: "operand \<Rightarrow> IrType" where
  "otype x = (case fst x of None \<Rightarrow> TypeInvalid | Some e \<Rightarrow> Expr_Type e)"

definition dereference :: "operand \<Rightarrow> check" where
  "dereference x = (if present x then passed else None)"

abbreviation verified :: "operand \<Rightarrow> check" where "verified x \<equiv> snd x"

section \<open>Scopes\<close>

record binding =
  b_t :: IrType
  b_mutable :: bool
  b_record :: string
  b_union :: string
  b_elem :: IrType
  b_elemRec :: string
  b_mapElemKey :: IrType
  b_mapElemValue :: IrType
  b_key :: IrType
  b_value :: IrType
  b_listValElem :: IrType
  b_funSig :: "FunSig option"
  b_chanElem :: IrType
  b_streamElem :: IrType
  b_subElem :: IrType
  b_agentName :: string

text \<open>\<open>binding\{t: ..., mutable: ...\}\<close>, every other field zero.\<close>

definition simple_binding :: "IrType \<Rightarrow> bool \<Rightarrow> binding" where
  "simple_binding t m =
     \<lparr>b_t = t, b_mutable = m, b_record = [], b_union = [], b_elem = TypeInvalid, b_elemRec = [],
      b_mapElemKey = TypeInvalid, b_mapElemValue = TypeInvalid, b_key = TypeInvalid, b_value = TypeInvalid,
      b_listValElem = TypeInvalid, b_funSig = None, b_chanElem = TypeInvalid, b_streamElem = TypeInvalid,
      b_subElem = TypeInvalid, b_agentName = []\<rparr>"

text \<open>A scope is the list of its frames, the innermost first.\<close>

type_synonym frame = "string \<rightharpoonup> binding"

fun scope_lookup :: "frame list \<Rightarrow> string \<Rightarrow> binding option" where
  "scope_lookup [] name = None"
| "scope_lookup (f # fs) name = (case f name of Some b \<Rightarrow> Some b | None \<Rightarrow> scope_lookup fs name)"

record verifyCtx =
  c_fns :: "string \<rightharpoonup> Function"
  c_externFns :: "string \<rightharpoonup> ExternFuncDecl"
  c_records :: "string \<rightharpoonup> RecordDecl"
  c_unions :: "string \<rightharpoonup> UnionDecl"
  c_agents :: "string \<rightharpoonup> AgentDecl"
  c_scope :: "frame list"
  c_loopDepth :: nat
  c_return :: Shape

section \<open>What an expression carries beside its type\<close>

definition exprRecordName :: "operand \<Rightarrow> string" where
  "exprRecordName x =
     (case fst x of
        Some (VarRefE v) \<Rightarrow> sh_RecordName (vr_Shape v)
      | Some (RecordLit n fs) \<Rightarrow> n
      | Some (FieldAccess r rn f res rrn) \<Rightarrow> rrn
      | Some (CallExpr f args res) \<Rightarrow> sh_RecordName res
      | Some (IndexExpr r i info) \<Rightarrow> el_ElemRecordName info
      | _ \<Rightarrow> [])"

text \<open>The nodes that carry the description of a list: variables, literals, calls, append, sort and slice.\<close>

definition list_info :: "Expr \<Rightarrow> ElemInfo option" where
  "list_info e =
     (case e of
        VarRefE v \<Rightarrow> Some (sh_Elem (vr_Shape v))
      | ListLit i es \<Rightarrow> Some i
      | CallExpr f args res \<Rightarrow> Some (sh_Elem res)
      | AppendExpr r v i \<Rightarrow> Some i
      | ListSortAscExpr r i \<Rightarrow> Some i
      | ListSliceExpr r a b i \<Rightarrow> Some i
      | _ \<Rightarrow> None)"

definition exprElemRecordName :: "operand \<Rightarrow> string" where
  "exprElemRecordName x =
     (case fst x of
        None \<Rightarrow> []
      | Some e \<Rightarrow> (case list_info e of Some i \<Rightarrow> el_ElemRecordName i | None \<Rightarrow> []))"

definition exprElemType :: "operand \<Rightarrow> IrType" where
  "exprElemType x =
     (case fst x of
        None \<Rightarrow> TypeInvalid
      | Some e \<Rightarrow>
          (case list_info e of
             Some i \<Rightarrow> el_ElemType i
           | None \<Rightarrow>
               (case e of
                  IndexExpr r j i \<Rightarrow> if el_ElemType i = TypeList then el_InnerElemType i else TypeInvalid
                | MapGetExpr r k i \<Rightarrow> if mi_ValueType i = TypeList then mi_ListValueElemType i else TypeInvalid
                | MapKeysExpr r i \<Rightarrow> mi_KeyType i
                | MapValuesExpr r i \<Rightarrow> mi_ValueType i
                | StrSplitExpr s p \<Rightarrow> TypeString
                | LinesExpr p \<Rightarrow> TypeString
                | LoadCSVExpr p \<Rightarrow> TypeList
                | RawCExpr c t \<Rightarrow> if t = TypeList then TypeString else TypeInvalid
                | DatalogQueryExpr q \<Rightarrow> TypeString
                | ListMapExpr l f t \<Rightarrow> t
                | ListFilterExpr l f t \<Rightarrow> t
                | SetToListExpr r t \<Rightarrow> t
                | _ \<Rightarrow> TypeInvalid)))"

definition exprInnerElemType :: "operand \<Rightarrow> IrType" where
  "exprInnerElemType x =
     (case fst x of
        None \<Rightarrow> TypeInvalid
      | Some e \<Rightarrow>
          (case list_info e of
             Some i \<Rightarrow> el_InnerElemType i
           | None \<Rightarrow>
               (case e of
                  IndexExpr r j i \<Rightarrow> el_InnerElemType i
                | MapValuesExpr r i \<Rightarrow> mi_ListValueElemType i
                | LoadCSVExpr p \<Rightarrow> TypeString
                | _ \<Rightarrow> TypeInvalid)))"

definition exprKeyType :: "operand \<Rightarrow> IrType" where
  "exprKeyType x =
     (case fst x of
        Some (VarRefE v) \<Rightarrow> mi_KeyType (sh_Map (vr_Shape v))
      | Some (MapLit i ks vs) \<Rightarrow> mi_KeyType i
      | Some (CallExpr f args res) \<Rightarrow> mi_KeyType (sh_Map res)
      | Some (IndexExpr r j i) \<Rightarrow> if el_ElemType i = TypeMap then el_MapElemKeyType i else TypeInvalid
      | Some (JsonDecodeExpr y) \<Rightarrow> TypeString
      | Some (OMapLiteralExpr ks vs kt vt) \<Rightarrow> kt
      | Some (OMapSetExpr r k v kt vt) \<Rightarrow> kt
      | _ \<Rightarrow> TypeInvalid)"

definition exprValueType :: "operand \<Rightarrow> IrType" where
  "exprValueType x =
     (case fst x of
        Some (VarRefE v) \<Rightarrow> mi_ValueType (sh_Map (vr_Shape v))
      | Some (MapLit i ks vs) \<Rightarrow> mi_ValueType i
      | Some (CallExpr f args res) \<Rightarrow> mi_ValueType (sh_Map res)
      | Some (IndexExpr r j i) \<Rightarrow> if el_ElemType i = TypeMap then el_MapElemValueType i else TypeInvalid
      | Some (JsonDecodeExpr y) \<Rightarrow> TypeString
      | Some (OMapLiteralExpr ks vs kt vt) \<Rightarrow> vt
      | Some (OMapSetExpr r k v kt vt) \<Rightarrow> vt
      | _ \<Rightarrow> TypeInvalid)"

definition exprListValueElemType :: "operand \<Rightarrow> IrType" where
  "exprListValueElemType x =
     (case fst x of
        Some (VarRefE v) \<Rightarrow> mi_ListValueElemType (sh_Map (vr_Shape v))
      | Some (MapLit i ks vs) \<Rightarrow> mi_ListValueElemType i
      | Some (CallExpr f args res) \<Rightarrow> mi_ListValueElemType (sh_Map res)
      | _ \<Rightarrow> TypeInvalid)"

definition exprMapElemKeyType :: "operand \<Rightarrow> IrType" where
  "exprMapElemKeyType x =
     (case fst x of
        None \<Rightarrow> TypeInvalid
      | Some e \<Rightarrow> (case list_info e of Some i \<Rightarrow> el_MapElemKeyType i | None \<Rightarrow> TypeInvalid))"

definition exprMapElemValueType :: "operand \<Rightarrow> IrType" where
  "exprMapElemValueType x =
     (case fst x of
        None \<Rightarrow> TypeInvalid
      | Some e \<Rightarrow> (case list_info e of Some i \<Rightarrow> el_MapElemValueType i | None \<Rightarrow> TypeInvalid))"

definition exprSetElemType :: "operand \<Rightarrow> IrType" where
  "exprSetElemType x =
     (case fst x of
        Some (VarRefE v) \<Rightarrow>
          if sh_Type (vr_Shape v) = TypeSet then el_ElemType (sh_Elem (vr_Shape v)) else TypeInvalid
      | Some (SetLiteralExpr es t) \<Rightarrow> t
      | Some (SetAddExpr r e t) \<Rightarrow> t
      | _ \<Rightarrow> TypeInvalid)"

definition isScalarElemType :: "IrType \<Rightarrow> bool" where
  "isScalarElemType t \<longleftrightarrow> t \<in> {TypeInt, TypeFloat, TypeBool, TypeString}"

definition isListElemType :: "IrType \<Rightarrow> bool" where
  "isListElemType t \<longleftrightarrow>
     t \<in> {TypeInt, TypeFloat, TypeBool, TypeString, TypeRecord, TypeList, TypeMap, TypeFuture}"

definition isScalarKeyType :: "IrType \<Rightarrow> bool" where
  "isScalarKeyType t \<longleftrightarrow> t \<in> {TypeInt, TypeString}"

definition isScalarValueType :: "IrType \<Rightarrow> bool" where
  "isScalarValueType t \<longleftrightarrow> t \<in> {TypeInt, TypeFloat, TypeBool, TypeString}"

definition isMapValueType :: "IrType \<Rightarrow> bool" where
  "isMapValueType t \<longleftrightarrow> t \<in> {TypeInt, TypeFloat, TypeBool, TypeString, TypeList}"

definition binOpSignature :: "BinOp \<Rightarrow> (IrType \<times> IrType \<times> IrType) option" where
  "binOpSignature bop =
     (if bop \<in> {BinAddI64, BinSubI64, BinMulI64, BinDivI64, BinModI64} then Some (TypeInt, TypeInt, TypeInt)
      else if bop \<in> {BinAddF64, BinSubF64, BinMulF64, BinDivF64} then Some (TypeFloat, TypeFloat, TypeFloat)
      else if bop \<in> {BinEqI64, BinNeI64, BinLtI64, BinLeI64, BinGtI64, BinGeI64} then Some (TypeInt, TypeInt, TypeBool)
      else if bop \<in> {BinEqF64, BinNeF64, BinLtF64, BinLeF64, BinGtF64, BinGeF64}
      then Some (TypeFloat, TypeFloat, TypeBool)
      else if bop \<in> {BinEqBool, BinNeBool, BinAndBool, BinOrBool} then Some (TypeBool, TypeBool, TypeBool)
      else if bop \<in> {BinEqStr, BinNeStr} then Some (TypeString, TypeString, TypeBool)
      else if bop = BinStrCat then Some (TypeString, TypeString, TypeString)
      else if bop \<in> {BinEqRec, BinNeRec} then Some (TypeRecord, TypeRecord, TypeBool)
      else if bop \<in> {BinEqList, BinNeList} then Some (TypeList, TypeList, TypeBool)
      else if bop \<in> {BinEqMap, BinNeMap} then Some (TypeMap, TypeMap, TypeBool)
      else None)"

definition unOpSignature :: "UnOp \<Rightarrow> (IrType \<times> IrType) option" where
  "unOpSignature uop =
     (case uop of
        UnNegI64 \<Rightarrow> Some (TypeInt, TypeInt)
      | UnNegF64 \<Rightarrow> Some (TypeFloat, TypeFloat)
      | UnNotBool \<Rightarrow> Some (TypeBool, TypeBool)
      | UnInvalid \<Rightarrow> None)"

section \<open>Variables, calls and literals\<close>

definition fails :: "string \<Rightarrow> check" where "fails msg = Some (Inl (Errorf msg []))"

definition verifyVarRef :: "verifyCtx \<Rightarrow> VarRef \<Rightarrow> check" where
  "verifyVarRef ctx v =
     (case scope_lookup (c_scope ctx) (vr_Name v) of
        None \<Rightarrow> fails ''unresolved variable %q''
      | Some b \<Rightarrow>
          let s = vr_Shape v; e = sh_Elem s; m = sh_Map s; h = vr_Handles v in
          checks
            [require (sh_Type s = b_t b) ''variable %q has type %s in scope, ref says %s'',
             require (b_t b = TypeRecord \<longrightarrow> sh_RecordName s = b_record b)
               ''variable %q has record %q in scope, ref says %q'',
             require (b_t b = TypeList \<longrightarrow> el_ElemType e = b_elem b)
               ''variable %q has list<%s> in scope, ref says list<%s>'',
             require (b_t b = TypeList \<and> b_elem b = TypeRecord \<longrightarrow> el_ElemRecordName e = b_elemRec b)
               ''variable %q has list<%s> in scope, ref says list<%s>'',
             whenever (b_t b = TypeList \<and> b_elem b = TypeMap)
               [require (el_MapElemKeyType e = b_mapElemKey b)
                  ''variable %q has list<map<%s,_>> in scope, ref says list<map<%s,_>>'',
                require (el_MapElemValueType e = b_mapElemValue b)
                  ''variable %q has list<map<_,%s>> in scope, ref says list<map<_,%s>>''],
             whenever (b_t b = TypeMap)
               [require (mi_KeyType m = b_key b) ''variable %q has map<%s,_> in scope, ref says map<%s,_>'',
                require (mi_ValueType m = b_value b) ''variable %q has map<_,%s> in scope, ref says map<_,%s>'',
                require (b_value b = TypeList \<longrightarrow> mi_ListValueElemType m = b_listValElem b)
                  ''variable %q has map<_,list<%s>> in scope, ref says map<_,list<%s>>''],
             require (b_t b = TypeChan \<longrightarrow> hd_ChanElemType h = b_chanElem b)
               ''variable %q has chan<%s> in scope, ref says chan<%s>'',
             require (b_t b = TypeStream \<longrightarrow> hd_StreamElemType h = b_streamElem b)
               ''variable %q has stream<%s> in scope, ref says stream<%s>'',
             require (b_t b = TypeSub \<longrightarrow> hd_SubElemType h = b_subElem b)
               ''variable %q has sub<%s> in scope, ref says sub<%s>'',
             require (b_t b = TypeAgent \<longrightarrow> hd_AgentName h = b_agentName b)
               ''variable %q has agent %q in scope, ref says %q''])"

definition verifyUnionVarRef :: "verifyCtx \<Rightarrow> string \<Rightarrow> string \<Rightarrow> check" where
  "verifyUnionVarRef ctx name unionName =
     (case scope_lookup (c_scope ctx) name of
        None \<Rightarrow> fails ''unresolved variable %q''
      | Some b \<Rightarrow>
          checks
            [require (b_t b = TypeUnion) ''variable %q is not union-typed (got %s)'',
             require (b_union b = unionName) ''variable %q has union %q in scope, ref says %q''])"

definition verifyAgentSpawn :: "verifyCtx \<Rightarrow> string \<Rightarrow> operand list \<Rightarrow> check" where
  "verifyAgentSpawn ctx agent args =
     checks
       ([require (agent \<noteq> []) ''AgentSpawnExpr with empty AgentName'',
         require (c_agents ctx agent \<noteq> None) ''AgentSpawnExpr: agent %q is not declared''] @
        map (\<lambda>a. checks [require (present a) ''AgentSpawnExpr %q init arg %d is nil'',
                          within ''AgentSpawnExpr %q init arg %d: %w'' (verified a)]) args)"

definition verifyAgentLit :: "verifyCtx \<Rightarrow> string \<Rightarrow> (string \<times> operand) list \<Rightarrow> check" where
  "verifyAgentLit ctx agent fs =
     checks
       ([require (agent \<noteq> []) ''AgentLit with empty AgentName'',
         require (c_agents ctx agent \<noteq> None) ''AgentLit: agent %q is not declared''] @
        map (\<lambda>f. checks [require (present (snd f)) ''AgentLit %q field %d has nil Value'',
                          within ''AgentLit %q field %q: %w'' (verified (snd f))]) fs)"

text \<open>The first intent of an agent that has the name.\<close>

definition find_intent :: "AgentDecl \<Rightarrow> string \<Rightarrow> AgentIntentDecl option" where
  "find_intent ag name = find (\<lambda>i. ad_Name i = name) (ag_Intents ag)"

definition verifyIntentArg :: "operand \<Rightarrow> AgentIntentParam \<Rightarrow> check" where
  "verifyIntentArg a p =
     checks
       [require (present a) ''AgentIntentCallExpr %q.%q arg %d is nil'',
        within ''AgentIntentCallExpr %q.%q arg %d: %w'' (verified a),
        require (otype a = ai_Type p) ''AgentIntentCallExpr %q.%q arg %d: expected %s, got %s'']"

definition verifyAgentIntentCallExpr ::
  "verifyCtx \<Rightarrow> string \<Rightarrow> string \<Rightarrow> operand \<Rightarrow> operand list \<Rightarrow> IrType \<Rightarrow> check" where
  "verifyAgentIntentCallExpr ctx agent intentName recv args res =
     checks
       [require (agent \<noteq> []) ''AgentIntentCallExpr: empty AgentName'',
        require (intentName \<noteq> []) ''AgentIntentCallExpr: empty IntentName'',
        require (present recv) ''AgentIntentCallExpr: nil Receiver'',
        require (otype recv = TypeAgent) ''AgentIntentCallExpr: Receiver must be TypeAgent, got %s'',
        within ''AgentIntentCallExpr receiver: %w'' (verified recv),
        (case c_agents ctx agent of
           None \<Rightarrow> fails ''AgentIntentCallExpr: agent %q is not declared''
         | Some ag \<Rightarrow>
             (case find_intent ag intentName of
                None \<Rightarrow> fails ''AgentIntentCallExpr: agent %q has no intent %q''
              | Some intent \<Rightarrow>
                  checks
                    ([require (res = ad_ReturnType intent)
                        ''AgentIntentCallExpr %q.%q: Result %s != intent ReturnType %s'',
                      require (length args = length (ad_Params intent))
                        ''AgentIntentCallExpr: agent %q intent %q expects %d args, got %d''] @
                     map2 verifyIntentArg args (ad_Params intent))))]"

definition verifyExternArg :: "operand \<Rightarrow> Param \<Rightarrow> check" where
  "verifyExternArg a p =
     checks
       [require (present a) ''extern call %q arg %d is nil'',
        within ''extern call %q arg %d: %w'' (verified a),
        require (otype a = sh_Type (pa_Shape p)) ''extern call %q arg %d: expected %s, got %s'']"

definition verifyExternCall :: "ExternFuncDecl \<Rightarrow> operand list \<Rightarrow> Shape \<Rightarrow> check" where
  "verifyExternCall ef args res =
     checks
       ([require (ef_ReturnType ef \<noteq> TypeUnit)
           ''extern callee %q returns unit; use a statement form, not an expression'',
         require (sh_Type res = ef_ReturnType ef) ''extern call %q result %s does not match declared return %s'',
         require (length (ef_Params ef) = length args) ''extern call %q expects %d args, got %d''] @
        map2 verifyExternArg args (ef_Params ef))"

definition verifyCallArg :: "operand \<Rightarrow> Param \<Rightarrow> check" where
  "verifyCallArg a p =
     (let s = pa_Shape p; e = sh_Elem s; m = sh_Map s in
      checks
        [require (present a) ''call %q arg %d is nil'',
         within ''call %q arg %d: %w'' (verified a),
         require (otype a = sh_Type s) ''call %q arg %d: expected %s, got %s'',
         require (sh_Type s = TypeRecord \<longrightarrow> exprRecordName a = sh_RecordName s)
           ''call %q arg %d: expected record %q, got %q'',
         whenever (sh_Type s = TypeList)
           [require (exprElemType a = el_ElemType e) ''call %q arg %d: expected list<%s>, got list<%s>'',
            require (el_ElemType e = TypeRecord \<longrightarrow> exprElemRecordName a = el_ElemRecordName e)
              ''call %q arg %d: expected list<%s>, got list<%s>'',
            require (el_ElemType e = TypeList \<longrightarrow> exprInnerElemType a = el_InnerElemType e)
              ''call %q arg %d: expected list<list<%s>>, got list<list<%s>>'',
            whenever (el_ElemType e = TypeMap)
              [require (exprMapElemKeyType a = el_MapElemKeyType e)
                 ''call %q arg %d: expected list<map<%s,_>>, got list<map<%s,_>>'',
               require (exprMapElemValueType a = el_MapElemValueType e)
                 ''call %q arg %d: expected list<map<_,%s>>, got list<map<_,%s>>'']],
         whenever (sh_Type s = TypeMap)
           [require (exprKeyType a = mi_KeyType m) ''call %q arg %d: expected map<%s,_>, got map<%s,_>'',
            require (exprValueType a = mi_ValueType m) ''call %q arg %d: expected map<_,%s>, got map<_,%s>'',
            require (mi_ValueType m = TypeList \<longrightarrow> exprListValueElemType a = mi_ListValueElemType m)
              ''call %q arg %d: expected map<_,list<%s>>, got map<_,list<%s>>'']])"

definition verifyFnCall :: "Function \<Rightarrow> operand list \<Rightarrow> Shape \<Rightarrow> check" where
  "verifyFnCall fn args res =
     (let r = fu_Return fn; e = sh_Elem r; m = sh_Map r; e' = sh_Elem res; m' = sh_Map res in
      checks
        ([require (sh_Type r \<noteq> TypeUnit) ''callee %q returns unit; use a statement form, not an expression'',
          require (sh_Type res = sh_Type r) ''call %q result %s does not match callee return %s'',
          require (sh_Type r = TypeRecord \<longrightarrow> sh_RecordName res = sh_RecordName r)
            ''call %q result record %q does not match callee return record %q'',
          require (sh_Type r = TypeList \<longrightarrow> el_ElemType e' = el_ElemType e)
            ''call %q result list<%s> does not match callee return list<%s>'',
          require (sh_Type r = TypeList \<and> el_ElemType e = TypeRecord \<longrightarrow> el_ElemRecordName e' = el_ElemRecordName e)
            ''call %q result list<%s> does not match callee return list<%s>'',
          require (sh_Type r = TypeList \<and> el_ElemType e = TypeList \<longrightarrow> el_InnerElemType e' = el_InnerElemType e)
            ''call %q result list<list<%s>> does not match callee return list<list<%s>>'',
          whenever (sh_Type r = TypeList \<and> el_ElemType e = TypeMap)
            [require (el_MapElemKeyType e' = el_MapElemKeyType e)
               ''call %q result list<map<%s,_>> does not match callee return list<map<%s,_>>'',
             require (el_MapElemValueType e' = el_MapElemValueType e)
               ''call %q result list<map<_,%s>> does not match callee return list<map<_,%s>>''],
          whenever (sh_Type r = TypeMap)
            [require (mi_KeyType m' = mi_KeyType m) ''call %q result map<%s,_> does not match callee return map<%s,_>'',
             require (mi_ValueType m' = mi_ValueType m)
               ''call %q result map<_,%s> does not match callee return map<_,%s>'',
             require (mi_ValueType m = TypeList \<longrightarrow> mi_ListValueElemType m' = mi_ListValueElemType m)
               ''call %q result map<_,list<%s>> does not match callee return map<_,list<%s>>''],
          require (length (fu_Params fn) = length args) ''call %q expects %d args, got %d''] @
         map2 verifyCallArg args (fu_Params fn)))"

definition verifyCallExpr :: "verifyCtx \<Rightarrow> string \<Rightarrow> operand list \<Rightarrow> Shape \<Rightarrow> check" where
  "verifyCallExpr ctx func args res =
     (if func = ''__await_all__'' then
        checks
          [require (length args = 1) ''__await_all__: expected 1 arg, got %d'',
           within ''__await_all__ arg: %w'' (verified (hd args))]
      else
        case c_externFns ctx func of
          Some ef \<Rightarrow> verifyExternCall ef args res
        | None \<Rightarrow>
            (case c_fns ctx func of
               None \<Rightarrow> fails ''unresolved callee %q in expression position''
             | Some fn \<Rightarrow> verifyFnCall fn args res))"

definition verifyRecordField :: "string \<times> operand \<Rightarrow> RecordField \<Rightarrow> check" where
  "verifyRecordField f want =
     checks
       [require (fst f = rf_Name want) ''record literal %q field %d: expected %q, got %q'',
        require (present (snd f)) ''record literal %q field %q: nil Value'',
        within ''record literal %q field %q: %w'' (verified (snd f)),
        require (otype (snd f) = rf_Type want) ''record literal %q field %q: declared %s, value produces %s'']"

definition verifyRecordLit :: "verifyCtx \<Rightarrow> string \<Rightarrow> (string \<times> operand) list \<Rightarrow> check" where
  "verifyRecordLit ctx typeName fs =
     checks
       [require (typeName \<noteq> []) ''record literal with empty TypeName'',
        (case c_records ctx typeName of
           None \<Rightarrow> fails ''record literal %q: record not declared''
         | Some decl \<Rightarrow>
             checks
               (require (length fs = length (rd_Fields decl)) ''record literal %q: expected %d fields, got %d'' #
                map2 verifyRecordField fs (rd_Fields decl)))]"

definition verifyFieldAccess ::
  "verifyCtx \<Rightarrow> operand \<Rightarrow> string \<Rightarrow> string \<Rightarrow> IrType \<Rightarrow> string \<Rightarrow> check" where
  "verifyFieldAccess ctx recv recordName fieldName res resRecord =
     checks
       [require (present recv) ''field access with nil Receiver'',
        within ''field access receiver: %w'' (verified recv),
        require (otype recv = TypeRecord) ''field access %q: receiver is %s, expected record'',
        require (exprRecordName recv = recordName)
          ''field access %q: receiver record %q does not match annotated %q'',
        (case c_records ctx recordName of
           None \<Rightarrow> fails ''field access %q: record %q is not declared''
         | Some decl \<Rightarrow>
             (case find (\<lambda>df. rf_Name df = fieldName) (rd_Fields decl) of
                None \<Rightarrow> fails ''field access %q: record %q has no field %q''
              | Some df \<Rightarrow>
                  checks
                    [require (res = rf_Type df) ''field access %s.%s: declared %s, access result %s'',
                     require (rf_Type df = TypeRecord \<longrightarrow> resRecord = rf_RecordName df)
                       ''field access %s.%s: declared record %q, access result record %q'']))]"

section \<open>Lists\<close>

definition verifyListElem :: "ElemInfo \<Rightarrow> operand \<Rightarrow> check" where
  "verifyListElem i x =
     checks
       [require (present x) ''list literal element %d is nil'',
        within ''list literal element %d: %w'' (verified x),
        require (otype x = el_ElemType i) ''list literal element %d: declared %s, got %s'',
        require (el_ElemType i = TypeRecord \<longrightarrow> exprRecordName x = el_ElemRecordName i)
          ''list literal element %d: declared record %q, got %q'',
        require (el_ElemType i = TypeList \<longrightarrow> exprElemType x = el_InnerElemType i)
          ''list literal element %d: declared list<%s>, got list<%s>'',
        whenever (el_ElemType i = TypeMap)
          [require (exprKeyType x = el_MapElemKeyType i) ''list literal element %d: declared map<%s,_>, got map<%s,_>'',
           require (exprValueType x = el_MapElemValueType i)
             ''list literal element %d: declared map<_,%s>, got map<_,%s>'']]"

definition verifyListLit :: "verifyCtx \<Rightarrow> ElemInfo \<Rightarrow> operand list \<Rightarrow> check" where
  "verifyListLit ctx i elems =
     checks
       ([require (isListElemType (el_ElemType i))
           ''list literal: ElemType %s not supported (Phase 3.4a supports scalar or record element types)'',
         (if el_ElemType i = TypeRecord then
            checks
              [require (el_ElemRecordName i \<noteq> []) ''list literal of records missing ElemRecordName'',
               require (c_records ctx (el_ElemRecordName i) \<noteq> None)
                 ''list literal: element record %q is not declared'']
          else require (el_ElemRecordName i = [])
            ''list literal: ElemRecordName set on list<%s> (only valid when ElemType==record)''),
         (if el_ElemType i = TypeList then
            require (isScalarElemType (el_InnerElemType i))
              ''list literal: list<list<T>> requires scalar inner, got InnerElemType %s''
          else require (el_InnerElemType i = TypeInvalid)
            ''list literal: InnerElemType set on list<%s> (only valid when ElemType==list)''),
         (if el_ElemType i = TypeMap then
            checks
              [require (isScalarKeyType (el_MapElemKeyType i))
                 ''list literal: list<map<K,V>> requires int or string key, got MapElemKeyType %s'',
               require (isScalarValueType (el_MapElemValueType i))
                 ''list literal: list<map<K,V>> requires scalar value, got MapElemValueType %s'']
          else require (el_MapElemKeyType i = TypeInvalid \<and> el_MapElemValueType i = TypeInvalid)
            ''list literal: MapElemKeyType/MapElemValueType set on list<%s> (only valid when ElemType==map)'')] @
        map (verifyListElem i) elems)"

definition verifyIndexExpr :: "operand \<Rightarrow> operand \<Rightarrow> ElemInfo \<Rightarrow> check" where
  "verifyIndexExpr recv index i =
     checks
       [require (present recv \<and> present index) ''index expression with nil Receiver or Index'',
        within ''index receiver: %w'' (verified recv),
        require (otype recv = TypeList) ''index receiver must be list, got %s'',
        require (exprElemType recv = el_ElemType i) ''index: receiver is list<%s>, ElemType stamped is %s'',
        require (isListElemType (el_ElemType i))
          ''index: ElemType %s not supported (Phase 3.4a supports scalar or record element types)'',
        (if el_ElemType i = TypeRecord then
           checks
             [require (el_ElemRecordName i \<noteq> []) ''index over list<record> missing ElemRecordName'',
              require (exprElemRecordName recv = el_ElemRecordName i)
                ''index: receiver is list<%s>, ElemRecordName stamped is %s'']
         else require (el_ElemRecordName i = [])
           ''index: ElemRecordName set on list<%s> (only valid when ElemType==record)''),
        (if el_ElemType i = TypeList then
           checks
             [require (isScalarElemType (el_InnerElemType i))
                ''index over list<list<T>> requires scalar inner, got InnerElemType %s'',
              require (exprInnerElemType recv = el_InnerElemType i)
                ''index: receiver is list<list<%s>>, InnerElemType stamped is %s'']
         else require (el_InnerElemType i = TypeInvalid)
           ''index: InnerElemType set on list<%s> (only valid when ElemType==list)''),
        (if el_ElemType i = TypeMap then
           checks
             [require (isScalarKeyType (el_MapElemKeyType i))
                ''index over list<map<K,V>> requires int or string key, got MapElemKeyType %s'',
              require (isScalarValueType (el_MapElemValueType i))
                ''index over list<map<K,V>> requires scalar value, got MapElemValueType %s'']
         else require (el_MapElemKeyType i = TypeInvalid \<and> el_MapElemValueType i = TypeInvalid)
           ''index: MapElemKeyType/MapElemValueType set on list<%s> (only valid when ElemType==map)''),
        within ''index value: %w'' (verified index),
        require (otype index = TypeInt) ''index must be int, got %s'']"

definition verifyLenExpr :: "operand \<Rightarrow> ElemInfo \<Rightarrow> check" where
  "verifyLenExpr recv i =
     checks
       [require (present recv) ''len() with nil Receiver'',
        within ''len receiver: %w'' (verified recv),
        require (otype recv = TypeList) ''len() argument must be list, got %s'',
        require (exprElemType recv = el_ElemType i) ''len: receiver is list<%s>, ElemType stamped is %s'',
        require (isListElemType (el_ElemType i))
          ''len: ElemType %s not supported (Phase 3.4a supports scalar or record element types)'',
        (if el_ElemType i = TypeRecord then
           checks
             [require (el_ElemRecordName i \<noteq> []) ''len() over list<record> missing ElemRecordName'',
              require (exprElemRecordName recv = el_ElemRecordName i)
                ''len: receiver is list<%s>, ElemRecordName stamped is %s'']
         else require (el_ElemRecordName i = [])
           ''len: ElemRecordName set on list<%s> (only valid when ElemType==record)''),
        (if el_ElemType i = TypeList then
           checks
             [require (isScalarElemType (el_InnerElemType i))
                ''len over list<list<T>> requires scalar inner, got InnerElemType %s'',
              require (exprInnerElemType recv = el_InnerElemType i)
                ''len: receiver is list<list<%s>>, InnerElemType stamped is %s'']
         else require (el_InnerElemType i = TypeInvalid)
           ''len: InnerElemType set on list<%s> (only valid when ElemType==list)''),
        (if el_ElemType i = TypeMap then
           checks
             [require (isScalarKeyType (el_MapElemKeyType i))
                ''len over list<map<K,V>> requires int or string key, got MapElemKeyType %s'',
              require (isScalarValueType (el_MapElemValueType i))
                ''len over list<map<K,V>> requires scalar value, got MapElemValueType %s'']
         else require (el_MapElemKeyType i = TypeInvalid \<and> el_MapElemValueType i = TypeInvalid)
           ''len: MapElemKeyType/MapElemValueType set on list<%s> (only valid when ElemType==map)'')]"

definition verifyAppendExpr :: "operand \<Rightarrow> operand \<Rightarrow> ElemInfo \<Rightarrow> check" where
  "verifyAppendExpr recv val i =
     checks
       [require (present recv \<and> present val) ''append with nil Receiver or Value'',
        within ''append receiver: %w'' (verified recv),
        require (otype recv = TypeList) ''append receiver must be list, got %s'',
        require (exprElemType recv = el_ElemType i) ''append: receiver is list<%s>, ElemType stamped is %s'',
        require (isListElemType (el_ElemType i))
          ''append: ElemType %s not supported (Phase 3.4a supports scalar or record element types)'',
        (if el_ElemType i = TypeRecord then
           checks
             [require (el_ElemRecordName i \<noteq> []) ''append over list<record> missing ElemRecordName'',
              require (exprElemRecordName recv = el_ElemRecordName i)
                ''append: receiver is list<%s>, ElemRecordName stamped is %s'']
         else require (el_ElemRecordName i = [])
           ''append: ElemRecordName set on list<%s> (only valid when ElemType==record)''),
        within ''append value: %w'' (verified val),
        require (otype val = el_ElemType i) ''append value: expected %s, got %s'',
        require (el_ElemType i = TypeRecord \<longrightarrow> exprRecordName val = el_ElemRecordName i)
          ''append value: expected record %q, got %q'',
        (if el_ElemType i = TypeList then
           checks
             [require (isScalarElemType (el_InnerElemType i))
                ''append over list<list<T>> requires scalar inner, got InnerElemType %s'',
              require (exprInnerElemType recv = el_InnerElemType i)
                ''append: receiver is list<list<%s>>, InnerElemType stamped is %s'',
              require (exprElemType val = el_InnerElemType i) ''append value: expected list<%s>, got list<%s>'']
         else require (el_InnerElemType i = TypeInvalid)
           ''append: InnerElemType set on list<%s> (only valid when ElemType==list)''),
        (if el_ElemType i = TypeMap then
           checks
             [require (isScalarKeyType (el_MapElemKeyType i))
                ''append over list<map<K,V>> requires int or string key, got MapElemKeyType %s'',
              require (isScalarValueType (el_MapElemValueType i))
                ''append over list<map<K,V>> requires scalar value, got MapElemValueType %s'',
              require (exprKeyType val = el_MapElemKeyType i) ''append value: expected map<%s,_>, got map<%s,_>'',
              require (exprValueType val = el_MapElemValueType i) ''append value: expected map<_,%s>, got map<_,%s>'']
         else require (el_MapElemKeyType i = TypeInvalid \<and> el_MapElemValueType i = TypeInvalid)
           ''append: MapElemKeyType/MapElemValueType set on list<%s> (only valid when ElemType==map)'')]"

section \<open>Maps, sets and ordered maps\<close>

definition verifyMapLit :: "MapInfo \<Rightarrow> operand list \<Rightarrow> operand list \<Rightarrow> check" where
  "verifyMapLit i ks vs =
     checks
       ([require (isScalarKeyType (mi_KeyType i))
           ''map literal: KeyType %s not supported (Phase 3.2 supports int or string keys only)'',
         require (isMapValueType (mi_ValueType i))
           ''map literal: ValueType %s not supported (Phase 3.2/3.4e supports scalar or list values)'',
         (if mi_ValueType i = TypeList then
            require (isScalarElemType (mi_ListValueElemType i))
              ''map literal: map<_,list<T>> requires scalar inner, got ListValueElemType %s''
          else require (mi_ListValueElemType i = TypeInvalid)
            ''map literal: ListValueElemType set on map<_,%s> (only valid when value is list)''),
         require (length ks = length vs) ''map literal: %d keys but %d values''] @
        map (\<lambda>k. checks
          [require (present k) ''map literal key %d is nil'',
           within ''map literal key %d: %w'' (verified k),
           require (otype k = mi_KeyType i) ''map literal key %d: declared %s, got %s'']) ks @
        map (\<lambda>v. checks
          [require (present v) ''map literal value %d is nil'',
           within ''map literal value %d: %w'' (verified v),
           require (otype v = mi_ValueType i) ''map literal value %d: declared %s, got %s'',
           require (mi_ValueType i = TypeList \<longrightarrow> exprElemType v = mi_ListValueElemType i)
             ''map literal value %d: declared list<%s>, got list<%s>'']) vs)"

definition verifyMapGetExpr :: "operand \<Rightarrow> operand \<Rightarrow> MapInfo \<Rightarrow> check" where
  "verifyMapGetExpr recv key i =
     checks
       [require (present recv \<and> present key) ''map get with nil Receiver or Key'',
        within ''map get receiver: %w'' (verified recv),
        require (otype recv = TypeMap) ''map get receiver must be map, got %s'',
        require (exprKeyType recv = mi_KeyType i) ''map get: receiver is map<%s,_>, KeyType stamped is %s'',
        require (exprValueType recv = mi_ValueType i) ''map get: receiver is map<_,%s>, ValueType stamped is %s'',
        require (isScalarKeyType (mi_KeyType i))
          ''map get: KeyType %s not supported (Phase 3.2 supports int or string keys only)'',
        require (isMapValueType (mi_ValueType i))
          ''map get: ValueType %s not supported (Phase 3.2/3.4e supports scalar or list values)'',
        (if mi_ValueType i = TypeList then
           checks
             [require (exprListValueElemType recv = mi_ListValueElemType i)
                ''map get: receiver is map<_,list<%s>>, ListValueElemType stamped is %s'',
              require (isScalarElemType (mi_ListValueElemType i))
                ''map get: map<_,list<T>> requires scalar inner, got ListValueElemType %s'']
         else require (mi_ListValueElemType i = TypeInvalid)
           ''map get: ListValueElemType set on map<_,%s> (only valid when value is list)''),
        within ''map get key: %w'' (verified key),
        require (otype key = mi_KeyType i) ''map get key: expected %s, got %s'']"

definition verifyMapHasExpr :: "operand \<Rightarrow> operand \<Rightarrow> MapInfo \<Rightarrow> check" where
  "verifyMapHasExpr recv key i =
     checks
       [require (present recv \<and> present key) ''map has with nil Receiver or Key'',
        within ''map has receiver: %w'' (verified recv),
        require (otype recv = TypeMap) ''map has receiver must be map, got %s'',
        require (exprKeyType recv = mi_KeyType i) ''map has: receiver is map<%s,_>, KeyType stamped is %s'',
        require (exprValueType recv = mi_ValueType i) ''map has: receiver is map<_,%s>, ValueType stamped is %s'',
        require (isScalarKeyType (mi_KeyType i))
          ''map has: KeyType %s not supported (Phase 3.2 supports int or string keys only)'',
        require (isMapValueType (mi_ValueType i))
          ''map has: ValueType %s not supported (Phase 3.2/3.4e supports scalar or list values)'',
        within ''map has key: %w'' (verified key),
        require (otype key = mi_KeyType i) ''map has key: expected %s, got %s'']"

definition verifyMapLenExpr :: "operand \<Rightarrow> MapInfo \<Rightarrow> check" where
  "verifyMapLenExpr recv i =
     checks
       [require (present recv) ''map len with nil Receiver'',
        within ''map len receiver: %w'' (verified recv),
        require (otype recv = TypeMap) ''map len receiver must be map, got %s'',
        require (exprKeyType recv = mi_KeyType i) ''map len: receiver is map<%s,_>, KeyType stamped is %s'',
        require (exprValueType recv = mi_ValueType i) ''map len: receiver is map<_,%s>, ValueType stamped is %s'',
        require (isScalarKeyType (mi_KeyType i))
          ''map len: KeyType %s not supported (Phase 3.2 supports int or string keys only)'',
        require (isMapValueType (mi_ValueType i))
          ''map len: ValueType %s not supported (Phase 3.2/3.4e supports scalar or list values)'']"

definition verifyMapKeysExpr :: "operand \<Rightarrow> MapInfo \<Rightarrow> check" where
  "verifyMapKeysExpr recv i =
     checks
       [require (present recv) ''map keys with nil Receiver'',
        within ''map keys receiver: %w'' (verified recv),
        require (otype recv = TypeMap) ''map keys receiver must be map, got %s'',
        require (exprKeyType recv = mi_KeyType i) ''map keys: receiver is map<%s,_>, KeyType stamped is %s'',
        require (exprValueType recv = mi_ValueType i) ''map keys: receiver is map<_,%s>, ValueType stamped is %s'',
        require (isScalarKeyType (mi_KeyType i))
          ''map keys: KeyType %s not supported (Phase 3.2 supports int or string keys only)'',
        require (isMapValueType (mi_ValueType i))
          ''map keys: ValueType %s not supported (Phase 3.2/3.4e supports scalar or list values)'']"

definition verifyMapValuesExpr :: "operand \<Rightarrow> MapInfo \<Rightarrow> check" where
  "verifyMapValuesExpr recv i =
     checks
       [require (present recv) ''map values with nil Receiver'',
        within ''map values receiver: %w'' (verified recv),
        require (otype recv = TypeMap) ''map values receiver must be map, got %s'',
        require (exprKeyType recv = mi_KeyType i) ''map values: receiver is map<%s,_>, KeyType stamped is %s'',
        require (exprValueType recv = mi_ValueType i) ''map values: receiver is map<_,%s>, ValueType stamped is %s'',
        require (isScalarKeyType (mi_KeyType i))
          ''map values: KeyType %s not supported (Phase 3.2 supports int or string keys only)'',
        require (isMapValueType (mi_ValueType i))
          ''map values: ValueType %s not supported (Phase 3.2/3.4e supports scalar or list values)'',
        (if mi_ValueType i = TypeList then
           checks
             [require (exprListValueElemType recv = mi_ListValueElemType i)
                ''map values: receiver is map<_,list<%s>>, ListValueElemType stamped is %s'',
              require (isScalarElemType (mi_ListValueElemType i))
                ''map values: map<_,list<T>> requires scalar inner, got ListValueElemType %s'']
         else require (mi_ListValueElemType i = TypeInvalid)
           ''map values: ListValueElemType set on map<_,%s> (only valid when value is list)'')]"

text \<open>A nil element was refused by the recursive call before its type is asked for.\<close>

definition verifySetLiteralExpr :: "operand list \<Rightarrow> IrType \<Rightarrow> check" where
  "verifySetLiteralExpr elems t =
     checks
       (require (isScalarElemType t) ''SetLiteralExpr: ElemType %s not supported (Phase 3.3 supports scalar element types)'' #
        map (\<lambda>x. checks
          [within ''SetLiteralExpr elem %d: %w'' (verified x),
           require (otype x = t) ''SetLiteralExpr elem %d: expected %s, got %s'']) elems)"

definition verifySetAddExpr :: "operand \<Rightarrow> operand \<Rightarrow> IrType \<Rightarrow> check" where
  "verifySetAddExpr recv el t =
     checks
       [require (present recv) ''SetAddExpr: nil Receiver'',
        within ''SetAddExpr receiver: %w'' (verified recv),
        require (otype recv = TypeSet) ''SetAddExpr: receiver must be TypeSet, got %s'',
        require (present el) ''SetAddExpr: nil Elem'',
        within ''SetAddExpr elem: %w'' (verified el),
        require (otype el = t) ''SetAddExpr: elem type %s does not match ElemType %s'']"

definition verifySetHasExpr :: "operand \<Rightarrow> operand \<Rightarrow> IrType \<Rightarrow> check" where
  "verifySetHasExpr recv el t =
     checks
       [require (present recv) ''SetHasExpr: nil Receiver'',
        within ''SetHasExpr receiver: %w'' (verified recv),
        require (otype recv = TypeSet) ''SetHasExpr: receiver must be TypeSet, got %s'',
        require (present el) ''SetHasExpr: nil Elem'',
        within ''SetHasExpr elem: %w'' (verified el),
        require (otype el = t) ''SetHasExpr: elem type %s does not match ElemType %s'']"

definition verifySetLenExpr :: "operand \<Rightarrow> check" where
  "verifySetLenExpr recv =
     checks
       [require (present recv) ''SetLenExpr: nil Receiver'',
        within ''SetLenExpr receiver: %w'' (verified recv),
        require (otype recv = TypeSet) ''SetLenExpr: receiver must be TypeSet, got %s'']"

definition verifyOMapEntry :: "IrType \<Rightarrow> IrType \<Rightarrow> operand \<Rightarrow> operand \<Rightarrow> check" where
  "verifyOMapEntry kt vt k v =
     checks
       [within ''OMapLiteralExpr key %d: %w'' (verified k),
        require (otype k = kt) ''OMapLiteralExpr key %d: expected %s, got %s'',
        within ''OMapLiteralExpr value %d: %w'' (verified v),
        require (otype v = vt) ''OMapLiteralExpr value %d: expected %s, got %s'']"

definition verifyOMapLiteralExpr :: "operand list \<Rightarrow> operand list \<Rightarrow> IrType \<Rightarrow> IrType \<Rightarrow> check" where
  "verifyOMapLiteralExpr ks vs kt vt =
     checks
       ([require (isScalarKeyType kt) ''OMapLiteralExpr: KeyType %s not supported (requires int or string)'',
         require (isScalarElemType vt) ''OMapLiteralExpr: ValueType %s not supported (requires scalar)'',
         require (length ks = length vs) ''OMapLiteralExpr: keys/values length mismatch (%d vs %d)''] @
        map2 (verifyOMapEntry kt vt) ks vs)"

definition verifyOMapGetExpr :: "operand \<Rightarrow> operand \<Rightarrow> IrType \<Rightarrow> check" where
  "verifyOMapGetExpr recv key kt =
     checks
       [require (present recv) ''OMapGetExpr: nil Receiver'',
        within ''OMapGetExpr receiver: %w'' (verified recv),
        require (otype recv = TypeOMap) ''OMapGetExpr: receiver must be TypeOMap, got %s'',
        require (present key) ''OMapGetExpr: nil Key'',
        within ''OMapGetExpr key: %w'' (verified key),
        require (otype key = kt) ''OMapGetExpr: key type %s does not match KeyType %s'']"

definition verifyOMapSetExpr :: "operand \<Rightarrow> operand \<Rightarrow> operand \<Rightarrow> IrType \<Rightarrow> IrType \<Rightarrow> check" where
  "verifyOMapSetExpr recv key val kt vt =
     checks
       [require (present recv) ''OMapSetExpr: nil Receiver'',
        within ''OMapSetExpr receiver: %w'' (verified recv),
        require (otype recv = TypeOMap) ''OMapSetExpr: receiver must be TypeOMap, got %s'',
        require (present key) ''OMapSetExpr: nil Key'',
        within ''OMapSetExpr key: %w'' (verified key),
        require (otype key = kt) ''OMapSetExpr: key type %s does not match KeyType %s'',
        require (present val) ''OMapSetExpr: nil Value'',
        within ''OMapSetExpr value: %w'' (verified val),
        require (otype val = vt) ''OMapSetExpr: value type %s does not match ValueType %s'']"

definition verifyOMapHasExpr :: "operand \<Rightarrow> operand \<Rightarrow> IrType \<Rightarrow> check" where
  "verifyOMapHasExpr recv key kt =
     checks
       [require (present recv) ''OMapHasExpr: nil Receiver'',
        within ''OMapHasExpr receiver: %w'' (verified recv),
        require (otype recv = TypeOMap) ''OMapHasExpr: receiver must be TypeOMap, got %s'',
        require (present key) ''OMapHasExpr: nil Key'',
        within ''OMapHasExpr key: %w'' (verified key),
        require (otype key = kt) ''OMapHasExpr: key type %s does not match KeyType %s'']"

definition verifyOMapLenExpr :: "operand \<Rightarrow> check" where
  "verifyOMapLenExpr recv =
     checks
       [require (present recv) ''OMapLenExpr: nil Receiver'',
        within ''OMapLenExpr receiver: %w'' (verified recv),
        require (otype recv = TypeOMap) ''OMapLenExpr: receiver must be TypeOMap, got %s'']"

definition verifySetToListExpr :: "operand \<Rightarrow> check" where
  "verifySetToListExpr recv =
     checks
       [require (present recv) ''SetToListExpr: nil Receiver'',
        within ''SetToListExpr receiver: %w'' (verified recv),
        require (otype recv = TypeSet) ''SetToListExpr: receiver must be TypeSet, got %s'']"

section \<open>Operators, strings and the rest\<close>

definition verifyBinaryExpr :: "verifyCtx \<Rightarrow> BinOp \<Rightarrow> operand \<Rightarrow> operand \<Rightarrow> IrType \<Rightarrow> check" where
  "verifyBinaryExpr ctx bop l r res =
     checks
       [require (present l \<and> present r) ''binary %v has nil operand'',
        verified l,
        verified r,
        (case binOpSignature bop of
           None \<Rightarrow> fails ''unhandled BinOp %d''
         | Some (lhs, rhs, want) \<Rightarrow>
             checks
               [require (otype l = lhs \<and> otype r = rhs) ''binary %v expects %s op %s, got %s op %s'',
                require (res = want) ''binary %v result %s does not match expected %s'',
                whenever (bop = BinEqRec \<or> bop = BinNeRec)
                  [require (exprRecordName l \<noteq> [] \<and> exprRecordName r \<noteq> [])
                     ''binary %v: record operands missing RecordName (left=%q right=%q)'',
                   require (exprRecordName l = exprRecordName r) ''binary %v: cannot compare record %q with record %q'',
                   require (c_records ctx (exprRecordName l) \<noteq> None) ''binary %v: record %q is not declared'']])]"

definition verifyUnaryExpr :: "UnOp \<Rightarrow> operand \<Rightarrow> IrType \<Rightarrow> check" where
  "verifyUnaryExpr uop x res =
     checks
       [require (present x) ''unary %v has nil operand'',
        verified x,
        (case unOpSignature uop of
           None \<Rightarrow> fails ''unhandled UnOp %d''
         | Some (t, want) \<Rightarrow>
             checks
               [require (otype x = t) ''unary %v expects %s, got %s'',
                require (res = want) ''unary %v result %s does not match expected %s''])]"

definition verifyMathCall :: "string \<Rightarrow> operand \<Rightarrow> IrType \<Rightarrow> check" where
  "verifyMathCall func arg res =
     checks
       [require (present arg) ''MathCallExpr: nil Arg'',
        (if func = ''abs_i64'' then
           checks [require (otype arg = TypeInt) ''MathCallExpr abs_i64: arg must be int, got %s'',
                   require (res = TypeInt) ''MathCallExpr abs_i64: result must be int, got %s'']
         else if func = ''abs_f64'' then
           checks [require (otype arg = TypeFloat) ''MathCallExpr abs_f64: arg must be float, got %s'',
                   require (res = TypeFloat) ''MathCallExpr abs_f64: result must be float, got %s'']
         else if func = ''floor'' \<or> func = ''ceil'' then
           checks [require (otype arg = TypeFloat) ''MathCallExpr %s: arg must be float, got %s'',
                   require (res = TypeFloat) ''MathCallExpr %s: result must be float, got %s'']
         else fails ''MathCallExpr: unknown Func %q''),
        verified arg]"

text \<open>The string operations do not test their operands for nil.\<close>

definition verifyStrOp :: "(operand \<times> IrType \<times> string) list \<Rightarrow> check" where
  "verifyStrOp xs =
     checks (concat (map (\<lambda>(x, t, msg). [dereference x, require (otype x = t) msg]) xs) @
             map (\<lambda>(x, t, msg). verified x) xs)"

definition verifyStrConvert :: "operand \<Rightarrow> check" where
  "verifyStrConvert x =
     checks
       [require (present x) ''StrConvertExpr: nil operand'',
        require (otype x \<in> {TypeInt, TypeFloat, TypeBool, TypeString})
          ''StrConvertExpr: operand must be int/float/bool/string, got %s'',
        verified x]"

text \<open>An operand that must be there and have a type.\<close>

definition verifyTyped :: "operand \<Rightarrow> IrType \<Rightarrow> string \<Rightarrow> string \<Rightarrow> check" where
  "verifyTyped x t nilmsg msg = checks [require (present x) nilmsg, require (otype x = t) msg, verified x]"

definition verifyListMin :: "operand \<Rightarrow> IrType \<Rightarrow> check" where
  "verifyListMin recv t =
     checks
       [require (present recv) ''ListMinExpr: nil receiver'',
        require (otype recv = TypeList) ''ListMinExpr: receiver must be TypeList, got %s'',
        require (isScalarElemType t) ''ListMinExpr: element type must be scalar, got %s'',
        verified recv]"

definition verifyListMax :: "operand \<Rightarrow> IrType \<Rightarrow> check" where
  "verifyListMax recv t =
     checks
       [require (present recv) ''ListMaxExpr: nil receiver'',
        require (otype recv = TypeList) ''ListMaxExpr: receiver must be TypeList, got %s'',
        require (isScalarElemType t) ''ListMaxExpr: element type must be scalar, got %s'',
        verified recv]"

definition verifyListContains :: "operand \<Rightarrow> operand \<Rightarrow> IrType \<Rightarrow> check" where
  "verifyListContains l v t =
     checks
       [require (present l) ''ListContainsExpr: nil List'',
        require (otype l = TypeList) ''ListContainsExpr: List must be TypeList, got %s'',
        require (present v) ''ListContainsExpr: nil Value'',
        require (isScalarElemType t) ''ListContainsExpr: ElemType must be scalar, got %s'',
        require (otype v = t) ''ListContainsExpr: Value type %s does not match ElemType %s'',
        within ''ListContainsExpr list: %w'' (verified l),
        verified v]"

definition verifyListSum :: "operand \<Rightarrow> IrType \<Rightarrow> check" where
  "verifyListSum recv t =
     checks
       [require (present recv) ''ListSumExpr: nil receiver'',
        require (otype recv = TypeList) ''ListSumExpr: receiver must be TypeList, got %s'',
        require (t = TypeInt \<or> t = TypeFloat) ''ListSumExpr: ElemType must be int or float, got %s'',
        verified recv]"

definition verifyListMapExpr :: "operand \<Rightarrow> operand \<Rightarrow> check" where
  "verifyListMapExpr l f =
     checks
       [require (present l) ''ListMapExpr: nil List'', require (present f) ''ListMapExpr: nil Fn'',
        within ''ListMapExpr list: %w'' (verified l), verified f]"

definition verifyListFilterExpr :: "operand \<Rightarrow> operand \<Rightarrow> check" where
  "verifyListFilterExpr l f =
     checks
       [require (present l) ''ListFilterExpr: nil List'', require (present f) ''ListFilterExpr: nil Fn'',
        within ''ListFilterExpr list: %w'' (verified l), verified f]"

definition verifyListFoldl :: "operand \<Rightarrow> operand \<Rightarrow> operand \<Rightarrow> check" where
  "verifyListFoldl l f x =
     checks
       [require (present l) ''ListFoldlExpr: nil List'', require (present f) ''ListFoldlExpr: nil Fn'',
        require (present x) ''ListFoldlExpr: nil Init'', within ''ListFoldlExpr list: %w'' (verified l),
        within ''ListFoldlExpr fn: %w'' (verified f), verified x]"

definition verifyListSlice :: "operand \<Rightarrow> operand \<Rightarrow> operand \<Rightarrow> check" where
  "verifyListSlice recv a b =
     checks
       [require (present recv) ''ListSliceExpr: nil receiver'',
        require (otype recv = TypeList) ''ListSliceExpr: receiver must be TypeList, got %s'',
        require (present a \<and> present b) ''ListSliceExpr: nil start or end'',
        require (otype a = TypeInt \<and> otype b = TypeInt) ''ListSliceExpr: start/end must be TypeInt'',
        within ''ListSliceExpr receiver: %w'' (verified recv),
        within ''ListSliceExpr start: %w'' (verified a),
        verified b]"

definition verifyVariantLit :: "verifyCtx \<Rightarrow> string \<Rightarrow> (string \<times> operand) list \<Rightarrow> check" where
  "verifyVariantLit ctx unionName fs =
     checks
       (require (c_unions ctx unionName \<noteq> None) ''VariantLit: union %q not declared'' #
        map (\<lambda>f. within ''VariantLit %q.%s field %d: %w'' (verified (snd f))) fs)"

definition verifyVariantFieldAccess :: "operand \<Rightarrow> check" where
  "verifyVariantFieldAccess recv =
     checks
       [within ''VariantFieldAccess receiver: %w'' (verified recv),
        require (otype recv = TypeUnion) ''VariantFieldAccess: receiver must be TypeUnion, got %s'']"

definition verifyFunLit :: "FunLit \<Rightarrow> check" where
  "verifyFunLit f =
     checks [require (fl_Sig f \<noteq> None) ''FunLit %q has nil Sig'',
             require (fl_FuncName f \<noteq> []) ''FunLit has empty FuncName'']"

definition verifyFunCall :: "operand \<Rightarrow> operand list \<Rightarrow> check" where
  "verifyFunCall callee args =
     checks
       ([require (present callee) ''FunCallExpr has nil Callee'',
         within ''FunCallExpr callee: %w'' (verified callee),
         require (otype callee = TypeFun) ''FunCallExpr: callee must be TypeFun, got %s''] @
        map (\<lambda>a. within ''FunCallExpr arg %d: %w'' (verified a)) args)"

definition verifyLLMGenerate :: "string \<Rightarrow> operand \<Rightarrow> operand \<Rightarrow> check" where
  "verifyLLMGenerate provider model prompt =
     checks
       [require (provider \<noteq> []) ''LLMGenerateExpr: empty Provider'',
        require (present model) ''LLMGenerateExpr: nil Model'',
        require (otype model = TypeString) ''LLMGenerateExpr: Model must be TypeString, got %s'',
        require (present prompt) ''LLMGenerateExpr: nil Prompt'',
        require (otype prompt = TypeString) ''LLMGenerateExpr: Prompt must be TypeString, got %s'',
        within ''LLMGenerateExpr model: %w'' (verified model),
        verified prompt]"

definition verifyDatalogQuery :: "DatalogQuery \<Rightarrow> check" where
  "verifyDatalogQuery q =
     checks [require (dq_QueryName q \<noteq> []) ''DatalogQueryExpr: empty QueryName'',
             require (dq_Prog q \<noteq> None) ''DatalogQueryExpr: nil Prog'']"

text \<open>The shape shared by the channel, stream, subscription and future nodes: an operand of a type, and an element type.\<close>

definition verifyHandleOp :: "string \<Rightarrow> operand \<Rightarrow> IrType \<Rightarrow> string \<Rightarrow> IrType \<Rightarrow> string \<Rightarrow> check" where
  "verifyHandleOp nilmsg x t msg el elmsg =
     checks [require (present x) nilmsg, require (otype x = t) msg, require (el \<noteq> TypeInvalid) elmsg, verified x]"

definition verifySubMakeLimit :: "operand \<Rightarrow> operand \<Rightarrow> IrType \<Rightarrow> check" where
  "verifySubMakeLimit stream lim el =
     checks
       [require (present stream) ''SubMakeLimitExpr: nil Stream'',
        require (otype stream = TypeStream) ''SubMakeLimitExpr: Stream must be TypeStream, got %s'',
        require (present lim) ''SubMakeLimitExpr: nil Limit'',
        require (otype lim = TypeInt) ''SubMakeLimitExpr: Limit must be TypeInt, got %s'',
        require (el \<noteq> TypeInvalid) ''SubMakeLimitExpr: ElemType is TypeInvalid'',
        verified stream,
        verified lim]"

definition verifyAsync :: "operand \<Rightarrow> IrType \<Rightarrow> check" where
  "verifyAsync body el =
     checks
       [require (present body) ''AsyncExpr: nil Body'',
        require (el \<noteq> TypeInvalid) ''AsyncExpr: ElemType is TypeInvalid'',
        verified body]"

section \<open>The verifier of expressions\<close>

abbreviation sub :: "(Expr \<Rightarrow> check) \<Rightarrow> Expr option \<Rightarrow> operand" where
  "sub f e \<equiv> operand e (map_option f e)"

abbreviation subs :: "(Expr \<Rightarrow> check) \<Rightarrow> Expr option list \<Rightarrow> operand list" where
  "subs f es \<equiv> map2 operand es (map (map_option f) es)"

abbreviation sub_fields :: "(Expr \<Rightarrow> check) \<Rightarrow> (string \<times> Expr option) list \<Rightarrow> (string \<times> operand) list" where
  "sub_fields f fs \<equiv>
     map2 (\<lambda>(n, e) (m, c). (n, operand e c)) fs (map (map_prod (\<lambda>n. n) (map_option f)) fs)"

text \<open>Method references and Java calls have no case in the source.\<close>

primrec verifyExpr :: "verifyCtx \<Rightarrow> Expr \<Rightarrow> check" where
  "verifyExpr ctx (StringLit s) = passed"
| "verifyExpr ctx (IntLit n) = passed"
| "verifyExpr ctx (FloatLit f) = passed"
| "verifyExpr ctx (BoolLit b) = passed"
| "verifyExpr ctx (VarRefE v) = verifyVarRef ctx v"
| "verifyExpr ctx (BinaryExpr bop l r res) =
     verifyBinaryExpr ctx bop (sub (verifyExpr ctx) l) (sub (verifyExpr ctx) r) res"
| "verifyExpr ctx (UnaryExpr uop x res) = verifyUnaryExpr uop (sub (verifyExpr ctx) x) res"
| "verifyExpr ctx (CallExpr f args res) = verifyCallExpr ctx f (subs (verifyExpr ctx) args) res"
| "verifyExpr ctx (RecordLit n fs) = verifyRecordLit ctx n (sub_fields (verifyExpr ctx) fs)"
| "verifyExpr ctx (FieldAccess r rn f res rrn) = verifyFieldAccess ctx (sub (verifyExpr ctx) r) rn f res rrn"
| "verifyExpr ctx (ListLit i es) = verifyListLit ctx i (subs (verifyExpr ctx) es)"
| "verifyExpr ctx (IndexExpr r x i) = verifyIndexExpr (sub (verifyExpr ctx) r) (sub (verifyExpr ctx) x) i"
| "verifyExpr ctx (LenExpr r i) = verifyLenExpr (sub (verifyExpr ctx) r) i"
| "verifyExpr ctx (StrLenExpr r) =
     verifyStrOp [(sub (verifyExpr ctx) r, TypeString, ''StrLenExpr: receiver must be TypeString, got %s'')]"
| "verifyExpr ctx (NumCastExpr x) =
     verifyTyped (sub (verifyExpr ctx) x) TypeFloat ''NumCastExpr: nil operand''
       ''NumCastExpr: operand must be TypeFloat, got %s''"
| "verifyExpr ctx (ListMinExpr r i) = verifyListMin (sub (verifyExpr ctx) r) (el_ElemType i)"
| "verifyExpr ctx (ListMaxExpr r i) = verifyListMax (sub (verifyExpr ctx) r) (el_ElemType i)"
| "verifyExpr ctx (ListContainsExpr l v t) =
     verifyListContains (sub (verifyExpr ctx) l) (sub (verifyExpr ctx) v) t"
| "verifyExpr ctx (ListSumExpr r t) = verifyListSum (sub (verifyExpr ctx) r) t"
| "verifyExpr ctx (JsonDecodeExpr x) =
     verifyTyped (sub (verifyExpr ctx) x) TypeString ''JsonDecodeExpr: nil Input''
       ''JsonDecodeExpr: input must be string, got %s''"
| "verifyExpr ctx (ListMapExpr l f t) = verifyListMapExpr (sub (verifyExpr ctx) l) (sub (verifyExpr ctx) f)"
| "verifyExpr ctx (ListFilterExpr l f t) = verifyListFilterExpr (sub (verifyExpr ctx) l) (sub (verifyExpr ctx) f)"
| "verifyExpr ctx (ListFoldlExpr l f x t) =
     verifyListFoldl (sub (verifyExpr ctx) l) (sub (verifyExpr ctx) f) (sub (verifyExpr ctx) x)"
| "verifyExpr ctx (MathCallExpr f a res) = verifyMathCall f (sub (verifyExpr ctx) a) res"
| "verifyExpr ctx (StrIndexExpr r x) =
     verifyStrOp
       [(sub (verifyExpr ctx) r, TypeString, ''StrIndexExpr: receiver must be TypeString, got %s''),
        (sub (verifyExpr ctx) x, TypeInt, ''StrIndexExpr: index must be TypeInt, got %s'')]"
| "verifyExpr ctx (StrContainsExpr r s) =
     verifyStrOp
       [(sub (verifyExpr ctx) r, TypeString, ''StrContainsExpr: receiver must be TypeString, got %s''),
        (sub (verifyExpr ctx) s, TypeString, ''StrContainsExpr: sub must be TypeString, got %s'')]"
| "verifyExpr ctx (StrSubstringExpr r a b) =
     verifyStrOp
       [(sub (verifyExpr ctx) r, TypeString, ''StrSubstringExpr: receiver must be TypeString, got %s''),
        (sub (verifyExpr ctx) a, TypeInt, ''StrSubstringExpr: start must be TypeInt, got %s''),
        (sub (verifyExpr ctx) b, TypeInt, ''StrSubstringExpr: end must be TypeInt, got %s'')]"
| "verifyExpr ctx (StrReverseExpr r) =
     verifyStrOp [(sub (verifyExpr ctx) r, TypeString, ''StrReverseExpr: receiver must be TypeString, got %s'')]"
| "verifyExpr ctx (StrConvertExpr x) = verifyStrConvert (sub (verifyExpr ctx) x)"
| "verifyExpr ctx (StrUpperExpr r) =
     verifyStrOp [(sub (verifyExpr ctx) r, TypeString, ''StrUpperExpr: receiver must be TypeString, got %s'')]"
| "verifyExpr ctx (StrLowerExpr r) =
     verifyStrOp [(sub (verifyExpr ctx) r, TypeString, ''StrLowerExpr: receiver must be TypeString, got %s'')]"
| "verifyExpr ctx (StrSplitExpr s p) =
     verifyStrOp
       [(sub (verifyExpr ctx) s, TypeString, ''StrSplitExpr: str must be TypeString, got %s''),
        (sub (verifyExpr ctx) p, TypeString, ''StrSplitExpr: sep must be TypeString, got %s'')]"
| "verifyExpr ctx (StrJoinExpr l p) =
     verifyStrOp
       [(sub (verifyExpr ctx) l, TypeList, ''StrJoinExpr: list must be TypeList, got %s''),
        (sub (verifyExpr ctx) p, TypeString, ''StrJoinExpr: sep must be TypeString, got %s'')]"
| "verifyExpr ctx (StrMethodRef r m) = fails ''unhandled Expr %T''"
| "verifyExpr ctx (AppendExpr r v i) = verifyAppendExpr (sub (verifyExpr ctx) r) (sub (verifyExpr ctx) v) i"
| "verifyExpr ctx (ListSortAscExpr r i) =
     verifyTyped (sub (verifyExpr ctx) r) TypeList ''ListSortAscExpr: nil receiver''
       ''ListSortAscExpr: receiver must be TypeList, got %s''"
| "verifyExpr ctx (ListSliceExpr r a b i) =
     verifyListSlice (sub (verifyExpr ctx) r) (sub (verifyExpr ctx) a) (sub (verifyExpr ctx) b)"
| "verifyExpr ctx (MapLit i ks vs) = verifyMapLit i (subs (verifyExpr ctx) ks) (subs (verifyExpr ctx) vs)"
| "verifyExpr ctx (MapGetExpr r k i) = verifyMapGetExpr (sub (verifyExpr ctx) r) (sub (verifyExpr ctx) k) i"
| "verifyExpr ctx (MapHasExpr r k i) = verifyMapHasExpr (sub (verifyExpr ctx) r) (sub (verifyExpr ctx) k) i"
| "verifyExpr ctx (MapLenExpr r i) = verifyMapLenExpr (sub (verifyExpr ctx) r) i"
| "verifyExpr ctx (MapKeysExpr r i) = verifyMapKeysExpr (sub (verifyExpr ctx) r) i"
| "verifyExpr ctx (MapValuesExpr r i) = verifyMapValuesExpr (sub (verifyExpr ctx) r) i"
| "verifyExpr ctx (SetLiteralExpr es t) = verifySetLiteralExpr (subs (verifyExpr ctx) es) t"
| "verifyExpr ctx (SetAddExpr r e t) = verifySetAddExpr (sub (verifyExpr ctx) r) (sub (verifyExpr ctx) e) t"
| "verifyExpr ctx (SetHasExpr r e t) = verifySetHasExpr (sub (verifyExpr ctx) r) (sub (verifyExpr ctx) e) t"
| "verifyExpr ctx (SetLenExpr r t) = verifySetLenExpr (sub (verifyExpr ctx) r)"
| "verifyExpr ctx (SetToListExpr r t) = verifySetToListExpr (sub (verifyExpr ctx) r)"
| "verifyExpr ctx (OMapLiteralExpr ks vs kt vt) =
     verifyOMapLiteralExpr (subs (verifyExpr ctx) ks) (subs (verifyExpr ctx) vs) kt vt"
| "verifyExpr ctx (OMapGetExpr r k kt vt) = verifyOMapGetExpr (sub (verifyExpr ctx) r) (sub (verifyExpr ctx) k) kt"
| "verifyExpr ctx (OMapSetExpr r k v kt vt) =
     verifyOMapSetExpr (sub (verifyExpr ctx) r) (sub (verifyExpr ctx) k) (sub (verifyExpr ctx) v) kt vt"
| "verifyExpr ctx (OMapHasExpr r k kt vt) = verifyOMapHasExpr (sub (verifyExpr ctx) r) (sub (verifyExpr ctx) k) kt"
| "verifyExpr ctx (OMapLenExpr r kt vt) = verifyOMapLenExpr (sub (verifyExpr ctx) r)"
| "verifyExpr ctx (VariantLit u v tag fs) = verifyVariantLit ctx u (sub_fields (verifyExpr ctx) fs)"
| "verifyExpr ctx (UnionVarRef n u) = verifyUnionVarRef ctx n u"
| "verifyExpr ctx (VariantFieldAccess r u v f res rn) = verifyVariantFieldAccess (sub (verifyExpr ctx) r)"
| "verifyExpr ctx (FunLitE f) = verifyFunLit f"
| "verifyExpr ctx (FunCallExpr c args res) = verifyFunCall (sub (verifyExpr ctx) c) (subs (verifyExpr ctx) args)"
| "verifyExpr ctx (ReadFileExpr p) =
     verifyTyped (sub (verifyExpr ctx) p) TypeString ''ReadFileExpr: nil Path''
       ''ReadFileExpr: Path must be TypeString, got %s''"
| "verifyExpr ctx (LinesExpr p) =
     verifyTyped (sub (verifyExpr ctx) p) TypeString ''LinesExpr: nil Path''
       ''LinesExpr: Path must be TypeString, got %s''"
| "verifyExpr ctx (HttpGetExpr u) =
     verifyTyped (sub (verifyExpr ctx) u) TypeString ''HttpGetExpr: nil URL''
       ''HttpGetExpr: URL must be TypeString, got %s''"
| "verifyExpr ctx (LoadCSVExpr p) =
     verifyTyped (sub (verifyExpr ctx) p) TypeString ''LoadCSVExpr: nil Path''
       ''LoadCSVExpr: Path must be TypeString, got %s''"
| "verifyExpr ctx (AsyncExpr b t) = verifyAsync (sub (verifyExpr ctx) b) t"
| "verifyExpr ctx (AwaitExpr f t) =
     verifyHandleOp ''AwaitExpr: nil Future'' (sub (verifyExpr ctx) f) TypeFuture
       ''AwaitExpr: Future must be TypeFuture, got %s'' t ''AwaitExpr: ElemType is TypeInvalid''"
| "verifyExpr ctx (JavaCallExpr d args res) = fails ''unhandled Expr %T''"
| "verifyExpr ctx (LLMGenerateExpr pr m p) =
     verifyLLMGenerate pr (sub (verifyExpr ctx) m) (sub (verifyExpr ctx) p)"
| "verifyExpr ctx (RawCExpr c t) = require (c \<noteq> []) ''RawCExpr: empty Code''"
| "verifyExpr ctx (ChanMakeExpr c t) =
     verifyHandleOp ''ChanMakeExpr: nil Cap'' (sub (verifyExpr ctx) c) TypeInt
       ''ChanMakeExpr: Cap must be TypeInt, got %s'' t ''ChanMakeExpr: ElemType is TypeInvalid''"
| "verifyExpr ctx (ChanRecvExpr c t) =
     verifyHandleOp ''ChanRecvExpr: nil Chan'' (sub (verifyExpr ctx) c) TypeChan
       ''ChanRecvExpr: Chan must be TypeChan, got %s'' t ''ChanRecvExpr: ElemType is TypeInvalid''"
| "verifyExpr ctx (StreamMakeExpr c t) =
     verifyHandleOp ''StreamMakeExpr: nil Cap'' (sub (verifyExpr ctx) c) TypeInt
       ''StreamMakeExpr: Cap must be TypeInt, got %s'' t ''StreamMakeExpr: ElemType is TypeInvalid''"
| "verifyExpr ctx (SubMakeExpr s t) =
     verifyHandleOp ''SubMakeExpr: nil Stream'' (sub (verifyExpr ctx) s) TypeStream
       ''SubMakeExpr: Stream must be TypeStream, got %s'' t ''SubMakeExpr: ElemType is TypeInvalid''"
| "verifyExpr ctx (SubMakeLimitExpr s l t) =
     verifySubMakeLimit (sub (verifyExpr ctx) s) (sub (verifyExpr ctx) l) t"
| "verifyExpr ctx (SubRecvExpr s t) =
     verifyHandleOp ''SubRecvExpr: nil Sub'' (sub (verifyExpr ctx) s) TypeSub
       ''SubRecvExpr: Sub must be TypeSub, got %s'' t ''SubRecvExpr: ElemType is TypeInvalid''"
| "verifyExpr ctx (AgentLit a fs) = verifyAgentLit ctx a (sub_fields (verifyExpr ctx) fs)"
| "verifyExpr ctx (AgentMethodRef a i r t sp) = fails ''unhandled Expr %T''"
| "verifyExpr ctx (AgentSpawnExpr a args) = verifyAgentSpawn ctx a (subs (verifyExpr ctx) args)"
| "verifyExpr ctx (AgentIntentCallExpr a i r args res sp) =
     verifyAgentIntentCallExpr ctx a i (sub (verifyExpr ctx) r) (subs (verifyExpr ctx) args) res"
| "verifyExpr ctx (DatalogQueryExpr q) = verifyDatalogQuery q"

definition verifyExprCtx :: "verifyCtx \<Rightarrow> Expr option \<Rightarrow> check" where
  "verifyExprCtx ctx e = verified (sub (verifyExpr ctx) e)"

end
