(* ===== verification/Aotir_Stmt.thy ===== *)
theory Aotir_Stmt
  imports Aotir_Expr
begin

text \<open>
  The statement half of the verifier (\<open>internal/aotir/verifier.go\<close>).  A statement may add a binding to the
  innermost frame, so its verification returns the context; blocks push a frame and drop it again.  The
  functions for compound statements get the verifications of the statements of their blocks.
\<close>

type_synonym stmt_check = "verifyCtx \<Rightarrow> (go_error + verifyCtx) option"

type_synonym block_checks = "stmt_check option list option"

definition after :: "check \<Rightarrow> (go_error + verifyCtx) option \<Rightarrow> (go_error + verifyCtx) option" where
  "after c k = fbind c (\<lambda>_. k)"

abbreviation unchanged :: "verifyCtx \<Rightarrow> (go_error + verifyCtx) option" where
  "unchanged ctx \<equiv> Some (Inr ctx)"

definition check_in :: "verifyCtx \<Rightarrow> Expr option \<Rightarrow> operand" where
  "check_in ctx e = sub (verifyExpr ctx) e"

section \<open>Scopes and blocks\<close>

definition push_frame :: "frame \<Rightarrow> verifyCtx \<Rightarrow> verifyCtx" where
  "push_frame f ctx = ctx\<lparr>c_scope := f # c_scope ctx\<rparr>"

definition pop_frame :: "verifyCtx \<Rightarrow> verifyCtx" where
  "pop_frame ctx = ctx\<lparr>c_scope := tl (c_scope ctx)\<rparr>"

definition bind_var :: "string \<Rightarrow> binding \<Rightarrow> verifyCtx \<Rightarrow> verifyCtx" where
  "bind_var name b ctx =
     (case c_scope ctx of
        [] \<Rightarrow> ctx
      | f # fs \<Rightarrow> ctx\<lparr>c_scope := f(name \<mapsto> b) # fs\<rparr>)"

fun run_stmts :: "string \<Rightarrow> stmt_check option list \<Rightarrow> stmt_check" where
  "run_stmts msg [] ctx = Some (Inr ctx)"
| "run_stmts msg (s # ss) ctx =
     fbind
       (fwrap (\<lambda>e. Errorf msg [FErr e])
         (case s of None \<Rightarrow> Some (Inl (Errorf ''unhandled Stmt %T'' [])) | Some f \<Rightarrow> f ctx))
       (run_stmts msg ss)"

text \<open>The statements of a block in a frame of their own; a nil block panics.\<close>

definition in_frame :: "string \<Rightarrow> frame \<Rightarrow> block_checks \<Rightarrow> stmt_check" where
  "in_frame msg f body ctx =
     (case body of
        None \<Rightarrow> None
      | Some ss \<Rightarrow> fbind (run_stmts msg ss (push_frame f ctx)) (\<lambda>ctx. Some (Inr (pop_frame ctx))))"

definition verifyBlock :: "block_checks \<Rightarrow> stmt_check" where
  "verifyBlock body ctx = in_frame ''stmt %d: %w'' Map.empty body ctx"

definition in_loop :: "stmt_check \<Rightarrow> stmt_check" where
  "in_loop f ctx =
     fbind (f (ctx\<lparr>c_loopDepth := c_loopDepth ctx + 1\<rparr>))
       (\<lambda>ctx. Some (Inr (ctx\<lparr>c_loopDepth := c_loopDepth ctx - 1\<rparr>)))"

abbreviation wrapped :: "string \<Rightarrow> stmt_check \<Rightarrow> stmt_check" where
  "wrapped msg f \<equiv> (\<lambda>ctx. fwrap (\<lambda>e. Errorf msg [FErr e]) (f ctx))"

section \<open>Calls\<close>

definition Builtins :: "string \<rightharpoonup> IrType list" where
  "Builtins =
     [''mochi_print_str'' \<mapsto> [TypeString], ''mochi_print_i64'' \<mapsto> [TypeInt], ''mochi_print_f64'' \<mapsto> [TypeFloat],
      ''mochi_print_bool'' \<mapsto> [TypeBool]]"

definition resolveCallSig :: "verifyCtx \<Rightarrow> string \<Rightarrow> go_error + IrType list" where
  "resolveCallSig ctx fnName =
     (case Builtins fnName of
        Some p \<Rightarrow> Inr p
      | None \<Rightarrow>
          (case c_fns ctx fnName of
             Some fn \<Rightarrow> Inr (map (\<lambda>p. sh_Type (pa_Shape p)) (fu_Params fn))
           | None \<Rightarrow>
               (case c_externFns ctx fnName of
                  Some ef \<Rightarrow> Inr (map (\<lambda>p. sh_Type (pa_Shape p)) (ef_Params ef))
                | None \<Rightarrow> Inl (Errorf ''unresolved callee %q'' []))))"

definition verifyCallStmtArg :: "operand \<Rightarrow> IrType \<Rightarrow> check" where
  "verifyCallStmtArg a t =
     checks
       [require (present a) ''callee %q arg %d is nil'',
        within ''callee %q arg %d: %w'' (verified a),
        require (otype a = t) ''callee %q arg %d: expected %s, got %s'']"

definition verifyCallStmt :: "verifyCtx \<Rightarrow> string \<Rightarrow> operand list \<Rightarrow> check" where
  "verifyCallStmt ctx func args =
     (case resolveCallSig ctx func of
        Inl e \<Rightarrow> Some (Inl e)
      | Inr params \<Rightarrow>
          checks
            (require (length params = length args) ''callee %q expects %d args, got %d'' #
             map2 verifyCallStmtArg args params))"

definition verifyIntentStmtArg :: "operand \<Rightarrow> AgentIntentParam \<Rightarrow> check" where
  "verifyIntentStmtArg a p =
     checks
       [require (present a) ''AgentIntentCallStmt: agent %q intent %q arg %d is nil'',
        within ''AgentIntentCallStmt %q.%q arg %d: %w'' (verified a),
        require (otype a = ai_Type p) ''AgentIntentCallStmt %q.%q arg %d: expected %s, got %s'']"

definition verifyAgentIntentCallStmt ::
  "verifyCtx \<Rightarrow> string \<Rightarrow> string \<Rightarrow> operand \<Rightarrow> operand list \<Rightarrow> check" where
  "verifyAgentIntentCallStmt ctx agent intentName recv args =
     checks
       [require (agent \<noteq> []) ''AgentIntentCallStmt: empty AgentName'',
        require (intentName \<noteq> []) ''AgentIntentCallStmt: empty IntentName'',
        require (present recv) ''AgentIntentCallStmt: nil Receiver'',
        require (otype recv = TypeAgent) ''AgentIntentCallStmt: Receiver must be TypeAgent, got %s'',
        within ''AgentIntentCallStmt receiver: %w'' (verified recv),
        (case c_agents ctx agent of
           None \<Rightarrow> fails ''AgentIntentCallStmt: agent %q is not declared''
         | Some ag \<Rightarrow>
             (case find_intent ag intentName of
                None \<Rightarrow> fails ''AgentIntentCallStmt: agent %q has no intent %q''
              | Some intent \<Rightarrow>
                  checks
                    (require (length args = length (ad_Params intent))
                       ''AgentIntentCallStmt: agent %q intent %q expects %d args, got %d'' #
                     map2 verifyIntentStmtArg args (ad_Params intent))))]"

section \<open>Bindings and assignments\<close>

definition let_binding :: "LetStmt \<Rightarrow> binding" where
  "let_binding s =
     (let sh = ls_Shape s; e = sh_Elem sh; m = sh_Map sh; h = ls_Handles s in
      \<lparr>b_t = sh_Type sh, b_mutable = ls_Mutable s, b_record = sh_RecordName sh, b_union = sh_UnionName sh,
       b_elem = el_ElemType e, b_elemRec = el_ElemRecordName e, b_mapElemKey = el_MapElemKeyType e,
       b_mapElemValue = el_MapElemValueType e, b_key = mi_KeyType m, b_value = mi_ValueType m,
       b_listValElem = mi_ListValueElemType m, b_funSig = sh_FunSig sh, b_chanElem = hd_ChanElemType h,
       b_streamElem = hd_StreamElemType h, b_subElem = hd_SubElemType h, b_agentName = hd_AgentName h\<rparr>)"

text \<open>The fields of a list-typed or set-typed binding.\<close>

definition verifyLetElem :: "verifyCtx \<Rightarrow> LetStmt \<Rightarrow> operand \<Rightarrow> check" where
  "verifyLetElem ctx s init =
     (let sh = ls_Shape s; e = sh_Elem sh in
      if sh_Type sh = TypeList then
        checks
          [require (isListElemType (el_ElemType e))
             ''let %q: list binding has ElemType %s (Phase 3.4a supports scalar or record element types)'',
           require (present init \<longrightarrow> exprElemType init = el_ElemType e)
             ''let %q: declared list<%s>, init produces list<%s>'',
           (if el_ElemType e = TypeRecord then
              checks
                [require (el_ElemRecordName e \<noteq> []) ''let %q: list<record> binding missing ElemRecordName'',
                 require (c_records ctx (el_ElemRecordName e) \<noteq> None)
                   ''let %q: list element record %q is not declared'',
                 require (present init \<longrightarrow> exprElemRecordName init = el_ElemRecordName e)
                   ''let %q: declared list<%s>, init produces list<%s>'']
            else require (el_ElemRecordName e = [])
              ''let %q: ElemRecordName set on list<%s> (only valid when ElemType==record)''),
           (if el_ElemType e = TypeList then
              require (isScalarElemType (el_InnerElemType e))
                ''let %q: list<list<T>> binding has InnerElemType %s (Phase 3.4b requires scalar inner)''
            else require (el_InnerElemType e = TypeInvalid)
              ''let %q: InnerElemType set on list<%s> (only valid when ElemType==list)''),
           (if el_ElemType e = TypeMap then
              checks
                [require (isScalarKeyType (el_MapElemKeyType e))
                   ''let %q: list<map<K,V>> binding has MapElemKeyType %s (Phase 3.4f requires int or string key)'',
                 require (isScalarValueType (el_MapElemValueType e))
                   ''let %q: list<map<K,V>> binding has MapElemValueType %s (Phase 3.4f requires scalar value)'']
            else require (el_MapElemKeyType e = TypeInvalid \<and> el_MapElemValueType e = TypeInvalid)
              ''let %q: MapElemKeyType/MapElemValueType set on list<%s> (only valid when ElemType==map)'')]
      else if sh_Type sh = TypeSet then
        checks
          [require (el_ElemType e \<noteq> TypeInvalid) ''let %q: set binding missing ElemType'',
           require (isScalarElemType (el_ElemType e))
             ''let %q: set binding has ElemType %s (Phase 3.3 supports scalar element types)'',
           require (present init \<longrightarrow> exprSetElemType init = el_ElemType e)
             ''let %q: declared set<%s>, init produces set<%s>'']
      else require (el_ElemType e = TypeInvalid) ''let %q: ElemType set on non-list type %s'')"

text \<open>The fields of a map-typed or ordered-map-typed binding.\<close>

definition verifyLetMap :: "LetStmt \<Rightarrow> operand \<Rightarrow> check" where
  "verifyLetMap s init =
     (let sh = ls_Shape s; m = sh_Map sh in
      if sh_Type sh = TypeMap then
        checks
          [require (isScalarKeyType (mi_KeyType m))
             ''let %q: map binding has KeyType %s (Phase 3.2 supports int or string keys only)'',
           require (isMapValueType (mi_ValueType m))
             ''let %q: map binding has ValueType %s (Phase 3.2/3.4e supports scalar or list values)'',
           (if present init then
              checks
                [require (exprKeyType init = mi_KeyType m) ''let %q: declared map<%s,...>, init produces map<%s,...>'',
                 require (exprValueType init = mi_ValueType m) ''let %q: declared map<%s,%s>, init produces map<%s,%s>'',
                 (if mi_ValueType m = TypeList then
                    checks
                      [require (isScalarElemType (mi_ListValueElemType m))
                         ''let %q: map<_,list<T>> binding has ListValueElemType %s (Phase 3.4e requires scalar inner)'',
                       require (exprListValueElemType init = mi_ListValueElemType m)
                         ''let %q: declared map<_,list<%s>>, init produces map<_,list<%s>>'']
                  else require (mi_ListValueElemType m = TypeInvalid)
                    ''let %q: ListValueElemType set on map<_,%s> (only valid when value is list)'')]
            else require (mi_ListValueElemType m = TypeInvalid)
              ''let %q: ListValueElemType set on map<_,%s> (only valid when value is list)'')]
      else if sh_Type sh = TypeOMap then
        checks
          [require (isScalarKeyType (mi_KeyType m)) ''let %q: omap binding has KeyType %s (requires int or string)'',
           require (isScalarElemType (mi_ValueType m)) ''let %q: omap binding has ValueType %s (requires scalar)'',
           whenever (present init)
             [require (exprKeyType init = mi_KeyType m) ''let %q: declared omap<%s,...>, init produces omap<%s,...>'',
              require (exprValueType init = mi_ValueType m) ''let %q: declared omap<%s,%s>, init produces omap<%s,%s>'']]
      else
        checks
          [require (mi_KeyType m = TypeInvalid) ''let %q: KeyType set on non-map type %s'',
           require (mi_ValueType m = TypeInvalid) ''let %q: ValueType set on non-map type %s'',
           require (mi_ListValueElemType m = TypeInvalid) ''let %q: ListValueElemType set on non-map type %s''])"

text \<open>The element types of channels, streams and subscriptions, and the name of an agent.\<close>

definition verifyLetHandles :: "verifyCtx \<Rightarrow> LetStmt \<Rightarrow> check" where
  "verifyLetHandles ctx s =
     (let t = sh_Type (ls_Shape s); h = ls_Handles s in
      checks
        [(if t = TypeChan then require (hd_ChanElemType h \<noteq> TypeInvalid) ''let %q: chan binding missing ChanElemType''
          else require (hd_ChanElemType h = TypeInvalid) ''let %q: ChanElemType set on non-chan type %s''),
         (if t = TypeStream
          then require (hd_StreamElemType h \<noteq> TypeInvalid) ''let %q: stream binding missing StreamElemType''
          else require (hd_StreamElemType h = TypeInvalid) ''let %q: StreamElemType set on non-stream type %s''),
         (if t = TypeSub then require (hd_SubElemType h \<noteq> TypeInvalid) ''let %q: sub binding missing SubElemType''
          else require (hd_SubElemType h = TypeInvalid) ''let %q: SubElemType set on non-sub type %s''),
         (if t = TypeAgent then
            checks
              [require (hd_AgentName h \<noteq> []) ''let %q: agent binding missing AgentName'',
               require (c_agents ctx (hd_AgentName h) \<noteq> None) ''let %q: agent %q is not declared'']
          else require (hd_AgentName h = []) ''let %q: AgentName set on non-agent type %s'')])"

definition verifyLetStmt :: "LetStmt \<Rightarrow> stmt_check" where
  "verifyLetStmt s ctx =
     (let init = check_in ctx (ls_Init s); sh = ls_Shape s in
      after (checks
        [require (ls_Name s \<noteq> []) ''let with empty name'',
         require (case c_scope ctx of [] \<Rightarrow> True | f # _ \<Rightarrow> f (ls_Name s) = None) ''rebinding %q in same scope'',
         require (present init \<or> ls_Mutable s) ''let %q has nil Init'',
         whenever (present init)
           [within ''let %q init: %w'' (verified init),
            require (otype init = sh_Type sh) ''let %q: declared %s, init produces %s'']])
      (if sh_Type sh = TypeFun then
         after (require (sh_FunSig sh \<noteq> None) ''let %q: fun-typed binding missing FunSig'')
           (unchanged (bind_var (ls_Name s)
              ((simple_binding (sh_Type sh) (ls_Mutable s))\<lparr>b_funSig := sh_FunSig sh\<rparr>) ctx))
       else
         after (checks
           [(if sh_Type sh = TypeRecord then
               checks
                 [require (sh_RecordName sh \<noteq> []) ''let %q: record-typed binding missing RecordName'',
                  require (c_records ctx (sh_RecordName sh) \<noteq> None) ''let %q: record %q is not declared'',
                  require (present init \<longrightarrow> exprRecordName init = sh_RecordName sh)
                    ''let %q: declared record %q, init produces record %q'']
             else require (sh_RecordName sh = []) ''let %q: RecordName set on non-record type %s''),
            (if sh_Type sh = TypeUnion then
               checks
                 [require (sh_UnionName sh \<noteq> []) ''let %q: union-typed binding missing UnionName'',
                  require (c_unions ctx (sh_UnionName sh) \<noteq> None) ''let %q: union %q is not declared'']
             else require (sh_UnionName sh = []) ''let %q: UnionName set on non-union type %s''),
            verifyLetElem ctx s init,
            verifyLetMap s init,
            verifyLetHandles ctx s])
           (unchanged (bind_var (ls_Name s) (let_binding s) ctx))))"

definition verifyAssignStmt :: "verifyCtx \<Rightarrow> string \<Rightarrow> operand \<Rightarrow> check" where
  "verifyAssignStmt ctx name val =
     (case scope_lookup (c_scope ctx) name of
        None \<Rightarrow> fails ''assign to undeclared %q''
      | Some b \<Rightarrow>
          checks
            [require (b_mutable b) ''assign to immutable binding %q (declared with let)'',
             require (present val) ''assign %q has nil Value'',
             within ''assign %q: %w'' (verified val),
             require (otype val = b_t b) ''assign %q: binding is %s, value is %s'',
             require (b_t b = TypeRecord \<longrightarrow> exprRecordName val = b_record b)
               ''assign %q: binding holds record %q, value produces record %q'',
             whenever (b_t b = TypeList)
               [require (exprElemType val = b_elem b) ''assign %q: binding holds list<%s>, value produces list<%s>'',
                require (b_elem b = TypeRecord \<longrightarrow> exprElemRecordName val = b_elemRec b)
                  ''assign %q: binding holds list<%s>, value produces list<%s>''],
             whenever (b_t b = TypeMap)
               [require (exprKeyType val = b_key b) ''assign %q: binding holds map<%s,...>, value produces map<%s,...>'',
                require (exprValueType val = b_value b)
                  ''assign %q: binding holds map<%s,%s>, value produces map<%s,%s>''],
             require (b_t b = TypeSet \<longrightarrow> exprSetElemType val = b_elem b)
               ''assign %q: binding holds set<%s>, value produces set<%s>'',
             whenever (b_t b = TypeOMap)
               [require (exprKeyType val = b_key b) ''assign %q: binding holds omap<%s,...>, value produces omap<%s,...>'',
                require (exprValueType val = b_value b)
                  ''assign %q: binding holds omap<%s,%s>, value produces omap<%s,%s>'']])"

definition verifyListSetStmt :: "verifyCtx \<Rightarrow> string \<Rightarrow> operand \<Rightarrow> operand \<Rightarrow> check" where
  "verifyListSetStmt ctx name index val =
     (case scope_lookup (c_scope ctx) name of
        None \<Rightarrow> fails ''list-set: undeclared %q''
      | Some b \<Rightarrow>
          checks
            [require (b_mutable b) ''list-set: %q is immutable'',
             require (b_t b = TypeList) ''list-set: %q is %s, not a list'',
             require (present index) ''list-set %q: nil Index'',
             within ''list-set %q index: %w'' (verified index),
             require (otype index = TypeInt) ''list-set %q: index must be int, got %s'',
             require (present val) ''list-set %q: nil Value'',
             within ''list-set %q value: %w'' (verified val),
             require (otype val = b_elem b) ''list-set %q: binding elem is %s, value is %s''])"

definition verifyMapPutStmt :: "verifyCtx \<Rightarrow> string \<Rightarrow> operand \<Rightarrow> operand \<Rightarrow> check" where
  "verifyMapPutStmt ctx name key val =
     (case scope_lookup (c_scope ctx) name of
        None \<Rightarrow> fails ''map-put: undeclared %q''
      | Some b \<Rightarrow>
          checks
            [require (b_mutable b) ''map-put: %q is immutable'',
             require (b_t b = TypeMap) ''map-put: %q is %s, not a map'',
             require (present key) ''map-put %q: nil Key'',
             within ''map-put %q key: %w'' (verified key),
             require (otype key = b_key b) ''map-put %q: binding key is %s, got %s'',
             require (present val) ''map-put %q: nil Value'',
             within ''map-put %q value: %w'' (verified val),
             require (otype val = b_value b) ''map-put %q: binding value is %s, got %s''])"

definition verifyOMapPutStmt :: "verifyCtx \<Rightarrow> string \<Rightarrow> operand \<Rightarrow> operand \<Rightarrow> check" where
  "verifyOMapPutStmt ctx name key val =
     (case scope_lookup (c_scope ctx) name of
        None \<Rightarrow> fails ''omap-put: undeclared %q''
      | Some b \<Rightarrow>
          checks
            [require (b_mutable b) ''omap-put: %q is immutable'',
             require (b_t b = TypeOMap) ''omap-put: %q is %s, not an omap'',
             require (present key) ''omap-put %q: nil Key'',
             within ''omap-put %q key: %w'' (verified key),
             require (otype key = b_key b) ''omap-put %q: binding key is %s, got %s'',
             require (present val) ''omap-put %q: nil Value'',
             within ''omap-put %q value: %w'' (verified val),
             require (otype val = b_value b) ''omap-put %q: binding value is %s, got %s''])"

section \<open>Control flow\<close>

definition verifyIfStmt :: "operand \<Rightarrow> block_checks \<Rightarrow> block_checks \<Rightarrow> stmt_check" where
  "verifyIfStmt cond thn els ctx =
     after (checks
       [require (present cond) ''if with nil Cond'',
        within ''if cond: %w'' (verified cond),
        require (otype cond = TypeBool) ''if cond must be bool, got %s'',
        require (thn \<noteq> None) ''if with nil Then block''])
     (fbind (wrapped ''if then: %w'' (verifyBlock thn) ctx) (\<lambda>ctx.
        if els \<noteq> None then wrapped ''if else: %w'' (verifyBlock els) ctx else Some (Inr ctx)))"

definition verifyWhileStmt :: "operand \<Rightarrow> block_checks \<Rightarrow> stmt_check" where
  "verifyWhileStmt cond body ctx =
     after (checks
       [require (present cond) ''while with nil Cond'',
        within ''while cond: %w'' (verified cond),
        require (otype cond = TypeBool) ''while cond must be bool, got %s'',
        require (body \<noteq> None) ''while with nil Body block''])
     (in_loop (verifyBlock body) ctx)"

definition verifyForRangeStmt :: "string \<Rightarrow> operand \<Rightarrow> operand \<Rightarrow> block_checks \<Rightarrow> stmt_check" where
  "verifyForRangeStmt var start stop body ctx =
     after (checks
       [require (var \<noteq> []) ''for with empty Var name'',
        require (present start \<and> present stop) ''for range with nil Start or End'',
        within ''for start: %w'' (verified start),
        require (otype start = TypeInt) ''for start must be int, got %s'',
        within ''for end: %w'' (verified stop),
        require (otype stop = TypeInt) ''for end must be int, got %s'',
        require (body \<noteq> None) ''for with nil Body block''])
     (in_loop (in_frame ''for body stmt %d: %w'' [var \<mapsto> simple_binding TypeInt False] body) ctx)"

definition verifyForEachStmt :: "string \<Rightarrow> operand \<Rightarrow> ElemInfo \<Rightarrow> block_checks \<Rightarrow> stmt_check" where
  "verifyForEachStmt var lst i body ctx =
     after (checks
       [require (var \<noteq> []) ''foreach with empty Var name'',
        require (present lst) ''foreach with nil List'',
        within ''foreach list: %w'' (verified lst),
        require (otype lst = TypeList) ''foreach list must be list, got %s'',
        require (exprElemType lst = el_ElemType i) ''foreach: stamped ElemType %s does not match list's ElemType %s'',
        require (isListElemType (el_ElemType i))
          ''foreach: ElemType %s not supported (Phase 3.4a supports scalar or record element types)'',
        (if el_ElemType i = TypeRecord then
           checks
             [require (el_ElemRecordName i \<noteq> []) ''foreach over list<record> missing ElemRecordName'',
              require (c_records ctx (el_ElemRecordName i) \<noteq> None) ''foreach: element record %q is not declared'',
              require (exprElemRecordName lst = el_ElemRecordName i)
                ''foreach: stamped ElemRecordName %q does not match list's ElemRecordName %q'']
         else require (el_ElemRecordName i = [])
           ''foreach: ElemRecordName set on list<%s> (only valid when ElemType==record)''),
        (if el_ElemType i = TypeList then
           require (isScalarElemType (el_InnerElemType i))
             ''foreach: list<list<T>> body requires scalar inner, got InnerElemType %s''
         else require (el_InnerElemType i = TypeInvalid)
           ''foreach: InnerElemType set on list<%s> (only valid when ElemType==list)''),
        (if el_ElemType i = TypeMap then
           checks
             [require (isScalarKeyType (el_MapElemKeyType i))
                ''foreach: list<map<K,V>> requires int or string key, got MapElemKeyType %s'',
              require (isScalarValueType (el_MapElemValueType i))
                ''foreach: list<map<K,V>> requires scalar value, got MapElemValueType %s'']
         else require (el_MapElemKeyType i = TypeInvalid \<and> el_MapElemValueType i = TypeInvalid)
           ''foreach: MapElemKeyType/MapElemValueType set on list<%s> (only valid when ElemType==map)''),
        require (body \<noteq> None) ''foreach with nil Body block''])
     (let bindElem = (if el_ElemType i = TypeList then el_InnerElemType i else TypeInvalid);
          b = (simple_binding (el_ElemType i) False)
                \<lparr>b_record := el_ElemRecordName i, b_elem := bindElem, b_key := el_MapElemKeyType i,
                 b_value := el_MapElemValueType i\<rparr>
      in in_loop (in_frame ''foreach body stmt %d: %w'' [var \<mapsto> b] body) ctx)"

text \<open>The bindings of an arm, a later one of the same name hiding an earlier one; the guard is not looked at.\<close>

definition arm_frame :: "MatchHead \<Rightarrow> frame" where
  "arm_frame h =
     foldl (\<lambda>f b. f(mb_VarName b \<mapsto> (simple_binding (mb_FieldType b) False)\<lparr>b_record := mb_RecordName b\<rparr>))
       Map.empty (mh_Bindings h)"

definition verifyArm :: "MatchHead \<times> block_checks \<Rightarrow> stmt_check" where
  "verifyArm arm ctx = in_frame ''arm %q stmt %d: %w'' (arm_frame (fst arm)) (snd arm) ctx"

fun verifyArms :: "string list \<Rightarrow> (MatchHead \<times> block_checks) list \<Rightarrow> stmt_check" where
  "verifyArms variants [] ctx = Some (Inr ctx)"
| "verifyArms variants (arm # arms) ctx =
     after (require (mh_VariantName (fst arm) \<in> set variants) ''MatchStmt: arm %d: unknown variant %q in union %q'')
       (fbind (wrapped ''MatchStmt arm %d: %w'' (verifyArm arm) ctx) (verifyArms variants arms))"

definition verifyMatchStmt ::
  "operand \<Rightarrow> string \<Rightarrow> (MatchHead \<times> block_checks) list \<Rightarrow> (MatchHead \<times> block_checks) option \<Rightarrow> stmt_check" where
  "verifyMatchStmt target unionName arms dflt ctx =
     after (checks
       [require (present target) ''MatchStmt: nil Target'',
        within ''MatchStmt target: %w'' (verified target),
        require (otype target = TypeUnion) ''MatchStmt: target must be TypeUnion, got %s''])
     (case c_unions ctx unionName of
        None \<Rightarrow> Some (Inl (Errorf ''MatchStmt: union %q not declared'' []))
      | Some u \<Rightarrow>
          fbind (verifyArms (map vd_Name (ud_Variants u)) arms ctx) (\<lambda>ctx.
            case dflt of
              None \<Rightarrow> Some (Inr ctx)
            | Some arm \<Rightarrow> wrapped ''MatchStmt default arm: %w'' (verifyArm arm) ctx))"

definition verifyReturnStmt :: "verifyCtx \<Rightarrow> operand \<Rightarrow> check" where
  "verifyReturnStmt ctx val =
     (let r = c_return ctx; e = sh_Elem r; m = sh_Map r in
      if \<not> present val then require (sh_Type r = TypeUnit) ''bare return inside function returning %s''
      else
        checks
          [within ''return value: %w'' (verified val),
           require (otype val = sh_Type r) ''return value type %s does not match function return %s'',
           require (sh_Type r = TypeRecord \<longrightarrow> exprRecordName val = sh_RecordName r)
             ''return record %q does not match function return record %q'',
           whenever (sh_Type r = TypeList)
             [require (exprElemType val = el_ElemType e) ''return list<%s> does not match function return list<%s>'',
              require (el_ElemType e = TypeRecord \<longrightarrow> exprElemRecordName val = el_ElemRecordName e)
                ''return list<%s> does not match function return list<%s>'',
              require (el_ElemType e = TypeList \<longrightarrow> exprInnerElemType val = el_InnerElemType e)
                ''return list<list<%s>> does not match function return list<list<%s>>''],
           whenever (sh_Type r = TypeMap)
             [require (exprKeyType val = mi_KeyType m) ''return map<%s,...> does not match function return map<%s,...>'',
              require (exprValueType val = mi_ValueType m)
                ''return map<%s,%s> does not match function return map<%s,%s>'',
              require (mi_ValueType m = TypeList \<longrightarrow> exprListValueElemType val = mi_ListValueElemType m)
                ''return map<_,list<%s>> does not match function return map<_,list<%s>>'']])"

definition verifyTryCatchStmt :: "string \<Rightarrow> block_checks \<Rightarrow> string \<Rightarrow> block_checks \<Rightarrow> stmt_check" where
  "verifyTryCatchStmt buf tryBody var catchBody ctx =
     after (checks
       [require (buf \<noteq> []) ''TryCatchStmt: empty BufName'',
        require (var \<noteq> []) ''TryCatchStmt: empty CatchVar'',
        require (tryBody \<noteq> None) ''TryCatchStmt: nil TryBody'',
        require (catchBody \<noteq> None) ''TryCatchStmt: nil CatchBody''])
     (fbind (wrapped ''TryCatchStmt try: %w'' (verifyBlock tryBody) ctx) (\<lambda>ctx.
      fbind (verifyBlock catchBody (push_frame [var \<mapsto> simple_binding TypeInt False] ctx)) (\<lambda>ctx.
      Some (Inr (pop_frame ctx)))))"

definition verifyQueryScope :: "string \<Rightarrow> string \<Rightarrow> IrType \<Rightarrow> block_checks \<Rightarrow> stmt_check" where
  "verifyQueryScope resultVar arenaVar t body ctx =
     after (checks
       [require (resultVar \<noteq> []) ''QueryScopeStmt: empty ResultVar'',
        require (arenaVar \<noteq> []) ''QueryScopeStmt: empty ArenaVar'',
        require (t \<noteq> TypeInvalid) ''QueryScopeStmt: TypeInvalid ElemType'',
        require (body \<noteq> None) ''QueryScopeStmt: nil Body''])
     (verifyBlock body ctx)"

section \<open>Effects\<close>

definition verifyClosureEnv :: "string \<Rightarrow> string \<Rightarrow> FunCapture list \<Rightarrow> check" where
  "verifyClosureEnv typeName varName caps =
     checks
       ([require (typeName \<noteq> []) ''ClosureEnvStmt: empty EnvTypeName'',
         require (varName \<noteq> []) ''ClosureEnvStmt: empty EnvVarName''] @
        map (\<lambda>c. checks [require (fc_FieldName c \<noteq> []) ''ClosureEnvStmt: capture %d has empty FieldName'',
                          require (fc_SrcName c \<noteq> []) ''ClosureEnvStmt: capture %d has empty SrcName'']) caps)"

definition verifyWriteFile :: "operand \<Rightarrow> operand \<Rightarrow> check" where
  "verifyWriteFile path content =
     checks
       [require (present path) ''WriteFileStmt: nil Path'',
        require (otype path = TypeString) ''WriteFileStmt: Path must be TypeString, got %s'',
        require (present content) ''WriteFileStmt: nil Content'',
        require (otype content = TypeString) ''WriteFileStmt: Content must be TypeString, got %s'',
        within ''WriteFileStmt Path: %w'' (verified path),
        verified content]"

definition verifyAppendFile :: "operand \<Rightarrow> operand \<Rightarrow> check" where
  "verifyAppendFile path content =
     checks
       [require (present path) ''AppendFileStmt: nil Path'',
        require (otype path = TypeString) ''AppendFileStmt: Path must be TypeString, got %s'',
        require (present content) ''AppendFileStmt: nil Content'',
        require (otype content = TypeString) ''AppendFileStmt: Content must be TypeString, got %s'',
        within ''AppendFileStmt Path: %w'' (verified path),
        verified content]"

definition verifySaveCSV :: "operand \<Rightarrow> operand \<Rightarrow> check" where
  "verifySaveCSV path data =
     checks
       [require (present path) ''SaveCSVStmt: nil Path'',
        require (otype path = TypeString) ''SaveCSVStmt: Path must be TypeString, got %s'',
        require (present data) ''SaveCSVStmt: nil Data'',
        require (otype data = TypeList) ''SaveCSVStmt: Data must be TypeList, got %s'',
        within ''SaveCSVStmt Path: %w'' (verified path),
        verified data]"

definition verifyPanic :: "operand \<Rightarrow> operand \<Rightarrow> check" where
  "verifyPanic code msg =
     checks
       [require (present code) ''PanicStmt: nil Code'',
        require (otype code = TypeInt) ''PanicStmt: Code must be TypeInt, got %s'',
        require (present msg) ''PanicStmt: nil Msg'',
        require (otype msg = TypeString) ''PanicStmt: Msg must be TypeString, got %s'',
        within ''PanicStmt Code: %w'' (verified code),
        verified msg]"

definition verifyChanSend :: "operand \<Rightarrow> operand \<Rightarrow> IrType \<Rightarrow> check" where
  "verifyChanSend ch val t =
     checks
       [require (present ch) ''ChanSendStmt: nil Chan'',
        require (otype ch = TypeChan) ''ChanSendStmt: Chan must be TypeChan, got %s'',
        require (present val) ''ChanSendStmt: nil Val'',
        require (otype val = t) ''ChanSendStmt: Val type %s != ElemType %s'',
        within ''ChanSendStmt Chan: %w'' (verified ch),
        verified val]"

definition verifyStreamEmit :: "operand \<Rightarrow> operand \<Rightarrow> IrType \<Rightarrow> check" where
  "verifyStreamEmit stream val t =
     checks
       [require (present stream) ''StreamEmitStmt: nil Stream'',
        require (otype stream = TypeStream) ''StreamEmitStmt: Stream must be TypeStream, got %s'',
        require (present val) ''StreamEmitStmt: nil Val'',
        require (otype val = t) ''StreamEmitStmt: Val type %s != ElemType %s'',
        within ''StreamEmitStmt Stream: %w'' (verified stream),
        verified val]"

section \<open>The verifier of statements\<close>

abbreviation block :: "(Stmt \<Rightarrow> stmt_check) \<Rightarrow> Stmt option list option \<Rightarrow> block_checks" where
  "block f b \<equiv> map_option (map (map_option f)) b"

abbreviation arm :: "(Stmt \<Rightarrow> stmt_check) \<Rightarrow> MatchHead \<times> Stmt option list option \<Rightarrow> MatchHead \<times> block_checks" where
  "arm f \<equiv> map_prod (\<lambda>h. h) (map_option (map (map_option f)))"

primrec verifyStmt :: "Stmt \<Rightarrow> stmt_check" where
  "verifyStmt (CallStmt f args) =
     (\<lambda>ctx. after (verifyCallStmt ctx f (map (check_in ctx) args)) (unchanged ctx))"
| "verifyStmt (LetS s) = verifyLetStmt s"
| "verifyStmt (AssignStmt n e) = (\<lambda>ctx. after (verifyAssignStmt ctx n (check_in ctx e)) (unchanged ctx))"
| "verifyStmt (ListSetStmt n i e info) =
     (\<lambda>ctx. after (verifyListSetStmt ctx n (check_in ctx i) (check_in ctx e)) (unchanged ctx))"
| "verifyStmt (MapPutStmt n k e info) =
     (\<lambda>ctx. after (verifyMapPutStmt ctx n (check_in ctx k) (check_in ctx e)) (unchanged ctx))"
| "verifyStmt (OMapPutStmt n k e kt vt) =
     (\<lambda>ctx. after (verifyOMapPutStmt ctx n (check_in ctx k) (check_in ctx e)) (unchanged ctx))"
| "verifyStmt (IfStmt c t e) =
     (\<lambda>ctx. verifyIfStmt (check_in ctx c) (block verifyStmt t) (block verifyStmt e) ctx)"
| "verifyStmt (WhileStmt c b) = (\<lambda>ctx. verifyWhileStmt (check_in ctx c) (block verifyStmt b) ctx)"
| "verifyStmt (TryCatchStmt buf t v c) = verifyTryCatchStmt buf (block verifyStmt t) v (block verifyStmt c)"
| "verifyStmt (ForRangeStmt v a z b) =
     (\<lambda>ctx. verifyForRangeStmt v (check_in ctx a) (check_in ctx z) (block verifyStmt b) ctx)"
| "verifyStmt (ForEachStmt v l i b) = (\<lambda>ctx. verifyForEachStmt v (check_in ctx l) i (block verifyStmt b) ctx)"
| "verifyStmt BreakStmt = (\<lambda>ctx. after (require (c_loopDepth ctx \<noteq> 0) ''break outside a loop'') (unchanged ctx))"
| "verifyStmt ContinueStmt =
     (\<lambda>ctx. after (require (c_loopDepth ctx \<noteq> 0) ''continue outside a loop'') (unchanged ctx))"
| "verifyStmt (ReturnStmt e) = (\<lambda>ctx. after (verifyReturnStmt ctx (check_in ctx e)) (unchanged ctx))"
| "verifyStmt (MatchStmt e u arms d rv rt ru rr) =
     (\<lambda>ctx. verifyMatchStmt (check_in ctx e) u (map (arm verifyStmt) arms) (map_option (arm verifyStmt) d) ctx)"
| "verifyStmt (ClosureEnvStmt t v caps) = (\<lambda>ctx. after (verifyClosureEnv t v caps) (unchanged ctx))"
| "verifyStmt (WriteFileStmt p c) =
     (\<lambda>ctx. after (verifyWriteFile (check_in ctx p) (check_in ctx c)) (unchanged ctx))"
| "verifyStmt (AppendFileStmt p c) =
     (\<lambda>ctx. after (verifyAppendFile (check_in ctx p) (check_in ctx c)) (unchanged ctx))"
| "verifyStmt (SaveCSVStmt p d) = (\<lambda>ctx. after (verifySaveCSV (check_in ctx p) (check_in ctx d)) (unchanged ctx))"
| "verifyStmt (QueryScopeStmt r a i b) = verifyQueryScope r a (el_ElemType i) (block verifyStmt b)"
| "verifyStmt (PanicStmt c m) = (\<lambda>ctx. after (verifyPanic (check_in ctx c) (check_in ctx m)) (unchanged ctx))"
| "verifyStmt (RawCStmt c) = (\<lambda>ctx. after (require (c \<noteq> []) ''RawCStmt: empty Code'') (unchanged ctx))"
| "verifyStmt (ChanSendStmt c v t) =
     (\<lambda>ctx. after (verifyChanSend (check_in ctx c) (check_in ctx v) t) (unchanged ctx))"
| "verifyStmt (StreamEmitStmt s v t) =
     (\<lambda>ctx. after (verifyStreamEmit (check_in ctx s) (check_in ctx v) t) (unchanged ctx))"
| "verifyStmt (AgentIntentCallStmt a i r args sp) =
     (\<lambda>ctx. after (verifyAgentIntentCallStmt ctx a i (check_in ctx r) (map (check_in ctx) args)) (unchanged ctx))"

end
