(* ===== verification/Aotir_Verify.thy ===== *)
theory Aotir_Verify
  imports Aotir_Stmt
begin

text \<open>
  \<open>Verify\<close> of \<open>internal/aotir/verifier.go\<close>: the declarations, the signatures, the entry function and the
  function bodies, in the order of the source.
\<close>

type_synonym 'a declared = "(go_error + (string \<rightharpoonup> 'a)) option"

abbreviation refused :: "string \<Rightarrow> (go_error + 'a) option" where
  "refused msg \<equiv> Some (Inl (Errorf msg []))"

definition followed_by :: "check \<Rightarrow> (go_error + 'a) option \<Rightarrow> (go_error + 'a) option" where
  "followed_by c k = fbind c (\<lambda>_. k)"

section \<open>Declarations\<close>

fun check_fields :: "string list \<Rightarrow> RecordField list \<Rightarrow> check" where
  "check_fields seen [] = passed"
| "check_fields seen (f # fs) =
     followed_by (checks
       [require (rf_Name f \<noteq> []) ''aotir.Verify: record %q field %d: empty name'',
        require (rf_Name f \<notin> set seen) ''aotir.Verify: record %q: duplicate field %q'',
        (if isScalarElemType (rf_Type f) then
           require (rf_RecordName f = []) ''aotir.Verify: record %q field %q: RecordName set on primitive field''
         else if rf_Type f = TypeRecord then
           fails ''aotir.Verify: record %q field %q: nested record fields are not yet supported in Phase 3.0''
         else fails ''aotir.Verify: record %q field %q: unsupported field type %s'')])
     (check_fields (rf_Name f # seen) fs)"

fun declare_records :: "(string \<rightharpoonup> RecordDecl) \<Rightarrow> RecordDecl option list \<Rightarrow> RecordDecl declared" where
  "declare_records m [] = Some (Inr m)"
| "declare_records m (None # rs) = refused ''aotir.Verify: Records[%d] is nil''"
| "declare_records m (Some r # rs) =
     followed_by (checks
       [require (rd_Name r \<noteq> []) ''aotir.Verify: Records[%d] has empty Name'',
        require (m (rd_Name r) = None) ''aotir.Verify: duplicate record name %q at index %d'',
        check_fields [] (rd_Fields r)])
     (declare_records (m(rd_Name r \<mapsto> r)) rs)"

fun declare_unions :: "(string \<rightharpoonup> UnionDecl) \<Rightarrow> UnionDecl option list \<Rightarrow> UnionDecl declared" where
  "declare_unions m [] = Some (Inr m)"
| "declare_unions m (None # us) = refused ''aotir.Verify: Unions[%d] is nil''"
| "declare_unions m (Some u # us) =
     followed_by (checks
       ([require (ud_Name u \<noteq> []) ''aotir.Verify: Unions[%d] has empty Name'',
         require (m (ud_Name u) = None) ''aotir.Verify: duplicate union name %q at index %d''] @
        map (\<lambda>v. require (vd_Name v \<noteq> []) ''aotir.Verify: union %q variant %d: empty name'') (ud_Variants u)))
     (declare_unions (m(ud_Name u \<mapsto> u)) us)"

fun declare_externs :: "(string \<rightharpoonup> ExternFuncDecl) \<Rightarrow> ExternFuncDecl option list \<Rightarrow> ExternFuncDecl declared" where
  "declare_externs m [] = Some (Inr m)"
| "declare_externs m (None # es) = refused ''aotir.Verify: ExternFuncs[%d] is nil''"
| "declare_externs m (Some ef # es) =
     followed_by (checks
       [require (ef_Name ef \<noteq> []) ''aotir.Verify: ExternFuncs[%d] has empty Name'',
        require (m (ef_Name ef) = None) ''aotir.Verify: duplicate extern func name %q at index %d''])
     (declare_externs (m(ef_Name ef \<mapsto> ef)) es)"

definition extern_of :: "string \<Rightarrow> Param list \<Rightarrow> IrType \<Rightarrow> ExternFuncDecl" where
  "extern_of name params ret =
     \<lparr>ef_Name = name, ef_Params = params, ef_ReturnType = ret, ef_ReturnRecord = [], ef_OrigName = []\<rparr>"

text \<open>
  The loops over Go, Python and JavaScript functions differ in the prefix and in the name of the list; each
  registers a function under two names and overwrites what was there.
\<close>

fun declare_foreign ::
  "string \<Rightarrow> string \<Rightarrow> (string \<rightharpoonup> ExternFuncDecl) \<Rightarrow> ForeignFuncDecl option list \<Rightarrow> ExternFuncDecl declared" where
  "declare_foreign which pre m [] = Some (Inr m)"
| "declare_foreign which pre m (None # gs) = refused (''aotir.Verify: '' @ which @ ''[%d] is nil'')"
| "declare_foreign which pre m (Some g # gs) =
     followed_by (require (gf_Name g \<noteq> []) (''aotir.Verify: '' @ which @ ''[%d] has empty Name''))
       (let decl = extern_of (gf_Name g) (gf_Params g) (gf_ReturnType g)
        in declare_foreign which pre (m(gf_Name g \<mapsto> decl, pre @ gf_Name g \<mapsto> decl)) gs)"

fun declare_java :: "(string \<rightharpoonup> ExternFuncDecl) \<Rightarrow> JavaFuncDecl option list \<Rightarrow> ExternFuncDecl declared" where
  "declare_java m [] = Some (Inr m)"
| "declare_java m (None # js) = refused ''aotir.Verify: JavaFuncs[%d] is nil''"
| "declare_java m (Some j # js) =
     followed_by (require (jv_MochiName j \<noteq> []) ''aotir.Verify: JavaFuncs[%d] has empty MochiName'')
       (declare_java (m(jv_MochiName j \<mapsto> extern_of (jv_MochiName j) (jv_Params j) (jv_ReturnType j))) js)"

fun declare_agents :: "(string \<rightharpoonup> AgentDecl) \<Rightarrow> AgentDecl option list \<Rightarrow> AgentDecl declared" where
  "declare_agents m [] = Some (Inr m)"
| "declare_agents m (None # gs) = refused ''aotir.Verify: Agents[%d] is nil''"
| "declare_agents m (Some ag # gs) =
     followed_by (checks
       [require (ag_Name ag \<noteq> []) ''aotir.Verify: Agents[%d] has empty Name'',
        require (m (ag_Name ag) = None) ''aotir.Verify: duplicate agent name %q at index %d''])
     (declare_agents (m(ag_Name ag \<mapsto> ag)) gs)"

section \<open>Signatures\<close>

definition check_return :: "(string \<rightharpoonup> RecordDecl) \<Rightarrow> Shape \<Rightarrow> check" where
  "check_return records r =
     (let e = sh_Elem r; m = sh_Map r in
      checks
        [require (sh_Type r = TypeFun \<longrightarrow> sh_FunSig r \<noteq> None)
           ''aotir.Verify: function %q returns fun but ReturnFunSig is nil'',
         (if sh_Type r = TypeRecord then
            checks
              [require (sh_RecordName r \<noteq> []) ''aotir.Verify: function %q returns record but ReturnRecordName is empty'',
               require (records (sh_RecordName r) \<noteq> None)
                 ''aotir.Verify: function %q return record %q is not declared'']
          else require (sh_RecordName r = [])
            ''aotir.Verify: function %q has ReturnRecordName set on non-record return type %s''),
         (if sh_Type r = TypeList then
            checks
              [require (isListElemType (el_ElemType e))
                 ''aotir.Verify: function %q returns list but ReturnElemType is %s (Phase 3.4a supports scalar or record element types)'',
               (if el_ElemType e = TypeRecord then
                  checks
                    [require (el_ElemRecordName e \<noteq> [])
                       ''aotir.Verify: function %q returns list<record> but ReturnElemRecordName is empty'',
                     require (records (el_ElemRecordName e) \<noteq> None)
                       ''aotir.Verify: function %q return list element record %q is not declared'']
                else require (el_ElemRecordName e = [])
                  ''aotir.Verify: function %q has ReturnElemRecordName set on list<%s> (only valid when element is record)''),
               (if el_ElemType e = TypeList then
                  require (isScalarElemType (el_InnerElemType e))
                    ''aotir.Verify: function %q returns list<list<T>> but ReturnInnerElemType is %s (Phase 3.4b requires scalar inner)''
                else require (el_InnerElemType e = TypeInvalid)
                  ''aotir.Verify: function %q has ReturnInnerElemType set on list<%s> (only valid when element is list)''),
               (if el_ElemType e = TypeMap then
                  checks
                    [require (isScalarKeyType (el_MapElemKeyType e))
                       ''aotir.Verify: function %q returns list<map<K,V>> but ReturnMapElemKeyType is %s (Phase 3.4f requires int or string key)'',
                     require (isScalarValueType (el_MapElemValueType e))
                       ''aotir.Verify: function %q returns list<map<K,V>> but ReturnMapElemValueType is %s (Phase 3.4f requires scalar value)'']
                else require (el_MapElemKeyType e = TypeInvalid \<and> el_MapElemValueType e = TypeInvalid)
                  ''aotir.Verify: function %q has ReturnMapElemKeyType/ReturnMapElemValueType set on list<%s> (only valid when element is map)'')]
          else
            checks
              [require (el_ElemType e = TypeInvalid)
                 ''aotir.Verify: function %q has ReturnElemType set on non-list return type %s'',
               require (el_ElemRecordName e = [])
                 ''aotir.Verify: function %q has ReturnElemRecordName set on non-list return type %s'',
               require (el_InnerElemType e = TypeInvalid)
                 ''aotir.Verify: function %q has ReturnInnerElemType set on non-list return type %s'',
               require (el_MapElemKeyType e = TypeInvalid \<and> el_MapElemValueType e = TypeInvalid)
                 ''aotir.Verify: function %q has ReturnMapElemKeyType/ReturnMapElemValueType set on non-list return type %s'']),
         (if sh_Type r = TypeMap then
            checks
              [require (isScalarKeyType (mi_KeyType m))
                 ''aotir.Verify: function %q returns map but ReturnKeyType is %s (Phase 3.2 supports int or string keys only)'',
               require (isMapValueType (mi_ValueType m))
                 ''aotir.Verify: function %q returns map but ReturnValueType is %s (Phase 3.2/3.4e supports scalar or list values)'',
               (if mi_ValueType m = TypeList then
                  require (isScalarElemType (mi_ListValueElemType m))
                    ''aotir.Verify: function %q returns map<_,list<T>> but ReturnListValueElemType is %s (Phase 3.4e requires scalar inner)''
                else require (mi_ListValueElemType m = TypeInvalid)
                  ''aotir.Verify: function %q has ReturnListValueElemType set on map<_,%s> (only valid when value is list)'')]
          else
            checks
              [require (mi_KeyType m = TypeInvalid)
                 ''aotir.Verify: function %q has ReturnKeyType set on non-map return type %s'',
               require (mi_ValueType m = TypeInvalid)
                 ''aotir.Verify: function %q has ReturnValueType set on non-map return type %s'',
               require (mi_ListValueElemType m = TypeInvalid)
                 ''aotir.Verify: function %q has ReturnListValueElemType set on non-map return type %s''])])"

definition check_param :: "(string \<rightharpoonup> RecordDecl) \<Rightarrow> Param \<Rightarrow> check" where
  "check_param records p =
     (let s = pa_Shape p; e = sh_Elem s; m = sh_Map s in
      checks
        [(if sh_Type s = TypeRecord then
            checks
              [require (sh_RecordName s \<noteq> [])
                 ''aotir.Verify: function %q param %d: record-typed param missing RecordName'',
               require (records (sh_RecordName s) \<noteq> None)
                 ''aotir.Verify: function %q param %d: record %q is not declared'']
          else require (sh_RecordName s = [])
            ''aotir.Verify: function %q param %d: RecordName set on non-record type %s''),
         (if sh_Type s = TypeList then
            checks
              [require (isListElemType (el_ElemType e))
                 ''aotir.Verify: function %q param %d: list-typed param has ElemType %s (Phase 3.4a supports scalar or record element types)'',
               (if el_ElemType e = TypeRecord then
                  checks
                    [require (el_ElemRecordName e \<noteq> [])
                       ''aotir.Verify: function %q param %d: list<record> param missing ElemRecordName'',
                     require (records (el_ElemRecordName e) \<noteq> None)
                       ''aotir.Verify: function %q param %d: list element record %q is not declared'']
                else require (el_ElemRecordName e = [])
                  ''aotir.Verify: function %q param %d: ElemRecordName set on list<%s> (only valid when element is record)''),
               (if el_ElemType e = TypeList then
                  require (isScalarElemType (el_InnerElemType e))
                    ''aotir.Verify: function %q param %d: list<list<T>> param has InnerElemType %s (Phase 3.4b requires scalar inner)''
                else require (el_InnerElemType e = TypeInvalid)
                  ''aotir.Verify: function %q param %d: InnerElemType set on list<%s> (only valid when element is list)''),
               (if el_ElemType e = TypeMap then
                  checks
                    [require (isScalarKeyType (el_MapElemKeyType e))
                       ''aotir.Verify: function %q param %d: list<map<K,V>> param has MapElemKeyType %s (Phase 3.4f requires int or string key)'',
                     require (isScalarValueType (el_MapElemValueType e))
                       ''aotir.Verify: function %q param %d: list<map<K,V>> param has MapElemValueType %s (Phase 3.4f requires scalar value)'']
                else require (el_MapElemKeyType e = TypeInvalid \<and> el_MapElemValueType e = TypeInvalid)
                  ''aotir.Verify: function %q param %d: MapElemKeyType/MapElemValueType set on list<%s> (only valid when element is map)'')]
          else
            checks
              [require (el_ElemType e = TypeInvalid) ''aotir.Verify: function %q param %d: ElemType set on non-list type %s'',
               require (el_ElemRecordName e = [])
                 ''aotir.Verify: function %q param %d: ElemRecordName set on non-list type %s'',
               require (el_InnerElemType e = TypeInvalid)
                 ''aotir.Verify: function %q param %d: InnerElemType set on non-list type %s'',
               require (el_MapElemKeyType e = TypeInvalid \<and> el_MapElemValueType e = TypeInvalid)
                 ''aotir.Verify: function %q param %d: MapElemKeyType/MapElemValueType set on non-list type %s'']),
         (if sh_Type s = TypeMap then
            checks
              [require (isScalarKeyType (mi_KeyType m))
                 ''aotir.Verify: function %q param %d: map-typed param has KeyType %s (Phase 3.2 supports int or string keys only)'',
               require (isMapValueType (mi_ValueType m))
                 ''aotir.Verify: function %q param %d: map-typed param has ValueType %s (Phase 3.2/3.4e supports scalar or list values)'',
               (if mi_ValueType m = TypeList then
                  require (isScalarElemType (mi_ListValueElemType m))
                    ''aotir.Verify: function %q param %d: map<_,list<T>> param has ListValueElemType %s (Phase 3.4e requires scalar inner)''
                else require (mi_ListValueElemType m = TypeInvalid)
                  ''aotir.Verify: function %q param %d: ListValueElemType set on map<_,%s> (only valid when value is list)'')]
          else
            checks
              [require (mi_KeyType m = TypeInvalid) ''aotir.Verify: function %q param %d: KeyType set on non-map type %s'',
               require (mi_ValueType m = TypeInvalid)
                 ''aotir.Verify: function %q param %d: ValueType set on non-map type %s'',
               require (mi_ListValueElemType m = TypeInvalid)
                 ''aotir.Verify: function %q param %d: ListValueElemType set on non-map type %s'']),
         require (sh_Type s = TypeFun \<longrightarrow> sh_FunSig s \<noteq> None)
           ''aotir.Verify: function %q param %d: fun-typed param missing FunSig''])"

fun declare_functions ::
  "(string \<rightharpoonup> RecordDecl) \<Rightarrow> (string \<rightharpoonup> Function) \<Rightarrow> Function option list \<Rightarrow> Function declared" where
  "declare_functions records m [] = Some (Inr m)"
| "declare_functions records m (None # fns) = refused ''aotir.Verify: Functions[%d] is nil''"
| "declare_functions records m (Some fn # fns) =
     followed_by (checks
       ([require (fu_Name fn \<noteq> []) ''aotir.Verify: Functions[%d] has empty Name'',
         require (m (fu_Name fn) = None) ''aotir.Verify: duplicate function name %q at index %d'',
         check_return records (fu_Return fn)] @
        map (check_param records) (fu_Params fn)))
     (declare_functions records (m(fu_Name fn \<mapsto> fn)) fns)"

section \<open>Bodies\<close>

definition param_binding :: "Param \<Rightarrow> binding" where
  "param_binding p =
     (let s = pa_Shape p; e = sh_Elem s; m = sh_Map s in
      (simple_binding (sh_Type s) False)
        \<lparr>b_record := sh_RecordName s, b_union := sh_UnionName s, b_elem := el_ElemType e,
         b_elemRec := el_ElemRecordName e, b_mapElemKey := el_MapElemKeyType e, b_mapElemValue := el_MapElemValueType e,
         b_key := mi_KeyType m, b_value := mi_ValueType m, b_listValElem := mi_ListValueElemType m,
         b_funSig := sh_FunSig s\<rparr>)"

fun seed_params :: "frame \<Rightarrow> Param list \<Rightarrow> (go_error + frame) option" where
  "seed_params f [] = Some (Inr f)"
| "seed_params f (p # ps) =
     followed_by (checks
       [require (pa_Name p \<noteq> []) ''aotir.Verify: %s: parameter with empty name'',
        require (f (pa_Name p) = None) ''aotir.Verify: %s: duplicate parameter %q''])
     (seed_params (f(pa_Name p \<mapsto> param_binding p)) ps)"

definition seed_captures :: "Function \<Rightarrow> frame \<Rightarrow> frame" where
  "seed_captures fn f =
     (if fu_IsLifted fn \<and> fu_EnvTypeName fn \<noteq> [] then
        foldl (\<lambda>f c. f(''__e->'' @ fc_FieldName c \<mapsto> simple_binding (fc_VarType c) False)) f (fu_Captures fn)
      else f)"

record declarations =
  d_fns :: "string \<rightharpoonup> Function"
  d_externFns :: "string \<rightharpoonup> ExternFuncDecl"
  d_records :: "string \<rightharpoonup> RecordDecl"
  d_unions :: "string \<rightharpoonup> UnionDecl"
  d_agents :: "string \<rightharpoonup> AgentDecl"

definition function_ctx :: "declarations \<Rightarrow> Function \<Rightarrow> frame \<Rightarrow> verifyCtx" where
  "function_ctx d fn f =
     \<lparr>c_fns = d_fns d, c_externFns = d_externFns d, c_records = d_records d, c_unions = d_unions d,
      c_agents = d_agents d, c_scope = [f], c_loopDepth = 0, c_return = fu_Return fn\<rparr>"

definition verifyFunction :: "declarations \<Rightarrow> Function \<Rightarrow> check" where
  "verifyFunction d fn =
     (case fu_Body fn of
        None \<Rightarrow> fails ''aotir.Verify: function %q (index %d) has nil Body''
      | Some body \<Rightarrow>
          fbind (seed_params Map.empty (fu_Params fn)) (\<lambda>f.
          fbind (run_stmts ''aotir.Verify: %s statement %d: %w'' (map (map_option verifyStmt) body)
                   (function_ctx d fn (seed_captures fn f))) (\<lambda>_. passed)))"

definition verify_declarations :: "Program \<Rightarrow> (go_error + declarations) option" where
  "verify_declarations p =
     fbind (declare_records Map.empty (p_Records p)) (\<lambda>records.
     fbind (declare_unions Map.empty (p_Unions p)) (\<lambda>unions.
     fbind (declare_externs Map.empty (p_ExternFuncs p)) (\<lambda>externs.
     fbind (declare_foreign ''GoFuncs'' ''mochi_go_'' externs (p_GoFuncs p)) (\<lambda>externs.
     fbind (declare_foreign ''PythonFuncs'' ''mochi_py_'' externs (p_PythonFuncs p)) (\<lambda>externs.
     fbind (declare_foreign ''JSFuncs'' ''mochi_js_'' externs (p_JSFuncs p)) (\<lambda>externs.
     fbind (declare_java externs (p_JavaFuncs p)) (\<lambda>externs.
     fbind (declare_agents Map.empty (p_Agents p)) (\<lambda>agents.
     fbind (declare_functions records Map.empty (p_Functions p)) (\<lambda>fns.
     Some (Inr \<lparr>d_fns = fns, d_externFns = externs, d_records = records, d_unions = unions,
                 d_agents = agents\<rparr>))))))))))"

definition verify_entry :: "Function \<Rightarrow> check" where
  "verify_entry entry =
     checks
       [require (sh_Type (fu_Return entry) = TypeUnit) ''aotir.Verify: entry function %q must return unit, got %s'',
        require (length (fu_Params entry) = 0) ''aotir.Verify: entry function %q must take no parameters, got %d'']"

text \<open>After the declarations no function is nil.\<close>

definition Verify :: "Program option \<Rightarrow> check" where
  "Verify prog =
     (case prog of
        None \<Rightarrow> fails ''aotir.Verify: nil Program''
      | Some p \<Rightarrow>
          followed_by
            (require (0 \<le> p_Main p \<and> p_Main p < int (length (p_Functions p)))
               ''aotir.Verify: Main index %d out of range [0,%d)'')
            (fbind (verify_declarations p) (\<lambda>d.
             followed_by (verify_entry (the (p_Functions p ! nat (p_Main p))))
               (checks (map (\<lambda>fn. verifyFunction d (the fn)) (p_Functions p))))))"

end
