(* ===== verification/Aotir_Correct.thy ===== *)
theory Aotir_Correct
  imports Aotir_Verify
begin

text \<open>
  What a verified program satisfies: the invariants the comment on \<open>Verify\<close> lists, stated over the syntax
  tree.  \<open>well_scoped\<close> is the scoping and typing discipline of statements as an inductive relation;
  \<open>locally_typed\<close> is what the comment demands of one expression node.
\<close>

section \<open>Outcomes of checks\<close>

named_theorems check_simps "when a check passes"

lemma checks_passed [check_simps]:
  "checks [] = passed"
  "checks (c # cs) = passed \<longleftrightarrow> c = passed \<and> checks cs = passed"
  by (auto simp: fbind_eq_Inr checks.simps)

lemma checks_append [check_simps]: "checks (cs @ ds) = passed \<longleftrightarrow> checks cs = passed \<and> checks ds = passed"
  by (induction cs) (auto simp: checks_passed)

lemma checks_map [check_simps]: "checks (map f xs) = passed \<longleftrightarrow> (\<forall>x \<in> set xs. f x = passed)"
  by (induction xs) (auto simp: checks_passed)



lemma require_passed [check_simps]: "require c msg = passed \<longleftrightarrow> c"
  by (simp add: require_def)

lemma whenever_passed [check_simps]: "whenever c cs = passed \<longleftrightarrow> (c \<longrightarrow> checks cs = passed)"
  by (simp add: whenever_def)

lemma within_passed [check_simps]: "within msg c = passed \<longleftrightarrow> c = passed"
  by (simp add: within_def)


lemma dereference_passed [check_simps]: "dereference x = passed \<longleftrightarrow> present x"
  by (simp add: dereference_def)

lemma after_passed [check_simps]: "after c k = Some (Inr x) \<longleftrightarrow> c = passed \<and> k = Some (Inr x)"
  by (auto simp: after_def fbind_eq_Inr)

lemma followed_by_passed [check_simps]: "followed_by c k = Some (Inr x) \<longleftrightarrow> c = passed \<and> k = Some (Inr x)"
  by (auto simp: followed_by_def fbind_eq_Inr)


lemma verified_operand [simp]:
  "verified (operand None None) \<noteq> passed" "verified (operand (Some x) (Some c)) = c"
  by (simp_all add: operand_def)

lemma present_sub [simp]: "present (operand e c) \<longleftrightarrow> e \<noteq> None"
  by (simp add: present_def operand_def)

lemma otype_sub [simp]: "otype (operand (Some e) c) = Expr_Type e"
  by (simp add: otype_def operand_def)



section \<open>The parts of an expression\<close>














section \<open>What one expression node satisfies\<close>












end
