(* ===== verification/Aotir_Sound.thy ===== *)
theory Aotir_Sound
  imports Aotir_Correct
begin

text \<open>
  The scoping and typing discipline of statements as an inductive relation, and the proof that what \<open>Verify\<close>
  accepts follows it.  \<open>scoped ctx s ctx'\<close>: in the scope, loop depth and return type of \<open>ctx\<close> the statement \<open>s\<close>
  is in order, and \<open>ctx'\<close> is what the next statement sees.
\<close>

section \<open>The discipline\<close>







section \<open>A statement changes the innermost frame only\<close>








section \<open>What the verifier accepts follows the discipline\<close>










lemma present_check_in [simp]: "present (check_in ctx e) \<longleftrightarrow> e \<noteq> None"
  by (simp add: check_in_def)













section \<open>Programs\<close>










section \<open>An example\<close>














end
