(* ===== verification/Spec2Isabelle.thy ===== *)
theory Spec2Isabelle
  imports Etf_Correct Hexsemver Port_Correct Cnode_Correct Beamingest Typemap_Correct Otp Async Hexindex
    Types_Subtype Types_Poly Types_Legacy Types_Env Publish Edocingest Lockfile_Correct Cerl Aotir_Sound
begin

text \<open>
  A verification library for mochi-beam: the bridge between the Mochi language and the Erlang virtual
  machine, and the parts of the Mochi compiler the repository carries with it.

  \<^bold>\<open>The program.\<close>  The bridge has two directions.  Towards Mochi, a Hex.pm package is resolved
  (\<open>hexsemver\<close>, \<open>hexindex\<close>), pinned in a lock file (\<open>lockfile\<close>, over \<open>internal/toml\<close>), its compiled modules or its
  documentation are read for specifications (\<open>beamingest\<close>, \<open>edocingest\<close>), Erlang types become Mochi types
  (\<open>typemap\<close>), and what cannot be translated is recorded with a reason (\<open>errors\<close>).  At run time, terms travel in
  the External Term Format (\<open>etf\<close>) through a port (\<open>port\<close>) or as a node of the cluster (\<open>cnode\<close>); \<open>otp\<close>
  and \<open>async\<close> wrap the calls a Mochi program makes.  Towards Erlang, a package is published
  with a trusted-publishing flow (\<open>publish\<close>), and the compiler back end emits Core Erlang
  (\<open>transpiler/cerl\<close>).  \<open>internal/types\<close> is the type checker's core, \<open>internal/aotir\<close> the intermediate
  representation between the front end and the back end, with a verifier that runs between the two.

  \<^bold>\<open>Conventions.\<close>  A Go \<open>(value, error)\<close> pair is a value of \<open>go_error + 'a\<close> (\<open>Bridge_Prelude\<close>,
  \<open>Etf_Term\<close>); an outer \<open>None\<close> is a run-time panic (\<open>Cnode\<close>, \<open>Async\<close>, \<open>Types_Env\<close>) or
  exhausted fuel (\<open>Etf\<close>, \<open>Toml\<close>, \<open>Types_Subst\<close>), as the theory says.  Go strings are byte strings, integers keep
  their width where the code can wrap, a \<open>float64\<close> is its bit pattern.  A Go map is a partial function,
  or the list of its entries where iteration order matters.  Mutable state is a record that is returned
  updated; concurrent code is a labelled transition function on the whole state.  What is outside the
  repository (decompression, hashes, JSON, XML, Unicode tables, the file system and the network) is an argument.

  \<^bold>\<open>The theories.\<close>
  \<^item> \<open>Bridge_Prelude\<close>, \<open>Go_Strings\<close>, \<open>Go_Quote\<close>, \<open>Go_Os\<close>: results, bytes, big-endian codecs, the functions of
    Go's library the code calls, and the lemmas the components share.
  \<^item> \<open>Bridge_Errors\<close> (\<open>errors/errors.go\<close>): skip reasons and reports.
  \<^item> \<open>Etf_Term\<close>, \<open>Etf\<close>, \<open>Etf_Roundtrip\<close>, \<open>Etf_Safety\<close>, \<open>Etf_Correct\<close> (\<open>etf/etf.go\<close>): the term codec; reading back what
    was written, behaviour on arbitrary bytes, termination.
  \<^item> \<open>Hexsemver\<close> (\<open>hexsemver/hexsemver.go\<close>): versions and requirements; the order, and the choice of the best version in
    the locale \<open>comparison\<close>.
  \<^item> \<open>Hexindex\<close> (\<open>hexindex/hexindex.go\<close>): metadata, resolution, download cache, tar extraction.
  \<^item> \<open>Port\<close>, \<open>Port_Correct\<close> (\<open>port/port.go\<close>): framing (locale \<open>prefix_codec\<close>) and the concurrent manager; invariants
    under every interleaving, and what they give a caller.
  \<^item> \<open>Cnode\<close>, \<open>Cnode_Correct\<close> (\<open>cnode/cnode.go\<close>): node names, handshake, distribution messages.
  \<^item> \<open>Beamingest\<close> (\<open>beamingest/beamingest.go\<close>), \<open>Edocingest\<close> (\<open>edocingest/edocingest.go\<close>): reading BEAM files and EDoc.
  \<^item> \<open>Typemap\<close>, \<open>Typemap_Correct\<close> (\<open>typemap/typemap.go\<close>): the translation of types, against the table of its
    documentation as an inductive relation.
  \<^item> \<open>Otp\<close> (\<open>otp/\<close>), \<open>Async\<close> (\<open>async/\<close>): bindings over a caller (locale \<open>wire_caller\<close>, interpreted on the port),
    mailboxes and their poller.
  \<^item> \<open>Toml\<close>, \<open>Toml_Correct\<close> (\<open>internal/toml\<close>), \<open>Lockfile\<close>, \<open>Lockfile_Correct\<close> (\<open>lockfile/\<close>): the TOML reader with an explicit
    store of tables, and the lock file written and read through it.
  \<^item> \<open>Publish\<close> (\<open>publish/\<close>): the publishing flow and the calls it makes.
  \<^item> \<open>Types_Kinds\<close>, \<open>Types_Subtype\<close>, \<open>Types_Subst\<close>, \<open>Types_Subst_Correct\<close>, \<open>Types_Legacy\<close>, \<open>Types_Poly\<close>, \<open>Types_Env\<close>
    (\<open>internal/types\<close>: \<open>kinds.go\<close>, \<open>effects.go\<close>, \<open>subtype.go\<close>, \<open>subst.go\<close>, \<open>unify.go\<close>, \<open>poly.go\<close>, \<open>env.go\<close>): kinds,
    subtyping, unification with termination and soundness, scopes in a store (locale \<open>scope_table\<close>).
  \<^item> \<open>Cerl\<close> (\<open>transpiler/cerl/cerl.go\<close>): Core Erlang terms and their serialiser, against the one of \<open>etf\<close>.
  \<^item> \<open>Aotir\<close>, \<open>Aotir_Expr\<close>, \<open>Aotir_Stmt\<close>, \<open>Aotir_Verify\<close>, \<open>Aotir_Correct\<close>, \<open>Aotir_Sound\<close> (\<open>internal/aotir\<close>): the intermediate
    representation and its verifier; what it accepts follows a scoping and typing discipline given as an inductive
    relation on statements.

  \<^bold>\<open>Fuel and bounds.\<close>  \<open>Decode\<close> takes the nesting of \<open>term\<close> calls as fuel: the depth of the value is enough
  to read what was encoded, and \<open>k * 2 ^ 32 + length data + 1\<close> on every input whose compressed payloads are nested at
  most \<open>k\<close> deep (each payload announces its size in 32 bits).  The TOML parser takes fuel for the
  nesting of arrays and inline tables; every level consumes input, so the length of the source is enough
  (\<open>toml_parse_returns\<close>).  Unification takes fuel for the bindings it chases; on an acyclic
  substitution the theory \<open>Types_Subst_Correct\<close> gives a bound.  The other loops are structural or have a
  measure.

  \<^bold>\<open>Not modelled.\<close>
  \<^item> \<open>internal/parser\<close>, \<open>internal/ast\<close>: the grammar is given by struct tags to a parser generator outside the repository;
    the syntax trees and their printing follow it.
  \<^item> the statement and expression checker of \<open>internal/types\<close> (\<open>check.go\<close>, \<open>check_expr.go\<close>, \<open>infer.go\<close>
    and the files they use): it walks those syntax trees.
  \<^item> \<open>internal/clower\<close>, \<open>internal/aotir\<close>, \<open>transpiler/lower\<close>: the intermediate representation, its construction
    from the syntax trees and its translation to Core Erlang.
  \<^item> \<open>build\<close>, \<open>target\<close>, \<open>portemit\<close>, \<open>externemit\<close>, \<open>transpiler/emit\<close>, \<open>transpiler/build\<close>, \<open>internal/typeplan\<close>,
    \<open>internal/diagnostic\<close>: text templates and drivers of external programs.
\<close>

end
